(* ===== verification/Prelude.thy ===== *)
theory Prelude
  imports Main "HOL-Library.Char_ord" "HOL-Library.List_Lexorder" "HOL-Library.Sublist"
begin

text \<open>
  What the components share: the outcome of a fallible Rust function (value, error or panic)
  and of a fallible function over a state, the parts of the Rust standard library that the
  sources use on strings and integers, and generic lemmas on lists.

  A Rust \<open>String\<close> is the list of its UTF-8 bytes; HOL's \<open>char\<close> is one byte, so \<open>string\<close> stands
  for both \<open>String\<close> and \<open>Vec<u8>\<close>, and \<open>into_bytes\<close> is the identity. The order of \<open>char\<close>
  and the lexicographic order of lists are the byte order that \<open>Ord\<close> for \<open>String\<close> uses.
\<close>

type_synonym bytes = string

named_theorems monad_simps \<open>unfolding rules of the result and action combinators\<close>
named_theorems guard_simps \<open>definitions of permission checks\<close>

section \<open>Outcomes\<close>

text \<open>
  \<open>Panic\<close> is the unwinding of the task (a failed \<open>assert!\<close>, \<open>expect\<close>, \<open>unwrap\<close> or \<open>panic!\<close>).
\<close>

datatype ('a, 'e) result = Ok 'a | Err 'e | Panic

text \<open>The \<open>?\<close> operator, \<open>map\<close>, \<open>map_err\<close> and \<open>ok_or_else\<close>.\<close>

fun bind_result :: "('a, 'e) result \<Rightarrow> ('a \<Rightarrow> ('b, 'e) result) \<Rightarrow> ('b, 'e) result" where
  "bind_result (Ok x) f = f x"
| "bind_result (Err e) f = Err e"
| "bind_result Panic f = Panic"

fun map_ok :: "('a \<Rightarrow> 'b) \<Rightarrow> ('a, 'e) result \<Rightarrow> ('b, 'e) result" where
  "map_ok f (Ok x) = Ok (f x)"
| "map_ok f (Err e) = Err e"
| "map_ok f Panic = Panic"

fun map_err :: "('e \<Rightarrow> 'f) \<Rightarrow> ('a, 'e) result \<Rightarrow> ('a, 'f) result" where
  "map_err f (Ok x) = Ok x"
| "map_err f (Err e) = Err (f e)"
| "map_err f Panic = Panic"

fun ok_or :: "'e \<Rightarrow> 'a option \<Rightarrow> ('a, 'e) result" where
  "ok_or e None = Err e"
| "ok_or e (Some x) = Ok x"

text \<open>\<open>iter().map(f).collect::<Result<Vec<_>>>()\<close>: lazy, so the first failure decides.\<close>

fun collect_results :: "('a \<Rightarrow> ('b, 'e) result) \<Rightarrow> 'a list \<Rightarrow> ('b list, 'e) result" where
  "collect_results f [] = Ok []"
| "collect_results f (x # xs) =
     bind_result (f x) (\<lambda>y. bind_result (collect_results f xs) (\<lambda>ys. Ok (y # ys)))"

text \<open>Actions over a state: the outcome and the state afterwards, on every path.\<close>

type_synonym ('s, 'a, 'e) action = "'s \<Rightarrow> ('a, 'e) result \<times> 's"

definition return :: "'a \<Rightarrow> ('s, 'a, 'e) action" where
  "return x s = (Ok x, s)"

definition fail :: "'e \<Rightarrow> ('s, 'a, 'e) action" where
  "fail e s = (Err e, s)"

definition lift_result :: "('a, 'e) result \<Rightarrow> ('s, 'a, 'e) action" where
  "lift_result r s = (r, s)"

definition bind :: "('s, 'a, 'e) action \<Rightarrow> ('a \<Rightarrow> ('s, 'b, 'e) action) \<Rightarrow> ('s, 'b, 'e) action" where
  "bind m f s = (case m s of
       (Ok x, t) \<Rightarrow> f x t
     | (Err e, t) \<Rightarrow> (Err e, t)
     | (Panic, t) \<Rightarrow> (Panic, t))"

definition map_err_action :: "('e \<Rightarrow> 'f) \<Rightarrow> ('s, 'a, 'e) action \<Rightarrow> ('s, 'a, 'f) action" where
  "map_err_action f m s = (case m s of (r, t) \<Rightarrow> (map_err f r, t))"

text \<open>\<open>match m.await { Ok(x) => f(x), Err(e) => g(e) }\<close>, and \<open>unwrap_or_else\<close>.\<close>

definition match_action ::
  "('s, 'a, 'e) action \<Rightarrow> ('a \<Rightarrow> ('s, 'b, 'f) action) \<Rightarrow> ('e \<Rightarrow> ('s, 'b, 'f) action) \<Rightarrow> ('s, 'b, 'f) action" where
  "match_action m f g s = (case m s of
       (Ok x, t) \<Rightarrow> f x t
     | (Err e, t) \<Rightarrow> g e t
     | (Panic, t) \<Rightarrow> (Panic, t))"

definition unwrap_or_else :: "('e \<Rightarrow> 'a) \<Rightarrow> ('s, 'a, 'e) action \<Rightarrow> ('s, 'a, 'f) action" where
  "unwrap_or_else g m = match_action m return (\<lambda>e. return (g e))"

declare match_action_def [monad_simps] unwrap_or_else_def [monad_simps]

lemma bind_Ok_iff: "bind m f s = (Ok x, t) \<longleftrightarrow> (\<exists>y r. m s = (Ok y, r) \<and> f y r = (Ok x, t))"
  by (auto simp: bind_def split: prod.splits result.splits)

lemma lift_result_Ok_iff [simp]: "lift_result r s = (Ok x, t) \<longleftrightarrow> r = Ok x \<and> t = s"
  by (auto simp: lift_result_def)

text \<open>\<open>for x in xs { body(x).await? }\<close>.\<close>

fun for_each :: "('a \<Rightarrow> ('s, unit, 'e) action) \<Rightarrow> 'a list \<Rightarrow> ('s, unit, 'e) action" where
  "for_each f [] = return ()"
| "for_each f (x # xs) = bind (f x) (\<lambda>_. for_each f xs)"

declare return_def [monad_simps] fail_def [monad_simps] lift_result_def [monad_simps]
  bind_def [monad_simps] map_err_action_def [monad_simps]

lemma bind_result_cong [fundef_cong]:
  assumes "r = r'" and "\<And>x. r' = Ok x \<Longrightarrow> f x = g x"
  shows "bind_result r f = bind_result r' g"
  using assms by (cases r') auto

lemma collect_results_cong [fundef_cong]:
  assumes "xs = ys" and "\<And>x. x \<in> set ys \<Longrightarrow> f x = g x"
  shows "collect_results f xs = collect_results g ys"
  unfolding assms(1) using assms(2) by (induction ys) (auto intro!: bind_result_cong)

lemma bind_result_Ok_iff [simp]:
  "bind_result r f = Ok y \<longleftrightarrow> (\<exists>x. r = Ok x \<and> f x = Ok y)"
  by (cases r) auto

lemma bind_result_Panic_iff:
  "bind_result r f = Panic \<longleftrightarrow> r = Panic \<or> (\<exists>x. r = Ok x \<and> f x = Panic)"
  by (cases r) auto

lemma bind_result_Err_iff:
  "bind_result r f = Err e \<longleftrightarrow> r = Err e \<or> (\<exists>x. r = Ok x \<and> f x = Err e)"
  by (cases r) auto

lemma map_ok_iff [simp]:
  "map_ok f r = Ok y \<longleftrightarrow> (\<exists>x. r = Ok x \<and> y = f x)"
  "map_ok f r = Panic \<longleftrightarrow> r = Panic"
  "map_ok f r = Err e \<longleftrightarrow> r = Err e"
  by (cases r; auto)+

lemma map_err_iff [simp]:
  "map_err f r = Ok y \<longleftrightarrow> r = Ok y"
  "map_err f r = Panic \<longleftrightarrow> r = Panic"
  "map_err f r = Err e \<longleftrightarrow> (\<exists>d. r = Err d \<and> e = f d)"
  by (cases r; auto)+

lemma ok_or_iff [simp]:
  "ok_or e v = Ok x \<longleftrightarrow> v = Some x"
  "ok_or e v \<noteq> Panic"
  "ok_or e v = Err d \<longleftrightarrow> v = None \<and> d = e"
  by (cases v; auto)+

lemma collect_results_Ok_iff:
  "collect_results f xs = Ok ys \<longleftrightarrow> list_all2 (\<lambda>x y. f x = Ok y) xs ys"
proof (induction xs arbitrary: ys)
  case Nil
  then show ?case by (cases ys) auto
next
  case (Cons x xs)
  then show ?case by (cases ys) auto
qed

lemma collect_results_mem:
  "collect_results f xs = Ok ys \<Longrightarrow> x \<in> set xs \<Longrightarrow> \<exists>y\<in>set ys. f x = Ok y"
  by (induction xs arbitrary: ys) auto

lemma sort_key_same: "\<forall>x\<in>set xs. k x = c \<Longrightarrow> sort_key k xs = xs"
  by (rule sort_key_id_if_sorted) (induction xs; auto)

lemma collect_results_no_panic:
  "\<forall>x\<in>set xs. f x \<noteq> Panic \<Longrightarrow> collect_results f xs \<noteq> Panic"
  by (induction xs) (auto simp: bind_result_Panic_iff)

lemma collect_results_Ok_map: "(\<And>x. x \<in> set xs \<Longrightarrow> f x = Ok (g x)) \<Longrightarrow> collect_results f xs = Ok (map g xs)"
  by (induction xs) auto

subsection \<open>State predicates an action keeps\<close>

definition preserves :: "('s \<Rightarrow> bool) \<Rightarrow> ('s, 'a, 'e) action \<Rightarrow> bool" where
  "preserves P m \<longleftrightarrow> (\<forall>s. P s \<longrightarrow> P (snd (m s)))"

named_theorems preserves_intros \<open>rules that an action keeps a state predicate\<close>

lemma preservesI: "(\<And>s. P s \<Longrightarrow> P (snd (m s))) \<Longrightarrow> preserves P m"
  by (simp add: preserves_def)

lemma preservesD: "preserves P m \<Longrightarrow> P s \<Longrightarrow> P (snd (m s))"
  by (simp add: preserves_def)

lemma preserves_return [preserves_intros]: "preserves P (return x)"
  by (simp add: preserves_def return_def)

lemma preserves_fail [preserves_intros]: "preserves P (fail e)"
  by (simp add: preserves_def fail_def)

lemma preserves_lift_result [preserves_intros]: "preserves P (lift_result r)"
  by (simp add: preserves_def lift_result_def)

lemma preserves_bind [preserves_intros]:
  assumes "preserves P m" and "\<And>x. preserves P (f x)"
  shows "preserves P (bind m f)"
proof (rule preservesI)
  fix s assume "P s"
  with assms(1) have "P (snd (m s))" by (rule preservesD)
  with assms(2) show "P (snd (bind m f s))"
    by (auto simp: bind_def preserves_def split: prod.splits result.splits)
qed

lemma preserves_map_err [preserves_intros]: "preserves P m \<Longrightarrow> preserves P (map_err_action f m)"
  by (auto simp: preserves_def map_err_action_def split: prod.splits)

lemma preserves_for_each [preserves_intros]:
  "(\<And>x. preserves P (f x)) \<Longrightarrow> preserves P (for_each f xs)"
  by (induction xs) (auto intro: preserves_intros)

lemma preserves_match [preserves_intros]:
  assumes "preserves P m" and "\<And>x. preserves P (f x)" and "\<And>e. preserves P (g e)"
  shows "preserves P (match_action m f g)"
proof (rule preservesI)
  fix s assume "P s"
  with assms(1) have "P (snd (m s))" by (rule preservesD)
  with assms(2,3) show "P (snd (match_action m f g s))"
    by (auto simp: match_action_def preserves_def split: prod.splits result.splits)
qed

lemma preserves_unwrap_or_else [preserves_intros]: "preserves P m \<Longrightarrow> preserves P (unwrap_or_else g m)"
  by (simp add: unwrap_or_else_def preserves_intros)

lemma preserves_if [preserves_intros]:
  "preserves P m \<Longrightarrow> preserves P n \<Longrightarrow> preserves P (if b then m else n)"
  by simp

section \<open>Strings of the standard library\<close>

text \<open>\<open>u8::to_ascii_lowercase\<close>: bit 5 is set for the letters A to Z.\<close>

fun char_to_ascii_lowercase :: "char \<Rightarrow> char" where
  "char_to_ascii_lowercase (Char b0 b1 b2 b3 b4 b5 b6 b7) =
     (if CHR ''A'' \<le> Char b0 b1 b2 b3 b4 b5 b6 b7 \<and> Char b0 b1 b2 b3 b4 b5 b6 b7 \<le> CHR ''Z''
      then Char b0 b1 b2 b3 b4 True b6 b7 else Char b0 b1 b2 b3 b4 b5 b6 b7)"

definition to_ascii_lowercase :: "string \<Rightarrow> string" where
  "to_ascii_lowercase s = map char_to_ascii_lowercase s"

abbreviation is_lower :: "string \<Rightarrow> bool" where
  "is_lower s \<equiv> to_ascii_lowercase s = s"

text \<open>A string between double quotes.\<close>

definition quoted :: "string \<Rightarrow> string" where
  "quoted s = CHR 0x22 # s @ [CHR 0x22]"

text \<open>\<open>str::split(d)\<close> and \<open>str::split_once(d)\<close> for a one-byte separator.\<close>

fun split_on :: "char \<Rightarrow> string \<Rightarrow> string list" where
  "split_on d [] = [[]]"
| "split_on d (c # cs) =
     (if c = d then [] # split_on d cs
      else case split_on d cs of [] \<Rightarrow> [[c]] | w # ws \<Rightarrow> (c # w) # ws)"

fun split_once :: "char \<Rightarrow> string \<Rightarrow> (string \<times> string) option" where
  "split_once d [] = None"
| "split_once d (c # cs) =
     (if c = d then Some ([], cs)
      else case split_once d cs of None \<Rightarrow> None | Some (l, r) \<Rightarrow> Some (c # l, r))"

text \<open>The UTF-8 encodings of the characters with the Unicode property \<open>White_Space\<close>.\<close>

definition white_space :: "string list" where
  "white_space =
     [[CHR 0x20], [CHR 0x09], [CHR 0x0A], [CHR 0x0B], [CHR 0x0C], [CHR 0x0D],
      [CHR 0xC2, CHR 0x85], [CHR 0xC2, CHR 0xA0], [CHR 0xE1, CHR 0x9A, CHR 0x80],
      [CHR 0xE2, CHR 0x80, CHR 0x80], [CHR 0xE2, CHR 0x80, CHR 0x81],
      [CHR 0xE2, CHR 0x80, CHR 0x82], [CHR 0xE2, CHR 0x80, CHR 0x83],
      [CHR 0xE2, CHR 0x80, CHR 0x84], [CHR 0xE2, CHR 0x80, CHR 0x85],
      [CHR 0xE2, CHR 0x80, CHR 0x86], [CHR 0xE2, CHR 0x80, CHR 0x87],
      [CHR 0xE2, CHR 0x80, CHR 0x88], [CHR 0xE2, CHR 0x80, CHR 0x89],
      [CHR 0xE2, CHR 0x80, CHR 0x8A], [CHR 0xE2, CHR 0x80, CHR 0xA8],
      [CHR 0xE2, CHR 0x80, CHR 0xA9], [CHR 0xE2, CHR 0x80, CHR 0xAF],
      [CHR 0xE2, CHR 0x81, CHR 0x9F], [CHR 0xE3, CHR 0x80, CHR 0x80]]"

lemma white_space_nonempty: "[] \<notin> set white_space"
  by (simp add: white_space_def)

lemma find_SomeD: "find P xs = Some x \<Longrightarrow> P x \<and> x \<in> set xs"
  by (induction xs) (auto split: if_splits)

function trim_start :: "string \<Rightarrow> string" where
  "trim_start s = (case find (\<lambda>w. prefix w s) white_space of
       None \<Rightarrow> s | Some w \<Rightarrow> trim_start (drop (length w) s))"
  by pat_completeness auto
termination
proof (relation "measure length", goal_cases)
  case (2 s w)
  then have "w \<noteq> []" and "prefix w s"
    using find_SomeD [OF 2] white_space_nonempty by (metis, blast)
  then show ?case by (auto simp: prefix_def)
qed simp

function trim_end :: "string \<Rightarrow> string" where
  "trim_end s = (case find (\<lambda>w. suffix w s) white_space of
       None \<Rightarrow> s | Some w \<Rightarrow> trim_end (take (length s - length w) s))"
  by pat_completeness auto
termination
proof (relation "measure length", goal_cases)
  case (2 s w)
  then have "w \<noteq> []" and "suffix w s"
    using find_SomeD [OF 2] white_space_nonempty by (metis, blast)
  then show ?case by (auto simp: suffix_def)
qed simp

declare trim_start.simps [simp del] trim_end.simps [simp del]

definition trim :: "string \<Rightarrow> string" where
  "trim s = trim_end (trim_start s)"

text \<open>A string no white space character starts or ends.\<close>

definition trimmed :: "string \<Rightarrow> bool" where
  "trimmed s \<longleftrightarrow> (\<forall>w\<in>set white_space. \<not> prefix w s \<and> \<not> suffix w s)"

lemma trim_trimmed: "trimmed s \<Longrightarrow> trim s = s"
proof -
  assume "trimmed s"
  then have "find (\<lambda>w. prefix w s) white_space = None" "find (\<lambda>w. suffix w s) white_space = None"
    by (auto simp: trimmed_def find_None_iff)
  then show ?thesis by (simp add: trim_def trim_start.simps [of s] trim_end.simps [of s])
qed

subsection \<open>Lemmas on ASCII lowercasing and splitting\<close>

lemma char_lower_idem [simp]:
  "char_to_ascii_lowercase (char_to_ascii_lowercase c) = char_to_ascii_lowercase c"
proof (cases c)
  case (Char b0 b1 b2 b3 b4 b5 b6 b7)
  then show ?thesis by (cases b5) auto
qed

lemma lower_idem [simp]: "to_ascii_lowercase (to_ascii_lowercase s) = to_ascii_lowercase s"
  by (simp add: to_ascii_lowercase_def)

lemma lower_append [simp]:
  "to_ascii_lowercase (s @ t) = to_ascii_lowercase s @ to_ascii_lowercase t"
  by (simp add: to_ascii_lowercase_def)

lemma lower_Nil [simp]: "to_ascii_lowercase [] = []"
  by (simp add: to_ascii_lowercase_def)

lemma lower_Cons [simp]:
  "to_ascii_lowercase (c # s) = char_to_ascii_lowercase c # to_ascii_lowercase s"
  by (simp add: to_ascii_lowercase_def)

lemma lower_eq_Nil [simp]: "to_ascii_lowercase s = [] \<longleftrightarrow> s = []"
  by (simp add: to_ascii_lowercase_def)

lemma is_lower_Cons: "is_lower (c # s) \<longleftrightarrow> char_to_ascii_lowercase c = c \<and> is_lower s"
  by simp

lemma is_lower_set: "is_lower s \<longleftrightarrow> (\<forall>c\<in>set s. char_to_ascii_lowercase c = c)"
  by (induction s) auto

lemma split_on_nonempty [simp]: "split_on d s \<noteq> []"
  by (cases s) (auto split: list.splits)

lemma split_on_no_sep: "d \<notin> set s \<Longrightarrow> split_on d s = [s]"
  by (induction s) auto

lemma split_on_append: "d \<notin> set s \<Longrightarrow> split_on d (s @ d # t) = s # split_on d t"
  by (induction s) auto

lemma split_on_pieces: "w \<in> set (split_on d s) \<Longrightarrow> set w \<subseteq> set s"
proof (induction s arbitrary: w)
  case Nil
  then show ?case by simp
next
  case (Cons c s)
  obtain v vs where v: "split_on d s = v # vs" by (cases "split_on d s") auto
  show ?case
  proof (cases "c = d \<or> w \<in> set vs")
    case True
    then show ?thesis using Cons v by fastforce
  next
    case False
    then have "w = c # v" using Cons.prems v by auto
    then show ?thesis using Cons.IH [of v] v by auto
  qed
qed

lemma split_once_append: "d \<notin> set s \<Longrightarrow> split_once d (s @ d # t) = Some (s, t)"
  by (induction s) auto

lemma split_once_Some: "split_once d s = Some (l, r) \<Longrightarrow> s = l @ d # r \<and> d \<notin> set l"
  by (induction s arbitrary: l) (auto split: if_splits option.splits prod.splits)

end
