(* ===== verification/Types.thy ===== *)
theory Types
  imports Prelude
begin

text \<open>
  The domain types: \<open>auth/src/lib.rs\<close> (module \<open>types\<close>), \<open>server/src/domain/types.rs\<close> and the
  columns of \<open>server/src/domain/model/users.rs\<close>. The third-party functions the code calls
  (Unicode case tables, chrono, uuid, image, base64, bincode) are the fields of one parameter,
  \<open>externals\<close>; \<open>lowercase_ok\<close>, \<open>bincode_ok\<close> and \<open>rfc3339_ok\<close> state the documented behaviour the
  proofs rely on.
\<close>

section \<open>Identifiers\<close>

text \<open>\<open>CaseInsensitiveString\<close> stores the ASCII lowercase of what it is built from.\<close>

definition CaseInsensitiveString_new :: "string \<Rightarrow> string" where
  "CaseInsensitiveString_new s = to_ascii_lowercase s"

datatype user_id = UserId (UserId_as_str: string)

definition UserId_new :: "string \<Rightarrow> user_id" where
  "UserId_new s = UserId (CaseInsensitiveString_new s)"

datatype attribute_name = AttributeName (AttributeName_as_str: string)

definition AttributeName_from :: "string \<Rightarrow> attribute_name" where
  "AttributeName_from s = AttributeName (CaseInsensitiveString_new s)"

text \<open>The values these constructors can build.\<close>

definition wf_user_id :: "user_id \<Rightarrow> bool" where
  "wf_user_id u \<longleftrightarrow> is_lower (UserId_as_str u)"

definition wf_attribute_name :: "attribute_name \<Rightarrow> bool" where
  "wf_attribute_name a \<longleftrightarrow> is_lower (AttributeName_as_str a)"

lemma UserId_as_str_new [simp]: "UserId_as_str (UserId_new s) = to_ascii_lowercase s"
  by (simp add: UserId_new_def CaseInsensitiveString_new_def)

lemma AttributeName_as_str_from [simp]:
  "AttributeName_as_str (AttributeName_from s) = to_ascii_lowercase s"
  by (simp add: AttributeName_from_def CaseInsensitiveString_new_def)

lemma wf_UserId_new [simp, intro]: "wf_user_id (UserId_new s)"
  by (simp add: wf_user_id_def)

lemma wf_AttributeName_from [simp, intro]: "wf_attribute_name (AttributeName_from s)"
  by (simp add: wf_attribute_name_def)

lemma UserId_new_as_str: "wf_user_id u \<Longrightarrow> UserId_new (UserId_as_str u) = u"
  by (cases u) (simp add: wf_user_id_def UserId_new_def CaseInsensitiveString_new_def)

lemma UserId_new_eq_iff: "UserId_new s = UserId_new t \<longleftrightarrow> to_ascii_lowercase s = to_ascii_lowercase t"
  by (simp add: UserId_new_def CaseInsensitiveString_new_def)

datatype ldap_object_class = LdapObjectClass (LdapObjectClass_as_str: string)
datatype email = Email (Email_as_str: string)
datatype group_name = GroupName (GroupName_as_str: string)

text \<open>\<open>GroupId(i32)\<close>; the ids are assigned by the database.\<close>

datatype group_id = GroupId (group_id_int: int)

datatype uuid = Uuid (Uuid_as_str: string)

text \<open>\<open>chrono::NaiveDateTime\<close>: an instant, as a number of nanoseconds.\<close>

type_synonym naive_date_time = int

datatype attribute_type = AttrString | AttrInteger | AttrJpegPhoto | AttrDateTime

datatype jpeg_photo = JpegPhoto (JpegPhoto_into_bytes: bytes)

text \<open>The Rust values an attribute is serialized from, one constructor per type the code uses.\<close>

datatype attribute_data =
    DString string | DInteger int | DJpegPhoto jpeg_photo | DDateTime naive_date_time
  | DStrings "string list" | DIntegers "int list" | DJpegPhotos "jpeg_photo list"
  | DDateTimes "naive_date_time list"

fun data_type :: "attribute_data \<Rightarrow> attribute_type \<times> bool" where
  "data_type (DString _) = (AttrString, False)"
| "data_type (DInteger _) = (AttrInteger, False)"
| "data_type (DJpegPhoto _) = (AttrJpegPhoto, False)"
| "data_type (DDateTime _) = (AttrDateTime, False)"
| "data_type (DStrings _) = (AttrString, True)"
| "data_type (DIntegers _) = (AttrInteger, True)"
| "data_type (DJpegPhotos _) = (AttrJpegPhoto, True)"
| "data_type (DDateTimes _) = (AttrDateTime, True)"

datatype serialized = Serialized (Serialized_bytes: bytes)

section \<open>External functions\<close>

record externals =
  str_to_lowercase :: "string \<Rightarrow> string"
    \<comment> \<open>\<open>str::to_lowercase\<close>, the Unicode mapping (context-sensitive for final sigma)\<close>
  chars_to_lowercase :: "string \<Rightarrow> string"
    \<comment> \<open>\<open>chars().flat_map(|c| c.to_lowercase())\<close>, character by character\<close>
  to_rfc3339 :: "naive_date_time \<Rightarrow> string"
  parse_from_rfc3339 :: "string \<Rightarrow> naive_date_time option"
  sql_datetime_text :: "naive_date_time \<Rightarrow> string"
    \<comment> \<open>the text the database driver stores for a date\<close>
  uuid_parse_str :: "string \<Rightarrow> string option"
    \<comment> \<open>\<open>uuid::Uuid::parse_str\<close> followed by \<open>to_string\<close>\<close>
  uuid_new_v3_x500 :: "bytes \<Rightarrow> string"
  decode_jpeg :: "bytes \<Rightarrow> bool"
    \<comment> \<open>whether \<open>image::io::Reader::decode\<close> succeeds\<close>
  base64_decode :: "string \<Rightarrow> bytes option"
  base64_encode :: "bytes \<Rightarrow> string"
  bincode_serialize :: "attribute_data \<Rightarrow> bytes"
  bincode_deserialize :: "attribute_type \<times> bool \<Rightarrow> bytes \<Rightarrow> attribute_data option"

definition ascii :: "string \<Rightarrow> bool" where
  "ascii s \<longleftrightarrow> (\<forall>c\<in>set s. c < CHR 0x80)"

definition lowercase_ok :: "externals \<Rightarrow> bool" where
  "lowercase_ok ext \<longleftrightarrow> (\<forall>s. ascii s \<longrightarrow>
     str_to_lowercase ext s = to_ascii_lowercase s \<and> chars_to_lowercase ext s = to_ascii_lowercase s)"

definition bincode_ok :: "externals \<Rightarrow> bool" where
  "bincode_ok ext \<longleftrightarrow>
     (\<forall>v. bincode_deserialize ext (data_type v) (bincode_serialize ext v) = Some v) \<and>
     (\<forall>t b v. bincode_deserialize ext t b = Some v \<longrightarrow> data_type v = t)"

definition rfc3339_ok :: "externals \<Rightarrow> bool" where
  "rfc3339_ok ext \<longleftrightarrow> (\<forall>d. parse_from_rfc3339 ext (to_rfc3339 ext d) = Some d)"

text \<open>Lowercasing on ASCII strings and text attributes stored as they are, as an instance of the external
  functions.\<close>

definition ascii_externals :: externals where
  "ascii_externals =
     \<lparr>str_to_lowercase = to_ascii_lowercase, chars_to_lowercase = to_ascii_lowercase,
      to_rfc3339 = (\<lambda>_. []), parse_from_rfc3339 = (\<lambda>_. None), sql_datetime_text = (\<lambda>_. []),
      uuid_parse_str = Some, uuid_new_v3_x500 = id, decode_jpeg = (\<lambda>_. True),
      base64_decode = Some, base64_encode = id,
      bincode_serialize = (\<lambda>v. case v of DString s \<Rightarrow> s | _ \<Rightarrow> []),
      bincode_deserialize = (\<lambda>t b. if t = (AttrString, False) then Some (DString b) else None)\<rparr>"

section \<open>Operations of the types\<close>

definition Uuid_from_name_and_date :: "externals \<Rightarrow> string \<Rightarrow> naive_date_time \<Rightarrow> uuid" where
  "Uuid_from_name_and_date ext name creation_date =
     Uuid (uuid_new_v3_x500 ext (concat [name, to_rfc3339 ext creation_date]))"

definition Uuid_try_from :: "externals \<Rightarrow> string \<Rightarrow> uuid option" where
  "Uuid_try_from ext s = map_option Uuid (uuid_parse_str ext s)"

definition Serialized_from :: "externals \<Rightarrow> attribute_data \<Rightarrow> serialized" where
  "Serialized_from ext v = Serialized (bincode_serialize ext v)"

definition Serialized_convert_to :: "externals \<Rightarrow> attribute_type \<times> bool \<Rightarrow> serialized \<Rightarrow> attribute_data option" where
  "Serialized_convert_to ext t s = bincode_deserialize ext t (Serialized_bytes s)"

definition Serialized_unwrap :: "externals \<Rightarrow> attribute_type \<times> bool \<Rightarrow> serialized \<Rightarrow> (attribute_data, 'e) result" where
  "Serialized_unwrap ext t s =
     (case Serialized_convert_to ext t s of None \<Rightarrow> Panic | Some v \<Rightarrow> Ok v)"

datatype ordering = Less | Equal | Greater

text \<open>The loop of \<open>compare_str_case_insensitive\<close> over the two lowercased iterators.\<close>

fun compare_iters :: "string \<Rightarrow> string \<Rightarrow> ordering" where
  "compare_iters (c1 # it1) (c2 # it2) =
     (if c1 < c2 then Less else if c2 < c1 then Greater else compare_iters it1 it2)"
| "compare_iters [] (_ # _) = Less"
| "compare_iters (_ # _) [] = Greater"
| "compare_iters [] [] = Equal"

definition compare_str_case_insensitive :: "externals \<Rightarrow> string \<Rightarrow> string \<Rightarrow> ordering" where
  "compare_str_case_insensitive ext s1 s2 =
     compare_iters (chars_to_lowercase ext s1) (chars_to_lowercase ext s2)"

definition GroupName_eq :: "externals \<Rightarrow> group_name \<Rightarrow> group_name \<Rightarrow> bool" where
  "GroupName_eq ext a b \<longleftrightarrow>
     compare_str_case_insensitive ext (GroupName_as_str a) (GroupName_as_str b) = Equal"

definition LdapObjectClass_eq :: "externals \<Rightarrow> ldap_object_class \<Rightarrow> ldap_object_class \<Rightarrow> bool" where
  "LdapObjectClass_eq ext a b \<longleftrightarrow>
     compare_str_case_insensitive ext (LdapObjectClass_as_str a) (LdapObjectClass_as_str b) = Equal"

text \<open>The string hashed by \<open>Hash\<close> for these types.\<close>

definition GroupName_hash_input :: "externals \<Rightarrow> group_name \<Rightarrow> string" where
  "GroupName_hash_input ext g = str_to_lowercase ext (GroupName_as_str g)"

definition JpegPhoto_null :: jpeg_photo where
  "JpegPhoto_null = JpegPhoto []"

definition JpegPhoto_is_empty :: "jpeg_photo \<Rightarrow> bool" where
  "JpegPhoto_is_empty p \<longleftrightarrow> JpegPhoto_into_bytes p = []"

definition JpegPhoto_try_from_bytes :: "externals \<Rightarrow> bytes \<Rightarrow> jpeg_photo option" where
  "JpegPhoto_try_from_bytes ext b =
     (if b = [] then Some JpegPhoto_null
      else if decode_jpeg ext b then Some (JpegPhoto b) else None)"

definition JpegPhoto_try_from_str :: "externals \<Rightarrow> string \<Rightarrow> jpeg_photo option" where
  "JpegPhoto_try_from_str ext s = Option.bind (base64_decode ext s) (JpegPhoto_try_from_bytes ext)"

definition JpegPhoto_to_string :: "externals \<Rightarrow> jpeg_photo \<Rightarrow> string" where
  "JpegPhoto_to_string ext p = base64_encode ext (JpegPhoto_into_bytes p)"

text \<open>\<open>ActiveValue\<close>: a column that a write sets or leaves alone.\<close>

datatype 'a active_value = NotSet | Set 'a

definition JpegPhoto_into_active_value :: "externals \<Rightarrow> jpeg_photo \<Rightarrow> serialized active_value" where
  "JpegPhoto_into_active_value ext p =
     (if JpegPhoto_is_empty p then NotSet else Set (Serialized_from ext (DJpegPhoto p)))"

section \<open>Entities\<close>

record attribute_value =
  av_name :: attribute_name
  av_value :: serialized

record user =
  u_user_id :: user_id
  u_email :: email
  u_display_name :: "string option"
  u_creation_date :: naive_date_time
  u_uuid :: uuid
  u_attributes :: "attribute_value list"

record group =
  g_id :: group_id
  g_display_name :: group_name
  g_creation_date :: naive_date_time
  g_uuid :: uuid
  g_users :: "user_id list"
  g_attributes :: "attribute_value list"

record group_details =
  gd_group_id :: group_id
  gd_display_name :: group_name
  gd_creation_date :: naive_date_time
  gd_uuid :: uuid
  gd_attributes :: "attribute_value list"

record user_and_groups =
  ug_user :: user
  ug_groups :: "group_details list option"

datatype user_column =
    ColUserId | ColEmail | ColLowercaseEmail | ColDisplayName | ColCreationDate
  | ColPasswordHash | ColTotpSecret | ColMfaType | ColUuid

datatype domain_error =
    AuthenticationError string
  | DatabaseError string
  | AuthenticationProtocolError
  | UnknownCryptoError
  | BinarySerializationError
  | Base64DecodeError
  | EntityNotFound string
  | InternalError string

section \<open>Lemmas\<close>

lemma compare_iters_Equal_iff: "compare_iters s t = Equal \<longleftrightarrow> s = t"
  by (induction s t rule: compare_iters.induct) auto

lemma compare_iters_Less_iff: "compare_iters s t = Less \<longleftrightarrow> s < t"
  by (induction s t rule: compare_iters.induct) auto

lemma compare_iters_Greater_iff: "compare_iters s t = Greater \<longleftrightarrow> t < s"
  by (induction s t rule: compare_iters.induct) auto

lemma GroupName_eq_iff:
  "GroupName_eq ext a b \<longleftrightarrow>
     chars_to_lowercase ext (GroupName_as_str a) = chars_to_lowercase ext (GroupName_as_str b)"
  by (simp add: GroupName_eq_def compare_str_case_insensitive_def compare_iters_Equal_iff)

lemma Serialized_unwrap_from:
  "bincode_ok ext \<Longrightarrow> Serialized_unwrap ext (data_type v) (Serialized_from ext v) = Ok v"
  by (simp add: Serialized_unwrap_def Serialized_convert_to_def Serialized_from_def bincode_ok_def)

lemma Serialized_from_inj:
  assumes "bincode_ok ext" and "data_type v = data_type w"
    and "Serialized_from ext v = Serialized_from ext w"
  shows "v = w"
  using assms by (metis Serialized_unwrap_from result.inject(1))

lemma lowercase_okD:
  "lowercase_ok ext \<Longrightarrow> ascii s \<Longrightarrow> str_to_lowercase ext s = to_ascii_lowercase s"
  "lowercase_ok ext \<Longrightarrow> ascii s \<Longrightarrow> chars_to_lowercase ext s = to_ascii_lowercase s"
  by (auto simp: lowercase_ok_def)

lemma lowercase_ok_ascii_externals [simp]: "lowercase_ok ascii_externals"
  by (simp add: lowercase_ok_def ascii_externals_def)

end
