(* ===== verification/Handler.thy ===== *)
theory Handler
  imports Types
begin

text \<open>
  \<open>server/src/domain/handler.rs\<close>: requests, request filters, schemas, and the traits a
  backend implements, as one record of operations over the backend's state \<open>'s\<close>
  (\<open>BackendHandler + LoginHandler + OpaqueHandler\<close>).
\<close>

section \<open>Requests and filters\<close>

record bind_request =
  br_name :: user_id
  br_password :: string

record sub_string_filter =
  ssf_initial :: "string option"
  ssf_any :: "string list"
  ssf_final :: "string option"

text \<open>The \<open>LIKE\<close> pattern of a substring filter.\<close>

definition to_sql_filter :: "sub_string_filter \<Rightarrow> string" where
  "to_sql_filter f =
     (case ssf_initial f of None \<Rightarrow> [] | Some i \<Rightarrow> to_ascii_lowercase i)
     @ ''%''
     @ concat (map (\<lambda>part. to_ascii_lowercase part @ ''%'') (ssf_any f))
     @ (case ssf_final f of None \<Rightarrow> [] | Some e \<Rightarrow> to_ascii_lowercase e)"

datatype user_request_filter =
    UAnd "user_request_filter list"
  | UOr "user_request_filter list"
  | UNot user_request_filter
  | UUserId user_id
  | UUserIdSubString sub_string_filter
  | UEquality user_column string
  | UAttributeEquality attribute_name serialized
  | USubString user_column sub_string_filter
  | UMemberOf group_name
  | UMemberOfId group_id

definition UserRequestFilter_from_bool :: "bool \<Rightarrow> user_request_filter" where
  "UserRequestFilter_from_bool val = (if val then UAnd [] else UNot (UAnd []))"

datatype group_request_filter =
    GAnd "group_request_filter list"
  | GOr "group_request_filter list"
  | GNot group_request_filter
  | GDisplayName group_name
  | GDisplayNameSubString sub_string_filter
  | GUuid uuid
  | GGroupId group_id
  | GMember user_id
  | GAttributeEquality attribute_name serialized

definition GroupRequestFilter_from_bool :: "bool \<Rightarrow> group_request_filter" where
  "GroupRequestFilter_from_bool val = (if val then GAnd [] else GNot (GAnd []))"

record create_user_request =
  cu_user_id :: user_id
  cu_email :: email
  cu_display_name :: "string option"
  cu_first_name :: "string option"
  cu_last_name :: "string option"
  cu_avatar :: "jpeg_photo option"
  cu_attributes :: "attribute_value list"

record update_user_request =
  uu_user_id :: user_id
  uu_email :: "email option"
  uu_display_name :: "string option"
  uu_first_name :: "string option"
  uu_last_name :: "string option"
  uu_avatar :: "jpeg_photo option"
  uu_delete_attributes :: "attribute_name list"
  uu_insert_attributes :: "attribute_value list"

record create_group_request =
  cg_display_name :: group_name
  cg_attributes :: "attribute_value list"

record update_group_request =
  upg_group_id :: group_id
  upg_display_name :: "group_name option"
  upg_delete_attributes :: "attribute_name list"
  upg_insert_attributes :: "attribute_value list"

section \<open>Schemas\<close>

record attribute_schema =
  as_name :: attribute_name
  as_attribute_type :: attribute_type
  as_is_list :: bool
  as_is_visible :: bool
  as_is_editable :: bool
  as_is_hardcoded :: bool

record create_attribute_request =
  ca_name :: attribute_name
  ca_attribute_type :: attribute_type
  ca_is_list :: bool
  ca_is_visible :: bool
  ca_is_editable :: bool

datatype attribute_list = AttributeList (attributes: "attribute_schema list")

definition get_attribute_schema :: "attribute_list \<Rightarrow> attribute_name \<Rightarrow> attribute_schema option" where
  "get_attribute_schema l name = find (\<lambda>a. as_name a = name) (attributes l)"

definition get_attribute_type :: "attribute_list \<Rightarrow> attribute_name \<Rightarrow> (attribute_type \<times> bool) option" where
  "get_attribute_type l name =
     map_option (\<lambda>a. (as_attribute_type a, as_is_list a)) (get_attribute_schema l name)"

record schema =
  user_attributes :: attribute_list
  group_attributes :: attribute_list
  extra_user_object_classes :: "ldap_object_class list"
  extra_group_object_classes :: "ldap_object_class list"

section \<open>The backend traits\<close>

text \<open>
  The messages of the OPAQUE login and registration (\<open>auth/src/lib.rs\<close>); the protocol payloads are opaque
  bytes.
\<close>

record login_start_request =
  ls_username :: user_id
  ls_login_start_request :: bytes

record login_start_response =
  lr_server_data :: string
  lr_credential_response :: bytes

record login_finish_request =
  lf_server_data :: string
  lf_credential_finalization :: bytes

record registration_start_request =
  rs_username :: user_id
  rs_registration_start_request :: bytes

record registration_start_response =
  rr_server_data :: string
  rr_registration_response :: bytes

record registration_finish_request =
  rf_server_data :: string
  rf_registration_upload :: bytes

type_synonym ('s, 'a) backend_action = "('s, 'a, domain_error) action"

record 's backend_handler =
  bh_bind :: "bind_request \<Rightarrow> ('s, unit) backend_action"
  bh_list_groups :: "group_request_filter option \<Rightarrow> ('s, group list) backend_action"
  bh_get_group_details :: "group_id \<Rightarrow> ('s, group_details) backend_action"
  bh_update_group :: "update_group_request \<Rightarrow> ('s, unit) backend_action"
  bh_create_group :: "create_group_request \<Rightarrow> ('s, group_id) backend_action"
  bh_delete_group :: "group_id \<Rightarrow> ('s, unit) backend_action"
  bh_list_users :: "user_request_filter option \<Rightarrow> bool \<Rightarrow> ('s, user_and_groups list) backend_action"
  bh_get_user_details :: "user_id \<Rightarrow> ('s, user) backend_action"
  bh_create_user :: "create_user_request \<Rightarrow> ('s, unit) backend_action"
  bh_update_user :: "update_user_request \<Rightarrow> ('s, unit) backend_action"
  bh_delete_user :: "user_id \<Rightarrow> ('s, unit) backend_action"
  bh_add_user_to_group :: "user_id \<Rightarrow> group_id \<Rightarrow> ('s, unit) backend_action"
  bh_remove_user_from_group :: "user_id \<Rightarrow> group_id \<Rightarrow> ('s, unit) backend_action"
  bh_get_user_groups :: "user_id \<Rightarrow> ('s, group_details list) backend_action"
    \<comment> \<open>a \<open>HashSet\<close>; the callers only ask whether some element has a property\<close>
  bh_get_schema :: "('s, schema) backend_action"
  bh_add_user_attribute :: "create_attribute_request \<Rightarrow> ('s, unit) backend_action"
  bh_add_group_attribute :: "create_attribute_request \<Rightarrow> ('s, unit) backend_action"
  bh_delete_user_attribute :: "attribute_name \<Rightarrow> ('s, unit) backend_action"
  bh_delete_group_attribute :: "attribute_name \<Rightarrow> ('s, unit) backend_action"
  bh_add_user_object_class :: "ldap_object_class \<Rightarrow> ('s, unit) backend_action"
  bh_add_group_object_class :: "ldap_object_class \<Rightarrow> ('s, unit) backend_action"
  bh_delete_user_object_class :: "ldap_object_class \<Rightarrow> ('s, unit) backend_action"
  bh_delete_group_object_class :: "ldap_object_class \<Rightarrow> ('s, unit) backend_action"
  bh_login_start :: "login_start_request \<Rightarrow> ('s, login_start_response) backend_action"
  bh_login_finish :: "login_finish_request \<Rightarrow> ('s, user_id) backend_action"
  bh_registration_start :: "registration_start_request \<Rightarrow> ('s, registration_start_response) backend_action"
  bh_registration_finish :: "registration_finish_request \<Rightarrow> ('s, unit) backend_action"

section \<open>Lemmas\<close>

lemma get_attribute_type_Some_iff:
  "get_attribute_type l name = Some t \<longleftrightarrow>
     (\<exists>a. get_attribute_schema l name = Some a \<and> t = (as_attribute_type a, as_is_list a))"
  by (auto simp: get_attribute_type_def)

lemma get_attribute_type_None_iff:
  "get_attribute_type l name = None \<longleftrightarrow> name \<notin> as_name ` set (attributes l)"
  by (auto simp: get_attribute_type_def get_attribute_schema_def find_None_iff)

lemma find_distinct_key:
  assumes "distinct (map f xs)" and "x \<in> set xs"
  shows "find (\<lambda>y. f y = f x) xs = Some x"
  using assms by (induction xs) auto

lemma get_attribute_type_distinct:
  assumes "distinct (map as_name (attributes l))" and "a \<in> set (attributes l)"
  shows "get_attribute_type l (as_name a) = Some (as_attribute_type a, as_is_list a)"
  using find_distinct_key [OF assms] by (simp add: get_attribute_type_def get_attribute_schema_def)

end
