(* ===== verification/Public_Schema.thy ===== *)
theory Public_Schema
  imports Handler "HOL-Library.Multiset"
begin

text \<open>
  \<open>server/src/domain/schema.rs\<close>: the schema shown to clients, the stored schema extended with
  the hardcoded attributes and sorted by name.
\<close>

datatype public_schema = PublicSchema (get_schema: schema)

definition hardcoded_user_attributes :: "attribute_schema list" where
  "hardcoded_user_attributes =
     [\<lparr>as_name = AttributeName_from ''user_id'', as_attribute_type = AttrString, as_is_list = False,
       as_is_visible = True, as_is_editable = False, as_is_hardcoded = True\<rparr>,
      \<lparr>as_name = AttributeName_from ''creation_date'', as_attribute_type = AttrDateTime, as_is_list = False,
       as_is_visible = True, as_is_editable = False, as_is_hardcoded = True\<rparr>,
      \<lparr>as_name = AttributeName_from ''mail'', as_attribute_type = AttrString, as_is_list = False,
       as_is_visible = True, as_is_editable = True, as_is_hardcoded = True\<rparr>,
      \<lparr>as_name = AttributeName_from ''uuid'', as_attribute_type = AttrString, as_is_list = False,
       as_is_visible = True, as_is_editable = False, as_is_hardcoded = True\<rparr>,
      \<lparr>as_name = AttributeName_from ''display_name'', as_attribute_type = AttrString, as_is_list = False,
       as_is_visible = True, as_is_editable = True, as_is_hardcoded = True\<rparr>]"

definition hardcoded_group_attributes :: "attribute_schema list" where
  "hardcoded_group_attributes =
     [\<lparr>as_name = AttributeName_from ''group_id'', as_attribute_type = AttrInteger, as_is_list = False,
       as_is_visible = True, as_is_editable = False, as_is_hardcoded = True\<rparr>,
      \<lparr>as_name = AttributeName_from ''creation_date'', as_attribute_type = AttrDateTime, as_is_list = False,
       as_is_visible = True, as_is_editable = False, as_is_hardcoded = True\<rparr>,
      \<lparr>as_name = AttributeName_from ''uuid'', as_attribute_type = AttrString, as_is_list = False,
       as_is_visible = True, as_is_editable = False, as_is_hardcoded = True\<rparr>,
      \<lparr>as_name = AttributeName_from ''display_name'', as_attribute_type = AttrString, as_is_list = False,
       as_is_visible = True, as_is_editable = True, as_is_hardcoded = True\<rparr>]"

text \<open>\<open>sort_by(|a, b| a.name.cmp(&b.name))\<close>, a stable sort.\<close>

definition sort_by_name :: "attribute_schema list \<Rightarrow> attribute_schema list" where
  "sort_by_name l = sort_key (\<lambda>a. AttributeName_as_str (as_name a)) l"

definition PublicSchema_from :: "schema \<Rightarrow> public_schema" where
  "PublicSchema_from s = PublicSchema
     (s\<lparr>user_attributes := AttributeList
           (sort_by_name (attributes (user_attributes s) @ hardcoded_user_attributes)),
        group_attributes := AttributeList
           (sort_by_name (attributes (group_attributes s) @ hardcoded_group_attributes))\<rparr>)"

text \<open>\<open>SchemaUserAttributeExtractor\<close> and \<open>SchemaGroupAttributeExtractor\<close>.\<close>

definition SchemaUserAttributeExtractor :: "public_schema \<Rightarrow> attribute_list" where
  "SchemaUserAttributeExtractor s = user_attributes (get_schema s)"

definition SchemaGroupAttributeExtractor :: "public_schema \<Rightarrow> attribute_list" where
  "SchemaGroupAttributeExtractor s = group_attributes (get_schema s)"

section \<open>Lookups in the public schema\<close>

lemma distinct_map_sort_by_name:
  "distinct (map as_name (sort_by_name l)) \<longleftrightarrow> distinct (map as_name l)"
  by (metis mset_map mset_sort sort_by_name_def mset_eq_imp_distinct_iff)

lemma set_sort_by_name [simp]: "set (sort_by_name l) = set l"
  by (simp add: sort_by_name_def)

lemma sorted_sort_by_name: "sorted (map (\<lambda>a. AttributeName_as_str (as_name a)) (sort_by_name l))"
  by (simp add: sort_by_name_def)

lemma public_lookup:
  assumes "distinct (map as_name (l @ h))" and "a \<in> set (l @ h)"
  shows "get_attribute_type (AttributeList (sort_by_name (l @ h))) (as_name a)
           = Some (as_attribute_type a, as_is_list a)"
  by (rule get_attribute_type_distinct) (use assms in \<open>auto simp: distinct_map_sort_by_name\<close>)

text \<open>The stored attributes that clash with no hardcoded one, in a schema with unique names.\<close>

definition schema_no_clash :: "schema \<Rightarrow> bool" where
  "schema_no_clash s \<longleftrightarrow>
     distinct (map as_name (attributes (user_attributes s) @ hardcoded_user_attributes)) \<and>
     distinct (map as_name (attributes (group_attributes s) @ hardcoded_group_attributes))"

end
