(* ===== verification/Deserialize.thy ===== *)
theory Deserialize
  imports Handler
begin

text \<open>
  \<open>server/src/domain/deserialize.rs\<close>: attribute values from their text form, with the parts of
  the standard library it uses on integers (\<open>str::parse::<i64>\<close>, \<open>i64::to_string\<close>).
\<close>

section \<open>64-bit integers as text\<close>

definition in_i64 :: "int \<Rightarrow> bool" where
  "in_i64 i \<longleftrightarrow> - (2 ^ 63) \<le> i \<and> i < 2 ^ 63"

fun digits_value :: "int \<Rightarrow> string \<Rightarrow> int option" where
  "digits_value acc [] = Some acc"
| "digits_value acc (c # cs) =
     (if CHR ''0'' \<le> c \<and> c \<le> CHR ''9''
      then digits_value (acc * 10 + (int (of_char c) - 48)) cs else None)"

definition checked_i64 :: "int option \<Rightarrow> int option" where
  "checked_i64 v = (case v of None \<Rightarrow> None | Some i \<Rightarrow> if in_i64 i then Some i else None)"

definition parse_i64 :: "string \<Rightarrow> int option" where
  "parse_i64 s = (case s of
       [] \<Rightarrow> None
     | c # cs \<Rightarrow>
         if c = CHR ''-'' then
           (if cs = [] then None else checked_i64 (map_option uminus (digits_value 0 cs)))
         else if c = CHR ''+'' then
           (if cs = [] then None else checked_i64 (digits_value 0 cs))
         else checked_i64 (digits_value 0 (c # cs)))"

definition digit_char :: "nat \<Rightarrow> char" where
  "digit_char d = ''0123456789'' ! d"

fun nat_to_string :: "nat \<Rightarrow> string" where
  "nat_to_string n =
     (if n < 10 then [digit_char n] else nat_to_string (n div 10) @ [digit_char (n mod 10)])"

declare nat_to_string.simps [simp del]

definition i64_to_string :: "int \<Rightarrow> string" where
  "i64_to_string i = (if i < 0 then CHR ''-'' # nat_to_string (nat (- i)) else nat_to_string (nat i))"

section \<open>Deserialization\<close>

definition parse_int :: "string \<Rightarrow> (int, string) result" where
  "parse_int value = ok_or (''Invalid integer value '' @ value) (parse_i64 value)"

definition parse_date :: "externals \<Rightarrow> string \<Rightarrow> (naive_date_time, string) result" where
  "parse_date ext value = ok_or (''Invalid date value '' @ value) (parse_from_rfc3339 ext value)"

definition parse_photo :: "externals \<Rightarrow> string \<Rightarrow> (jpeg_photo, string) result" where
  "parse_photo ext value =
     ok_or ''Provided image is not a valid JPEG'' (JpegPhoto_try_from_str ext value)"

text \<open>\<open>value[0]\<close>, which panics on an empty slice.\<close>

fun index0 :: "'a list \<Rightarrow> ('a, 'e) result" where
  "index0 [] = Panic"
| "index0 (x # _) = Ok x"

definition deserialize_attribute_value ::
  "externals \<Rightarrow> string list \<Rightarrow> attribute_type \<Rightarrow> bool \<Rightarrow> (serialized, string) result" where
  "deserialize_attribute_value ext value typ is_list =
     (if \<not> is_list \<and> length value \<noteq> 1 then
        Err ''Attribute is not a list, but multiple values were provided''
      else case (typ, is_list) of
        (AttrString, False) \<Rightarrow> bind_result (index0 value) (\<lambda>v. Ok (Serialized_from ext (DString v)))
      | (AttrString, True) \<Rightarrow> Ok (Serialized_from ext (DStrings value))
      | (AttrInteger, False) \<Rightarrow> bind_result (index0 value) (\<lambda>v.
          bind_result (parse_int v) (\<lambda>i. Ok (Serialized_from ext (DInteger i))))
      | (AttrInteger, True) \<Rightarrow> bind_result (collect_results parse_int value) (\<lambda>is.
          Ok (Serialized_from ext (DIntegers is)))
      | (AttrDateTime, False) \<Rightarrow> bind_result (index0 value) (\<lambda>v.
          bind_result (parse_date ext v) (\<lambda>d. Ok (Serialized_from ext (DDateTime d))))
      | (AttrDateTime, True) \<Rightarrow> bind_result (collect_results (parse_date ext) value) (\<lambda>ds.
          Ok (Serialized_from ext (DDateTimes ds)))
      | (AttrJpegPhoto, False) \<Rightarrow> bind_result (index0 value) (\<lambda>v.
          bind_result (parse_photo ext v) (\<lambda>p. Ok (Serialized_from ext (DJpegPhoto p))))
      | (AttrJpegPhoto, True) \<Rightarrow> bind_result (collect_results (parse_photo ext) value) (\<lambda>ps.
          Ok (Serialized_from ext (DJpegPhotos ps))))"

section \<open>Lemmas\<close>

lemma digit_char_cases: "d < 10 \<Longrightarrow>
    CHR ''0'' \<le> digit_char d \<and> digit_char d \<le> CHR ''9'' \<and> int (of_char (digit_char d)) = 48 + int d"
proof -
  assume "d < 10"
  then have "d \<in> {0, 1, 2, 3, 4, 5, 6, 7, 8, 9}" by auto
  then show ?thesis by (auto simp: digit_char_def)
qed

lemma digits_value_append:
  "digits_value acc (s @ t) = Option.bind (digits_value acc s) (\<lambda>a. digits_value a t)"
  by (induction s arbitrary: acc) auto

lemma digits_value_nat_to_string:
  "digits_value 0 (nat_to_string n) = Some (int n)"
proof (induction n rule: nat_to_string.induct)
  case (1 n)
  show ?case
  proof (cases "n < 10")
    case True
    then show ?thesis using digit_char_cases [OF True] by (simp add: nat_to_string.simps [of n])
  next
    case False
    then have "digits_value 0 (nat_to_string (n div 10)) = Some (int (n div 10))"
      by (rule "1.IH")
    moreover have "int (n div 10) * 10 + int (n mod 10) = int n"
      by (metis div_mult_mod_eq of_nat_add of_nat_mult of_nat_numeral)
    ultimately show ?thesis
      using False digit_char_cases [of "n mod 10"]
      by (simp add: nat_to_string.simps [of n] digits_value_append)
  qed
qed

lemma nat_to_string_first: "\<exists>d cs. nat_to_string n = digit_char d # cs \<and> d < 10"
proof (induction n rule: nat_to_string.induct)
  case (1 n)
  show ?case
  proof (cases "n < 10")
    case True
    then show ?thesis by (auto simp: nat_to_string.simps [of n])
  next
    case False
    then show ?thesis using "1.IH" by (auto simp: nat_to_string.simps [of n])
  qed
qed

lemma digit_char_not_sign: "d < 10 \<Longrightarrow> digit_char d \<noteq> CHR ''-'' \<and> digit_char d \<noteq> CHR ''+''"
  using digit_char_cases [of d] by auto

lemma parse_i64_to_string: "in_i64 i \<Longrightarrow> parse_i64 (i64_to_string i) = Some i"
proof -
  assume i: "in_i64 i"
  obtain d cs where d: "nat_to_string (nat i) = digit_char d # cs" "d < 10"
    using nat_to_string_first by blast
  obtain e es where e: "nat_to_string (nat (- i)) = digit_char e # es" "e < 10"
    using nat_to_string_first by blast
  show ?thesis
  proof (cases "i < 0")
    case True
    then show ?thesis
      using i e digits_value_nat_to_string [of "nat (- i)"]
      by (simp add: parse_i64_def i64_to_string_def checked_i64_def)
  next
    case False
    then show ?thesis
      using i d digit_char_not_sign [OF d(2)] digits_value_nat_to_string [of "nat i"]
      by (simp add: parse_i64_def i64_to_string_def checked_i64_def)
  qed
qed

lemma parse_i64_range: "parse_i64 s = Some i \<Longrightarrow> in_i64 i"
  by (auto simp: parse_i64_def checked_i64_def split: list.splits if_splits option.splits)

lemma parse_no_panic [simp]:
  "parse_int v \<noteq> Panic" "parse_date ext v \<noteq> Panic" "parse_photo ext v \<noteq> Panic"
  by (simp_all add: parse_int_def parse_date_def parse_photo_def)

lemma collect_parsers_no_panic:
  "collect_results parse_int vs = Panic \<Longrightarrow> False"
  "collect_results (parse_date ext) vs = Panic \<Longrightarrow> False"
  "collect_results (parse_photo ext) vs = Panic \<Longrightarrow> False"
  using collect_results_no_panic [of vs parse_int] collect_results_no_panic [of vs "parse_date ext"]
    collect_results_no_panic [of vs "parse_photo ext"] by auto

lemma deserialize_no_panic: "deserialize_attribute_value ext vs ty is_list \<noteq> Panic"
  by (cases vs; cases ty; cases is_list)
     (auto simp: deserialize_attribute_value_def bind_result_Panic_iff
           dest: collect_parsers_no_panic)

text \<open>What is stored always decodes at the attribute's type.\<close>

lemma deserialize_typed:
  assumes "deserialize_attribute_value ext vs ty is_list = Ok s"
  shows "\<exists>v. s = Serialized_from ext v \<and> data_type v = (ty, is_list)"
  using assms
  by (cases ty; cases is_list)
     (force simp: deserialize_attribute_value_def split: if_splits)+

section \<open>Integers\<close>

text \<open>The number a text denotes: decimal digits by their weights, after an optional sign.\<close>

definition is_digit :: "char \<Rightarrow> bool" where
  "is_digit c \<longleftrightarrow> CHR ''0'' \<le> c \<and> c \<le> CHR ''9''"

definition decimal_value :: "string \<Rightarrow> int" where
  "decimal_value s = (\<Sum>k<length s. (int (of_char (rev s ! k)) - 48) * 10 ^ k)"

definition decimal :: "string \<Rightarrow> bool" where
  "decimal s \<longleftrightarrow> s \<noteq> [] \<and> list_all is_digit s"

definition denotes :: "string \<Rightarrow> int \<Rightarrow> bool" where
  "denotes s i \<longleftrightarrow> (\<exists>ds. decimal ds \<and> ((s = ds \<or> s = CHR ''+'' # ds) \<and> i = decimal_value ds \<or> s = CHR ''-'' # ds \<and> i = - decimal_value ds))"

lemma decimal_value_Cons: "decimal_value (c # s) = (int (of_char c) - 48) * 10 ^ length s + decimal_value s"
  by (simp add: decimal_value_def nth_append)

lemma digits_value_eq:
  "digits_value acc s = (if list_all is_digit s then Some (acc * 10 ^ length s + decimal_value s) else None)"
proof (induction s arbitrary: acc)
  case (Cons c s)
  then show ?case by (simp add: is_digit_def decimal_value_Cons algebra_simps)
qed (simp add: decimal_value_def)

lemma sign_not_digit: "\<not> is_digit CHR ''-''" "\<not> is_digit CHR ''+''"
  by (simp_all add: is_digit_def)

lemma parse_i64_iff: "parse_i64 s = Some i \<longleftrightarrow> denotes s i \<and> in_i64 i"
proof (cases s)
  case (Cons c cs)
  show ?thesis
    using sign_not_digit
    by (auto simp: parse_i64_def Cons denotes_def decimal_def digits_value_eq checked_i64_def split: if_splits option.splits)
qed (simp add: parse_i64_def denotes_def decimal_def)

lemma parse_int_iff: "parse_int s = Ok i \<longleftrightarrow> denotes s i \<and> in_i64 i"
  by (cases "parse_i64 s") (auto simp: parse_int_def simp flip: parse_i64_iff)

text \<open>
  C33. Integer attributes: a text is accepted exactly when it is a decimal number with an optional sign whose value lies
  between \<open>-2^63\<close> and \<open>2^63 - 1\<close>, and that number is what is stored, without wrap-around; a list is accepted exactly when
  each of its texts is.
\<close>

theorem integer_attribute_bounds:
  "(deserialize_attribute_value ext [s] AttrInteger False = Ok v
      \<longleftrightarrow> (\<exists>i. denotes s i \<and> - (2 ^ 63) \<le> i \<and> i < 2 ^ 63 \<and> v = Serialized_from ext (DInteger i)))
   \<and> (deserialize_attribute_value ext ss AttrInteger True = Ok w
      \<longleftrightarrow> (\<exists>is. list_all2 (\<lambda>s i. denotes s i \<and> - (2 ^ 63) \<le> i \<and> i < 2 ^ 63) ss is \<and> w = Serialized_from ext (DIntegers is)))"
  by (auto simp: deserialize_attribute_value_def parse_int_iff collect_results_Ok_iff in_i64_def)

end
