(* ===== verification/Ldap_Proto.thy ===== *)
theory Ldap_Proto
  imports Handler
begin

text \<open>
  The messages of the \<open>ldap3_proto\<close> crate, with the constructors and fields the sources use, and
  \<open>server/src/domain/ldap/error.rs\<close>. In an error message the \<open>{:?}\<close> and \<open>{:#}\<close> renderings of
  values other than strings are left out.
\<close>

datatype ldap_result_code =
    Success | OperationsError | CompareFalse | CompareTrue | InappropriateMatching
  | ConstraintViolation | InvalidAttributeSyntax | NoSuchObject | InvalidDNSyntax
  | InvalidCredentials | InsufficentAccessRights | UnwillingToPerform | NamingViolation
  | Other

record ldap_error =
  le_code :: ldap_result_code
  le_message :: string

type_synonym 'a ldap_result = "('a, ldap_error) result"

abbreviation LdapError :: "ldap_result_code \<Rightarrow> string \<Rightarrow> ldap_error" where
  "LdapError c m \<equiv> \<lparr>le_code = c, le_message = m\<rparr>"

text \<open>\<open>LdapFilter\<close>; the constructors the code does not handle are \<open>OtherFilter\<close>.\<close>

datatype ldap_filter =
    FAnd "ldap_filter list"
  | FOr "ldap_filter list"
  | FNot ldap_filter
  | FEquality string string
  | FSubstring string sub_string_filter
  | FPresent string
  | OtherFilter string

record ldap_partial_attribute =
  pa_atype :: string
  pa_vals :: "bytes list"

record ldap_search_result_entry =
  sre_dn :: string
  sre_attributes :: "ldap_partial_attribute list"

record ldap_result_op =
  lr_code :: ldap_result_code
  lr_matcheddn :: string
  lr_message :: string
  lr_referral :: "string list"

datatype ldap_search_scope = ScopeBase | ScopeOneLevel | ScopeSubtree | ScopeChildren

datatype ldap_deref_aliases = DerefNever | DerefInSearching | DerefFindingBaseObj | DerefAlways

record ldap_search_request =
  sr_base :: string
  sr_scope :: ldap_search_scope
  sr_aliases :: ldap_deref_aliases
  sr_sizelimit :: int
  sr_timelimit :: int
  sr_typesonly :: bool
  sr_filter :: ldap_filter
  sr_attrs :: "string list"

datatype ldap_bind_cred = Simple string | SASL string

record ldap_bind_request =
  lb_dn :: string
  lb_cred :: ldap_bind_cred

datatype ldap_modify_type = ModAdd | ModDelete | ModReplace

record ldap_modify =
  lm_operation :: ldap_modify_type
  lm_modification :: ldap_partial_attribute

record ldap_modify_request =
  lmr_dn :: string
  lmr_changes :: "ldap_modify list"

record ldap_password_modify_request =
  pm_user_identity :: "string option"
  pm_old_password :: "string option"
  pm_new_password :: "string option"

record ldap_extended_request =
  le_name :: string
  le_value :: "bytes option"

record ldap_add_request =
  la_dn :: string
  la_attributes :: "ldap_partial_attribute list"

record ldap_compare_request =
  lc_dn :: string
  lc_atype :: string
  lc_val :: bytes

datatype ldap_op =
    BindRequest ldap_bind_request
  | BindResponse ldap_result_op "string option"
  | UnbindRequest
  | SearchRequest ldap_search_request
  | SearchResultEntry ldap_search_result_entry
  | SearchResultDone ldap_result_op
  | ModifyRequest ldap_modify_request
  | ModifyResponse ldap_result_op
  | AddRequest ldap_add_request
  | AddResponse ldap_result_op
  | CompareRequest ldap_compare_request
  | CompareResult ldap_result_op
  | ExtendedRequest ldap_extended_request
  | ExtendedResponse ldap_result_op "string option" "bytes option"
  | OtherOp string

end
