(* ===== verification/Ldap_Utils.thy ===== *)
theory Ldap_Utils
  imports Public_Schema Deserialize Ldap_Proto
begin

text \<open>
  \<open>server/src/domain/ldap/utils.rs\<close>: distinguished names, attribute wildcards, the meaning of
  LDAP field names, and the LDAP encoding of custom attributes.
\<close>

section \<open>Distinguished names\<close>

type_synonym dn = "(string \<times> string) list"

fun make_dn_pair :: "string list \<Rightarrow> (string \<times> string) ldap_result" where
  "make_dn_pair [] = Err (LdapError InvalidDNSyntax ''Empty DN element'')"
| "make_dn_pair [_] = Err (LdapError InvalidDNSyntax ''Missing DN value'')"
| "make_dn_pair [a, b] = Ok (a, b)"
| "make_dn_pair (a # b # e # _) = Err (LdapError InvalidDNSyntax
     (''Too many elements in distinguished name: '' @ quoted (quoted a) @ '', '' @ quoted (quoted b) @ '', ''
        @ quoted (quoted e)))"

definition parse_distinguished_name :: "string \<Rightarrow> dn ldap_result" where
  "parse_distinguished_name dn =
     (if dn \<noteq> to_ascii_lowercase dn then Panic
      else collect_results (\<lambda>s. make_dn_pair (map trim (split_on (CHR ''='') s)))
             (split_on (CHR '','') dn))"

definition dn_is_lower :: "dn \<Rightarrow> bool" where
  "dn_is_lower d \<longleftrightarrow> (\<forall>(k, v)\<in>set d. is_lower k \<and> is_lower v)"

text \<open>
  The final loop compares element \<open>size_diff + i\<close> of the subtree with element \<open>i\<close> of the base
  for every \<open>i\<close> and stops at the first difference.
\<close>

fun subtree_loop :: "dn \<Rightarrow> dn \<Rightarrow> nat \<Rightarrow> nat list \<Rightarrow> bool" where
  "subtree_loop sub base size_diff [] = True"
| "subtree_loop sub base size_diff (i # is) =
     (if sub ! (size_diff + i) \<noteq> base ! i then False else subtree_loop sub base size_diff is)"

definition is_subtree :: "dn \<Rightarrow> dn \<Rightarrow> (bool, 'e) result" where
  "is_subtree subtree base_tree =
     (if \<not> dn_is_lower subtree then Panic
      else if \<not> dn_is_lower base_tree then Panic
      else if length subtree < length base_tree then Ok False
      else Ok (subtree_loop subtree base_tree (length subtree - length base_tree)
                 [0..<length base_tree]))"

definition get_id_from_distinguished_name ::
  "string \<Rightarrow> dn \<Rightarrow> string \<Rightarrow> bool \<Rightarrow> string ldap_result" where
  "get_id_from_distinguished_name dn base_tree base_dn_str is_group =
     bind_result (parse_distinguished_name dn) (\<lambda>parts.
       let ou = (if is_group then ''groups'' else ''people'');
           unexpected = LdapError InvalidDNSyntax
             (''Unexpected DN format. Got '' @ quoted dn @ '', expected: ''
               @ quoted (''uid=id,ou='' @ ou @ '','' @ base_dn_str))
       in bind_result (is_subtree parts base_tree) (\<lambda>sub.
         if \<not> sub then Err (LdapError InvalidDNSyntax ''Not a subtree of the base tree'')
         else if length parts = length base_tree + 2 then
           (if fst (parts ! 1) \<noteq> ''ou'' \<or> snd (parts ! 1) \<noteq> ou
               \<or> (fst (parts ! 0) \<noteq> ''cn'' \<and> fst (parts ! 0) \<noteq> ''uid'')
            then Err unexpected
            else Ok (snd (parts ! 0)))
         else Err unexpected))"

definition get_user_id_from_distinguished_name :: "string \<Rightarrow> dn \<Rightarrow> string \<Rightarrow> user_id ldap_result" where
  "get_user_id_from_distinguished_name dn base_tree base_dn_str =
     map_ok UserId_new (get_id_from_distinguished_name dn base_tree base_dn_str False)"

definition get_group_id_from_distinguished_name :: "string \<Rightarrow> dn \<Rightarrow> string \<Rightarrow> group_name ldap_result" where
  "get_group_id_from_distinguished_name dn base_tree base_dn_str =
     map_ok GroupName (get_id_from_distinguished_name dn base_tree base_dn_str True)"

section \<open>Attribute wildcards\<close>

text \<open>\<open>itertools::unique_by\<close>: the first element of every key, in order.\<close>

fun unique_by_seen :: "'k list \<Rightarrow> ('a \<Rightarrow> 'k) \<Rightarrow> 'a list \<Rightarrow> 'a list" where
  "unique_by_seen seen f [] = []"
| "unique_by_seen seen f (x # xs) =
     (if f x \<in> set seen then unique_by_seen seen f xs
      else x # unique_by_seen (f x # seen) f xs)"

abbreviation unique_by :: "('a \<Rightarrow> 'k) \<Rightarrow> 'a list \<Rightarrow> 'a list" where
  "unique_by \<equiv> unique_by_seen []"

definition expand_attribute_wildcards :: "string list \<Rightarrow> string list \<Rightarrow> string list" where
  "expand_attribute_wildcards ldap_attributes all_attribute_keys =
     (let extra_attributes =
            (if ''*'' \<in> set ldap_attributes \<or> ldap_attributes = [] then all_attribute_keys else []);
          attributes_out = filter (\<lambda>s. s \<noteq> ''*'' \<and> s \<noteq> ''+'' \<and> s \<noteq> ''1.1'') ldap_attributes
      in unique_by to_ascii_lowercase (attributes_out @ extra_attributes))"

section \<open>Field names\<close>

datatype user_field_type =
    UFNoMatch | UFObjectClass | UFMemberOf | UFDn | UFEntryDn
  | UFPrimaryField user_column
  | UFAttribute attribute_name attribute_type bool

definition map_user_field :: "attribute_name \<Rightarrow> public_schema \<Rightarrow> user_field_type" where
  "map_user_field field schema =
     (let s = AttributeName_as_str field in
      if s \<in> set [''memberof'', ''ismemberof''] then UFMemberOf
      else if s = ''objectclass'' then UFObjectClass
      else if s \<in> set [''dn'', ''distinguishedname''] then UFDn
      else if s = ''entrydn'' then UFEntryDn
      else if s \<in> set [''uid'', ''user_id'', ''id''] then UFPrimaryField ColUserId
      else if s \<in> set [''mail'', ''email''] then UFPrimaryField ColEmail
      else if s \<in> set [''cn'', ''displayname'', ''display_name''] then UFPrimaryField ColDisplayName
      else if s \<in> set [''givenname'', ''first_name'', ''firstname''] then
        UFAttribute (AttributeName_from ''first_name'') AttrString False
      else if s \<in> set [''sn'', ''last_name'', ''lastname''] then
        UFAttribute (AttributeName_from ''last_name'') AttrString False
      else if s \<in> set [''avatar'', ''jpegphoto''] then
        UFAttribute (AttributeName_from ''avatar'') AttrJpegPhoto False
      else if s \<in> set [''creationdate'', ''createtimestamp'', ''modifytimestamp'', ''creation_date''] then
        UFPrimaryField ColCreationDate
      else if s \<in> set [''entryuuid'', ''uuid''] then UFPrimaryField ColUuid
      else case get_attribute_type (user_attributes (get_schema schema)) field of
          Some (t, is_list) \<Rightarrow> UFAttribute field t is_list
        | None \<Rightarrow> UFNoMatch)"

datatype group_field_type =
    GFNoMatch | GFDisplayName | GFCreationDate | GFObjectClass | GFDn | GFEntryDn
  | GFMember | GFUuid
  | GFAttribute attribute_name attribute_type bool

definition map_group_field :: "attribute_name \<Rightarrow> public_schema \<Rightarrow> group_field_type" where
  "map_group_field field schema =
     (let s = AttributeName_as_str field in
      if s \<in> set [''dn'', ''distinguishedname''] then GFDn
      else if s = ''entrydn'' then GFEntryDn
      else if s = ''objectclass'' then GFObjectClass
      else if s \<in> set [''cn'', ''displayname'', ''uid'', ''display_name'', ''id''] then GFDisplayName
      else if s \<in> set [''creationdate'', ''createtimestamp'', ''modifytimestamp'', ''creation_date''] then
        GFCreationDate
      else if s \<in> set [''member'', ''uniquemember''] then GFMember
      else if s \<in> set [''entryuuid'', ''uuid''] then GFUuid
      else case get_attribute_type (group_attributes (get_schema schema)) field of
          Some (t, is_list) \<Rightarrow> GFAttribute field t is_list
        | None \<Rightarrow> GFNoMatch)"

record ldap_info =
  li_base_dn :: dn
  li_base_dn_str :: string
  li_ignored_user_attributes :: "attribute_name list"
  li_ignored_group_attributes :: "attribute_name list"

section \<open>Custom attributes\<close>

text \<open>The LDAP bytes of a decoded attribute; integers and dates are encoded as text.\<close>

fun ldap_encode :: "externals \<Rightarrow> attribute_data \<Rightarrow> bytes list" where
  "ldap_encode ext (DString s) = [s]"
| "ldap_encode ext (DInteger i) = [i64_to_string i]"
| "ldap_encode ext (DJpegPhoto p) = [JpegPhoto_into_bytes p]"
| "ldap_encode ext (DDateTime d) = [to_rfc3339 ext d]"
| "ldap_encode ext (DStrings ss) = ss"
| "ldap_encode ext (DIntegers is) = map i64_to_string is"
| "ldap_encode ext (DJpegPhotos ps) = map JpegPhoto_into_bytes ps"
| "ldap_encode ext (DDateTimes ds) = map (to_rfc3339 ext) ds"

definition get_custom_attribute ::
  "externals \<Rightarrow> (public_schema \<Rightarrow> attribute_list) \<Rightarrow> attribute_value list \<Rightarrow> attribute_name
     \<Rightarrow> public_schema \<Rightarrow> (bytes list option, 'e) result" where
  "get_custom_attribute ext extractor attrs attribute_name schema =
     (case get_attribute_type (extractor schema) attribute_name of
        None \<Rightarrow> Ok None
      | Some attribute_type \<Rightarrow>
          (case find (\<lambda>a. av_name a = attribute_name) attrs of
             None \<Rightarrow> Ok None
           | Some attribute \<Rightarrow>
               map_ok (\<lambda>v. Some (ldap_encode ext v))
                 (Serialized_unwrap ext attribute_type (av_value attribute))))"

section \<open>Lemmas on distinguished names\<close>

lemma subtree_loop_iff:
  "subtree_loop sub base k is \<longleftrightarrow> (\<forall>i\<in>set is. sub ! (k + i) = base ! i)"
  by (induction "is") auto

lemma suffix_nth_iff:
  assumes "length base \<le> length sub"
  shows "suffix base sub \<longleftrightarrow> (\<forall>i < length base. sub ! (length sub - length base + i) = base ! i)"
proof
  assume "suffix base sub"
  then show "\<forall>i < length base. sub ! (length sub - length base + i) = base ! i"
    by (auto simp: suffix_def nth_append)
next
  assume *: "\<forall>i < length base. sub ! (length sub - length base + i) = base ! i"
  have "drop (length sub - length base) sub = base"
    by (rule nth_equalityI) (use assms * in auto)
  then show "suffix base sub" by (metis suffix_drop)
qed

lemma is_subtree_suffix:
  assumes "dn_is_lower sub" and "dn_is_lower base"
  shows "is_subtree sub base = Ok (suffix base sub)"
proof (cases "length sub < length base")
  case True
  then have "\<not> suffix base sub" by (auto dest: suffix_length_le)
  with True assms show ?thesis by (simp add: is_subtree_def)
next
  case False
  with assms show ?thesis
    by (simp add: is_subtree_def subtree_loop_iff suffix_nth_iff atLeast0LessThan Ball_def)
qed

lemma trim_start_set: "set (trim_start s) \<subseteq> set s"
proof (induction s rule: trim_start.induct)
  case (1 s)
  then show ?case
    by (subst trim_start.simps) (auto split: option.splits dest: in_set_dropD subsetD)
qed

lemma trim_end_set: "set (trim_end s) \<subseteq> set s"
proof (induction s rule: trim_end.induct)
  case (1 s)
  then show ?case
    by (subst trim_end.simps) (auto split: option.splits dest: in_set_takeD subsetD)
qed

lemma trim_set: "set (trim s) \<subseteq> set s"
  unfolding trim_def using trim_end_set trim_start_set by blast

lemma is_lower_trim: "is_lower s \<Longrightarrow> is_lower (trim s)"
  using trim_set by (auto simp: is_lower_set)

lemma is_lower_split: "is_lower s \<Longrightarrow> w \<in> set (split_on d s) \<Longrightarrow> is_lower w"
  using split_on_pieces by (fastforce simp: is_lower_set)

lemma make_dn_pair_no_panic [simp]: "make_dn_pair l \<noteq> Panic"
  by (cases l rule: make_dn_pair.cases) auto

lemma make_dn_pair_Ok: "make_dn_pair l = Ok (a, b) \<longleftrightarrow> l = [a, b]"
  by (cases l rule: make_dn_pair.cases) auto

lemma parse_dn_panic_iff: "parse_distinguished_name dn = Panic \<longleftrightarrow> \<not> is_lower dn"
proof -
  have "collect_results (\<lambda>s. make_dn_pair (map trim (split_on (CHR ''='') s))) l \<noteq> Panic" for l
    by (rule collect_results_no_panic) simp
  then show ?thesis by (auto simp: parse_distinguished_name_def)
qed

lemma parse_dn_Ok_pieces:
  assumes "parse_distinguished_name dn = Ok parts"
  shows "list_all2 (\<lambda>s p. map trim (split_on (CHR ''='') s) = [fst p, snd p])
           (split_on (CHR '','') dn) parts"
  using assms
  by (auto simp: parse_distinguished_name_def collect_results_Ok_iff make_dn_pair_Ok
           split: if_splits elim!: list_all2_mono)

lemma parse_dn_lower:
  assumes "parse_distinguished_name dn = Ok parts"
  shows "dn_is_lower parts"
  unfolding dn_is_lower_def
proof clarify
  fix k v assume kv: "(k, v) \<in> set parts"
  have low: "is_lower dn" using assms by (auto simp: parse_distinguished_name_def split: if_splits)
  obtain i where i: "i < length parts" "parts ! i = (k, v)"
    using kv by (auto simp: in_set_conv_nth)
  define s where "s = split_on (CHR '','') dn ! i"
  have s: "s \<in> set (split_on (CHR '','') dn)" "map trim (split_on (CHR ''='') s) = [k, v]"
    using parse_dn_Ok_pieces [OF assms] i by (auto simp: list_all2_conv_all_nth s_def)
  then have "k \<in> trim ` set (split_on (CHR ''='') s)" "v \<in> trim ` set (split_on (CHR ''='') s)"
    by (metis list.set_intros(1) set_map, metis list.set_intros(1,2) set_map)
  moreover have "is_lower s" using is_lower_split [OF low s(1)] .
  ultimately show "is_lower k \<and> is_lower v"
    by (auto intro!: is_lower_trim dest: is_lower_split)
qed

text \<open>When a name denotes the entry of a user or group, exactly.\<close>

lemma get_id_Ok_iff:
  assumes "dn_is_lower base"
  shows "get_id_from_distinguished_name dn base base_str is_group = Ok v \<longleftrightarrow>
    (\<exists>k. k \<in> {''cn'', ''uid''} \<and> parse_distinguished_name dn
       = Ok ((k, v) # (''ou'', if is_group then ''groups'' else ''people'') # base))"
    (is "?lhs \<longleftrightarrow> ?rhs")
proof (cases "parse_distinguished_name dn")
  case (Ok parts)
  have sub: "is_subtree parts base = (Ok (suffix base parts) :: bool ldap_result)"
    by (rule is_subtree_suffix [OF parse_dn_lower [OF Ok] assms])
  show ?thesis
  proof (cases "suffix base parts \<and> length parts = length base + 2")
    case True
    then obtain zs where "parts = zs @ base" "length zs = 2" by (auto simp: suffix_def)
    then obtain p q where parts: "parts = [p, q] @ base"
      by (auto simp: length_Suc_conv numeral_2_eq_2)
    have "is_subtree parts base = (Ok True :: bool ldap_result)" using sub True by simp
    then show ?thesis using Ok parts
      by (cases p; cases q) (auto simp: get_id_from_distinguished_name_def Let_def)
  next
    case False
    then have "\<not> ?lhs" using Ok sub by (auto simp: get_id_from_distinguished_name_def Let_def)
    moreover have "\<not> ?rhs" using Ok False by (auto simp: suffix_def)
    ultimately show ?thesis by blast
  qed
qed (auto simp: get_id_from_distinguished_name_def)

lemma get_id_panic_iff:
  assumes "dn_is_lower base"
  shows "get_id_from_distinguished_name dn base base_str is_group = Panic \<longleftrightarrow> \<not> is_lower dn"
proof (cases "parse_distinguished_name dn")
  case (Ok parts)
  have "is_subtree parts base = (Ok (suffix base parts) :: bool ldap_result)"
    by (rule is_subtree_suffix [OF parse_dn_lower [OF Ok] assms])
  with Ok show ?thesis using parse_dn_panic_iff [of dn]
    by (auto simp: get_id_from_distinguished_name_def Let_def bind_result_Panic_iff split: if_splits)
next
  case (Err e)
  then show ?thesis using parse_dn_panic_iff [of dn] by (simp add: get_id_from_distinguished_name_def)
next
  case Panic
  then show ?thesis using parse_dn_panic_iff [of dn] by (simp add: get_id_from_distinguished_name_def)
qed

subsection \<open>Printing and parsing\<close>

text \<open>A component that survives parsing: no separator inside, no surrounding white space.\<close>

definition dn_component :: "string \<Rightarrow> bool" where
  "dn_component s \<longleftrightarrow> CHR '','' \<notin> set s \<and> CHR ''='' \<notin> set s \<and> trimmed s \<and> is_lower s"

definition print_rdn :: "string \<times> string \<Rightarrow> string" where
  "print_rdn p = fst p @ ''='' @ snd p"

fun print_dn :: "dn \<Rightarrow> string" where
  "print_dn [] = []"
| "print_dn [p] = print_rdn p"
| "print_dn (p # q # ps) = print_rdn p @ '','' @ print_dn (q # ps)"

lemma split_print_rdn:
  assumes "dn_component (fst p)" and "dn_component (snd p)"
  shows "map trim (split_on (CHR ''='') (print_rdn p)) = [fst p, snd p]"
  using assms
  by (simp add: print_rdn_def dn_component_def split_on_append split_on_no_sep trim_trimmed)

lemma print_rdn_no_comma:
  "dn_component (fst p) \<Longrightarrow> dn_component (snd p) \<Longrightarrow> CHR '','' \<notin> set (print_rdn p)"
  by (simp add: print_rdn_def dn_component_def)

lemma split_print_dn:
  assumes "ps \<noteq> []" and "\<forall>p\<in>set ps. dn_component (fst p) \<and> dn_component (snd p)"
  shows "split_on (CHR '','') (print_dn ps) = map print_rdn ps"
  using assms
proof (induction ps rule: print_dn.induct)
  case (3 p q ps)
  then show ?case using split_on_append [OF print_rdn_no_comma [of p], of "print_dn (q # ps)"] by simp
qed (auto simp: print_rdn_no_comma split_on_no_sep)

lemma print_dn_lower:
  "\<forall>p\<in>set ps. dn_component (fst p) \<and> dn_component (snd p) \<Longrightarrow> is_lower (print_dn ps)"
  by (induction ps rule: print_dn.induct) (auto simp: dn_component_def print_rdn_def)

lemma parse_print_dn:
  assumes "ps \<noteq> []" and comps: "\<forall>p\<in>set ps. dn_component (fst p) \<and> dn_component (snd p)"
  shows "parse_distinguished_name (print_dn ps) = Ok ps"
proof -
  have "collect_results (\<lambda>s. make_dn_pair (map trim (split_on (CHR ''='') s))) (map print_rdn ps) = Ok ps"
    using comps by (simp add: collect_results_Ok_iff list_all2_map1 list_all2_same split_print_rdn)
  then show ?thesis
    using print_dn_lower [OF comps] split_print_dn [OF assms] by (simp add: parse_distinguished_name_def)
qed

lemma parse_dn_append:
  assumes "dn_component k" "dn_component v" and "parse_distinguished_name base_str = Ok base"
  shows "parse_distinguished_name (k @ ''='' @ v @ '','' @ base_str) = Ok ((k, v) # base)"
proof -
  have low: "is_lower base_str" using assms(3) by (auto simp: parse_distinguished_name_def split: if_splits)
  have kv: "CHR '','' \<notin> set (print_rdn (k, v))" using assms by (simp add: print_rdn_no_comma)
  have "split_on (CHR '','') (print_rdn (k, v) @ CHR '','' # base_str)
          = print_rdn (k, v) # split_on (CHR '','') base_str"
    by (rule split_on_append [OF kv])
  then show ?thesis
    using assms split_print_rdn [of "(k, v)"] low
    by (simp add: parse_distinguished_name_def print_rdn_def dn_component_def split: if_splits)
qed

section \<open>Lemmas on attribute wildcards\<close>

lemma unique_by_seen_keys: "f ` set (unique_by_seen seen f xs) = f ` set xs - set seen"
  by (induction xs arbitrary: seen) auto

lemma unique_by_seen_distinct: "distinct (map f (unique_by_seen seen f xs))"
proof (induction xs arbitrary: seen)
  case (Cons x xs)
  have "f x \<notin> f ` set (unique_by_seen (f x # seen) f xs)" by (simp add: unique_by_seen_keys)
  with Cons show ?case by auto
qed simp

lemma unique_by_seen_subseq: "subseq (unique_by_seen seen f xs) xs"
  by (induction xs arbitrary: seen) auto

lemma unique_by_seen_subset: "set (unique_by_seen seen f xs) \<subseteq> set xs"
  by (induction xs arbitrary: seen) auto

lemma expand_subset:
  assumes "a \<in> set (expand_attribute_wildcards attrs keys)"
  shows "(a \<in> set attrs \<and> a \<noteq> ''*'' \<and> a \<noteq> ''+'' \<and> a \<noteq> ''1.1'') \<or> a \<in> set keys"
proof -
  let ?l = "filter (\<lambda>s. s \<noteq> ''*'' \<and> s \<noteq> ''+'' \<and> s \<noteq> ''1.1'') attrs
       @ (if ''*'' \<in> set attrs \<or> attrs = [] then keys else [])"
  have "a \<in> set ?l"
    using assms unique_by_seen_subset [of "[]" to_ascii_lowercase ?l]
    by (auto simp: expand_attribute_wildcards_def Let_def)
  then show ?thesis by (auto split: if_splits)
qed

lemma custom_attribute_panic_iff:
  "get_custom_attribute ext extractor attrs name schema = Panic \<longleftrightarrow>
     (\<exists>t a. get_attribute_type (extractor schema) name = Some t
        \<and> find (\<lambda>a. av_name a = name) attrs = Some a \<and> Serialized_convert_to ext t (av_value a) = None)"
  by (auto simp: get_custom_attribute_def Serialized_unwrap_def split: option.splits)

section \<open>Properties\<close>

text \<open>
  The name printed for an entry is read back as that entry: for a base DN that parses and an
  identifier without separators or surrounding white space, \<open>uid=<id>,ou=people,<base>\<close> resolves to
  the user and \<open>cn=<name>,ou=groups,<base>\<close> to the group.
\<close>

theorem entry_dn_roundtrip:
  assumes "parse_distinguished_name base_str = Ok base" and "dn_component i"
  shows "get_user_id_from_distinguished_name (''uid='' @ i @ '',ou=people,'' @ base_str) base base_str
           = Ok (UserId_new i)
       \<and> get_group_id_from_distinguished_name (''cn='' @ i @ '',ou=groups,'' @ base_str) base base_str
           = Ok (GroupName i)"
proof -
  have comps: "dn_component ''uid''" "dn_component ''cn''" "dn_component ''ou''"
    "dn_component ''people''" "dn_component ''groups''" by code_simp+
  have ou: "parse_distinguished_name (''ou='' @ p @ '','' @ base_str) = Ok ((''ou'', p) # base)"
    if "dn_component p" for p
    using parse_dn_append [OF comps(3) that assms(1)] by simp
  have "parse_distinguished_name (k @ ''='' @ i @ '',ou='' @ p @ '','' @ base_str)
          = Ok ((k, i) # (''ou'', p) # base)" if "dn_component k" "dn_component p" for k p
    using parse_dn_append [OF that(1) assms(2) ou [OF that(2)]] by simp
  from this [OF comps(1) comps(4)] this [OF comps(2) comps(5)] parse_dn_lower [OF assms(1)]
  show ?thesis
    by (auto simp: get_user_id_from_distinguished_name_def get_group_id_from_distinguished_name_def
        get_id_Ok_iff)
qed

theorem entry_dn_roundtrip_witness:
  "get_user_id_from_distinguished_name ''uid=bob,ou=people,dc=example,dc=com''
     [(''dc'', ''example''), (''dc'', ''com'')] ''dc=example,dc=com'' = Ok (UserId_new ''bob'')"
proof -
  have p: "parse_distinguished_name ''dc=example,dc=com'' = Ok [(''dc'', ''example''), (''dc'', ''com'')]"
    by code_simp
  have c: "dn_component ''bob''" by code_simp
  show ?thesis using entry_dn_roundtrip [OF p c] by simp
qed

text \<open>
  Which names denote an entry: under a lowercase base, \<open>get_id_from_distinguished_name\<close> returns an
  identifier exactly for the names of the form \<open>cn|uid=<id>,ou=people|groups,<base>\<close>, and it panics
  exactly for the names that are not lowercase.
\<close>

theorem get_id_exact:
  assumes "dn_is_lower base"
  shows "(get_id_from_distinguished_name dn base base_str is_group = Ok v \<longleftrightarrow>
      (\<exists>k. k \<in> {''cn'', ''uid''} \<and> parse_distinguished_name dn
         = Ok ((k, v) # (''ou'', if is_group then ''groups'' else ''people'') # base)))
    \<and> (get_id_from_distinguished_name dn base base_str is_group = Panic \<longleftrightarrow> \<not> is_lower dn)"
  using get_id_Ok_iff [OF assms] get_id_panic_iff [OF assms] by simp

theorem get_id_exact_witness:
  "get_id_from_distinguished_name ''uid=bob,ou=people,dc=x'' [(''dc'', ''x'')] ''dc=x'' False = Ok ''bob''
   \<and> get_id_from_distinguished_name ''uid=Bob,ou=people,dc=x'' [(''dc'', ''x'')] ''dc=x'' False = Panic"
proof -
  have b: "dn_is_lower [(''dc'', ''x'')]" by code_simp
  have p: "parse_distinguished_name ''uid=bob,ou=people,dc=x''
             = Ok [(''uid'', ''bob''), (''ou'', ''people''), (''dc'', ''x'')]" by code_simp
  show ?thesis
    using get_id_exact [OF b, of "''uid=bob,ou=people,dc=x''" "''dc=x''" False "''bob''"]
      get_id_exact [OF b, of "''uid=Bob,ou=people,dc=x''" "''dc=x''" False "''bob''"] p by simp
qed

text \<open>
  The attributes of a search result: \<open>expand_attribute_wildcards\<close> returns, in request order and
  with no name twice up to ASCII case, exactly the requested names other than the wildcards \<open>*\<close>, \<open>+\<close>
  and \<open>1.1\<close>, and also every default key when the request is empty or holds \<open>*\<close>.
\<close>

theorem expand_attribute_wildcards_exact:
  defines "wanted attrs keys \<equiv> filter (\<lambda>s. s \<notin> {''*'', ''+'', ''1.1''}) attrs
     @ (if attrs = [] \<or> ''*'' \<in> set attrs then keys else [])"
  shows "distinct (map to_ascii_lowercase (expand_attribute_wildcards attrs keys))
       \<and> to_ascii_lowercase ` set (expand_attribute_wildcards attrs keys)
           = to_ascii_lowercase ` set (wanted attrs keys)
       \<and> subseq (expand_attribute_wildcards attrs keys) (wanted attrs keys)"
proof -
  have "expand_attribute_wildcards attrs keys = unique_by to_ascii_lowercase (wanted attrs keys)"
    by (auto simp: expand_attribute_wildcards_def wanted_def intro!: arg_cong [where f = "unique_by _"])
  then show ?thesis
    using unique_by_seen_distinct unique_by_seen_subseq unique_by_seen_keys
      [of to_ascii_lowercase "[]" "wanted attrs keys"] by auto
qed

end
