(* ===== verification/Ldap_User.thy ===== *)
theory Ldap_User
  imports Ldap_Utils
begin

text \<open>
  \<open>server/src/domain/ldap/user.rs\<close>: LDAP attributes of a user, LDAP filters to user request
  filters, and user search results.
\<close>

section \<open>Attributes\<close>

text \<open>\<open>None\<close> for an absent or empty attribute; the two \<open>panic!\<close> branches are \<open>Panic\<close>.\<close>

definition nonempty_values :: "bytes list \<Rightarrow> bytes list option" where
  "nonempty_values vs = (if length vs = 1 \<and> hd vs = [] then None else Some vs)"

definition get_user_attribute ::
  "externals \<Rightarrow> user \<Rightarrow> string \<Rightarrow> string \<Rightarrow> group_details list option \<Rightarrow> attribute_name list
     \<Rightarrow> public_schema \<Rightarrow> (bytes list option, 'e) result" where
  "get_user_attribute ext user attribute base_dn_str groups ignored_user_attributes schema =
     (let attribute = AttributeName_from attribute;
          custom = (\<lambda>attr. get_custom_attribute ext SchemaUserAttributeExtractor
                            (u_attributes user) attr schema);
          values = (case map_user_field attribute schema of
             UFObjectClass \<Rightarrow> Ok (Some ([''inetOrgPerson'', ''posixAccount'', ''mailAccount'', ''person'']
                 @ map LdapObjectClass_as_str (extra_user_object_classes (get_schema schema))))
           | UFDn \<Rightarrow> Ok None
           | UFEntryDn \<Rightarrow> Ok (Some
               [''uid='' @ UserId_as_str (u_user_id user) @ '',ou=people,'' @ base_dn_str])
           | UFMemberOf \<Rightarrow> Ok (Some (map
               (\<lambda>g. ''cn='' @ GroupName_as_str (gd_display_name g) @ '',ou=groups,'' @ base_dn_str)
               (case groups of None \<Rightarrow> [] | Some gs \<Rightarrow> gs)))
           | UFPrimaryField ColUserId \<Rightarrow> Ok (Some [UserId_as_str (u_user_id user)])
           | UFPrimaryField ColEmail \<Rightarrow> Ok (Some [Email_as_str (u_email user)])
           | UFPrimaryField ColLowercaseEmail \<Rightarrow> Panic
           | UFPrimaryField ColPasswordHash \<Rightarrow> Panic
           | UFPrimaryField ColTotpSecret \<Rightarrow> Panic
           | UFPrimaryField ColMfaType \<Rightarrow> Panic
           | UFPrimaryField ColUuid \<Rightarrow> Ok (Some [Uuid_as_str (u_uuid user)])
           | UFPrimaryField ColDisplayName \<Rightarrow> Ok (map_option (\<lambda>n. [n]) (u_display_name user))
           | UFPrimaryField ColCreationDate \<Rightarrow> Ok (Some [to_rfc3339 ext (u_creation_date user)])
           | UFAttribute attr _ _ \<Rightarrow> custom attr
           | UFNoMatch \<Rightarrow>
               (if AttributeName_as_str attribute = ''1.1'' then Ok None
                else if AttributeName_as_str attribute = ''+'' then Ok None
                else if AttributeName_as_str attribute = ''*'' then Panic
                else if attribute \<in> set ignored_user_attributes then Ok None
                else custom attribute))
      in map_ok (\<lambda>v. Option.bind v nonempty_values) values)"

definition ALL_USER_ATTRIBUTE_KEYS :: "string list" where
  "ALL_USER_ATTRIBUTE_KEYS =
     [''objectclass'', ''uid'', ''mail'', ''givenname'', ''sn'', ''cn'', ''jpegPhoto'',
      ''createtimestamp'', ''entryuuid'']"

text \<open>\<open>filter_map\<close> over a fallible function: the attributes that have a value, in order.\<close>

fun collect_attributes ::
  "(string \<Rightarrow> (bytes list option, 'e) result) \<Rightarrow> string list \<Rightarrow> (ldap_partial_attribute list, 'e) result" where
  "collect_attributes f [] = Ok []"
| "collect_attributes f (a # as) =
     bind_result (f a) (\<lambda>v. bind_result (collect_attributes f as) (\<lambda>rest.
       Ok (case v of None \<Rightarrow> rest | Some vals \<Rightarrow> \<lparr>pa_atype = a, pa_vals = vals\<rparr> # rest)))"

definition make_ldap_search_user_result_entry ::
  "externals \<Rightarrow> user \<Rightarrow> string \<Rightarrow> string list \<Rightarrow> group_details list option \<Rightarrow> attribute_name list
     \<Rightarrow> public_schema \<Rightarrow> (ldap_search_result_entry, 'e) result" where
  "make_ldap_search_user_result_entry ext user base_dn_str expanded_attributes groups ignored schema =
     map_ok (\<lambda>attrs.
         \<lparr>sre_dn = ''uid='' @ UserId_as_str (u_user_id user) @ '',ou=people,'' @ base_dn_str,
          sre_attributes = attrs\<rparr>)
       (collect_attributes
          (\<lambda>a. get_user_attribute ext user a base_dn_str groups ignored schema) expanded_attributes)"

section \<open>Filters\<close>

definition get_user_attribute_equality_filter ::
  "externals \<Rightarrow> attribute_name \<Rightarrow> attribute_type \<Rightarrow> bool \<Rightarrow> string \<Rightarrow> user_request_filter ldap_result" where
  "get_user_attribute_equality_filter ext field typ is_list v =
     map_ok (UAttributeEquality field)
       (map_err (\<lambda>e. LdapError Other
            (''Invalid value for attribute '' @ AttributeName_as_str field @ '': '' @ e))
          (deserialize_attribute_value ext [v] typ is_list))"

definition ldap_object_class_in :: "externals \<Rightarrow> ldap_object_class \<Rightarrow> ldap_object_class list \<Rightarrow> bool" where
  "ldap_object_class_in ext c cs \<longleftrightarrow> list_ex (LdapObjectClass_eq ext c) cs"

definition convert_user_equality ::
  "externals \<Rightarrow> ldap_info \<Rightarrow> public_schema \<Rightarrow> string \<Rightarrow> string \<Rightarrow> user_request_filter ldap_result" where
  "convert_user_equality ext ldap_info schema field v =
     (let field = AttributeName_from field; v = to_ascii_lowercase v;
          dn_filter = (case get_user_id_from_distinguished_name v
              (li_base_dn ldap_info) (li_base_dn_str ldap_info) of
             Ok u \<Rightarrow> Ok (UUserId u)
           | Err _ \<Rightarrow> Ok (UserRequestFilter_from_bool False)
           | Panic \<Rightarrow> Panic)
      in case map_user_field field schema of
        UFPrimaryField ColUserId \<Rightarrow> Ok (UUserId (UserId_new v))
      | UFPrimaryField ColEmail \<Rightarrow> Ok (UEquality ColLowercaseEmail v)
      | UFPrimaryField column \<Rightarrow> Ok (UEquality column v)
      | UFAttribute field typ is_list \<Rightarrow> get_user_attribute_equality_filter ext field typ is_list v
      | UFNoMatch \<Rightarrow> Ok (UserRequestFilter_from_bool False)
      | UFObjectClass \<Rightarrow> Ok (UserRequestFilter_from_bool
          (v \<in> set [''person'', ''inetorgperson'', ''posixaccount'', ''mailaccount'']
           \<or> ldap_object_class_in ext (LdapObjectClass v) (extra_user_object_classes (get_schema schema))))
      | UFMemberOf \<Rightarrow> map_ok UMemberOf (get_group_id_from_distinguished_name v
          (li_base_dn ldap_info) (li_base_dn_str ldap_info))
      | UFEntryDn \<Rightarrow> dn_filter
      | UFDn \<Rightarrow> dn_filter)"

definition convert_user_substring ::
  "public_schema \<Rightarrow> string \<Rightarrow> sub_string_filter \<Rightarrow> user_request_filter ldap_result" where
  "convert_user_substring schema field substring_filter =
     (let field = AttributeName_from field;
          unsupported = Err (LdapError UnwillingToPerform
            (''Unsupported user attribute for substring filter: '' @ quoted (AttributeName_as_str field)))
      in case map_user_field field schema of
        UFPrimaryField ColUserId \<Rightarrow> Ok (UUserIdSubString substring_filter)
      | UFAttribute _ _ _ \<Rightarrow> unsupported
      | UFObjectClass \<Rightarrow> unsupported
      | UFMemberOf \<Rightarrow> unsupported
      | UFDn \<Rightarrow> unsupported
      | UFEntryDn \<Rightarrow> unsupported
      | UFPrimaryField ColCreationDate \<Rightarrow> unsupported
      | UFPrimaryField ColUuid \<Rightarrow> unsupported
      | UFNoMatch \<Rightarrow> Ok (UserRequestFilter_from_bool False)
      | UFPrimaryField ColEmail \<Rightarrow> Ok (USubString ColLowercaseEmail substring_filter)
      | UFPrimaryField column \<Rightarrow> Ok (USubString column substring_filter))"

fun convert_user_filter ::
  "externals \<Rightarrow> ldap_info \<Rightarrow> public_schema \<Rightarrow> ldap_filter \<Rightarrow> user_request_filter ldap_result" where
  "convert_user_filter ext ldap_info schema (FAnd filters) =
     bind_result (collect_results (convert_user_filter ext ldap_info schema) filters) (\<lambda>fs. Ok (UAnd fs))"
| "convert_user_filter ext ldap_info schema (FOr filters) =
     bind_result (collect_results (convert_user_filter ext ldap_info schema) filters) (\<lambda>fs. Ok (UOr fs))"
| "convert_user_filter ext ldap_info schema (FNot f) =
     bind_result (convert_user_filter ext ldap_info schema f) (\<lambda>g. Ok (UNot g))"
| "convert_user_filter ext ldap_info schema (FEquality field v) =
     convert_user_equality ext ldap_info schema field v"
| "convert_user_filter ext ldap_info schema (FPresent field) =
     (let field = AttributeName_from field in
      Ok (UserRequestFilter_from_bool
        (AttributeName_as_str field = ''objectclass'' \<or> AttributeName_as_str field = ''dn''
         \<or> AttributeName_as_str field = ''distinguishedname''
         \<or> map_user_field field schema \<noteq> UFNoMatch)))"
| "convert_user_filter ext ldap_info schema (FSubstring field substring_filter) =
     convert_user_substring schema field substring_filter"
| "convert_user_filter ext ldap_info schema (OtherFilter _) =
     Err (LdapError UnwillingToPerform ''Unsupported user filter: '')"

section \<open>Searches\<close>

definition expand_user_attribute_wildcards :: "string list \<Rightarrow> string list" where
  "expand_user_attribute_wildcards attrs = expand_attribute_wildcards attrs ALL_USER_ATTRIBUTE_KEYS"

text \<open>\<open>list_users\<close> is the operation of the backend given to \<open>get_user_list\<close>.\<close>

definition get_user_list ::
  "externals \<Rightarrow> ldap_info \<Rightarrow> ldap_filter \<Rightarrow> bool \<Rightarrow> string
     \<Rightarrow> (user_request_filter option \<Rightarrow> bool \<Rightarrow> ('s, user_and_groups list) backend_action)
     \<Rightarrow> public_schema \<Rightarrow> ('s, user_and_groups list, ldap_error) action" where
  "get_user_list ext ldap_info ldap_filter request_groups base list_users schema =
     bind (lift_result (convert_user_filter ext ldap_info schema ldap_filter)) (\<lambda>filters.
       map_err_action (\<lambda>e. LdapError Other (''Error while searching user '' @ quoted base @ '': ''))
         (list_users (Some filters) request_groups))"

definition convert_users_to_ldap_op ::
  "externals \<Rightarrow> user_and_groups list \<Rightarrow> string list \<Rightarrow> ldap_info \<Rightarrow> public_schema
     \<Rightarrow> (ldap_op list, 'e) result" where
  "convert_users_to_ldap_op ext users attrs ldap_info schema =
     collect_results (\<lambda>u.
         map_ok SearchResultEntry
           (make_ldap_search_user_result_entry ext (ug_user u) (li_base_dn_str ldap_info)
              (expand_user_attribute_wildcards attrs) (ug_groups u)
              (li_ignored_user_attributes ldap_info) schema))
       users"

section \<open>Lemmas\<close>

text \<open>Every stored value of a declared attribute decodes at its declared type.\<close>

definition attrs_typed :: "externals \<Rightarrow> attribute_list \<Rightarrow> attribute_value list \<Rightarrow> bool" where
  "attrs_typed ext l attrs \<longleftrightarrow> (\<forall>a\<in>set attrs. case get_attribute_type l (av_name a) of
       None \<Rightarrow> True | Some t \<Rightarrow> Serialized_convert_to ext t (av_value a) \<noteq> None)"

definition user_typed :: "externals \<Rightarrow> public_schema \<Rightarrow> user \<Rightarrow> bool" where
  "user_typed ext schema u \<longleftrightarrow> attrs_typed ext (SchemaUserAttributeExtractor schema) (u_attributes u)"

lemma custom_attribute_Ok:
  assumes "attrs_typed ext (extractor schema) attrs"
  shows "\<exists>v. get_custom_attribute ext extractor attrs name schema = Ok v"
proof (cases "get_attribute_type (extractor schema) name")
  case (Some t)
  show ?thesis
  proof (cases "find (\<lambda>a. av_name a = name) attrs")
    case (Some a)
    with assms \<open>get_attribute_type (extractor schema) name = Some t\<close>
    have "Serialized_convert_to ext t (av_value a) \<noteq> None"
      by (auto simp: attrs_typed_def dest!: find_SomeD)
    with Some \<open>get_attribute_type (extractor schema) name = Some t\<close> show ?thesis
      by (auto simp: get_custom_attribute_def Serialized_unwrap_def)
  qed (simp add: get_custom_attribute_def Some)
qed (simp add: get_custom_attribute_def)

lemma map_user_field_columns:
  "map_user_field field schema = UFPrimaryField c \<Longrightarrow>
     c \<in> {ColUserId, ColEmail, ColDisplayName, ColCreationDate, ColUuid}"
  by (auto simp: map_user_field_def Let_def split: if_splits option.splits)

lemma lower_star: "to_ascii_lowercase a = ''*'' \<longleftrightarrow> a = ''*''"
proof (cases a)
  case (Cons c cs)
  obtain b0 b1 b2 b3 b4 b5 b6 b7 where "c = Char b0 b1 b2 b3 b4 b5 b6 b7" by (cases c)
  with Cons show ?thesis by (cases b5) auto
qed simp

lemma get_user_attribute_Ok:
  assumes "user_typed ext schema user" and "a \<noteq> ''*''"
  shows "\<exists>v. get_user_attribute ext user a base groups ignored schema = Ok v"
proof -
  let ?f = "map_user_field (AttributeName_from a) schema"
  have custom: "\<exists>v. get_custom_attribute ext SchemaUserAttributeExtractor (u_attributes user) n schema = Ok v" for n
    using assms(1) by (simp add: user_typed_def custom_attribute_Ok)
  show ?thesis
  proof (cases ?f)
    case (UFPrimaryField c)
    then show ?thesis using map_user_field_columns [OF UFPrimaryField]
      by (auto simp: get_user_attribute_def Let_def)
  next
    case UFNoMatch
    then show ?thesis using custom [of "AttributeName_from a"] assms(2)
      by (auto simp: get_user_attribute_def Let_def lower_star)
  next
    case (UFAttribute n t l)
    then show ?thesis using custom [of n] by (auto simp: get_user_attribute_def Let_def)
  qed (auto simp: get_user_attribute_def Let_def)
qed

lemma collect_attributes_Ok_ex:
  "\<forall>a\<in>set as. \<exists>v. f a = Ok v \<Longrightarrow> \<exists>vs. collect_attributes f as = Ok vs"
  by (induction "as") auto

lemma collect_results_Ok_ex:
  "\<forall>x\<in>set xs. \<exists>y. f x = Ok y \<Longrightarrow> \<exists>ys. collect_results f xs = Ok ys"
  by (induction xs) auto

lemma expand_user_no_star: "''*'' \<notin> set (expand_user_attribute_wildcards attrs)"
  using expand_subset [of "''*''" attrs ALL_USER_ATTRIBUTE_KEYS]
  by (auto simp: expand_user_attribute_wildcards_def ALL_USER_ATTRIBUTE_KEYS_def)

lemma convert_user_equality_no_panic:
  "dn_is_lower (li_base_dn ldap_info) \<Longrightarrow> convert_user_equality ext ldap_info schema field v \<noteq> Panic"
  by (auto simp: convert_user_equality_def Let_def get_user_attribute_equality_filter_def
      deserialize_no_panic get_group_id_from_distinguished_name_def
      get_user_id_from_distinguished_name_def get_id_panic_iff
      split: user_field_type.splits user_column.splits result.splits)

lemma convert_user_substring_no_panic: "convert_user_substring schema field ss \<noteq> Panic"
  by (auto simp: convert_user_substring_def Let_def split: user_field_type.splits user_column.splits)

lemma convert_user_filter_no_panic:
  "dn_is_lower (li_base_dn ldap_info) \<Longrightarrow> convert_user_filter ext ldap_info schema f \<noteq> Panic"
proof (induction ext ldap_info schema f rule: convert_user_filter.induct)
  case (1 ext ldap_info schema fs)
  then have "collect_results (convert_user_filter ext ldap_info schema) fs \<noteq> Panic"
    by (auto intro!: collect_results_no_panic)
  then show ?case by (auto simp: bind_result_Panic_iff)
next
  case (2 ext ldap_info schema fs)
  then have "collect_results (convert_user_filter ext ldap_info schema) fs \<noteq> Panic"
    by (auto intro!: collect_results_no_panic)
  then show ?case by (auto simp: bind_result_Panic_iff)
qed (auto simp: bind_result_Panic_iff convert_user_equality_no_panic convert_user_substring_no_panic Let_def)

text \<open>Request filters that the SQL backend accepts: no raw equality on the user id column.\<close>

fun user_filter_ok :: "user_request_filter \<Rightarrow> bool" where
  "user_filter_ok (UAnd fs) = (\<forall>f\<in>set fs. user_filter_ok f)"
| "user_filter_ok (UOr fs) = (\<forall>f\<in>set fs. user_filter_ok f)"
| "user_filter_ok (UNot f) = user_filter_ok f"
| "user_filter_ok (UEquality c _) = (c \<noteq> ColUserId)"
| "user_filter_ok _ = True"

lemma convert_user_equality_ok:
  "convert_user_equality ext ldap_info schema field v = Ok f \<Longrightarrow> user_filter_ok f"
  by (auto simp: convert_user_equality_def Let_def get_user_attribute_equality_filter_def
      UserRequestFilter_from_bool_def
      split: user_field_type.splits user_column.splits result.splits if_splits)

lemma convert_user_substring_ok: "convert_user_substring schema field ss = Ok f \<Longrightarrow> user_filter_ok f"
  by (auto simp: convert_user_substring_def Let_def UserRequestFilter_from_bool_def
      split: user_field_type.splits user_column.splits)

lemma list_all2_all_right: "list_all2 P xs ys \<Longrightarrow> (\<And>x y. x \<in> set xs \<Longrightarrow> P x y \<Longrightarrow> Q y) \<Longrightarrow> \<forall>y\<in>set ys. Q y"
  by (induction rule: list_all2_induct) auto

lemma convert_user_filter_ok:
  "convert_user_filter ext ldap_info schema f = Ok g \<Longrightarrow> user_filter_ok g"
proof (induction ext ldap_info schema f arbitrary: g rule: convert_user_filter.induct)
  case (1 ext ldap_info schema fs)
  then show ?case by (auto simp: collect_results_Ok_iff dest!: list_all2_all_right [where Q = user_filter_ok])
next
  case (2 ext ldap_info schema fs)
  then show ?case by (auto simp: collect_results_Ok_iff dest!: list_all2_all_right [where Q = user_filter_ok])
qed (auto simp: convert_user_equality_ok convert_user_substring_ok UserRequestFilter_from_bool_def Let_def)

text \<open>The name of a search result entry.\<close>

fun entry_dn :: "ldap_op \<Rightarrow> string option" where
  "entry_dn (SearchResultEntry e) = Some (sre_dn e)"
| "entry_dn _ = None"

definition user_dn :: "string \<Rightarrow> user_id \<Rightarrow> string" where
  "user_dn base u = ''uid='' @ UserId_as_str u @ '',ou=people,'' @ base"

lemma user_entry_Ok:
  assumes "user_typed ext schema u"
  shows "\<exists>e. make_ldap_search_user_result_entry ext u base (expand_user_attribute_wildcards attrs)
           groups ignored schema = Ok e \<and> sre_dn e = user_dn base (u_user_id u)"
proof -
  have "\<forall>a\<in>set (expand_user_attribute_wildcards attrs).
      \<exists>v. get_user_attribute ext u a base groups ignored schema = Ok v"
    using get_user_attribute_Ok [OF assms] expand_user_no_star by metis
  from collect_attributes_Ok_ex [OF this] show ?thesis
    by (auto simp: make_ldap_search_user_result_entry_def user_dn_def)
qed

lemma convert_users_dns:
  "convert_users_to_ldap_op ext users attrs ldap_info schema = Ok ops \<Longrightarrow>
     map entry_dn ops = map (\<lambda>u. Some (user_dn (li_base_dn_str ldap_info) (u_user_id (ug_user u)))) users"
  unfolding convert_users_to_ldap_op_def
  by (induction users arbitrary: ops)
     (auto simp: make_ldap_search_user_result_entry_def user_dn_def)

lemma convert_users_Ok:
  assumes "\<forall>u\<in>set users. user_typed ext schema (ug_user u)"
  shows "\<exists>ops. convert_users_to_ldap_op ext users attrs ldap_info schema = Ok ops"
  unfolding convert_users_to_ldap_op_def
proof (rule collect_results_Ok_ex, rule ballI)
  fix u assume "u \<in> set users"
  with assms have "user_typed ext schema (ug_user u)" by blast
  from user_entry_Ok [OF this] show "\<exists>y. map_ok SearchResultEntry (make_ldap_search_user_result_entry ext (ug_user u)
      (li_base_dn_str ldap_info) (expand_user_attribute_wildcards attrs) (ug_groups u)
      (li_ignored_user_attributes ldap_info) schema) = Ok y" by (metis map_ok.simps(1))
qed

end
