(* ===== verification/Ldap_Group.thy ===== *)
theory Ldap_Group
  imports Ldap_User
begin

text \<open>
  \<open>server/src/domain/ldap/group.rs\<close>: LDAP attributes of a group, LDAP filters to group request
  filters, and group search results.
\<close>

section \<open>Attributes\<close>

definition get_group_attribute ::
  "externals \<Rightarrow> group \<Rightarrow> string \<Rightarrow> string \<Rightarrow> user_id option \<Rightarrow> attribute_name list
     \<Rightarrow> public_schema \<Rightarrow> (bytes list option, 'e) result" where
  "get_group_attribute ext grp base_dn_str attribute user_filter ignored_group_attributes schema =
     (let attribute = AttributeName_from attribute;
          custom = (\<lambda>attr. get_custom_attribute ext SchemaGroupAttributeExtractor
                            (g_attributes grp) attr schema);
          values = (case map_group_field attribute schema of
             GFObjectClass \<Rightarrow> Ok (Some ([''groupOfUniqueNames'']
                 @ map LdapObjectClass_as_str (extra_group_object_classes (get_schema schema))))
           | GFDn \<Rightarrow> Ok None
           | GFEntryDn \<Rightarrow> Ok (Some
               [''uid='' @ GroupName_as_str (g_display_name grp) @ '',ou=groups,'' @ base_dn_str])
           | GFDisplayName \<Rightarrow> Ok (Some [GroupName_as_str (g_display_name grp)])
           | GFCreationDate \<Rightarrow> Ok (Some [to_rfc3339 ext (g_creation_date grp)])
           | GFMember \<Rightarrow> Ok (Some (map
               (\<lambda>u. ''uid='' @ UserId_as_str u @ '',ou=people,'' @ base_dn_str)
               (filter (\<lambda>u. case user_filter of None \<Rightarrow> True | Some f \<Rightarrow> u = f) (g_users grp))))
           | GFUuid \<Rightarrow> Ok (Some [Uuid_as_str (g_uuid grp)])
           | GFAttribute attr _ _ \<Rightarrow> custom attr
           | GFNoMatch \<Rightarrow>
               (if AttributeName_as_str attribute = ''1.1'' then Ok None
                else if AttributeName_as_str attribute = ''+'' then Ok None
                else if AttributeName_as_str attribute = ''*'' then Panic
                else if attribute \<in> set ignored_group_attributes then Ok None
                else custom attribute))
      in map_ok (\<lambda>v. Option.bind v nonempty_values) values)"

definition ALL_GROUP_ATTRIBUTE_KEYS :: "string list" where
  "ALL_GROUP_ATTRIBUTE_KEYS =
     [''objectclass'', ''uid'', ''cn'', ''member'', ''uniquemember'', ''entryuuid'']"

definition expand_group_attribute_wildcards :: "string list \<Rightarrow> string list" where
  "expand_group_attribute_wildcards attrs = expand_attribute_wildcards attrs ALL_GROUP_ATTRIBUTE_KEYS"

definition make_ldap_search_group_result_entry ::
  "externals \<Rightarrow> group \<Rightarrow> string \<Rightarrow> string list \<Rightarrow> user_id option \<Rightarrow> attribute_name list
     \<Rightarrow> public_schema \<Rightarrow> (ldap_search_result_entry, 'e) result" where
  "make_ldap_search_group_result_entry ext grp base_dn_str expanded_attributes user_filter ignored schema =
     map_ok (\<lambda>attrs.
         \<lparr>sre_dn = ''cn='' @ GroupName_as_str (g_display_name grp) @ '',ou=groups,'' @ base_dn_str,
          sre_attributes = attrs\<rparr>)
       (collect_attributes
          (\<lambda>a. get_group_attribute ext grp base_dn_str a user_filter ignored schema) expanded_attributes)"

section \<open>Filters\<close>

definition get_group_attribute_equality_filter ::
  "externals \<Rightarrow> attribute_name \<Rightarrow> attribute_type \<Rightarrow> bool \<Rightarrow> string \<Rightarrow> group_request_filter ldap_result" where
  "get_group_attribute_equality_filter ext field typ is_list v =
     map_ok (GAttributeEquality field)
       (map_err (\<lambda>e. LdapError Other
            (''Invalid value for attribute '' @ AttributeName_as_str field @ '': '' @ e))
          (deserialize_attribute_value ext [v] typ is_list))"

definition convert_group_equality ::
  "externals \<Rightarrow> ldap_info \<Rightarrow> public_schema \<Rightarrow> string \<Rightarrow> string \<Rightarrow> group_request_filter ldap_result" where
  "convert_group_equality ext ldap_info schema field v =
     (let field = AttributeName_from field; v = to_ascii_lowercase v;
          dn_filter = (case get_group_id_from_distinguished_name v
              (li_base_dn ldap_info) (li_base_dn_str ldap_info) of
             Ok g \<Rightarrow> Ok (GDisplayName g)
           | Err _ \<Rightarrow> Ok (GroupRequestFilter_from_bool False)
           | Panic \<Rightarrow> Panic)
      in case map_group_field field schema of
        GFDisplayName \<Rightarrow> Ok (GDisplayName (GroupName v))
      | GFUuid \<Rightarrow> map_ok GUuid (ok_or (LdapError InappropriateMatching ''Invalid UUID: '')
          (Uuid_try_from ext v))
      | GFMember \<Rightarrow> map_ok GMember (get_user_id_from_distinguished_name v
          (li_base_dn ldap_info) (li_base_dn_str ldap_info))
      | GFObjectClass \<Rightarrow> Ok (GroupRequestFilter_from_bool
          (v \<in> set [''groupofuniquenames'', ''groupofnames'']
           \<or> ldap_object_class_in ext (LdapObjectClass v) (extra_group_object_classes (get_schema schema))))
      | GFDn \<Rightarrow> dn_filter
      | GFEntryDn \<Rightarrow> dn_filter
      | GFNoMatch \<Rightarrow> Ok (GroupRequestFilter_from_bool False)
      | GFAttribute field typ is_list \<Rightarrow> get_group_attribute_equality_filter ext field typ is_list v
      | GFCreationDate \<Rightarrow> Err (LdapError UnwillingToPerform
          ''Creation date filter for groups not supported''))"

definition convert_group_substring ::
  "public_schema \<Rightarrow> string \<Rightarrow> sub_string_filter \<Rightarrow> group_request_filter ldap_result" where
  "convert_group_substring schema field substring_filter =
     (let field = AttributeName_from field in
      case map_group_field field schema of
        GFDisplayName \<Rightarrow> Ok (GDisplayNameSubString substring_filter)
      | GFNoMatch \<Rightarrow> Ok (GroupRequestFilter_from_bool False)
      | _ \<Rightarrow> Err (LdapError UnwillingToPerform
          (''Unsupported group attribute for substring filter: '' @ quoted (AttributeName_as_str field))))"

fun convert_group_filter ::
  "externals \<Rightarrow> ldap_info \<Rightarrow> public_schema \<Rightarrow> ldap_filter \<Rightarrow> group_request_filter ldap_result" where
  "convert_group_filter ext ldap_info schema (FEquality field v) =
     convert_group_equality ext ldap_info schema field v"
| "convert_group_filter ext ldap_info schema (FAnd filters) =
     bind_result (collect_results (convert_group_filter ext ldap_info schema) filters) (\<lambda>fs. Ok (GAnd fs))"
| "convert_group_filter ext ldap_info schema (FOr filters) =
     bind_result (collect_results (convert_group_filter ext ldap_info schema) filters) (\<lambda>fs. Ok (GOr fs))"
| "convert_group_filter ext ldap_info schema (FNot f) =
     bind_result (convert_group_filter ext ldap_info schema f) (\<lambda>g. Ok (GNot g))"
| "convert_group_filter ext ldap_info schema (FPresent field) =
     Ok (GroupRequestFilter_from_bool (map_group_field (AttributeName_from field) schema \<noteq> GFNoMatch))"
| "convert_group_filter ext ldap_info schema (FSubstring field substring_filter) =
     convert_group_substring schema field substring_filter"
| "convert_group_filter ext ldap_info schema (OtherFilter _) =
     Err (LdapError UnwillingToPerform ''Unsupported group filter: '')"

section \<open>Searches\<close>

definition get_groups_list ::
  "externals \<Rightarrow> ldap_info \<Rightarrow> ldap_filter \<Rightarrow> string
     \<Rightarrow> (group_request_filter option \<Rightarrow> ('s, group list) backend_action)
     \<Rightarrow> public_schema \<Rightarrow> ('s, group list, ldap_error) action" where
  "get_groups_list ext ldap_info ldap_filter base list_groups schema =
     bind (lift_result (convert_group_filter ext ldap_info schema ldap_filter)) (\<lambda>filters.
       map_err_action (\<lambda>e. LdapError Other (''Error while listing groups '' @ quoted base @ '': ''))
         (list_groups (Some filters)))"

definition convert_groups_to_ldap_op ::
  "externals \<Rightarrow> group list \<Rightarrow> string list \<Rightarrow> ldap_info \<Rightarrow> user_id option \<Rightarrow> public_schema
     \<Rightarrow> (ldap_op list, 'e) result" where
  "convert_groups_to_ldap_op ext groups attrs ldap_info user_filter schema =
     collect_results (\<lambda>g.
         map_ok SearchResultEntry
           (make_ldap_search_group_result_entry ext g (li_base_dn_str ldap_info)
              (expand_group_attribute_wildcards attrs) user_filter
              (li_ignored_group_attributes ldap_info) schema))
       groups"

section \<open>Lemmas\<close>

definition group_typed :: "externals \<Rightarrow> public_schema \<Rightarrow> group \<Rightarrow> bool" where
  "group_typed ext schema g \<longleftrightarrow> attrs_typed ext (SchemaGroupAttributeExtractor schema) (g_attributes g)"

lemma convert_group_equality_no_panic:
  "dn_is_lower (li_base_dn ldap_info) \<Longrightarrow> convert_group_equality ext ldap_info schema field v \<noteq> Panic"
  by (auto simp: convert_group_equality_def Let_def get_group_attribute_equality_filter_def
      deserialize_no_panic get_group_id_from_distinguished_name_def
      get_user_id_from_distinguished_name_def get_id_panic_iff
      split: group_field_type.splits result.splits)

lemma convert_group_substring_no_panic: "convert_group_substring schema field ss \<noteq> Panic"
  by (auto simp: convert_group_substring_def Let_def split: group_field_type.splits)

lemma convert_group_filter_no_panic:
  "dn_is_lower (li_base_dn ldap_info) \<Longrightarrow> convert_group_filter ext ldap_info schema f \<noteq> Panic"
proof (induction ext ldap_info schema f rule: convert_group_filter.induct)
  case (2 ext ldap_info schema fs)
  then have "collect_results (convert_group_filter ext ldap_info schema) fs \<noteq> Panic"
    by (auto intro!: collect_results_no_panic)
  then show ?case by (auto simp: bind_result_Panic_iff)
next
  case (3 ext ldap_info schema fs)
  then have "collect_results (convert_group_filter ext ldap_info schema) fs \<noteq> Panic"
    by (auto intro!: collect_results_no_panic)
  then show ?case by (auto simp: bind_result_Panic_iff)
qed (auto simp: bind_result_Panic_iff convert_group_equality_no_panic convert_group_substring_no_panic)

lemma get_group_attribute_Ok:
  assumes "group_typed ext schema grp" and "a \<noteq> ''*''"
  shows "\<exists>v. get_group_attribute ext grp base a user_filter ignored schema = Ok v"
proof -
  have custom: "\<exists>v. get_custom_attribute ext SchemaGroupAttributeExtractor (g_attributes grp) n schema = Ok v" for n
    using assms(1) by (simp add: group_typed_def custom_attribute_Ok)
  show ?thesis
  proof (cases "map_group_field (AttributeName_from a) schema")
    case GFNoMatch
    then show ?thesis using custom [of "AttributeName_from a"] assms(2)
      by (auto simp: get_group_attribute_def Let_def lower_star)
  next
    case (GFAttribute n t l)
    then show ?thesis using custom [of n] by (auto simp: get_group_attribute_def Let_def)
  qed (auto simp: get_group_attribute_def Let_def)
qed

lemma expand_group_no_star: "''*'' \<notin> set (expand_group_attribute_wildcards attrs)"
  using expand_subset [of "''*''" attrs ALL_GROUP_ATTRIBUTE_KEYS]
  by (auto simp: expand_group_attribute_wildcards_def ALL_GROUP_ATTRIBUTE_KEYS_def)

definition group_dn :: "string \<Rightarrow> group_name \<Rightarrow> string" where
  "group_dn base g = ''cn='' @ GroupName_as_str g @ '',ou=groups,'' @ base"

lemma group_entry_Ok:
  assumes "group_typed ext schema g"
  shows "\<exists>e. make_ldap_search_group_result_entry ext g base (expand_group_attribute_wildcards attrs)
           user_filter ignored schema = Ok e \<and> sre_dn e = group_dn base (g_display_name g)"
proof -
  have "\<forall>a\<in>set (expand_group_attribute_wildcards attrs).
      \<exists>v. get_group_attribute ext g base a user_filter ignored schema = Ok v"
    using get_group_attribute_Ok [OF assms] expand_group_no_star by metis
  from collect_attributes_Ok_ex [OF this] show ?thesis
    by (auto simp: make_ldap_search_group_result_entry_def group_dn_def)
qed

lemma convert_groups_dns:
  "convert_groups_to_ldap_op ext groups attrs ldap_info user_filter schema = Ok ops \<Longrightarrow>
     map entry_dn ops = map (\<lambda>g. Some (group_dn (li_base_dn_str ldap_info) (g_display_name g))) groups"
  unfolding convert_groups_to_ldap_op_def
  by (induction groups arbitrary: ops)
     (auto simp: make_ldap_search_group_result_entry_def group_dn_def)

lemma convert_groups_Ok:
  assumes "\<forall>g\<in>set groups. group_typed ext schema g"
  shows "\<exists>ops. convert_groups_to_ldap_op ext groups attrs ldap_info user_filter schema = Ok ops"
  unfolding convert_groups_to_ldap_op_def
proof (rule collect_results_Ok_ex, rule ballI)
  fix g assume "g \<in> set groups"
  with assms have "group_typed ext schema g" by blast
  from group_entry_Ok [OF this] show "\<exists>y. map_ok SearchResultEntry (make_ldap_search_group_result_entry ext g
      (li_base_dn_str ldap_info) (expand_group_attribute_wildcards attrs) user_filter
      (li_ignored_group_attributes ldap_info) schema) = Ok y" by (metis map_ok.simps(1))
qed

end
