(* ===== verification/Sql_Db.thy ===== *)
theory Sql_Db
  imports Deserialize
begin

text \<open>
  The database at schema version 10: the tables of \<open>server/src/domain/model/\<close> as lists of rows, with the
  constraints \<open>sql_migrations.rs\<close> and \<open>jwt_sql_tables.rs\<close> declare (primary keys, unique indexes, foreign
  keys with cascade), and the row operations the handlers issue. The SQL dialect is the default one,
  SQLite: binary collation, \<open>LIKE\<close> without an escape character, three-valued logic for \<open>NULL\<close>.
\<close>

section \<open>Tables\<close>

record users_row =
  usr_user_id :: user_id
  usr_email :: email
  usr_lowercase_email :: string
  usr_display_name :: "string option"
  usr_creation_date :: naive_date_time
  usr_password_hash :: "bytes option"
  usr_totp_secret :: "string option"
  usr_mfa_type :: "string option"
  usr_uuid :: uuid

record groups_row =
  grp_group_id :: group_id
  grp_display_name :: group_name
  grp_lowercase_display_name :: string
  grp_creation_date :: naive_date_time
  grp_uuid :: uuid

record memberships_row =
  mem_user_id :: user_id
  mem_group_id :: group_id

record user_attributes_row =
  uat_user_id :: user_id
  uat_attribute_name :: attribute_name
  uat_value :: serialized

record group_attributes_row =
  gat_group_id :: group_id
  gat_attribute_name :: attribute_name
  gat_value :: serialized

record user_attribute_schema_row =
  uas_attribute_name :: attribute_name
  uas_attribute_type :: attribute_type
  uas_is_list :: bool
  uas_is_user_visible :: bool
  uas_is_user_editable :: bool
  uas_is_hardcoded :: bool

record group_attribute_schema_row =
  gas_attribute_name :: attribute_name
  gas_attribute_type :: attribute_type
  gas_is_list :: bool
  gas_is_group_visible :: bool
  gas_is_group_editable :: bool
  gas_is_hardcoded :: bool

record object_class_row =
  oc_lower_object_class :: string
  oc_object_class :: ldap_object_class

record jwt_refresh_row =
  jr_refresh_token_hash :: int
  jr_user_id :: user_id
  jr_expiry_date :: naive_date_time

record jwt_storage_row =
  js_jwt_hash :: int
  js_user_id :: user_id
  js_expiry_date :: naive_date_time
  js_blacklisted :: bool

record password_reset_row =
  pr_token :: string
  pr_user_id :: user_id
  pr_expiry_date :: naive_date_time

record db =
  db_users :: "users_row list"
  db_groups :: "groups_row list"
  db_memberships :: "memberships_row list"
  db_user_attributes :: "user_attributes_row list"
  db_group_attributes :: "group_attributes_row list"
  db_user_attribute_schema :: "user_attribute_schema_row list"
  db_group_attribute_schema :: "group_attribute_schema_row list"
  db_user_object_classes :: "object_class_row list"
  db_group_object_classes :: "object_class_row list"
  db_jwt_refresh_storage :: "jwt_refresh_row list"
  db_jwt_storage :: "jwt_storage_row list"
  db_password_reset_tokens :: "password_reset_row list"
  db_next_group_id :: int

text \<open>The conversions from rows to domain values.\<close>

definition User_from :: "users_row \<Rightarrow> user" where
  "User_from r =
     \<lparr>u_user_id = usr_user_id r, u_email = usr_email r, u_display_name = usr_display_name r,
      u_creation_date = usr_creation_date r, u_uuid = usr_uuid r, u_attributes = []\<rparr>"

definition Group_from :: "groups_row \<Rightarrow> group" where
  "Group_from r =
     \<lparr>g_id = grp_group_id r, g_display_name = grp_display_name r, g_creation_date = grp_creation_date r,
      g_uuid = grp_uuid r, g_users = [], g_attributes = []\<rparr>"

definition GroupDetails_from :: "groups_row \<Rightarrow> group_details" where
  "GroupDetails_from r =
     \<lparr>gd_group_id = grp_group_id r, gd_display_name = grp_display_name r,
      gd_creation_date = grp_creation_date r, gd_uuid = grp_uuid r, gd_attributes = []\<rparr>"

definition AttributeValue_from_user :: "user_attributes_row \<Rightarrow> attribute_value" where
  "AttributeValue_from_user r = \<lparr>av_name = uat_attribute_name r, av_value = uat_value r\<rparr>"

definition AttributeValue_from_group :: "group_attributes_row \<Rightarrow> attribute_value" where
  "AttributeValue_from_group r = \<lparr>av_name = gat_attribute_name r, av_value = gat_value r\<rparr>"

definition AttributeSchema_from_user :: "user_attribute_schema_row \<Rightarrow> attribute_schema" where
  "AttributeSchema_from_user r =
     \<lparr>as_name = uas_attribute_name r, as_attribute_type = uas_attribute_type r, as_is_list = uas_is_list r,
      as_is_visible = uas_is_user_visible r, as_is_editable = uas_is_user_editable r,
      as_is_hardcoded = uas_is_hardcoded r\<rparr>"

definition AttributeSchema_from_group :: "group_attribute_schema_row \<Rightarrow> attribute_schema" where
  "AttributeSchema_from_group r =
     \<lparr>as_name = gas_attribute_name r, as_attribute_type = gas_attribute_type r, as_is_list = gas_is_list r,
      as_is_visible = gas_is_group_visible r, as_is_editable = gas_is_group_editable r,
      as_is_hardcoded = gas_is_hardcoded r\<rparr>"

text \<open>The \<open>{:?}\<close> rendering of a group id, and text between single quotes, as the error messages have them.\<close>

definition GroupId_debug :: "group_id \<Rightarrow> string" where
  "GroupId_debug g = ''GroupId('' @ i64_to_string (group_id_int g) @ '')''"

definition single_quoted :: "string \<Rightarrow> string" where
  "single_quoted s = CHR 0x27 # s @ [CHR 0x27]"

section \<open>Transactions and row operations\<close>

text \<open>A transaction commits on success and rolls back on an error or a panic.\<close>

definition transaction :: "(db, 'a) backend_action \<Rightarrow> (db, 'a) backend_action" where
  "transaction f s = (case f s of (Ok x, t) \<Rightarrow> (Ok x, t) | (Err e, _) \<Rightarrow> (Err e, s) | (Panic, _) \<Rightarrow> (Panic, s))"

lemma transaction_Ok_iff: "transaction f s = (Ok x, t) \<longleftrightarrow> f s = (Ok x, t)"
  by (auto simp: transaction_def split: prod.splits result.splits)

abbreviation db_unique :: "(db, 'a) backend_action" where
  "db_unique \<equiv> fail (DatabaseError ''UNIQUE constraint failed'')"

abbreviation db_foreign_key :: "(db, 'a) backend_action" where
  "db_foreign_key \<equiv> fail (DatabaseError ''FOREIGN KEY constraint failed'')"

definition user_exists :: "db \<Rightarrow> user_id \<Rightarrow> bool" where
  "user_exists s u \<longleftrightarrow> u \<in> usr_user_id ` set (db_users s)"

definition group_exists :: "db \<Rightarrow> group_id \<Rightarrow> bool" where
  "group_exists s g \<longleftrightarrow> g \<in> grp_group_id ` set (db_groups s)"

text \<open>The unique indexes of \<open>users\<close>: id, email, lowercase email, uuid.\<close>

definition users_conflict :: "users_row \<Rightarrow> users_row \<Rightarrow> bool" where
  "users_conflict r q \<longleftrightarrow> usr_user_id r = usr_user_id q \<or> usr_email r = usr_email q
     \<or> usr_lowercase_email r = usr_lowercase_email q \<or> usr_uuid r = usr_uuid q"

definition sql_insert_user :: "users_row \<Rightarrow> (db, unit) backend_action" where
  "sql_insert_user r s =
     (if list_ex (users_conflict r) (db_users s) then db_unique s
      else return () (s\<lparr>db_users := db_users s @ [r]\<rparr>))"

text \<open>
  \<open>ActiveModel::update\<close>: an error when no row has the key, an error when the new row clashes
  with another one.
\<close>

definition sql_update_user :: "user_id \<Rightarrow> (users_row \<Rightarrow> users_row) \<Rightarrow> (db, unit) backend_action" where
  "sql_update_user u f s =
     (case find (\<lambda>r. usr_user_id r = u) (db_users s) of
        None \<Rightarrow> fail (DatabaseError ''RecordNotUpdated'') s
      | Some r \<Rightarrow>
          if list_ex (\<lambda>q. usr_user_id q \<noteq> u \<and> users_conflict (f r) q) (db_users s) then db_unique s
          else return () (s\<lparr>db_users := map (\<lambda>q. if usr_user_id q = u then f q else q) (db_users s)\<rparr>))"

text \<open>Deleting a user cascades to every table that references it; the result counts the rows deleted.\<close>

definition sql_delete_user :: "user_id \<Rightarrow> (db, nat) backend_action" where
  "sql_delete_user u s =
     return (length (filter (\<lambda>r. usr_user_id r = u) (db_users s)))
       (s\<lparr>db_users := filter (\<lambda>r. usr_user_id r \<noteq> u) (db_users s),
          db_memberships := filter (\<lambda>m. mem_user_id m \<noteq> u) (db_memberships s),
          db_user_attributes := filter (\<lambda>a. uat_user_id a \<noteq> u) (db_user_attributes s),
          db_jwt_refresh_storage := filter (\<lambda>j. jr_user_id j \<noteq> u) (db_jwt_refresh_storage s),
          db_jwt_storage := filter (\<lambda>j. js_user_id j \<noteq> u) (db_jwt_storage s),
          db_password_reset_tokens := filter (\<lambda>t. pr_user_id t \<noteq> u) (db_password_reset_tokens s)\<rparr>)"

definition sql_insert_membership :: "memberships_row \<Rightarrow> (db, unit) backend_action" where
  "sql_insert_membership m s =
     (if m \<in> set (db_memberships s) then db_unique s
      else if \<not> user_exists s (mem_user_id m) \<or> \<not> group_exists s (mem_group_id m) then db_foreign_key s
      else return () (s\<lparr>db_memberships := db_memberships s @ [m]\<rparr>))"

definition sql_delete_membership :: "memberships_row \<Rightarrow> (db, nat) backend_action" where
  "sql_delete_membership m s =
     return (length (filter (\<lambda>q. q = m) (db_memberships s)))
       (s\<lparr>db_memberships := filter (\<lambda>q. q \<noteq> m) (db_memberships s)\<rparr>)"

definition user_attribute_fk :: "db \<Rightarrow> user_attributes_row \<Rightarrow> bool" where
  "user_attribute_fk s a \<longleftrightarrow> user_exists s (uat_user_id a)
     \<and> uat_attribute_name a \<in> uas_attribute_name ` set (db_user_attribute_schema s)"

definition same_user_attribute :: "user_attributes_row \<Rightarrow> user_attributes_row \<Rightarrow> bool" where
  "same_user_attribute a b \<longleftrightarrow> uat_user_id a = uat_user_id b \<and> uat_attribute_name a = uat_attribute_name b"

definition sql_insert_user_attribute :: "user_attributes_row \<Rightarrow> (db, unit) backend_action" where
  "sql_insert_user_attribute a s =
     (if list_ex (same_user_attribute a) (db_user_attributes s) then db_unique s
      else if \<not> user_attribute_fk s a then db_foreign_key s
      else return () (s\<lparr>db_user_attributes := db_user_attributes s @ [a]\<rparr>))"

text \<open>\<open>INSERT ... ON CONFLICT (user_id, name) DO UPDATE SET value\<close>.\<close>

definition sql_upsert_user_attribute :: "user_attributes_row \<Rightarrow> (db, unit) backend_action" where
  "sql_upsert_user_attribute a s =
     (if list_ex (same_user_attribute a) (db_user_attributes s) then
        return () (s\<lparr>db_user_attributes := map (\<lambda>b. if same_user_attribute a b
            then b\<lparr>uat_value := uat_value a\<rparr> else b) (db_user_attributes s)\<rparr>)
      else if \<not> user_attribute_fk s a then db_foreign_key s
      else return () (s\<lparr>db_user_attributes := db_user_attributes s @ [a]\<rparr>))"

definition sql_delete_user_attributes :: "user_id \<Rightarrow> attribute_name list \<Rightarrow> (db, unit) backend_action" where
  "sql_delete_user_attributes u names s =
     return () (s\<lparr>db_user_attributes := filter
         (\<lambda>a. \<not> (uat_user_id a = u \<and> uat_attribute_name a \<in> set names)) (db_user_attributes s)\<rparr>)"

definition groups_conflict :: "groups_row \<Rightarrow> groups_row \<Rightarrow> bool" where
  "groups_conflict r q \<longleftrightarrow> grp_group_id r = grp_group_id q \<or> grp_display_name r = grp_display_name q
     \<or> grp_lowercase_display_name r = grp_lowercase_display_name q \<or> grp_uuid r = grp_uuid q"

text \<open>The group id comes from the table's auto-increment counter.\<close>

definition sql_insert_group ::
  "group_name \<Rightarrow> string \<Rightarrow> naive_date_time \<Rightarrow> uuid \<Rightarrow> (db, group_id) backend_action" where
  "sql_insert_group name lname date uuid s =
     (let r = \<lparr>grp_group_id = GroupId (db_next_group_id s), grp_display_name = name,
               grp_lowercase_display_name = lname, grp_creation_date = date, grp_uuid = uuid\<rparr> in
      if list_ex (groups_conflict r) (db_groups s) then db_unique s
      else return (grp_group_id r)
        (s\<lparr>db_groups := db_groups s @ [r], db_next_group_id := db_next_group_id s + 1\<rparr>))"

definition sql_update_group :: "group_id \<Rightarrow> (groups_row \<Rightarrow> groups_row) \<Rightarrow> (db, unit) backend_action" where
  "sql_update_group g f s =
     (case find (\<lambda>r. grp_group_id r = g) (db_groups s) of
        None \<Rightarrow> fail (DatabaseError ''RecordNotUpdated'') s
      | Some r \<Rightarrow>
          if list_ex (\<lambda>q. grp_group_id q \<noteq> g \<and> groups_conflict (f r) q) (db_groups s) then db_unique s
          else return () (s\<lparr>db_groups := map (\<lambda>q. if grp_group_id q = g then f q else q) (db_groups s)\<rparr>))"

definition sql_delete_group :: "group_id \<Rightarrow> (db, nat) backend_action" where
  "sql_delete_group g s =
     return (length (filter (\<lambda>r. grp_group_id r = g) (db_groups s)))
       (s\<lparr>db_groups := filter (\<lambda>r. grp_group_id r \<noteq> g) (db_groups s),
          db_memberships := filter (\<lambda>m. mem_group_id m \<noteq> g) (db_memberships s),
          db_group_attributes := filter (\<lambda>a. gat_group_id a \<noteq> g) (db_group_attributes s)\<rparr>)"

definition group_attribute_fk :: "db \<Rightarrow> group_attributes_row \<Rightarrow> bool" where
  "group_attribute_fk s a \<longleftrightarrow> group_exists s (gat_group_id a)
     \<and> gat_attribute_name a \<in> gas_attribute_name ` set (db_group_attribute_schema s)"

definition same_group_attribute :: "group_attributes_row \<Rightarrow> group_attributes_row \<Rightarrow> bool" where
  "same_group_attribute a b \<longleftrightarrow> gat_group_id a = gat_group_id b \<and> gat_attribute_name a = gat_attribute_name b"

definition sql_insert_group_attribute :: "group_attributes_row \<Rightarrow> (db, unit) backend_action" where
  "sql_insert_group_attribute a s =
     (if list_ex (same_group_attribute a) (db_group_attributes s) then db_unique s
      else if \<not> group_attribute_fk s a then db_foreign_key s
      else return () (s\<lparr>db_group_attributes := db_group_attributes s @ [a]\<rparr>))"

definition sql_upsert_group_attribute :: "group_attributes_row \<Rightarrow> (db, unit) backend_action" where
  "sql_upsert_group_attribute a s =
     (if list_ex (same_group_attribute a) (db_group_attributes s) then
        return () (s\<lparr>db_group_attributes := map (\<lambda>b. if same_group_attribute a b
            then b\<lparr>gat_value := gat_value a\<rparr> else b) (db_group_attributes s)\<rparr>)
      else if \<not> group_attribute_fk s a then db_foreign_key s
      else return () (s\<lparr>db_group_attributes := db_group_attributes s @ [a]\<rparr>))"

definition sql_delete_group_attributes :: "group_id \<Rightarrow> attribute_name list \<Rightarrow> (db, unit) backend_action" where
  "sql_delete_group_attributes g names s =
     return () (s\<lparr>db_group_attributes := filter
         (\<lambda>a. \<not> (gat_group_id a = g \<and> gat_attribute_name a \<in> set names)) (db_group_attributes s)\<rparr>)"

end
