(* ===== verification/Sql_Filter.thy ===== *)
theory Sql_Filter
  imports Sql_Db
begin

text \<open>
  The SQL conditions of \<open>sql_user_backend_handler.rs\<close> and \<open>sql_group_backend_handler.rs\<close>: the expressions
  \<open>get_user_filter_expr\<close> and \<open>get_group_filter_expr\<close> build, and their value on a row (\<open>None\<close> is \<open>NULL\<close>).
\<close>

section \<open>LIKE\<close>

text \<open>The length in bytes of the UTF-8 character that starts with byte \<open>c\<close>.\<close>

definition utf8_len :: "char \<Rightarrow> nat" where
  "utf8_len c = (if c < CHR 0xC0 then 1 else if c < CHR 0xE0 then 2 else if c < CHR 0xF0 then 3 else 4)"

lemma utf8_len_pos [simp]: "0 < utf8_len c"
  by (simp add: utf8_len_def)

text \<open>\<open>%\<close> matches any characters, \<open>_\<close> exactly one, letters match up to ASCII case.\<close>

function (sequential) like_match :: "string \<Rightarrow> string \<Rightarrow> bool" where
  "like_match [] s = (s = [])"
| "like_match (c # p) s =
     (if c = CHR ''%'' then
        (like_match p s \<or> (case s of [] \<Rightarrow> False | d # _ \<Rightarrow> like_match (c # p) (drop (utf8_len d) s)))
      else if c = CHR ''_'' then
        (case s of [] \<Rightarrow> False | d # _ \<Rightarrow> like_match p (drop (utf8_len d) s))
      else (case s of [] \<Rightarrow> False
            | d # s' \<Rightarrow> char_to_ascii_lowercase c = char_to_ascii_lowercase d \<and> like_match p s'))"
  by pat_completeness auto
termination
  by (relation "measures [length \<circ> fst, length \<circ> snd]") auto

declare like_match.simps [simp del]

section \<open>Three-valued logic\<close>

definition sql_and :: "bool option list \<Rightarrow> bool option" where
  "sql_and vs = (if Some False \<in> set vs then Some False else if None \<in> set vs then None else Some True)"

definition sql_or :: "bool option list \<Rightarrow> bool option" where
  "sql_or vs = (if Some True \<in> set vs then Some True else if None \<in> set vs then None else Some False)"

definition sql_not :: "bool option \<Rightarrow> bool option" where
  "sql_not v = map_option Not v"

section \<open>User conditions\<close>

datatype user_cond =
    UcValue bool
  | UcAll "user_cond list"
  | UcAny "user_cond list"
  | UcNot user_cond
  | UcEq user_column string
  | UcLike user_column string
  | UcLowerLike user_column string
  | UcInAttributes attribute_name serialized
  | UcInMembershipsName string
  | UcInMembershipsId group_id

text \<open>\<open>user_id IN (SELECT user_id FROM user_attributes WHERE name = .. AND value = ..)\<close>.\<close>

definition user_attribute_condition :: "attribute_name \<Rightarrow> serialized \<Rightarrow> user_cond" where
  "user_attribute_condition name v = UcInAttributes name v"

text \<open>\<open>get_repeated_filter\<close>: an empty list is the constant \<open>default_value\<close>.\<close>

definition get_repeated_filter :: "user_cond list \<Rightarrow> (user_cond list \<Rightarrow> user_cond) \<Rightarrow> bool \<Rightarrow> user_cond" where
  "get_repeated_filter cs condition default_value =
     (if cs = [] then UcValue default_value else condition cs)"

fun get_user_filter_expr :: "externals \<Rightarrow> user_request_filter \<Rightarrow> (user_cond, 'e) result" where
  "get_user_filter_expr ext (UAnd fs) =
     bind_result (collect_results (get_user_filter_expr ext) fs) (\<lambda>cs. Ok (get_repeated_filter cs UcAll True))"
| "get_user_filter_expr ext (UOr fs) =
     bind_result (collect_results (get_user_filter_expr ext) fs) (\<lambda>cs. Ok (get_repeated_filter cs UcAny False))"
| "get_user_filter_expr ext (UNot f) = bind_result (get_user_filter_expr ext f) (\<lambda>c. Ok (UcNot c))"
| "get_user_filter_expr ext (UUserId user_id) = Ok (UcEq ColUserId (UserId_as_str user_id))"
| "get_user_filter_expr ext (UEquality column v) =
     (if column = ColUserId then Panic
      else if column = ColEmail then Ok (UcEq ColLowercaseEmail (str_to_lowercase ext v))
      else Ok (UcEq column v))"
| "get_user_filter_expr ext (UAttributeEquality column v) = Ok (user_attribute_condition column v)"
| "get_user_filter_expr ext (UMemberOf grp) =
     Ok (UcInMembershipsName (str_to_lowercase ext (GroupName_as_str grp)))"
| "get_user_filter_expr ext (UMemberOfId group_id) = Ok (UcInMembershipsId group_id)"
| "get_user_filter_expr ext (UUserIdSubString f) = Ok (UcLike ColUserId (to_sql_filter f))"
| "get_user_filter_expr ext (USubString col f) = Ok (UcLowerLike col (to_sql_filter f))"

text \<open>The text of a column, \<open>None\<close> for \<open>NULL\<close>.\<close>

fun user_col_text :: "externals \<Rightarrow> users_row \<Rightarrow> user_column \<Rightarrow> string option" where
  "user_col_text ext r ColUserId = Some (UserId_as_str (usr_user_id r))"
| "user_col_text ext r ColEmail = Some (Email_as_str (usr_email r))"
| "user_col_text ext r ColLowercaseEmail = Some (usr_lowercase_email r)"
| "user_col_text ext r ColDisplayName = usr_display_name r"
| "user_col_text ext r ColCreationDate = Some (sql_datetime_text ext (usr_creation_date r))"
| "user_col_text ext r ColPasswordHash = usr_password_hash r"
| "user_col_text ext r ColTotpSecret = usr_totp_secret r"
| "user_col_text ext r ColMfaType = usr_mfa_type r"
| "user_col_text ext r ColUuid = Some (Uuid_as_str (usr_uuid r))"

definition groups_of_user :: "db \<Rightarrow> user_id \<Rightarrow> groups_row list" where
  "groups_of_user s u = filter
     (\<lambda>g. \<lparr>mem_user_id = u, mem_group_id = grp_group_id g\<rparr> \<in> set (db_memberships s)) (db_groups s)"

fun eval_user_cond :: "externals \<Rightarrow> db \<Rightarrow> users_row \<Rightarrow> user_cond \<Rightarrow> bool option" where
  "eval_user_cond ext s r (UcValue b) = Some b"
| "eval_user_cond ext s r (UcAll cs) = sql_and (map (eval_user_cond ext s r) cs)"
| "eval_user_cond ext s r (UcAny cs) = sql_or (map (eval_user_cond ext s r) cs)"
| "eval_user_cond ext s r (UcNot c) = sql_not (eval_user_cond ext s r c)"
| "eval_user_cond ext s r (UcEq col v) =
     map_option (\<lambda>t. col \<noteq> ColPasswordHash \<and> t = v) (user_col_text ext r col)"
| "eval_user_cond ext s r (UcLike col p) = map_option (like_match p) (user_col_text ext r col)"
| "eval_user_cond ext s r (UcLowerLike col p) =
     map_option (\<lambda>t. like_match p (to_ascii_lowercase t)) (user_col_text ext r col)"
| "eval_user_cond ext s r (UcInAttributes name v) =
     Some (\<lparr>uat_user_id = usr_user_id r, uat_attribute_name = name, uat_value = v\<rparr> \<in> set (db_user_attributes s))"
| "eval_user_cond ext s r (UcInMembershipsName n) =
     Some (list_ex (\<lambda>g. grp_lowercase_display_name g = n) (groups_of_user s (usr_user_id r)))"
| "eval_user_cond ext s r (UcInMembershipsId i) =
     Some (list_ex (\<lambda>g. grp_group_id g = i) (groups_of_user s (usr_user_id r)))"

text \<open>The rows a \<open>WHERE\<close> clause selects.\<close>

definition where_users :: "externals \<Rightarrow> db \<Rightarrow> user_cond \<Rightarrow> users_row list" where
  "where_users ext s c = filter (\<lambda>r. eval_user_cond ext s r c = Some True) (db_users s)"

section \<open>Group conditions\<close>

datatype group_cond =
    GcValue bool
  | GcAll "group_cond list"
  | GcAny "group_cond list"
  | GcNot group_cond
  | GcLowercaseDisplayNameEq string
  | GcGroupIdEq group_id
  | GcUuidEq string
  | GcInMemberships user_id
  | GcLowerLike string
  | GcInAttributes attribute_name serialized

definition group_attribute_condition :: "attribute_name \<Rightarrow> serialized \<Rightarrow> group_cond" where
  "group_attribute_condition name v = GcInAttributes name v"

fun get_group_filter_expr :: "externals \<Rightarrow> group_request_filter \<Rightarrow> group_cond" where
  "get_group_filter_expr ext (GAnd fs) =
     (if fs = [] then GcValue True else GcAll (map (get_group_filter_expr ext) fs))"
| "get_group_filter_expr ext (GOr fs) =
     (if fs = [] then GcValue False else GcAny (map (get_group_filter_expr ext) fs))"
| "get_group_filter_expr ext (GNot f) = GcNot (get_group_filter_expr ext f)"
| "get_group_filter_expr ext (GDisplayName name) =
     GcLowercaseDisplayNameEq (str_to_lowercase ext (GroupName_as_str name))"
| "get_group_filter_expr ext (GGroupId i) = GcGroupIdEq i"
| "get_group_filter_expr ext (GUuid u) = GcUuidEq (Uuid_as_str u)"
| "get_group_filter_expr ext (GMember user) = GcInMemberships user"
| "get_group_filter_expr ext (GDisplayNameSubString f) = GcLowerLike (to_sql_filter f)"
| "get_group_filter_expr ext (GAttributeEquality name v) = group_attribute_condition name v"

fun eval_group_cond :: "db \<Rightarrow> groups_row \<Rightarrow> group_cond \<Rightarrow> bool option" where
  "eval_group_cond s r (GcValue b) = Some b"
| "eval_group_cond s r (GcAll cs) = sql_and (map (eval_group_cond s r) cs)"
| "eval_group_cond s r (GcAny cs) = sql_or (map (eval_group_cond s r) cs)"
| "eval_group_cond s r (GcNot c) = sql_not (eval_group_cond s r c)"
| "eval_group_cond s r (GcLowercaseDisplayNameEq n) = Some (grp_lowercase_display_name r = n)"
| "eval_group_cond s r (GcGroupIdEq i) = Some (grp_group_id r = i)"
| "eval_group_cond s r (GcUuidEq u) = Some (Uuid_as_str (grp_uuid r) = u)"
| "eval_group_cond s r (GcInMemberships u) =
     Some (\<lparr>mem_user_id = u, mem_group_id = grp_group_id r\<rparr> \<in> set (db_memberships s))"
| "eval_group_cond s r (GcLowerLike p) =
     Some (like_match p (to_ascii_lowercase (grp_lowercase_display_name r)))"
| "eval_group_cond s r (GcInAttributes name v) =
     Some (\<lparr>gat_group_id = grp_group_id r, gat_attribute_name = name, gat_value = v\<rparr> \<in> set (db_group_attributes s))"

definition where_groups :: "db \<Rightarrow> group_cond \<Rightarrow> groups_row list" where
  "where_groups s c = filter (\<lambda>r. eval_group_cond s r c = Some True) (db_groups s)"

section \<open>Lemmas\<close>

lemma sql_and_True: "sql_and vs = Some True \<longleftrightarrow> (\<forall>v\<in>set vs. v = Some True)"
proof -
  have "v = Some True \<longleftrightarrow> v \<noteq> Some False \<and> v \<noteq> None" for v by (cases v) auto
  then have "(\<forall>v\<in>set vs. v = Some True) \<longleftrightarrow> Some False \<notin> set vs \<and> None \<notin> set vs" by metis
  then show ?thesis by (simp add: sql_and_def)
qed

lemma get_repeated_all:
  "eval_user_cond ext s r (get_repeated_filter cs UcAll True) = sql_and (map (eval_user_cond ext s r) cs)"
  by (simp add: get_repeated_filter_def sql_and_def)

lemma get_repeated_any:
  "eval_user_cond ext s r (get_repeated_filter cs UcAny False) = sql_or (map (eval_user_cond ext s r) cs)"
  by (simp add: get_repeated_filter_def sql_or_def)

lemma eval_group_and:
  "eval_group_cond s r (get_group_filter_expr ext (GAnd fs))
     = sql_and (map (\<lambda>f. eval_group_cond s r (get_group_filter_expr ext f)) fs)"
  by (simp add: sql_and_def comp_def)

lemma eval_group_or:
  "eval_group_cond s r (get_group_filter_expr ext (GOr fs))
     = sql_or (map (\<lambda>f. eval_group_cond s r (get_group_filter_expr ext f)) fs)"
  by (simp add: sql_or_def comp_def)

end
