(* ===== verification/Sql_Schema.thy ===== *)
theory Sql_Schema
  imports Sql_Db
begin

text \<open>\<open>server/src/domain/sql_schema_backend_handler.rs\<close>: the stored schema and its changes.\<close>

section \<open>Reading\<close>

definition get_user_attributes :: "db \<Rightarrow> attribute_schema list" where
  "get_user_attributes s = map AttributeSchema_from_user
     (sort_key (\<lambda>r. AttributeName_as_str (uas_attribute_name r)) (db_user_attribute_schema s))"

definition get_group_attributes :: "db \<Rightarrow> attribute_schema list" where
  "get_group_attributes s = map AttributeSchema_from_group
     (sort_key (\<lambda>r. AttributeName_as_str (gas_attribute_name r)) (db_group_attribute_schema s))"

definition get_user_object_classes :: "db \<Rightarrow> ldap_object_class list" where
  "get_user_object_classes s = map oc_object_class
     (sort_key (\<lambda>r. LdapObjectClass_as_str (oc_object_class r)) (db_user_object_classes s))"

definition get_group_object_classes :: "db \<Rightarrow> ldap_object_class list" where
  "get_group_object_classes s = map oc_object_class
     (sort_key (\<lambda>r. LdapObjectClass_as_str (oc_object_class r)) (db_group_object_classes s))"

definition db_schema :: "db \<Rightarrow> schema" where
  "db_schema s =
     \<lparr>user_attributes = AttributeList (get_user_attributes s),
      group_attributes = AttributeList (get_group_attributes s),
      extra_user_object_classes = get_user_object_classes s,
      extra_group_object_classes = get_group_object_classes s\<rparr>"

definition get_schema_with_transaction :: "(db, schema) backend_action" where
  "get_schema_with_transaction s = return (db_schema s) s"

definition sql_get_schema :: "(db, schema) backend_action" where
  "sql_get_schema = transaction get_schema_with_transaction"

section \<open>Changes\<close>

definition add_user_attribute :: "create_attribute_request \<Rightarrow> (db, unit) backend_action" where
  "add_user_attribute request s =
     (if ca_name request \<in> uas_attribute_name ` set (db_user_attribute_schema s) then db_unique s
      else return () (s\<lparr>db_user_attribute_schema := db_user_attribute_schema s @
        [\<lparr>uas_attribute_name = ca_name request, uas_attribute_type = ca_attribute_type request,
          uas_is_list = ca_is_list request, uas_is_user_visible = ca_is_visible request,
          uas_is_user_editable = ca_is_editable request, uas_is_hardcoded = False\<rparr>]\<rparr>))"

definition add_group_attribute :: "create_attribute_request \<Rightarrow> (db, unit) backend_action" where
  "add_group_attribute request s =
     (if ca_name request \<in> gas_attribute_name ` set (db_group_attribute_schema s) then db_unique s
      else return () (s\<lparr>db_group_attribute_schema := db_group_attribute_schema s @
        [\<lparr>gas_attribute_name = ca_name request, gas_attribute_type = ca_attribute_type request,
          gas_is_list = ca_is_list request, gas_is_group_visible = ca_is_visible request,
          gas_is_group_editable = ca_is_editable request, gas_is_hardcoded = False\<rparr>]\<rparr>))"

text \<open>Deleting an attribute cascades to its values.\<close>

definition delete_user_attribute :: "attribute_name \<Rightarrow> (db, unit) backend_action" where
  "delete_user_attribute name s =
     return () (s\<lparr>db_user_attribute_schema := filter (\<lambda>r. uas_attribute_name r \<noteq> name) (db_user_attribute_schema s),
                  db_user_attributes := filter (\<lambda>a. uat_attribute_name a \<noteq> name) (db_user_attributes s)\<rparr>)"

definition delete_group_attribute :: "attribute_name \<Rightarrow> (db, unit) backend_action" where
  "delete_group_attribute name s =
     return () (s\<lparr>db_group_attribute_schema := filter (\<lambda>r. gas_attribute_name r \<noteq> name) (db_group_attribute_schema s),
                  db_group_attributes := filter (\<lambda>a. gat_attribute_name a \<noteq> name) (db_group_attributes s)\<rparr>)"

definition add_user_object_class :: "ldap_object_class \<Rightarrow> (db, unit) backend_action" where
  "add_user_object_class name s =
     (let name_key = to_ascii_lowercase (LdapObjectClass_as_str name) in
      if name_key \<in> oc_lower_object_class ` set (db_user_object_classes s) then db_unique s
      else return () (s\<lparr>db_user_object_classes := db_user_object_classes s @
             [\<lparr>oc_lower_object_class = name_key, oc_object_class = name\<rparr>]\<rparr>))"

definition add_group_object_class :: "ldap_object_class \<Rightarrow> (db, unit) backend_action" where
  "add_group_object_class name s =
     (let name_key = to_ascii_lowercase (LdapObjectClass_as_str name) in
      if name_key \<in> oc_lower_object_class ` set (db_group_object_classes s) then db_unique s
      else return () (s\<lparr>db_group_object_classes := db_group_object_classes s @
             [\<lparr>oc_lower_object_class = name_key, oc_object_class = name\<rparr>]\<rparr>))"

definition delete_user_object_class :: "ldap_object_class \<Rightarrow> (db, unit) backend_action" where
  "delete_user_object_class name s =
     return () (s\<lparr>db_user_object_classes := filter
       (\<lambda>r. oc_lower_object_class r \<noteq> to_ascii_lowercase (LdapObjectClass_as_str name)) (db_user_object_classes s)\<rparr>)"

definition delete_group_object_class :: "ldap_object_class \<Rightarrow> (db, unit) backend_action" where
  "delete_group_object_class name s =
     return () (s\<lparr>db_group_object_classes := filter
       (\<lambda>r. oc_lower_object_class r \<noteq> to_ascii_lowercase (LdapObjectClass_as_str name)) (db_group_object_classes s)\<rparr>)"

end
