(* ===== verification/Sql_User.thy ===== *)
theory Sql_User
  imports Sql_Filter Sql_Schema
begin

text \<open>
  \<open>server/src/domain/sql_user_backend_handler.rs\<close>: listing, reading, creating, updating and deleting
  users and their memberships. \<open>now\<close> is the clock reading of the call.
\<close>

section \<open>Listing\<close>

text \<open>\<open>find_with_linked(UserToGroup)\<close>, ordered by the group's display name.\<close>

definition linked_groups :: "db \<Rightarrow> user_id \<Rightarrow> groups_row list" where
  "linked_groups s u = sort_key (\<lambda>g. GroupName_as_str (grp_display_name g)) (groups_of_user s u)"

text \<open>\<open>ORDER BY user_id, attribute_name\<close>: stable sorts, the major key last.\<close>

definition order_user_attributes :: "user_attributes_row list \<Rightarrow> user_attributes_row list" where
  "order_user_attributes rows =
     sort_key (\<lambda>a. UserId_as_str (uat_user_id a))
       (sort_key (\<lambda>a. AttributeName_as_str (uat_attribute_name a)) rows)"

text \<open>
  The loop that hands the attribute rows out: for each user, \<open>take_while_ref\<close> takes the rows with its
  id off the front of the iterator.
\<close>

fun assign_user_attributes :: "user_and_groups list \<Rightarrow> user_attributes_row list \<Rightarrow> user_and_groups list" where
  "assign_user_attributes [] rows = []"
| "assign_user_attributes (u # us) rows =
     (let mine = (\<lambda>a. uat_user_id a = u_user_id (ug_user u)) in
      u\<lparr>ug_user := (ug_user u)\<lparr>u_attributes := map AttributeValue_from_user (takeWhile mine rows)\<rparr>\<rparr>
      # assign_user_attributes us (dropWhile mine rows))"

definition list_users ::
  "externals \<Rightarrow> user_request_filter option \<Rightarrow> bool \<Rightarrow> (db, user_and_groups list) backend_action" where
  "list_users ext filters get_groups =
     bind (lift_result (case filters of None \<Rightarrow> Ok (UcValue True) | Some f \<Rightarrow> get_user_filter_expr ext f))
       (\<lambda>c s.
          let rows = sort_key (\<lambda>r. UserId_as_str (usr_user_id r)) (where_users ext s c);
              users = map (\<lambda>r. \<lparr>ug_user = User_from r,
                 ug_groups = Some (map GroupDetails_from (linked_groups s (usr_user_id r)))\<rparr>) rows;
              attrs = order_user_attributes (filter
                 (\<lambda>a. uat_user_id a \<in> usr_user_id ` set (where_users ext s c)) (db_user_attributes s))
          in return (assign_user_attributes users attrs) s)"

section \<open>Updates\<close>

definition to_value :: "string option \<Rightarrow> string option active_value" where
  "to_value opt_name = (case opt_name of
       None \<Rightarrow> NotSet | Some name \<Rightarrow> Set (if name = [] then None else Some name))"

fun set_column :: "'a active_value \<Rightarrow> 'a \<Rightarrow> 'a" where
  "set_column NotSet old = old"
| "set_column (Set v) old = v"

fun active_of_option :: "'a option \<Rightarrow> 'a active_value" where
  "active_of_option None = NotSet"
| "active_of_option (Some v) = Set v"

definition to_serialized_value :: "externals \<Rightarrow> string option \<Rightarrow> serialized active_value option" where
  "to_serialized_value ext v = (case v of
       None \<Rightarrow> None | Some [] \<Rightarrow> Some NotSet | Some t \<Rightarrow> Some (Set (Serialized_from ext (DString t))))"

text \<open>The pending changes: rows to insert or update, and names to remove.\<close>

type_synonym attribute_changes = "user_attributes_row list \<times> attribute_name list"

fun process_serialized ::
  "user_id \<Rightarrow> serialized active_value \<Rightarrow> attribute_name \<Rightarrow> attribute_changes \<Rightarrow> attribute_changes" where
  "process_serialized u NotSet name (ups, rems) = (ups, rems @ [name])"
| "process_serialized u (Set v) name (ups, rems) =
     (ups @ [\<lparr>uat_user_id = u, uat_attribute_name = name, uat_value = v\<rparr>], rems)"

definition process_option ::
  "user_id \<Rightarrow> serialized active_value option \<Rightarrow> attribute_name \<Rightarrow> attribute_changes \<Rightarrow> attribute_changes" where
  "process_option u v name ch = (case v of None \<Rightarrow> ch | Some w \<Rightarrow> process_serialized u w name ch)"

fun process_inserts ::
  "schema \<Rightarrow> user_id \<Rightarrow> attribute_value list \<Rightarrow> attribute_changes \<Rightarrow> (attribute_changes, domain_error) result" where
  "process_inserts schema u [] ch = Ok ch"
| "process_inserts schema u (a # as) ch =
     (if get_attribute_type (user_attributes schema) (av_name a) \<noteq> None
      then process_inserts schema u as (process_serialized u (Set (av_value a)) (av_name a) ch)
      else Err (InternalError (''User attribute name '' @ AttributeName_as_str (av_name a)
        @ '' doesn't exist in the schema, yet was attempted to be inserted in the database'')))"

fun process_deletes ::
  "schema \<Rightarrow> attribute_name list \<Rightarrow> attribute_changes \<Rightarrow> (attribute_changes, domain_error) result" where
  "process_deletes schema [] ch = Ok ch"
| "process_deletes schema (n # ns) (ups, rems) =
     (if get_attribute_type (user_attributes schema) n \<noteq> None
      then process_deletes schema ns (ups, rems @ [n])
      else Err (InternalError (''User attribute name '' @ AttributeName_as_str n
        @ '' doesn't exist in the schema, yet was attempted to be removed from the database'')))"

definition update_user_row :: "externals \<Rightarrow> update_user_request \<Rightarrow> users_row \<Rightarrow> users_row" where
  "update_user_row ext request r =
     r\<lparr>usr_email := set_column (active_of_option (uu_email request)) (usr_email r),
       usr_lowercase_email := set_column (active_of_option
         (map_option (\<lambda>e. str_to_lowercase ext (Email_as_str e)) (uu_email request))) (usr_lowercase_email r),
       usr_display_name := set_column (to_value (uu_display_name request)) (usr_display_name r)\<rparr>"

definition update_user_with_transaction ::
  "externals \<Rightarrow> update_user_request \<Rightarrow> (db, unit) backend_action" where
  "update_user_with_transaction ext request =
     (let u = uu_user_id request;
          ch1 = process_option u (to_serialized_value ext (uu_first_name request))
                  (AttributeName_from ''first_name'') ([], []);
          ch2 = process_option u (to_serialized_value ext (uu_last_name request))
                  (AttributeName_from ''last_name'') ch1;
          ch3 = process_option u (map_option (JpegPhoto_into_active_value ext) (uu_avatar request))
                  (AttributeName_from ''avatar'') ch2
      in bind get_schema_with_transaction (\<lambda>schema.
         bind (lift_result (process_inserts schema u (uu_insert_attributes request) ch3)) (\<lambda>ch4.
         bind (lift_result (process_deletes schema (uu_delete_attributes request) ch4)) (\<lambda>(ups, rems).
         bind (sql_update_user u (update_user_row ext request)) (\<lambda>_.
         bind (if rems = [] then return () else sql_delete_user_attributes u rems) (\<lambda>_.
         if ups = [] then return () else for_each sql_upsert_user_attribute ups))))))"

definition update_user :: "externals \<Rightarrow> update_user_request \<Rightarrow> (db, unit) backend_action" where
  "update_user ext request = transaction (update_user_with_transaction ext request)"

section \<open>Reading one user\<close>

definition find_user :: "db \<Rightarrow> user_id \<Rightarrow> users_row option" where
  "find_user s u = find (\<lambda>r. usr_user_id r = u) (db_users s)"

definition attributes_of_user :: "db \<Rightarrow> user_id \<Rightarrow> user_attributes_row list" where
  "attributes_of_user s u = sort_key (\<lambda>a. AttributeName_as_str (uat_attribute_name a))
     (filter (\<lambda>a. uat_user_id a = u) (db_user_attributes s))"

definition get_user_details :: "user_id \<Rightarrow> (db, user) backend_action" where
  "get_user_details u s = (case find_user s u of
       None \<Rightarrow> fail (EntityNotFound (UserId_as_str u)) s
     | Some r \<Rightarrow> return ((User_from r)\<lparr>u_attributes := map AttributeValue_from_user (attributes_of_user s u)\<rparr>) s)"

definition get_user_groups :: "user_id \<Rightarrow> (db, group_details list) backend_action" where
  "get_user_groups u s = (case find_user s u of
       None \<Rightarrow> fail (EntityNotFound (UserId_as_str u)) s
     | Some r \<Rightarrow> return (map GroupDetails_from (groups_of_user s u)) s)"

section \<open>Creation\<close>

definition fixed_attribute :: "user_id \<Rightarrow> string \<Rightarrow> serialized option \<Rightarrow> user_attributes_row list" where
  "fixed_attribute u name v = (case v of None \<Rightarrow> []
     | Some w \<Rightarrow> [\<lparr>uat_user_id = u, uat_attribute_name = AttributeName_from name, uat_value = w\<rparr>])"

fun new_user_attributes ::
  "schema \<Rightarrow> user_id \<Rightarrow> attribute_value list \<Rightarrow> user_attributes_row list
     \<Rightarrow> (user_attributes_row list, domain_error) result" where
  "new_user_attributes schema u [] acc = Ok acc"
| "new_user_attributes schema u (a # as) acc =
     (if get_attribute_type (user_attributes schema) (av_name a) \<noteq> None
      then new_user_attributes schema u as
             (acc @ [\<lparr>uat_user_id = u, uat_attribute_name = av_name a, uat_value = av_value a\<rparr>])
      else Err (InternalError (''Attribute name '' @ AttributeName_as_str (av_name a)
        @ '' doesn't exist in the user schema,'' @ CHR 0x0A # replicate 36 (CHR '' '')
        @ ''yet was attempted to be inserted in the database'')))"

definition new_user_row :: "externals \<Rightarrow> naive_date_time \<Rightarrow> create_user_request \<Rightarrow> users_row" where
  "new_user_row ext now request =
     \<lparr>usr_user_id = cu_user_id request, usr_email = cu_email request,
      usr_lowercase_email = str_to_lowercase ext (Email_as_str (cu_email request)),
      usr_display_name = set_column (to_value (cu_display_name request)) None,
      usr_creation_date = now, usr_password_hash = None, usr_totp_secret = None, usr_mfa_type = None,
      usr_uuid = Uuid_from_name_and_date ext (UserId_as_str (cu_user_id request)) now\<rparr>"

definition create_user ::
  "externals \<Rightarrow> naive_date_time \<Rightarrow> create_user_request \<Rightarrow> (db, unit) backend_action" where
  "create_user ext now request =
     (let u = cu_user_id request;
          fixed = fixed_attribute u ''first_name''
                    (map_option (\<lambda>n. Serialized_from ext (DString n)) (cu_first_name request))
                @ fixed_attribute u ''last_name''
                    (map_option (\<lambda>n. Serialized_from ext (DString n)) (cu_last_name request))
                @ fixed_attribute u ''avatar''
                    (map_option (\<lambda>p. Serialized_from ext (DJpegPhoto p)) (cu_avatar request))
      in transaction (bind get_schema_with_transaction (\<lambda>schema.
         bind (lift_result (new_user_attributes schema u (cu_attributes request) fixed)) (\<lambda>rows.
         bind (sql_insert_user (new_user_row ext now request)) (\<lambda>_.
         if rows = [] then return () else for_each sql_insert_user_attribute rows)))))"

section \<open>Deletion and memberships\<close>

definition delete_user :: "user_id \<Rightarrow> (db, unit) backend_action" where
  "delete_user u = bind (sql_delete_user u) (\<lambda>n.
     if n = 0 then fail (EntityNotFound (''No such user: '' @ single_quoted (UserId_as_str u))) else return ())"

definition add_user_to_group :: "user_id \<Rightarrow> group_id \<Rightarrow> (db, unit) backend_action" where
  "add_user_to_group u g = sql_insert_membership \<lparr>mem_user_id = u, mem_group_id = g\<rparr>"

definition remove_user_from_group :: "user_id \<Rightarrow> group_id \<Rightarrow> (db, unit) backend_action" where
  "remove_user_from_group u g =
     bind (sql_delete_membership \<lparr>mem_user_id = u, mem_group_id = g\<rparr>) (\<lambda>n.
       if n = 0 then fail (EntityNotFound (''No such membership: '' @ single_quoted (UserId_as_str u) @ '' -> '' @ GroupId_debug g)) else return ())"

end
