(* ===== verification/Sql_Group.thy ===== *)
theory Sql_Group
  imports Sql_Filter Sql_Schema
begin

text \<open>
  \<open>server/src/domain/sql_group_backend_handler.rs\<close>: listing, reading, creating, updating and deleting
  groups.
\<close>

section \<open>Listing\<close>

definition members_of_group :: "db \<Rightarrow> group_id \<Rightarrow> user_id list" where
  "members_of_group s g = map mem_user_id (filter (\<lambda>m. mem_group_id m = g) (db_memberships s))"

definition order_group_attributes :: "group_attributes_row list \<Rightarrow> group_attributes_row list" where
  "order_group_attributes rows =
     sort_key (\<lambda>a. group_id_int (gat_group_id a))
       (sort_key (\<lambda>a. AttributeName_as_str (gat_attribute_name a)) rows)"

fun assign_group_attributes :: "group list \<Rightarrow> group_attributes_row list \<Rightarrow> group list" where
  "assign_group_attributes [] rows = []"
| "assign_group_attributes (g # gs) rows =
     (let mine = (\<lambda>a. gat_group_id a = g_id g) in
      g\<lparr>g_attributes := map AttributeValue_from_group (takeWhile mine rows)\<rparr>
      # assign_group_attributes gs (dropWhile mine rows))"

text \<open>\<open>groups.sort_by(|g1, g2| g1.display_name.cmp(&g2.display_name))\<close>, case-insensitive and stable.\<close>

definition sort_groups :: "externals \<Rightarrow> group list \<Rightarrow> group list" where
  "sort_groups ext gs = sort_key (\<lambda>g. chars_to_lowercase ext (GroupName_as_str (g_display_name g))) gs"

definition list_groups ::
  "externals \<Rightarrow> group_request_filter option \<Rightarrow> (db, group list) backend_action" where
  "list_groups ext filters s =
     (let c = (case filters of None \<Rightarrow> GcValue True | Some f \<Rightarrow> get_group_filter_expr ext f);
          rows = sort_key (\<lambda>r. group_id_int (grp_group_id r)) (where_groups s c);
          groups = map (\<lambda>r. (Group_from r)\<lparr>g_users := members_of_group s (grp_group_id r)\<rparr>) rows;
          attrs = order_group_attributes (filter
             (\<lambda>a. gat_group_id a \<in> grp_group_id ` set (where_groups s c)) (db_group_attributes s))
      in return (sort_groups ext (assign_group_attributes groups attrs)) s)"

section \<open>Reading one group\<close>

definition find_group :: "db \<Rightarrow> group_id \<Rightarrow> groups_row option" where
  "find_group s g = find (\<lambda>r. grp_group_id r = g) (db_groups s)"

definition attributes_of_group :: "db \<Rightarrow> group_id \<Rightarrow> group_attributes_row list" where
  "attributes_of_group s g = sort_key (\<lambda>a. AttributeName_as_str (gat_attribute_name a))
     (filter (\<lambda>a. gat_group_id a = g) (db_group_attributes s))"

definition get_group_details :: "group_id \<Rightarrow> (db, group_details) backend_action" where
  "get_group_details g s = (case find_group s g of
       None \<Rightarrow> fail (EntityNotFound (GroupId_debug g)) s
     | Some r \<Rightarrow> return ((GroupDetails_from r)
         \<lparr>gd_attributes := map AttributeValue_from_group (attributes_of_group s g)\<rparr>) s)"

section \<open>Creation, deletion, updates\<close>

fun new_group_attributes ::
  "schema \<Rightarrow> group_id \<Rightarrow> attribute_value list \<Rightarrow> group_attributes_row list
     \<Rightarrow> (group_attributes_row list, domain_error) result" where
  "new_group_attributes schema g [] acc = Ok acc"
| "new_group_attributes schema g (a # as) acc =
     (if get_attribute_type (group_attributes schema) (av_name a) \<noteq> None
      then new_group_attributes schema g as
             (acc @ [\<lparr>gat_group_id = g, gat_attribute_name = av_name a, gat_value = av_value a\<rparr>])
      else Err (InternalError (''Attribute name '' @ AttributeName_as_str (av_name a)
        @ '' doesn't exist in the group schema,'' @ CHR 0x0A # replicate 36 (CHR '' '')
        @ ''yet was attempted to be inserted in the database'')))"

definition create_group ::
  "externals \<Rightarrow> naive_date_time \<Rightarrow> create_group_request \<Rightarrow> (db, group_id) backend_action" where
  "create_group ext now request =
     (let name = GroupName_as_str (cg_display_name request);
          uuid = Uuid_from_name_and_date ext name now;
          lower_display_name = str_to_lowercase ext name
      in transaction (bind get_schema_with_transaction (\<lambda>schema.
         bind (sql_insert_group (cg_display_name request) lower_display_name now uuid) (\<lambda>group_id.
         bind (lift_result (new_group_attributes schema group_id (cg_attributes request) [])) (\<lambda>rows.
         bind (if rows = [] then return () else for_each sql_insert_group_attribute rows) (\<lambda>_.
         return group_id))))))"

definition delete_group :: "group_id \<Rightarrow> (db, unit) backend_action" where
  "delete_group g = bind (sql_delete_group g) (\<lambda>n.
     if n = 0 then fail (EntityNotFound (''No such group: '' @ single_quoted (GroupId_debug g))) else return ())"

definition update_group_row :: "externals \<Rightarrow> update_group_request \<Rightarrow> groups_row \<Rightarrow> groups_row" where
  "update_group_row ext request r = (case upg_display_name request of
       None \<Rightarrow> r
     | Some n \<Rightarrow> r\<lparr>grp_display_name := n,
                   grp_lowercase_display_name := str_to_lowercase ext (GroupName_as_str n)\<rparr>)"

fun group_inserts ::
  "schema \<Rightarrow> group_id \<Rightarrow> attribute_value list \<Rightarrow> (group_attributes_row list, domain_error) result" where
  "group_inserts schema g [] = Ok []"
| "group_inserts schema g (a # as) =
     (if get_attribute_type (group_attributes schema) (av_name a) \<noteq> None
      then bind_result (group_inserts schema g as) (\<lambda>rows.
             Ok (\<lparr>gat_group_id = g, gat_attribute_name = av_name a, gat_value = av_value a\<rparr> # rows))
      else Err (InternalError (''Group attribute name '' @ AttributeName_as_str (av_name a)
        @ '' doesn't exist in the schema, yet was attempted to be inserted in the database'')))"

fun group_deletes :: "schema \<Rightarrow> attribute_name list \<Rightarrow> (attribute_name list, domain_error) result" where
  "group_deletes schema [] = Ok []"
| "group_deletes schema (n # ns) =
     (if get_attribute_type (group_attributes schema) n \<noteq> None
      then bind_result (group_deletes schema ns) (\<lambda>rems. Ok (n # rems))
      else Err (InternalError (''Group attribute name '' @ AttributeName_as_str n
        @ '' doesn't exist in the schema, yet was attempted to be removed from the database'')))"

definition update_group_with_transaction ::
  "externals \<Rightarrow> update_group_request \<Rightarrow> (db, unit) backend_action" where
  "update_group_with_transaction ext request =
     (let g = upg_group_id request in
      bind (sql_update_group g (update_group_row ext request)) (\<lambda>_.
      bind get_schema_with_transaction (\<lambda>schema.
      bind (lift_result (group_inserts schema g (upg_insert_attributes request))) (\<lambda>ups.
      bind (lift_result (group_deletes schema (upg_delete_attributes request))) (\<lambda>rems.
      bind (if rems = [] then return () else sql_delete_group_attributes g rems) (\<lambda>_.
      if ups = [] then return () else for_each sql_upsert_group_attribute ups))))))"

definition update_group :: "externals \<Rightarrow> update_group_request \<Rightarrow> (db, unit) backend_action" where
  "update_group ext request = transaction (update_group_with_transaction ext request)"

end
