(* ===== verification/Sql_Invariant.thy ===== *)
theory Sql_Invariant
  imports Sql_User Sql_Group
begin

text \<open>
  The integrity of the database: keys are unique and references resolve. Every row operation, and so
  every operation of the backend, keeps it.
\<close>

section \<open>The invariant\<close>

definition users_ok :: "db \<Rightarrow> bool" where
  "users_ok s \<longleftrightarrow> distinct (map usr_user_id (db_users s)) \<and> distinct (map usr_email (db_users s))
     \<and> distinct (map usr_lowercase_email (db_users s)) \<and> distinct (map usr_uuid (db_users s))"

definition groups_ok :: "db \<Rightarrow> bool" where
  "groups_ok s \<longleftrightarrow> distinct (map grp_group_id (db_groups s)) \<and> distinct (map grp_display_name (db_groups s))
     \<and> distinct (map grp_uuid (db_groups s))
     \<and> distinct (map grp_lowercase_display_name (db_groups s))
     \<and> (\<forall>g\<in>set (db_groups s). group_id_int (grp_group_id g) < db_next_group_id s)"

definition memberships_ok :: "db \<Rightarrow> bool" where
  "memberships_ok s \<longleftrightarrow> distinct (db_memberships s)
     \<and> (\<forall>m\<in>set (db_memberships s). user_exists s (mem_user_id m) \<and> group_exists s (mem_group_id m))"

definition user_attributes_ok :: "db \<Rightarrow> bool" where
  "user_attributes_ok s \<longleftrightarrow> distinct (map uas_attribute_name (db_user_attribute_schema s))
     \<and> distinct (map (\<lambda>a. (uat_user_id a, uat_attribute_name a)) (db_user_attributes s))
     \<and> (\<forall>a\<in>set (db_user_attributes s). user_attribute_fk s a)"

definition group_attributes_ok :: "db \<Rightarrow> bool" where
  "group_attributes_ok s \<longleftrightarrow> distinct (map gas_attribute_name (db_group_attribute_schema s))
     \<and> distinct (map (\<lambda>a. (gat_group_id a, gat_attribute_name a)) (db_group_attributes s))
     \<and> (\<forall>a\<in>set (db_group_attributes s). group_attribute_fk s a)"

definition object_classes_ok :: "db \<Rightarrow> bool" where
  "object_classes_ok s \<longleftrightarrow> distinct (map oc_lower_object_class (db_user_object_classes s))
     \<and> distinct (map oc_lower_object_class (db_group_object_classes s))"

definition tokens_ok :: "db \<Rightarrow> bool" where
  "tokens_ok s \<longleftrightarrow> distinct (map jr_refresh_token_hash (db_jwt_refresh_storage s))
     \<and> distinct (map js_jwt_hash (db_jwt_storage s))
     \<and> distinct (map pr_token (db_password_reset_tokens s))
     \<and> (\<forall>j\<in>set (db_jwt_refresh_storage s). user_exists s (jr_user_id j))
     \<and> (\<forall>j\<in>set (db_jwt_storage s). user_exists s (js_user_id j))
     \<and> (\<forall>t\<in>set (db_password_reset_tokens s). user_exists s (pr_user_id t))"

definition db_inv :: "db \<Rightarrow> bool" where
  "db_inv s \<longleftrightarrow> users_ok s \<and> groups_ok s \<and> memberships_ok s \<and> user_attributes_ok s
     \<and> group_attributes_ok s \<and> object_classes_ok s \<and> tokens_ok s"

lemmas db_ok_defs = users_ok_def groups_ok_def memberships_ok_def user_attributes_ok_def
  group_attributes_ok_def object_classes_ok_def tokens_ok_def

lemmas db_fk_defs = user_exists_def group_exists_def user_attribute_fk_def group_attribute_fk_def

section \<open>Row operations keep it\<close>

lemma preserves_transaction [preserves_intros]: "preserves P m \<Longrightarrow> preserves P (transaction m)"
  by (auto simp: preserves_def transaction_def split: prod.splits result.splits)

lemma preserves_get_schema_tx [preserves_intros]: "preserves P get_schema_with_transaction"
  by (simp add: preserves_def get_schema_with_transaction_def return_def)

lemma map_update_key:
  assumes "\<And>q. k (f q) = k q"
  shows "map k (map (\<lambda>q. if k q = u then f q else q) l) = map k l"
  by (simp add: comp_def assms if_distrib cong: if_cong)

lemma distinct_map_update:
  assumes "distinct (map k l)" and "distinct (map h l)" and "find (\<lambda>r. k r = u) l = Some r"
    and "\<forall>q\<in>set l. k q \<noteq> u \<longrightarrow> h (f r) \<noteq> h q"
  shows "distinct (map h (map (\<lambda>q. if k q = u then f q else q) l))"
  using assms
proof (induction l)
  case (Cons x l)
  show ?case
  proof (cases "k x = u")
    case True
    then have r: "r = x" using Cons.prems by simp
    have nu: "\<forall>q\<in>set l. k q \<noteq> u" using Cons.prems(1) True by (auto simp: image_iff)
    then have "map (\<lambda>q. if k q = u then f q else q) l = l" by (simp add: map_idI)
    moreover have "h (f x) \<notin> h ` set l" using Cons.prems(4) nu r by auto
    ultimately show ?thesis using True Cons.prems by (simp del: map_map)
  next
    case False
    then have fr: "find (\<lambda>r. k r = u) l = Some r" using Cons.prems by simp
    then have rl: "r \<in> set l" "k r = u" by (auto dest: find_SomeD)
    have uniq: "q = r" if "q \<in> set l" "k q = u" for q
      using that rl Cons.prems(1) by (metis distinct.simps(2) eq_key_imp_eq_value inj_onD distinct_map list.simps(9))
    have "h x \<notin> h ` set (map (\<lambda>q. if k q = u then f q else q) l)"
      using Cons.prems False uniq by (auto split: if_splits)
    then show ?thesis using False Cons fr by (simp del: map_map)
  qed
qed simp

lemma sql_insert_user_inv [preserves_intros]: "preserves db_inv (sql_insert_user r)"
  by (rule preservesI)
     (auto simp: db_inv_def db_ok_defs db_fk_defs sql_insert_user_def monad_simps list_ex_iff users_conflict_def)

lemma sql_delete_user_inv [preserves_intros]: "preserves db_inv (sql_delete_user u)"
  by (rule preservesI)
     (auto simp: db_inv_def db_ok_defs db_fk_defs sql_delete_user_def monad_simps distinct_map_filter)

lemma sql_insert_membership_inv [preserves_intros]: "preserves db_inv (sql_insert_membership m)"
  by (rule preservesI)
     (auto simp: db_inv_def db_ok_defs db_fk_defs sql_insert_membership_def monad_simps)

lemma sql_delete_membership_inv [preserves_intros]: "preserves db_inv (sql_delete_membership m)"
  by (rule preservesI)
     (auto simp: db_inv_def db_ok_defs db_fk_defs sql_delete_membership_def monad_simps)

lemma db_inv_user_attributes:
  "db_inv s \<Longrightarrow> distinct (map (\<lambda>a. (uat_user_id a, uat_attribute_name a)) l) \<Longrightarrow>
     \<forall>a\<in>set l. user_attribute_fk s a \<Longrightarrow> db_inv (s\<lparr>db_user_attributes := l\<rparr>)"
  by (simp add: db_inv_def db_ok_defs db_fk_defs)

lemma db_inv_user_attributesD:
  "db_inv s \<Longrightarrow> distinct (map (\<lambda>a. (uat_user_id a, uat_attribute_name a)) (db_user_attributes s))"
  "db_inv s \<Longrightarrow> a \<in> set (db_user_attributes s) \<Longrightarrow> user_attribute_fk s a"
  by (simp_all add: db_inv_def user_attributes_ok_def)

lemma user_upsert_keys:
  "map (\<lambda>a. (uat_user_id a, uat_attribute_name a)) (map (\<lambda>b. if c b then b\<lparr>uat_value := v\<rparr> else b) l)
     = map (\<lambda>a. (uat_user_id a, uat_attribute_name a)) l"
  by (induction l) auto

lemma user_fk_value [simp]: "user_attribute_fk s (b\<lparr>uat_value := v\<rparr>) = user_attribute_fk s b"
  by (simp add: user_attribute_fk_def)

lemma sql_insert_user_attribute_inv [preserves_intros]: "preserves db_inv (sql_insert_user_attribute a)"
proof (rule preservesI)
  fix s assume s: "db_inv s"
  show "db_inv (snd (sql_insert_user_attribute a s))"
  proof (cases "list_ex (same_user_attribute a) (db_user_attributes s) \<or> \<not> user_attribute_fk s a")
    case True
    with s show ?thesis by (auto simp: sql_insert_user_attribute_def monad_simps)
  next
    case False
    then have "db_inv (s\<lparr>db_user_attributes := db_user_attributes s @ [a]\<rparr>)"
      using db_inv_user_attributesD [OF s]
      by (intro db_inv_user_attributes [OF s]) (auto simp: list_ex_iff same_user_attribute_def)
    with False show ?thesis by (simp add: sql_insert_user_attribute_def monad_simps)
  qed
qed

lemma sql_upsert_user_attribute_inv [preserves_intros]: "preserves db_inv (sql_upsert_user_attribute a)"
proof (rule preservesI)
  fix s assume s: "db_inv s"
  show "db_inv (snd (sql_upsert_user_attribute a s))"
  proof (cases "list_ex (same_user_attribute a) (db_user_attributes s)")
    case True
    have "db_inv (s\<lparr>db_user_attributes := map (\<lambda>b. if same_user_attribute a b
            then b\<lparr>uat_value := uat_value a\<rparr> else b) (db_user_attributes s)\<rparr>)"
      by (rule db_inv_user_attributes [OF s])
         (use db_inv_user_attributesD [OF s] in \<open>simp_all only: user_upsert_keys, auto\<close>)
    with True show ?thesis by (simp add: sql_upsert_user_attribute_def monad_simps)
  next
    case False
    then have "sql_upsert_user_attribute a s = sql_insert_user_attribute a s"
      by (simp add: sql_upsert_user_attribute_def sql_insert_user_attribute_def)
    then show ?thesis using preservesD [OF sql_insert_user_attribute_inv s] by simp
  qed
qed

lemma sql_delete_user_attributes_inv [preserves_intros]: "preserves db_inv (sql_delete_user_attributes u ns)"
  by (rule preservesI)
     (auto simp: db_inv_def db_ok_defs db_fk_defs sql_delete_user_attributes_def monad_simps distinct_map_filter)

lemma sql_insert_group_inv [preserves_intros]: "preserves db_inv (sql_insert_group n l d u)"
  by (rule preservesI)
     (fastforce simp: db_inv_def db_ok_defs db_fk_defs sql_insert_group_def monad_simps list_ex_iff
        groups_conflict_def Let_def)

lemma sql_delete_group_inv [preserves_intros]: "preserves db_inv (sql_delete_group g)"
  by (rule preservesI)
     (auto simp: db_inv_def db_ok_defs db_fk_defs sql_delete_group_def monad_simps distinct_map_filter)

lemma db_inv_group_attributes:
  "db_inv s \<Longrightarrow> distinct (map (\<lambda>a. (gat_group_id a, gat_attribute_name a)) l) \<Longrightarrow>
     \<forall>a\<in>set l. group_attribute_fk s a \<Longrightarrow> db_inv (s\<lparr>db_group_attributes := l\<rparr>)"
  by (simp add: db_inv_def db_ok_defs db_fk_defs)

lemma db_inv_group_attributesD:
  "db_inv s \<Longrightarrow> distinct (map (\<lambda>a. (gat_group_id a, gat_attribute_name a)) (db_group_attributes s))"
  "db_inv s \<Longrightarrow> a \<in> set (db_group_attributes s) \<Longrightarrow> group_attribute_fk s a"
  by (simp_all add: db_inv_def group_attributes_ok_def)

lemma group_upsert_keys:
  "map (\<lambda>a. (gat_group_id a, gat_attribute_name a)) (map (\<lambda>b. if c b then b\<lparr>gat_value := v\<rparr> else b) l)
     = map (\<lambda>a. (gat_group_id a, gat_attribute_name a)) l"
  by (induction l) auto

lemma group_fk_value [simp]: "group_attribute_fk s (b\<lparr>gat_value := v\<rparr>) = group_attribute_fk s b"
  by (simp add: group_attribute_fk_def)

lemma sql_insert_group_attribute_inv [preserves_intros]: "preserves db_inv (sql_insert_group_attribute a)"
proof (rule preservesI)
  fix s assume s: "db_inv s"
  show "db_inv (snd (sql_insert_group_attribute a s))"
  proof (cases "list_ex (same_group_attribute a) (db_group_attributes s) \<or> \<not> group_attribute_fk s a")
    case True
    with s show ?thesis by (auto simp: sql_insert_group_attribute_def monad_simps)
  next
    case False
    then have "db_inv (s\<lparr>db_group_attributes := db_group_attributes s @ [a]\<rparr>)"
      using db_inv_group_attributesD [OF s]
      by (intro db_inv_group_attributes [OF s]) (auto simp: list_ex_iff same_group_attribute_def)
    with False show ?thesis by (simp add: sql_insert_group_attribute_def monad_simps)
  qed
qed

lemma sql_upsert_group_attribute_inv [preserves_intros]: "preserves db_inv (sql_upsert_group_attribute a)"
proof (rule preservesI)
  fix s assume s: "db_inv s"
  show "db_inv (snd (sql_upsert_group_attribute a s))"
  proof (cases "list_ex (same_group_attribute a) (db_group_attributes s)")
    case True
    have "db_inv (s\<lparr>db_group_attributes := map (\<lambda>b. if same_group_attribute a b
            then b\<lparr>gat_value := gat_value a\<rparr> else b) (db_group_attributes s)\<rparr>)"
      by (rule db_inv_group_attributes [OF s])
         (use db_inv_group_attributesD [OF s] in \<open>simp_all only: group_upsert_keys, auto\<close>)
    with True show ?thesis by (simp add: sql_upsert_group_attribute_def monad_simps)
  next
    case False
    then have "sql_upsert_group_attribute a s = sql_insert_group_attribute a s"
      by (simp add: sql_upsert_group_attribute_def sql_insert_group_attribute_def)
    then show ?thesis using preservesD [OF sql_insert_group_attribute_inv s] by simp
  qed
qed

lemma sql_delete_group_attributes_inv [preserves_intros]: "preserves db_inv (sql_delete_group_attributes g ns)"
  by (rule preservesI)
     (auto simp: db_inv_def db_ok_defs db_fk_defs sql_delete_group_attributes_def monad_simps distinct_map_filter)

lemma set_key_update: "(\<And>q. k (f q) = k q) \<Longrightarrow> k ` set (map (\<lambda>q. if k q = u then f q else q) l) = k ` set l"
  by (induction l) auto

lemma sql_update_user_inv [preserves_intros]:
  assumes key: "\<And>r. usr_user_id (f r) = usr_user_id r"
  shows "preserves db_inv (sql_update_user u f)"
proof (rule preservesI)
  fix s assume s: "db_inv s"
  let ?l = "map (\<lambda>q. if usr_user_id q = u then f q else q) (db_users s)"
  show "db_inv (snd (sql_update_user u f s))"
  proof (cases "find (\<lambda>r. usr_user_id r = u) (db_users s)")
    case None
    with s show ?thesis by (simp add: sql_update_user_def monad_simps)
  next
    case (Some r)
    have "db_inv (s\<lparr>db_users := ?l\<rparr>)"
      if "\<not> list_ex (\<lambda>q. usr_user_id q \<noteq> u \<and> users_conflict (f r) q) (db_users s)"
    proof -
      have "distinct (map usr_lowercase_email ?l)" "distinct (map usr_email ?l)" "distinct (map usr_uuid ?l)"
        using s that Some by (intro distinct_map_update [where r = r];
          auto simp: db_inv_def users_ok_def list_ex_iff users_conflict_def)+
      moreover have "usr_user_id ` set ?l = usr_user_id ` set (db_users s)"
        by (rule set_key_update) (rule key)
      ultimately show ?thesis using s map_update_key [of usr_user_id f u "db_users s"] key
        by (simp add: db_inv_def db_ok_defs db_fk_defs del: map_map set_map)
    qed
    with Some s show ?thesis by (simp add: sql_update_user_def monad_simps)
  qed
qed

lemma sql_update_group_inv [preserves_intros]:
  assumes key: "\<And>r. grp_group_id (f r) = grp_group_id r"
  shows "preserves db_inv (sql_update_group g f)"
proof (rule preservesI)
  fix s assume s: "db_inv s"
  let ?l = "map (\<lambda>q. if grp_group_id q = g then f q else q) (db_groups s)"
  show "db_inv (snd (sql_update_group g f s))"
  proof (cases "find (\<lambda>r. grp_group_id r = g) (db_groups s)")
    case None
    with s show ?thesis by (simp add: sql_update_group_def monad_simps)
  next
    case (Some r)
    have "db_inv (s\<lparr>db_groups := ?l\<rparr>)"
      if "\<not> list_ex (\<lambda>q. grp_group_id q \<noteq> g \<and> groups_conflict (f r) q) (db_groups s)"
    proof -
      have "distinct (map grp_lowercase_display_name ?l)" "distinct (map grp_display_name ?l)" "distinct (map grp_uuid ?l)"
        using s that Some by (intro distinct_map_update [where r = r];
          auto simp: db_inv_def groups_ok_def list_ex_iff groups_conflict_def)+
      moreover have ids: "grp_group_id ` set ?l = grp_group_id ` set (db_groups s)"
        by (rule set_key_update) (rule key)
      moreover have "\<forall>q\<in>set ?l. group_id_int (grp_group_id q) < db_next_group_id s"
        using s key by (auto simp: db_inv_def groups_ok_def)
      ultimately show ?thesis using s map_update_key [of grp_group_id f g "db_groups s"] key
        by (simp add: db_inv_def db_ok_defs db_fk_defs del: map_map set_map)
    qed
    with Some s show ?thesis by (simp add: sql_update_group_def monad_simps)
  qed
qed

section \<open>The operations of the backend keep it\<close>

lemma schema_ops_inv [preserves_intros]:
  "preserves db_inv (add_user_attribute r)" "preserves db_inv (add_group_attribute r)"
  "preserves db_inv (delete_user_attribute n)" "preserves db_inv (delete_group_attribute n)"
  "preserves db_inv (add_user_object_class c)" "preserves db_inv (add_group_object_class c)"
  "preserves db_inv (delete_user_object_class c)" "preserves db_inv (delete_group_object_class c)"
  by (rule preservesI, fastforce simp: db_inv_def db_ok_defs db_fk_defs monad_simps distinct_map_filter
        add_user_attribute_def add_group_attribute_def delete_user_attribute_def delete_group_attribute_def
        add_user_object_class_def add_group_object_class_def delete_user_object_class_def
        delete_group_object_class_def Let_def)+

lemma sql_get_schema_inv [preserves_intros]: "preserves P sql_get_schema"
  unfolding sql_get_schema_def by (intro preserves_intros)

lemma update_row_keys [simp]:
  "usr_user_id (update_user_row ext request r) = usr_user_id r"
  "grp_group_id (update_group_row ext req g) = grp_group_id g"
  by (simp_all add: update_user_row_def update_group_row_def split: option.splits)

lemma preserves_prod [preserves_intros]: "(\<And>a b. preserves P (f a b)) \<Longrightarrow> preserves P (case x of (a, b) \<Rightarrow> f a b)"
  by (cases x) simp

lemma user_ops_inv [preserves_intros]:
  "preserves db_inv (create_user ext now creq)" "preserves db_inv (update_user ext ureq)"
  "preserves db_inv (delete_user u)" "preserves db_inv (add_user_to_group u g)"
  "preserves db_inv (remove_user_from_group u g)"
  by (simp_all add: create_user_def update_user_def update_user_with_transaction_def delete_user_def
        add_user_to_group_def remove_user_from_group_def Let_def preserves_intros)

lemma group_ops_inv [preserves_intros]:
  "preserves db_inv (create_group ext now creq)" "preserves db_inv (update_group ext ureq)"
  "preserves db_inv (delete_group g)"
  by (simp_all add: create_group_def update_group_def update_group_with_transaction_def delete_group_def
        Let_def preserves_intros)

lemma reads_inv [preserves_intros]:
  "preserves P (list_users ext f b)" "preserves P (list_groups ext f0)" "preserves P (get_user_details u)"
  "preserves P (get_user_groups u)" "preserves P (get_group_details g)"
  by (rule preservesI, auto simp: list_users_def list_groups_def get_user_details_def get_user_groups_def
        get_group_details_def monad_simps Let_def split: result.splits option.splits)+

end
