(* ===== verification/Access_Control.thy ===== *)
theory Access_Control
  imports Public_Schema
begin

text \<open>
  \<open>server/src/infra/access_control.rs\<close>: permissions, the handlers a permission gives access to, and
  the lister that restricts an unprivileged user to itself. The contract of a lister is the locale
  \<open>user_lister\<close> (and \<open>group_lister\<close>); what a restricted lister returns is proved once from it.
\<close>

section \<open>Permissions\<close>

datatype permission = Admin | PasswordManager | Readonly | Regular

record validation_results =
  vr_user :: user_id
  vr_permission :: permission

definition is_admin :: "validation_results \<Rightarrow> bool" where
  "is_admin v \<longleftrightarrow> vr_permission v = Admin"

definition can_read_all :: "validation_results \<Rightarrow> bool" where
  "can_read_all v \<longleftrightarrow> vr_permission v = Admin \<or> vr_permission v = Readonly
     \<or> vr_permission v = PasswordManager"

definition can_read :: "validation_results \<Rightarrow> user_id \<Rightarrow> bool" where
  "can_read v user \<longleftrightarrow> vr_permission v = Admin \<or> vr_permission v = PasswordManager
     \<or> vr_permission v = Readonly \<or> vr_user v = user"

definition can_change_password :: "validation_results \<Rightarrow> user_id \<Rightarrow> bool \<Rightarrow> bool" where
  "can_change_password v user user_is_admin \<longleftrightarrow> vr_permission v = Admin
     \<or> (vr_permission v = PasswordManager \<and> \<not> user_is_admin) \<or> vr_user v = user"

definition can_write :: "validation_results \<Rightarrow> user_id \<Rightarrow> bool" where
  "can_write v user \<longleftrightarrow> vr_permission v = Admin \<or> vr_user v = user"

declare is_admin_def [guard_simps] can_read_all_def [guard_simps] can_read_def [guard_simps]
  can_change_password_def [guard_simps] can_write_def [guard_simps]

section \<open>The traits handed out\<close>

definition map_action :: "('a \<Rightarrow> 'b) \<Rightarrow> ('s, 'a, 'e) action \<Rightarrow> ('s, 'b, 'e) action" where
  "map_action f m s = (case m s of (r, t) \<Rightarrow> (map_ok f r, t))"

record 's user_readable_backend_handler =
  ur_get_user_details :: "user_id \<Rightarrow> ('s, user) backend_action"
  ur_get_user_groups :: "user_id \<Rightarrow> ('s, group_details list) backend_action"
  ur_get_schema :: "('s, public_schema) backend_action"

record 's readonly_backend_handler = "'s user_readable_backend_handler" +
  ro_list_users :: "user_request_filter option \<Rightarrow> bool \<Rightarrow> ('s, user_and_groups list) backend_action"
  ro_list_groups :: "group_request_filter option \<Rightarrow> ('s, group list) backend_action"
  ro_get_group_details :: "group_id \<Rightarrow> ('s, group_details) backend_action"

record 's user_writeable_backend_handler = "'s user_readable_backend_handler" +
  uw_update_user :: "update_user_request \<Rightarrow> ('s, unit) backend_action"

record 's admin_backend_handler = "'s readonly_backend_handler" +
  ad_update_user :: "update_user_request \<Rightarrow> ('s, unit) backend_action"
  ad_create_user :: "create_user_request \<Rightarrow> ('s, unit) backend_action"
  ad_delete_user :: "user_id \<Rightarrow> ('s, unit) backend_action"
  ad_add_user_to_group :: "user_id \<Rightarrow> group_id \<Rightarrow> ('s, unit) backend_action"
  ad_remove_user_from_group :: "user_id \<Rightarrow> group_id \<Rightarrow> ('s, unit) backend_action"
  ad_update_group :: "update_group_request \<Rightarrow> ('s, unit) backend_action"
  ad_create_group :: "create_group_request \<Rightarrow> ('s, group_id) backend_action"
  ad_delete_group :: "group_id \<Rightarrow> ('s, unit) backend_action"
  ad_add_user_attribute :: "create_attribute_request \<Rightarrow> ('s, unit) backend_action"
  ad_add_group_attribute :: "create_attribute_request \<Rightarrow> ('s, unit) backend_action"
  ad_delete_user_attribute :: "attribute_name \<Rightarrow> ('s, unit) backend_action"
  ad_delete_group_attribute :: "attribute_name \<Rightarrow> ('s, unit) backend_action"
  ad_add_user_object_class :: "ldap_object_class \<Rightarrow> ('s, unit) backend_action"
  ad_add_group_object_class :: "ldap_object_class \<Rightarrow> ('s, unit) backend_action"
  ad_delete_user_object_class :: "ldap_object_class \<Rightarrow> ('s, unit) backend_action"
  ad_delete_group_object_class :: "ldap_object_class \<Rightarrow> ('s, unit) backend_action"

text \<open>The blanket implementations, which forward to the backend.\<close>

definition as_user_readable :: "'s backend_handler \<Rightarrow> 's user_readable_backend_handler" where
  "as_user_readable h =
     \<lparr>ur_get_user_details = bh_get_user_details h,
      ur_get_user_groups = bh_get_user_groups h,
      ur_get_schema = map_action PublicSchema_from (bh_get_schema h)\<rparr>"

definition as_readonly :: "'s backend_handler \<Rightarrow> 's readonly_backend_handler" where
  "as_readonly h =
     \<lparr>ur_get_user_details = bh_get_user_details h,
      ur_get_user_groups = bh_get_user_groups h,
      ur_get_schema = map_action PublicSchema_from (bh_get_schema h),
      ro_list_users = bh_list_users h,
      ro_list_groups = bh_list_groups h,
      ro_get_group_details = bh_get_group_details h\<rparr>"

definition as_user_writeable :: "'s backend_handler \<Rightarrow> 's user_writeable_backend_handler" where
  "as_user_writeable h =
     \<lparr>ur_get_user_details = bh_get_user_details h,
      ur_get_user_groups = bh_get_user_groups h,
      ur_get_schema = map_action PublicSchema_from (bh_get_schema h),
      uw_update_user = bh_update_user h\<rparr>"

definition as_admin :: "'s backend_handler \<Rightarrow> 's admin_backend_handler" where
  "as_admin h =
     \<lparr>ur_get_user_details = bh_get_user_details h,
      ur_get_user_groups = bh_get_user_groups h,
      ur_get_schema = map_action PublicSchema_from (bh_get_schema h),
      ro_list_users = bh_list_users h,
      ro_list_groups = bh_list_groups h,
      ro_get_group_details = bh_get_group_details h,
      ad_update_user = bh_update_user h,
      ad_create_user = bh_create_user h,
      ad_delete_user = bh_delete_user h,
      ad_add_user_to_group = bh_add_user_to_group h,
      ad_remove_user_from_group = bh_remove_user_from_group h,
      ad_update_group = bh_update_group h,
      ad_create_group = bh_create_group h,
      ad_delete_group = bh_delete_group h,
      ad_add_user_attribute = bh_add_user_attribute h,
      ad_add_group_attribute = bh_add_group_attribute h,
      ad_delete_user_attribute = bh_delete_user_attribute h,
      ad_delete_group_attribute = bh_delete_group_attribute h,
      ad_add_user_object_class = bh_add_user_object_class h,
      ad_add_group_object_class = bh_add_group_object_class h,
      ad_delete_user_object_class = bh_delete_user_object_class h,
      ad_delete_group_object_class = bh_delete_group_object_class h\<rparr>"

definition get_admin_handler ::
  "'s backend_handler \<Rightarrow> validation_results \<Rightarrow> 's admin_backend_handler option" where
  "get_admin_handler h v = (if is_admin v then Some (as_admin h) else None)"

definition get_readonly_handler ::
  "'s backend_handler \<Rightarrow> validation_results \<Rightarrow> 's readonly_backend_handler option" where
  "get_readonly_handler h v = (if can_read_all v then Some (as_readonly h) else None)"

definition get_writeable_handler ::
  "'s backend_handler \<Rightarrow> validation_results \<Rightarrow> user_id \<Rightarrow> 's user_writeable_backend_handler option" where
  "get_writeable_handler h v user_id = (if can_write v user_id then Some (as_user_writeable h) else None)"

definition get_readable_handler ::
  "'s backend_handler \<Rightarrow> validation_results \<Rightarrow> user_id \<Rightarrow> 's user_readable_backend_handler option" where
  "get_readable_handler h v user_id = (if can_read v user_id then Some (as_user_readable h) else None)"

text \<open>The filter of \<open>get_user_restricted_lister_handler\<close>.\<close>

definition restricted_user_filter :: "validation_results \<Rightarrow> user_id option" where
  "restricted_user_filter v = (if can_read_all v then None else Some (vr_user v))"

definition get_permissions_from_groups ::
  "externals \<Rightarrow> user_id \<Rightarrow> group_name list \<Rightarrow> validation_results" where
  "get_permissions_from_groups ext user_id groups =
     (let is_in_group = (\<lambda>name. list_ex (\<lambda>g. GroupName_eq ext g name) groups) in
      \<lparr>vr_user = user_id,
       vr_permission =
         (if is_in_group (GroupName ''lldap_admin'') then Admin
          else if is_in_group (GroupName ''lldap_password_manager'') then PasswordManager
          else if is_in_group (GroupName ''lldap_strict_readonly'') then Readonly
          else Regular)\<rparr>)"

definition get_permissions_for_user ::
  "externals \<Rightarrow> 's backend_handler \<Rightarrow> user_id \<Rightarrow> ('s, validation_results) backend_action" where
  "get_permissions_for_user ext h user_id =
     bind (bh_get_user_groups h user_id) (\<lambda>user_groups.
       return (get_permissions_from_groups ext user_id (map gd_display_name user_groups)))"

section \<open>The restricted lister\<close>

definition restricted_get_schema ::
  "('s, schema) backend_action \<Rightarrow> user_id option \<Rightarrow> ('s, schema) backend_action" where
  "restricted_get_schema read_schema user_filter =
     map_action (\<lambda>schema.
       if user_filter \<noteq> None then
         schema\<lparr>user_attributes := AttributeList (filter as_is_visible (attributes (user_attributes schema))),
                group_attributes := AttributeList (filter as_is_visible (attributes (group_attributes schema)))\<rparr>
       else schema) read_schema"

fun combine_user_filters ::
  "user_request_filter option \<Rightarrow> user_request_filter option \<Rightarrow> user_request_filter option" where
  "combine_user_filters None None = None"
| "combine_user_filters None u = u"
| "combine_user_filters f None = f"
| "combine_user_filters (Some f) (Some u) = Some (UAnd [f, u])"

definition restricted_list_users ::
  "(user_request_filter option \<Rightarrow> bool \<Rightarrow> ('s, user_and_groups list) backend_action) \<Rightarrow> user_id option
     \<Rightarrow> user_request_filter option \<Rightarrow> bool \<Rightarrow> ('s, user_and_groups list) backend_action" where
  "restricted_list_users list_users user_filter filters get_groups =
     list_users (combine_user_filters filters (map_option UUserId user_filter)) get_groups"

fun combine_group_filters ::
  "group_request_filter option \<Rightarrow> group_request_filter option \<Rightarrow> group_request_filter option" where
  "combine_group_filters None None = None"
| "combine_group_filters None u = u"
| "combine_group_filters f None = f"
| "combine_group_filters (Some f) (Some u) = Some (GAnd [f, u])"

definition restricted_list_groups ::
  "(group_request_filter option \<Rightarrow> ('s, group list) backend_action) \<Rightarrow> user_id option
     \<Rightarrow> group_request_filter option \<Rightarrow> ('s, group list) backend_action" where
  "restricted_list_groups list_groups user_filter filters =
     list_groups (combine_group_filters filters (map_option GMember user_filter))"

section \<open>The contract of a lister\<close>

text \<open>
  \<open>user_sat s f u\<close>: the listed user \<open>u\<close> satisfies the filter \<open>f\<close> in state \<open>s\<close>. Listing reads the
  state, does not change it, and returns satisfying users only.
\<close>

locale user_lister =
  fixes list_users :: "user_request_filter option \<Rightarrow> bool \<Rightarrow> ('s, user_and_groups list) backend_action"
    and user_sat :: "'s \<Rightarrow> user_request_filter \<Rightarrow> user_and_groups \<Rightarrow> bool"
  assumes list_users_pure: "snd (list_users fs b s) = s"
    and list_users_sound: "fst (list_users (Some f) b s) = Ok us \<Longrightarrow> u \<in> set us \<Longrightarrow> user_sat s f u"
    and user_sat_and: "user_sat s (UAnd l) u \<Longrightarrow> f \<in> set l \<Longrightarrow> user_sat s f u"
    and user_sat_id: "user_sat s (UUserId i) u \<Longrightarrow> u_user_id (ug_user u) = i"
begin

lemma restricted_users_pure: "snd (restricted_list_users list_users uf fs b s) = s"
  by (simp add: restricted_list_users_def list_users_pure)

lemma restricted_users_own:
  assumes "fst (restricted_list_users list_users (Some i) fs b s) = Ok us" and "u \<in> set us"
  shows "u_user_id (ug_user u) = i"
proof (cases fs)
  case None
  with assms list_users_sound [of "UUserId i" b s us u] show ?thesis
    by (simp add: restricted_list_users_def user_sat_id)
next
  case (Some f)
  with assms list_users_sound [of "UAnd [f, UUserId i]" b s us u] have "user_sat s (UAnd [f, UUserId i]) u"
    by (simp add: restricted_list_users_def)
  then show ?thesis by (auto intro: user_sat_id dest: user_sat_and)
qed

lemma restricted_users_sat:
  assumes "fst (restricted_list_users list_users uf (Some f) b s) = Ok us" and "u \<in> set us"
  shows "user_sat s f u"
proof (cases uf)
  case None
  with assms list_users_sound [of f b s us u] show ?thesis by (simp add: restricted_list_users_def)
next
  case (Some i)
  with assms list_users_sound [of "UAnd [f, UUserId i]" b s us u] have "user_sat s (UAnd [f, UUserId i]) u"
    by (simp add: restricted_list_users_def)
  then show ?thesis by (rule user_sat_and) simp
qed

end

locale group_lister =
  fixes list_groups :: "group_request_filter option \<Rightarrow> ('s, group list) backend_action"
    and group_sat :: "'s \<Rightarrow> group_request_filter \<Rightarrow> group \<Rightarrow> bool"
  assumes list_groups_pure: "snd (list_groups fs s) = s"
    and list_groups_sound: "fst (list_groups (Some f) s) = Ok gs \<Longrightarrow> g \<in> set gs \<Longrightarrow> group_sat s f g"
    and group_sat_and: "group_sat s (GAnd l) g \<Longrightarrow> f \<in> set l \<Longrightarrow> group_sat s f g"
    and group_sat_member: "group_sat s (GMember i) g \<Longrightarrow> i \<in> set (g_users g)"
begin

lemma restricted_groups_pure: "snd (restricted_list_groups list_groups uf fs s) = s"
  by (simp add: restricted_list_groups_def list_groups_pure)

lemma restricted_groups_member:
  assumes "fst (restricted_list_groups list_groups (Some i) fs s) = Ok gs" and "g \<in> set gs"
  shows "i \<in> set (g_users g)"
proof (cases fs)
  case None
  with assms list_groups_sound [of "GMember i" s gs g] show ?thesis
    by (simp add: restricted_list_groups_def group_sat_member)
next
  case (Some f)
  with assms list_groups_sound [of "GAnd [f, GMember i]" s gs g] have "group_sat s (GAnd [f, GMember i]) g"
    by (simp add: restricted_list_groups_def)
  then show ?thesis by (auto intro: group_sat_member dest: group_sat_and)
qed

lemma restricted_groups_sat:
  assumes "fst (restricted_list_groups list_groups uf (Some f) s) = Ok gs" and "g \<in> set gs"
  shows "group_sat s f g"
proof (cases uf)
  case None
  with assms list_groups_sound [of f s gs g] show ?thesis by (simp add: restricted_list_groups_def)
next
  case (Some i)
  with assms list_groups_sound [of "GAnd [f, GMember i]" s gs g] have "group_sat s (GAnd [f, GMember i]) g"
    by (simp add: restricted_list_groups_def)
  then show ?thesis by (rule group_sat_and) simp
qed

end

section \<open>Properties\<close>

text \<open>
  What each permission allows: the permission of a user is decided by membership in the three
  built-in groups, whatever the case of their names, the administrators' group first; and reading,
  writing and password changes are ordered: who may write an account may change its password, who may
  change its password may read it, only an administrator may change the password of another
  administrator, and only an administrator gets the administrative handler.
\<close>

theorem permissions_of_groups:
  fixes user_id target :: user_id and groups :: "group_name list" and h :: "'s backend_handler"
  assumes "lowercase_ok ext" and "\<forall>g\<in>set groups. ascii (GroupName_as_str g)"
  defines "lower_names \<equiv> (\<lambda>g. to_ascii_lowercase (GroupName_as_str g)) ` set groups"
  defines "v \<equiv> get_permissions_from_groups ext user_id groups"
  shows "vr_user v = user_id
    \<and> (is_admin v \<longleftrightarrow> ''lldap_admin'' \<in> lower_names)
    \<and> (can_read_all v \<longleftrightarrow> lower_names \<inter> {''lldap_admin'', ''lldap_password_manager'', ''lldap_strict_readonly''} \<noteq> {})
    \<and> (can_write v target \<longrightarrow> can_change_password v target b)
    \<and> (can_change_password v target b \<longrightarrow> can_read v target)
    \<and> (can_change_password v target True \<and> target \<noteq> user_id \<longrightarrow> ''lldap_admin'' \<in> lower_names)
    \<and> (get_admin_handler h v \<noteq> None \<longleftrightarrow> ''lldap_admin'' \<in> lower_names)"
proof -
  have "GroupName_eq ext g (GroupName n) \<longleftrightarrow> to_ascii_lowercase (GroupName_as_str g) = to_ascii_lowercase n"
    if "g \<in> set groups" "ascii n" for g n
    using that assms(1,2) by (simp add: GroupName_eq_iff lowercase_okD)
  then have in_group: "list_ex (\<lambda>g. GroupName_eq ext g (GroupName n)) groups \<longleftrightarrow> n \<in> lower_names"
    if "ascii n" "is_lower n" for n
    using that by (auto simp: list_ex_iff lower_names_def image_iff)
  have names: "ascii ''lldap_admin''" "ascii ''lldap_password_manager''" "ascii ''lldap_strict_readonly''"
    by code_simp+
  have perm: "vr_permission v = (if ''lldap_admin'' \<in> lower_names then Admin
      else if ''lldap_password_manager'' \<in> lower_names then PasswordManager
      else if ''lldap_strict_readonly'' \<in> lower_names then Readonly else Regular)" "vr_user v = user_id"
    using names by (simp_all add: v_def get_permissions_from_groups_def Let_def in_group)
  then show ?thesis by (auto simp: guard_simps get_admin_handler_def)
qed

theorem permissions_of_groups_witness:
  "is_admin (get_permissions_from_groups ascii_externals (UserId_new ''bob'') [GroupName ''LLDAP_Admin''])"
proof -
  have a: "\<forall>g\<in>set [GroupName ''LLDAP_Admin'']. ascii (GroupName_as_str g)" by code_simp
  have l: "to_ascii_lowercase ''LLDAP_Admin'' = ''lldap_admin''" by code_simp
  show ?thesis
    using permissions_of_groups [OF lowercase_ok_ascii_externals a, where user_id = "UserId_new ''bob''"
      and target = "UserId_new ''bob''" and b = True and h = "undefined :: unit backend_handler"] l by simp
qed

end
