(* ===== verification/Sql_Lister.thy ===== *)
theory Sql_Lister
  imports Sql_Invariant Access_Control
begin

text \<open>
  What the listing queries of the SQL backend return: the meaning of a request filter, written directly
  on the rows, agrees with the compiled SQL condition; the single pass that hands the attribute rows
  out gives every entity its own attributes; and the SQL backend is a lister in the sense of the
  access-control layer.
\<close>

section \<open>Substring filters\<close>

text \<open>The parts after the first, in order and without overlap, then the final part.\<close>

fun any_matches :: "string list \<Rightarrow> string \<Rightarrow> string \<Rightarrow> bool" where
  "any_matches [] e t = suffix e t"
| "any_matches (a # as) e t =
     list_ex (\<lambda>u. prefix a u \<and> any_matches as e (drop (length a) u)) (suffixes t)"

definition substring_matches :: "sub_string_filter \<Rightarrow> string \<Rightarrow> bool" where
  "substring_matches f t =
     (let low = to_ascii_lowercase;
          i = (case ssf_initial f of None \<Rightarrow> [] | Some i \<Rightarrow> low i);
          e = (case ssf_final f of None \<Rightarrow> [] | Some e \<Rightarrow> low e)
      in prefix i (low t) \<and> any_matches (map low (ssf_any f)) e (drop (length i) (low t)))"

definition no_wildcard :: "string \<Rightarrow> bool" where
  "no_wildcard p \<longleftrightarrow> CHR ''%'' \<notin> set p \<and> CHR ''_'' \<notin> set p"

definition literal_filter :: "sub_string_filter \<Rightarrow> bool" where
  "literal_filter f \<longleftrightarrow> (\<forall>p\<in>set_option (ssf_initial f) \<union> set (ssf_any f) \<union> set_option (ssf_final f). no_wildcard p)"

lemma ascii_Cons [simp]: "ascii (c # s) \<longleftrightarrow> c < CHR 0x80 \<and> ascii s"
  by (auto simp: ascii_def)

lemma utf8_len_ascii: "c < CHR 0x80 \<Longrightarrow> utf8_len c = 1"
proof -
  assume "c < CHR 0x80"
  moreover have "CHR 0x80 < CHR 0xC0" by (simp add: less_char_def)
  ultimately have "c < CHR 0xC0" by (rule less_trans)
  then show ?thesis by (simp add: utf8_len_def)
qed

lemma like_match_lit:
  assumes "no_wildcard l"
  shows "like_match (l @ p) t \<longleftrightarrow>
    prefix (to_ascii_lowercase l) (to_ascii_lowercase t) \<and> like_match p (drop (length l) t)"
  using assms
proof (induction l arbitrary: t)
  case (Cons c l)
  then show ?case
    by (cases t) (auto simp: no_wildcard_def like_match.simps(2) [of c])
qed simp

lemma like_match_percent:
  assumes "ascii t"
  shows "like_match (CHR ''%'' # p) t \<longleftrightarrow> list_ex (like_match p) (suffixes t)"
  using assms
proof (induction t)
  case Nil
  then show ?case by (simp add: like_match.simps(2))
next
  case (Cons d t)
  then show ?case
    by (simp add: like_match.simps(2) [of "CHR ''%''" p "d # t"] utf8_len_ascii) blast
qed

lemma ascii_suffix: "ascii t \<Longrightarrow> suffix u t \<Longrightarrow> ascii u"
  by (auto simp: ascii_def suffix_def)

lemma lower_drop [simp]: "to_ascii_lowercase (drop n t) = drop n (to_ascii_lowercase t)"
  by (simp add: to_ascii_lowercase_def drop_map)

lemma length_lower [simp]: "length (to_ascii_lowercase t) = length t"
  by (simp add: to_ascii_lowercase_def)

lemma suffixes_lower: "set (suffixes (to_ascii_lowercase t)) = to_ascii_lowercase ` set (suffixes t)"
  by (induction t) auto

lemma wildcard_lower:
  assumes "d = CHR ''%'' \<or> d = CHR ''_''" and "char_to_ascii_lowercase c = d"
  shows "c = d"
proof (cases c)
  case (Char b0 b1 b2 b3 b4 b5 b6 b7)
  then show ?thesis
    using assms by (cases "CHR ''A'' \<le> c \<and> c \<le> CHR ''Z''"; cases b5) auto
qed

lemma no_wildcard_lower [simp]: "no_wildcard p \<Longrightarrow> no_wildcard (to_ascii_lowercase p)"
proof -
  have "d \<notin> set (to_ascii_lowercase p)" if "d = CHR ''%'' \<or> d = CHR ''_''" "d \<notin> set p" for d
    using wildcard_lower [OF that(1)] that(2) unfolding to_ascii_lowercase_def set_map by (metis imageE)
  then show "no_wildcard p \<Longrightarrow> no_wildcard (to_ascii_lowercase p)"
    unfolding no_wildcard_def by blast
qed

lemma no_wildcard_nil [simp]: "no_wildcard []"
  by (simp add: no_wildcard_def)

lemma like_match_nil_lit: "no_wildcard l \<Longrightarrow> like_match l t \<longleftrightarrow> to_ascii_lowercase l = to_ascii_lowercase t"
proof -
  assume "no_wildcard l"
  then have "like_match l t \<longleftrightarrow> prefix (to_ascii_lowercase l) (to_ascii_lowercase t) \<and> length t \<le> length l"
    using like_match_lit [of l "[]" t] by (simp add: like_match.simps(1))
  also have "\<dots> \<longleftrightarrow> to_ascii_lowercase l = to_ascii_lowercase t"
  proof
    assume "prefix (to_ascii_lowercase l) (to_ascii_lowercase t) \<and> length t \<le> length l"
    then obtain z where "to_ascii_lowercase t = to_ascii_lowercase l @ z" and "length t \<le> length l"
      by (auto simp: prefix_def)
    moreover from this(1) have "length t = length l + length z"
      by (metis length_append length_lower)
    ultimately show "to_ascii_lowercase l = to_ascii_lowercase t" by simp
  next
    assume "to_ascii_lowercase l = to_ascii_lowercase t"
    then show "prefix (to_ascii_lowercase l) (to_ascii_lowercase t) \<and> length t \<le> length l"
      using length_lower [of l] length_lower [of t] by simp
  qed
  finally show ?thesis .
qed

lemma like_match_parts:
  assumes "\<forall>p\<in>set as. no_wildcard p" and "no_wildcard e" and "ascii t"
  shows "like_match (CHR ''%'' # concat (map (\<lambda>p. to_ascii_lowercase p @ ''%'') as) @ to_ascii_lowercase e) t
    \<longleftrightarrow> any_matches (map to_ascii_lowercase as) (to_ascii_lowercase e) (to_ascii_lowercase t)"
  using assms
proof (induction "as" arbitrary: t)
  case Nil
  then show ?case
    by (auto simp: like_match_percent like_match_nil_lit list_ex_iff suffixes_lower simp flip: in_set_suffixes)
next
  case (Cons a "as")
  have "like_match (to_ascii_lowercase a @ CHR ''%'' # q) u \<longleftrightarrow>
      prefix (to_ascii_lowercase a) (to_ascii_lowercase u) \<and> like_match (CHR ''%'' # q) (drop (length a) u)" for q u
    using Cons.prems by (simp add: like_match_lit)
  moreover have "ascii (drop (length a) u)" if "u \<in> set (suffixes t)" for u
    using that Cons.prems(3) by (auto simp: ascii_def suffix_def dest: in_set_dropD)
  ultimately show ?case
    using Cons by (auto simp: like_match_percent list_ex_iff suffixes_lower)
qed

lemma like_match_substring:
  assumes "literal_filter f" and "ascii t"
  shows "like_match (to_sql_filter f) t \<longleftrightarrow> substring_matches f t"
proof -
  let ?i = "case ssf_initial f of None \<Rightarrow> [] | Some i \<Rightarrow> i"
  let ?e = "case ssf_final f of None \<Rightarrow> [] | Some e \<Rightarrow> e"
  let ?parts = "CHR ''%'' # concat (map (\<lambda>p. to_ascii_lowercase p @ ''%'') (ssf_any f)) @ to_ascii_lowercase ?e"
  have lit: "no_wildcard ?i" "no_wildcard ?e" "\<forall>p\<in>set (ssf_any f). no_wildcard p"
    using assms(1) by (auto simp: literal_filter_def split: option.splits)
  have low: "(case x of None \<Rightarrow> [] | Some i \<Rightarrow> to_ascii_lowercase i) = to_ascii_lowercase (case x of None \<Rightarrow> [] | Some i \<Rightarrow> i)"
    for x by (simp split: option.splits)
  have "ascii (drop (length ?i) t)" using assms(2) by (auto simp: ascii_def dest: in_set_dropD)
  then have "like_match (to_ascii_lowercase ?i @ ?parts) t \<longleftrightarrow> prefix (to_ascii_lowercase ?i) (to_ascii_lowercase t)
      \<and> any_matches (map to_ascii_lowercase (ssf_any f)) (to_ascii_lowercase ?e) (to_ascii_lowercase (drop (length ?i) t))"
    using lit by (simp only: like_match_lit no_wildcard_lower like_match_parts length_lower lower_idem)
  then show ?thesis by (simp add: to_sql_filter_def substring_matches_def low Let_def)
qed

section \<open>The meaning of a request filter\<close>

fun user_matches :: "externals \<Rightarrow> db \<Rightarrow> users_row \<Rightarrow> user_request_filter \<Rightarrow> bool" where
  "user_matches ext s r (UAnd fs) = list_all (user_matches ext s r) fs"
| "user_matches ext s r (UOr fs) = list_ex (user_matches ext s r) fs"
| "user_matches ext s r (UNot f) = (\<not> user_matches ext s r f)"
| "user_matches ext s r (UUserId i) = (usr_user_id r = i)"
| "user_matches ext s r (UUserIdSubString f) = substring_matches f (UserId_as_str (usr_user_id r))"
| "user_matches ext s r (UEquality column v) =
     (if column = ColEmail then usr_lowercase_email r = str_to_lowercase ext v
      else user_col_text ext r column = Some v)"
| "user_matches ext s r (UAttributeEquality name v) =
     list_ex (\<lambda>a. uat_attribute_name a = name \<and> uat_value a = v \<and> uat_user_id a = usr_user_id r) (db_user_attributes s)"
| "user_matches ext s r (USubString column f) = list_ex (substring_matches f) (case user_col_text ext r column of None \<Rightarrow> [] | Some t \<Rightarrow> [t])"
| "user_matches ext s r (UMemberOf n) =
     list_ex (\<lambda>g. grp_lowercase_display_name g = str_to_lowercase ext (GroupName_as_str n)) (groups_of_user s (usr_user_id r))"
| "user_matches ext s r (UMemberOfId i) = list_ex (\<lambda>g. grp_group_id g = i) (groups_of_user s (usr_user_id r))"

text \<open>The rows and filters without \<open>NULL\<close>, wildcard or panic: no compared column is \<open>NULL\<close>, the parts of a
  substring filter hold no \<open>LIKE\<close> wildcard, the text searched is ASCII.\<close>

fun user_filter_regular :: "externals \<Rightarrow> users_row \<Rightarrow> user_request_filter \<Rightarrow> bool" where
  "user_filter_regular ext r (UAnd fs) = list_all (user_filter_regular ext r) fs"
| "user_filter_regular ext r (UOr fs) = list_all (user_filter_regular ext r) fs"
| "user_filter_regular ext r (UNot f) = user_filter_regular ext r f"
| "user_filter_regular ext r (UUserIdSubString f) = (literal_filter f \<and> ascii (UserId_as_str (usr_user_id r)))"
| "user_filter_regular ext r (UEquality column v) =
     (column \<notin> {ColUserId, ColPasswordHash} \<and> user_col_text ext r column \<noteq> None)"
| "user_filter_regular ext r (USubString column f) =
     (literal_filter f \<and> (case user_col_text ext r column of None \<Rightarrow> False | Some t \<Rightarrow> ascii t))"
| "user_filter_regular ext r _ = True"

lemma sql_and_Some: "sql_and (map (\<lambda>x. Some (p x)) xs) = Some (list_all p xs)"
  by (auto simp: sql_and_def list_all_iff)

lemma sql_or_Some: "sql_or (map (\<lambda>x. Some (p x)) xs) = Some (list_ex p xs)"
  by (auto simp: sql_or_def list_ex_iff)

lemma ascii_lower [simp]: "ascii t \<Longrightarrow> ascii (to_ascii_lowercase t)"
proof -
  have "char_to_ascii_lowercase c < CHR 0x80" if "c < CHR 0x80" for c
  proof (cases c)
    case (Char b0 b1 b2 b3 b4 b5 b6 b7)
    with that show ?thesis by (cases b7) (auto simp: less_char_def)
  qed
  then show "ascii t \<Longrightarrow> ascii (to_ascii_lowercase t)" by (auto simp: ascii_def to_ascii_lowercase_def)
qed

lemma substring_matches_lower [simp]: "substring_matches f (to_ascii_lowercase t) = substring_matches f t"
  by (simp add: substring_matches_def)

text \<open>The condition compiled from \<open>f\<close> and its value on the row \<open>r\<close>.\<close>

definition user_compiles :: "externals \<Rightarrow> db \<Rightarrow> users_row \<Rightarrow> user_request_filter \<Rightarrow> bool \<Rightarrow> bool" where
  "user_compiles ext s r f v \<longleftrightarrow>
     (\<exists>c. get_user_filter_expr ext f = (Ok c :: (user_cond, domain_error) result) \<and> eval_user_cond ext s r c = Some v)"

lemma user_compiles_list:
  assumes "\<forall>f\<in>set fs. user_compiles ext s r f (p f)"
  shows "\<exists>cs. collect_results (get_user_filter_expr ext) fs = (Ok cs :: (user_cond list, domain_error) result)
    \<and> map (eval_user_cond ext s r) cs = map (\<lambda>f. Some (p f)) fs"
  using assms
proof (induction fs)
  case (Cons f fs)
  then show ?case by (fastforce simp: user_compiles_def)
qed simp

lemma user_attribute_in:
  "\<lparr>uat_user_id = u, uat_attribute_name = n, uat_value = v\<rparr> \<in> set l \<longleftrightarrow>
     list_ex (\<lambda>a. uat_attribute_name a = n \<and> uat_value a = v \<and> uat_user_id a = u) l"
proof (induction l)
  case (Cons a l)
  then show ?case by (cases a) auto
qed simp

lemma user_filter_compiles:
  "user_filter_regular ext r f \<Longrightarrow> user_compiles ext s r f (user_matches ext s r f)"
proof (induction f)
  case (UAnd fs)
  then have "\<forall>f\<in>set fs. user_compiles ext s r f (user_matches ext s r f)" by (simp add: list_all_iff)
  from user_compiles_list [OF this] show ?case
    by (auto simp: user_compiles_def get_repeated_all sql_and_Some)
next
  case (UOr fs)
  then have "\<forall>f\<in>set fs. user_compiles ext s r f (user_matches ext s r f)" by (simp add: list_all_iff)
  from user_compiles_list [OF this] show ?case
    by (auto simp: user_compiles_def get_repeated_any sql_or_Some)
next
  case (UNot f)
  then show ?case by (auto simp: user_compiles_def sql_not_def)
next
  case (UUserId i)
  then show ?case by (auto simp: user_compiles_def user_id.expand)
next
  case (UUserIdSubString f)
  then show ?case by (simp add: user_compiles_def like_match_substring)
next
  case (UAttributeEquality n v)
  then show ?case
    by (simp add: user_compiles_def user_attribute_condition_def user_attribute_in)
next
  case (USubString c f)
  then show ?case by (auto simp: user_compiles_def like_match_substring split: option.splits)
qed (auto simp: user_compiles_def)

section \<open>Handing out the attribute rows\<close>

lemma takeWhile_sorted_key:
  fixes key :: "'a \<Rightarrow> 'k :: linorder"
  assumes "sorted (map key xs)" and "\<forall>x\<in>set xs. k \<le> key x"
  shows "takeWhile (\<lambda>x. key x = k) xs = filter (\<lambda>x. key x = k) xs"
    and "dropWhile (\<lambda>x. key x = k) xs = filter (\<lambda>x. key x \<noteq> k) xs"
  using assms
proof (induction xs)
  case (Cons x xs)
  {
    case 1
    show ?case
    proof (cases "key x = k")
      case False
      with 1 have "\<forall>y\<in>set xs. key y \<noteq> k" by fastforce
      with False show ?thesis by (auto simp: filter_empty_conv)
    qed (use 1 Cons.IH in auto)
  next
    case 2
    show ?case
    proof (cases "key x = k")
      case False
      with 2 have "\<forall>y\<in>set xs. key y \<noteq> k" by fastforce
      with False show ?thesis by (auto simp: filter_id_conv)
    qed (use 2 Cons.IH in auto)
  }
qed auto

lemma assign_user_attributes_filter:
  assumes "sorted (map (\<lambda>u. UserId_as_str (u_user_id (ug_user u))) us)"
    and "distinct (map (\<lambda>u. u_user_id (ug_user u)) us)"
    and "sorted (map (\<lambda>a. UserId_as_str (uat_user_id a)) rows)"
    and "\<forall>a\<in>set rows. uat_user_id a \<in> (\<lambda>u. u_user_id (ug_user u)) ` set us"
  shows "assign_user_attributes us rows = map (\<lambda>u. u\<lparr>ug_user := (ug_user u)\<lparr>u_attributes :=
    map AttributeValue_from_user (filter (\<lambda>a. uat_user_id a = u_user_id (ug_user u)) rows)\<rparr>\<rparr>) us"
  using assms
proof (induction us arbitrary: rows)
  case (Cons u us)
  let ?k = "u_user_id (ug_user u)"
  have eq: "UserId_as_str i = UserId_as_str j \<longleftrightarrow> i = j" for i j by (auto intro: user_id.expand)
  have "\<forall>a\<in>set rows. UserId_as_str ?k \<le> UserId_as_str (uat_user_id a)" using Cons.prems(1,4) by auto
  note tw = takeWhile_sorted_key [OF Cons.prems(3) this, unfolded eq]
  have "assign_user_attributes us (filter (\<lambda>a. uat_user_id a \<noteq> ?k) rows) =
      map (\<lambda>u. u\<lparr>ug_user := (ug_user u)\<lparr>u_attributes := map AttributeValue_from_user
        (filter (\<lambda>a. uat_user_id a = u_user_id (ug_user u)) (filter (\<lambda>a. uat_user_id a \<noteq> ?k) rows))\<rparr>\<rparr>) us"
    using Cons.prems by (intro Cons.IH) (auto simp: sorted_filter)
  moreover have "filter (\<lambda>a. uat_user_id a = u_user_id (ug_user v)) (filter (\<lambda>a. uat_user_id a \<noteq> ?k) rows)
      = filter (\<lambda>a. uat_user_id a = u_user_id (ug_user v)) rows" if "v \<in> set us" for v
    using Cons.prems(2) that by (auto simp: filter_filter intro!: filter_cong)
  ultimately show ?case by (simp add: tw Let_def cong: map_cong)
qed simp

text \<open>A row with its groups and its attributes: what the listing and the details query show of a user.\<close>

definition user_view :: "db \<Rightarrow> users_row \<Rightarrow> user" where
  "user_view s r = (User_from r)\<lparr>u_attributes := map AttributeValue_from_user (attributes_of_user s (usr_user_id r))\<rparr>"

definition listed_user :: "db \<Rightarrow> users_row \<Rightarrow> user_and_groups" where
  "listed_user s r = \<lparr>ug_user = user_view s r,
     ug_groups = Some (map GroupDetails_from (linked_groups s (usr_user_id r)))\<rparr>"

lemma filter_ordered_attributes:
  assumes "u \<in> S"
  shows "filter (\<lambda>a. uat_user_id a = u) (order_user_attributes (filter (\<lambda>a. uat_user_id a \<in> S) l))
    = sort_key (\<lambda>a. AttributeName_as_str (uat_attribute_name a)) (filter (\<lambda>a. uat_user_id a = u) l)"
proof -
  have "filter (\<lambda>a. uat_user_id a = u) (filter (\<lambda>a. uat_user_id a \<in> S) l) = filter (\<lambda>a. uat_user_id a = u) l"
    using assms by (auto simp: filter_filter intro!: filter_cong)
  then show ?thesis
    by (simp add: order_user_attributes_def filter_sort sort_key_same [where c = "UserId_as_str u"])
qed

lemma list_users_rows:
  assumes inv: "db_inv s"
    and c: "(case filters of None \<Rightarrow> Ok (UcValue True) | Some f \<Rightarrow> get_user_filter_expr ext f) = (Ok c :: (user_cond, domain_error) result)"
  shows "list_users ext filters b s =
    (Ok (map (listed_user s) (sort_key (\<lambda>r. UserId_as_str (usr_user_id r)) (where_users ext s c))), s)"
proof -
  let ?rows = "sort_key (\<lambda>r. UserId_as_str (usr_user_id r)) (where_users ext s c)"
  let ?us = "map (\<lambda>r. \<lparr>ug_user = User_from r, ug_groups = Some (map GroupDetails_from (linked_groups s (usr_user_id r)))\<rparr>) ?rows"
  let ?attrs = "order_user_attributes (filter (\<lambda>a. uat_user_id a \<in> usr_user_id ` set (where_users ext s c)) (db_user_attributes s))"
  have "distinct (map usr_user_id ?rows)"
    using inv by (simp add: distinct_map distinct_filter where_users_def db_inv_def users_ok_def inj_on_def)
  moreover have "sorted (map (\<lambda>r. UserId_as_str (usr_user_id r)) ?rows)" by simp
  ultimately have "assign_user_attributes ?us ?attrs = map (\<lambda>u. u\<lparr>ug_user := (ug_user u)\<lparr>u_attributes :=
      map AttributeValue_from_user (filter (\<lambda>a. uat_user_id a = u_user_id (ug_user u)) ?attrs)\<rparr>\<rparr>) ?us"
    by (intro assign_user_attributes_filter)
       (auto simp: comp_def User_from_def order_user_attributes_def image_image)
  also have "\<dots> = map (listed_user s) ?rows"
    by (auto simp: listed_user_def user_view_def User_from_def attributes_of_user_def filter_ordered_attributes)
  finally show ?thesis using c
    by (simp add: list_users_def monad_simps Let_def)
qed

lemma find_user_row:
  assumes "db_inv s" and "r \<in> set (db_users s)"
  shows "find_user s (usr_user_id r) = Some r"
  using find_distinct_key [of usr_user_id "db_users s" r] assms
  by (simp add: find_user_def db_inv_def users_ok_def)

lemma get_user_details_view:
  assumes "db_inv s" and "r \<in> set (db_users s)"
  shows "get_user_details (usr_user_id r) s = (Ok (user_view s r), s)"
  by (simp add: get_user_details_def find_user_row [OF assms] user_view_def monad_simps)

lemma where_users_matches:
  assumes "\<forall>r\<in>set (db_users s). user_filter_regular ext r f"
    and "get_user_filter_expr ext f = (Ok c :: (user_cond, domain_error) result)"
  shows "where_users ext s c = filter (\<lambda>r. user_matches ext s r f) (db_users s)"
proof -
  have "eval_user_cond ext s r c = Some (user_matches ext s r f)" if "r \<in> set (db_users s)" for r
    using user_filter_compiles [of ext r f s] assms that by (auto simp: user_compiles_def)
  then show ?thesis by (auto simp: where_users_def intro!: filter_cong)
qed

subsection \<open>Groups\<close>

lemma assign_group_attributes_filter:
  assumes "sorted (map (\<lambda>g. group_id_int (g_id g)) gs)" and "distinct (map g_id gs)"
    and "sorted (map (\<lambda>a. group_id_int (gat_group_id a)) rows)"
    and "\<forall>a\<in>set rows. gat_group_id a \<in> g_id ` set gs"
  shows "assign_group_attributes gs rows = map (\<lambda>g. g\<lparr>g_attributes :=
    map AttributeValue_from_group (filter (\<lambda>a. gat_group_id a = g_id g) rows)\<rparr>) gs"
  using assms
proof (induction gs arbitrary: rows)
  case (Cons g gs)
  have eq: "group_id_int i = group_id_int j \<longleftrightarrow> i = j" for i j by (auto intro: group_id.expand)
  have "\<forall>a\<in>set rows. group_id_int (g_id g) \<le> group_id_int (gat_group_id a)" using Cons.prems(1,4) by auto
  note tw = takeWhile_sorted_key [OF Cons.prems(3) this, unfolded eq]
  have "assign_group_attributes gs (filter (\<lambda>a. gat_group_id a \<noteq> g_id g) rows) =
      map (\<lambda>h. h\<lparr>g_attributes := map AttributeValue_from_group
        (filter (\<lambda>a. gat_group_id a = g_id h) (filter (\<lambda>a. gat_group_id a \<noteq> g_id g) rows))\<rparr>) gs"
    using Cons.prems by (intro Cons.IH) (auto simp: sorted_filter)
  moreover have "filter (\<lambda>a. gat_group_id a = g_id h) (filter (\<lambda>a. gat_group_id a \<noteq> g_id g) rows)
      = filter (\<lambda>a. gat_group_id a = g_id h) rows" if "h \<in> set gs" for h
    using Cons.prems(2) that by (auto simp: filter_filter intro!: filter_cong)
  ultimately show ?case by (simp add: tw Let_def cong: map_cong)
qed simp

definition listed_group :: "db \<Rightarrow> groups_row \<Rightarrow> group" where
  "listed_group s r = (Group_from r)\<lparr>g_users := members_of_group s (grp_group_id r),
     g_attributes := map AttributeValue_from_group (attributes_of_group s (grp_group_id r))\<rparr>"

lemma filter_ordered_group_attributes:
  assumes "g \<in> S"
  shows "filter (\<lambda>a. gat_group_id a = g) (order_group_attributes (filter (\<lambda>a. gat_group_id a \<in> S) l))
    = sort_key (\<lambda>a. AttributeName_as_str (gat_attribute_name a)) (filter (\<lambda>a. gat_group_id a = g) l)"
proof -
  have "filter (\<lambda>a. gat_group_id a = g) (filter (\<lambda>a. gat_group_id a \<in> S) l) = filter (\<lambda>a. gat_group_id a = g) l"
    using assms by (auto simp: filter_filter intro!: filter_cong)
  then show ?thesis
    by (simp add: order_group_attributes_def filter_sort sort_key_same [where c = "group_id_int g"])
qed

lemma list_groups_rows:
  assumes inv: "db_inv s"
    and c: "c = (case filters of None \<Rightarrow> GcValue True | Some f \<Rightarrow> get_group_filter_expr ext f)"
  shows "list_groups ext filters s = (Ok (sort_groups ext (map (listed_group s)
    (sort_key (\<lambda>r. group_id_int (grp_group_id r)) (where_groups s c)))), s)"
proof -
  let ?rows = "sort_key (\<lambda>r. group_id_int (grp_group_id r)) (where_groups s c)"
  let ?gs = "map (\<lambda>r. (Group_from r)\<lparr>g_users := members_of_group s (grp_group_id r)\<rparr>) ?rows"
  let ?attrs = "order_group_attributes (filter (\<lambda>a. gat_group_id a \<in> grp_group_id ` set (where_groups s c)) (db_group_attributes s))"
  have "distinct (map grp_group_id ?rows)"
    using inv by (simp add: distinct_map distinct_filter where_groups_def db_inv_def groups_ok_def inj_on_def)
  moreover have "sorted (map (\<lambda>r. group_id_int (grp_group_id r)) ?rows)" by simp
  ultimately have "assign_group_attributes ?gs ?attrs = map (\<lambda>g. g\<lparr>g_attributes :=
      map AttributeValue_from_group (filter (\<lambda>a. gat_group_id a = g_id g) ?attrs)\<rparr>) ?gs"
    by (intro assign_group_attributes_filter)
       (auto simp: comp_def Group_from_def order_group_attributes_def image_image)
  also have "\<dots> = map (listed_group s) ?rows"
    by (auto simp: listed_group_def Group_from_def attributes_of_group_def filter_ordered_group_attributes)
  finally show ?thesis by (simp add: list_groups_def monad_simps Let_def c)
qed

fun group_matches :: "externals \<Rightarrow> db \<Rightarrow> groups_row \<Rightarrow> group_request_filter \<Rightarrow> bool" where
  "group_matches ext s r (GAnd fs) = list_all (group_matches ext s r) fs"
| "group_matches ext s r (GOr fs) = list_ex (group_matches ext s r) fs"
| "group_matches ext s r (GNot f) = (\<not> group_matches ext s r f)"
| "group_matches ext s r (GDisplayName n) =
     (grp_lowercase_display_name r = str_to_lowercase ext (GroupName_as_str n))"
| "group_matches ext s r (GGroupId i) = (grp_group_id r = i)"
| "group_matches ext s r (GUuid u) = (grp_uuid r = u)"
| "group_matches ext s r (GMember u) = (u \<in> set (members_of_group s (grp_group_id r)))"
| "group_matches ext s r (GDisplayNameSubString f) = substring_matches f (grp_lowercase_display_name r)"
| "group_matches ext s r (GAttributeEquality name v) =
     list_ex (\<lambda>a. gat_attribute_name a = name \<and> gat_value a = v \<and> gat_group_id a = grp_group_id r) (db_group_attributes s)"

fun group_filter_regular :: "groups_row \<Rightarrow> group_request_filter \<Rightarrow> bool" where
  "group_filter_regular r (GAnd fs) = list_all (group_filter_regular r) fs"
| "group_filter_regular r (GOr fs) = list_all (group_filter_regular r) fs"
| "group_filter_regular r (GNot f) = group_filter_regular r f"
| "group_filter_regular r (GDisplayNameSubString f) = (literal_filter f \<and> ascii (grp_lowercase_display_name r))"
| "group_filter_regular r _ = True"

lemma membership_in:
  "\<lparr>mem_user_id = u, mem_group_id = g\<rparr> \<in> set (db_memberships s) \<longleftrightarrow> u \<in> set (members_of_group s g)"
proof -
  have "\<lparr>mem_user_id = u, mem_group_id = g\<rparr> = m \<longleftrightarrow> mem_group_id m = g \<and> mem_user_id m = u" for m
    by (cases m) auto
  then have "\<lparr>mem_user_id = u, mem_group_id = g\<rparr> \<in> set l \<longleftrightarrow> (\<exists>m\<in>set l. mem_group_id m = g \<and> mem_user_id m = u)" for l
    by metis
  then show ?thesis by (auto simp: members_of_group_def image_iff)
qed

lemma group_attribute_in:
  "\<lparr>gat_group_id = g, gat_attribute_name = n, gat_value = v\<rparr> \<in> set l \<longleftrightarrow>
     list_ex (\<lambda>a. gat_attribute_name a = n \<and> gat_value a = v \<and> gat_group_id a = g) l"
proof (induction l)
  case (Cons a l)
  then show ?case by (cases a) auto
qed simp

lemma group_filter_compiles:
  "group_filter_regular r f \<Longrightarrow>
     eval_group_cond s r (get_group_filter_expr ext f) = Some (group_matches ext s r f)"
proof (induction f)
  case (GAnd fs)
  then have "map (\<lambda>f. eval_group_cond s r (get_group_filter_expr ext f)) fs = map (\<lambda>f. Some (group_matches ext s r f)) fs"
    by (simp add: list_all_iff)
  then show ?case by (simp only: eval_group_and sql_and_Some group_matches.simps)
next
  case (GOr fs)
  then have "map (\<lambda>f. eval_group_cond s r (get_group_filter_expr ext f)) fs = map (\<lambda>f. Some (group_matches ext s r f)) fs"
    by (simp add: list_all_iff)
  then show ?case by (simp only: eval_group_or sql_or_Some group_matches.simps)
next
  case (GUuid u)
  then show ?case by (auto intro: uuid.expand)
qed (simp_all add: sql_not_def membership_in like_match_substring group_attribute_condition_def group_attribute_in)

section \<open>The SQL backend is a lister\<close>

definition sql_user_sat :: "externals \<Rightarrow> db \<Rightarrow> user_request_filter \<Rightarrow> user_and_groups \<Rightarrow> bool" where
  "sql_user_sat ext s f u \<longleftrightarrow> (\<exists>r\<in>set (db_users s). usr_user_id r = u_user_id (ug_user u) \<and> user_compiles ext s r f True)"

definition sql_group_sat :: "externals \<Rightarrow> db \<Rightarrow> group_request_filter \<Rightarrow> group \<Rightarrow> bool" where
  "sql_group_sat ext s f g \<longleftrightarrow> (\<exists>r\<in>set (db_groups s). grp_group_id r = g_id g
     \<and> g_display_name g = grp_display_name r \<and> g_users g = members_of_group s (grp_group_id r)
     \<and> eval_group_cond s r (get_group_filter_expr ext f) = Some True)"

lemma user_compiles_And:
  assumes "user_compiles ext s r (UAnd l) True" and "f \<in> set l"
  shows "user_compiles ext s r f True"
proof -
  from assms(1) obtain cs where cs: "collect_results (get_user_filter_expr ext) l = (Ok cs :: (user_cond list, domain_error) result)"
    and all: "\<forall>c\<in>set cs. eval_user_cond ext s r c = Some True"
    by (auto simp: user_compiles_def get_repeated_all sql_and_True)
  with collect_results_mem [OF cs assms(2)] show ?thesis by (auto simp: user_compiles_def)
qed

lemma assign_user_ids: "map (\<lambda>u. u_user_id (ug_user u)) (assign_user_attributes us rows) = map (\<lambda>u. u_user_id (ug_user u)) us"
  by (induction us arbitrary: rows) (auto simp: Let_def)

interpretation sql_users: user_lister "list_users ext" "sql_user_sat ext" for ext
proof
  fix fs b s
  show "snd (list_users ext fs b s) = s"
    by (simp add: list_users_def monad_simps Let_def split: result.splits)
next
  fix f b s us u
  assume "fst (list_users ext (Some f) b s) = Ok us" and u: "u \<in> set us"
  then obtain c us0 rows where c: "get_user_filter_expr ext f = (Ok c :: (user_cond, domain_error) result)"
    and us: "us = assign_user_attributes us0 rows"
    and us0: "(\<lambda>u. u_user_id (ug_user u)) ` set us0 = usr_user_id ` set (where_users ext s c)"
    by (auto simp: list_users_def monad_simps Let_def image_image User_from_def split: result.splits)
  have "u_user_id (ug_user u) \<in> (\<lambda>u. u_user_id (ug_user u)) ` set us0"
    using u us assign_user_ids [of us0 rows] by (metis image_eqI set_map)
  with us0 c show "sql_user_sat ext s f u"
    by (auto simp: sql_user_sat_def user_compiles_def where_users_def)
next
  fix s l u f
  assume "sql_user_sat ext s (UAnd l) u" and "f \<in> set l"
  then show "sql_user_sat ext s f u" by (auto simp: sql_user_sat_def intro: user_compiles_And)
next
  fix s i u
  assume "sql_user_sat ext s (UUserId i) u"
  then show "u_user_id (ug_user u) = i"
    by (auto simp: sql_user_sat_def user_compiles_def intro: user_id.expand)
qed

lemma assign_group_ids:
  "map (\<lambda>g. (g_id g, g_display_name g, g_users g)) (assign_group_attributes gs rows)
     = map (\<lambda>g. (g_id g, g_display_name g, g_users g)) gs"
  by (induction gs arbitrary: rows) (auto simp: Let_def)

interpretation sql_groups: group_lister "list_groups ext" "sql_group_sat ext" for ext
proof
  fix fs s
  show "snd (list_groups ext fs s) = s" by (simp add: list_groups_def monad_simps Let_def)
next
  fix f s gs g
  assume "fst (list_groups ext (Some f) s) = Ok gs" and g: "g \<in> set gs"
  then obtain gs0 rows where gs: "set gs = set (assign_group_attributes gs0 rows)"
    and gs0: "(\<lambda>g. (g_id g, g_display_name g, g_users g)) ` set gs0
      = (\<lambda>r. (grp_group_id r, grp_display_name r, members_of_group s (grp_group_id r))) ` set (where_groups s (get_group_filter_expr ext f))"
    by (auto simp: list_groups_def monad_simps Let_def image_image Group_from_def sort_groups_def)
  have "(g_id g, g_display_name g, g_users g) \<in> (\<lambda>g. (g_id g, g_display_name g, g_users g)) ` set gs0"
    using g gs assign_group_ids [of gs0 rows] by (metis (mono_tags, lifting) image_eqI set_map)
  with gs0 show "sql_group_sat ext s f g" by (auto simp: sql_group_sat_def where_groups_def)
next
  fix s l g f
  assume "sql_group_sat ext s (GAnd l) g" and "f \<in> set l"
  then show "sql_group_sat ext s f g"
    by (auto simp: sql_group_sat_def eval_group_and sql_and_True simp del: get_group_filter_expr.simps)
next
  fix s i g
  assume "sql_group_sat ext s (GMember i) g"
  then show "i \<in> set (g_users g)" by (auto simp: sql_group_sat_def membership_in)
qed

section \<open>Properties\<close>

definition demo_db :: db where
  "demo_db =
     \<lparr>db_users =
        [\<lparr>usr_user_id = UserId ''patrick'', usr_email = Email ''P@x.org'', usr_lowercase_email = ''p@x.org'',
          usr_display_name = Some ''Patrick'', usr_creation_date = 0, usr_password_hash = None,
          usr_totp_secret = None, usr_mfa_type = None, usr_uuid = Uuid ''1''\<rparr>,
         \<lparr>usr_user_id = UserId ''bob'', usr_email = Email ''bob@x.org'', usr_lowercase_email = ''bob@x.org'',
          usr_display_name = None, usr_creation_date = 0, usr_password_hash = Some ''hash'',
          usr_totp_secret = None, usr_mfa_type = None, usr_uuid = Uuid ''2''\<rparr>],
      db_groups =
        [\<lparr>grp_group_id = GroupId 1, grp_display_name = GroupName ''lldap_admin'',
          grp_lowercase_display_name = ''lldap_admin'', grp_creation_date = 0, grp_uuid = Uuid ''3''\<rparr>,
         \<lparr>grp_group_id = GroupId 2, grp_display_name = GroupName ''Friends'',
          grp_lowercase_display_name = ''friends'', grp_creation_date = 0, grp_uuid = Uuid ''4''\<rparr>],
      db_memberships =
        [\<lparr>mem_user_id = UserId ''patrick'', mem_group_id = GroupId 1\<rparr>,
         \<lparr>mem_user_id = UserId ''bob'', mem_group_id = GroupId 2\<rparr>],
      db_user_attributes =
        [\<lparr>uat_user_id = UserId ''patrick'', uat_attribute_name = AttributeName ''last_name'', uat_value = Serialized ''Star''\<rparr>,
         \<lparr>uat_user_id = UserId ''bob'', uat_attribute_name = AttributeName ''first_name'', uat_value = Serialized ''Bob''\<rparr>],
      db_group_attributes = [],
      db_user_attribute_schema =
        [\<lparr>uas_attribute_name = AttributeName ''first_name'', uas_attribute_type = AttrString, uas_is_list = False,
          uas_is_user_visible = True, uas_is_user_editable = True, uas_is_hardcoded = True\<rparr>,
         \<lparr>uas_attribute_name = AttributeName ''last_name'', uas_attribute_type = AttrString, uas_is_list = False,
          uas_is_user_visible = True, uas_is_user_editable = True, uas_is_hardcoded = True\<rparr>],
      db_group_attribute_schema = [], db_user_object_classes = [], db_group_object_classes = [],
      db_jwt_refresh_storage = [\<lparr>jr_refresh_token_hash = 7, jr_user_id = UserId ''bob'', jr_expiry_date = 9\<rparr>],
      db_jwt_storage = [], db_password_reset_tokens = [], db_next_group_id = 3\<rparr>"

text \<open>A small database the examples run on.\<close>

lemma demo_db_inv: "db_inv demo_db"
  by (simp add: demo_db_def db_inv_def db_ok_defs db_fk_defs)





end
