(* ===== verification/Sql_Crud.thy ===== *)
theory Sql_Crud
  imports Sql_Lister
begin

text \<open>
  What the writing operations of the SQL backend do to what the reading ones return: creation and
  reading back, updates attribute by attribute, deletion with its cascade, memberships; that a failed
  operation leaves the database alone; and that every database reachable by a sequence of operations is
  well-formed.
\<close>

section \<open>A sequence of operations\<close>

text \<open>The calls of \<open>BackendHandler\<close> that write, with the clock reading where the call takes one.\<close>

datatype backend_op =
    OpCreateUser naive_date_time create_user_request
  | OpUpdateUser update_user_request
  | OpDeleteUser user_id
  | OpAddUserToGroup user_id group_id
  | OpRemoveUserFromGroup user_id group_id
  | OpCreateGroup naive_date_time create_group_request
  | OpUpdateGroup update_group_request
  | OpDeleteGroup group_id
  | OpAddUserAttribute create_attribute_request
  | OpAddGroupAttribute create_attribute_request
  | OpDeleteUserAttribute attribute_name
  | OpDeleteGroupAttribute attribute_name
  | OpAddUserObjectClass ldap_object_class
  | OpAddGroupObjectClass ldap_object_class
  | OpDeleteUserObjectClass ldap_object_class
  | OpDeleteGroupObjectClass ldap_object_class

fun run_op :: "externals \<Rightarrow> backend_op \<Rightarrow> (db, unit) backend_action" where
  "run_op ext (OpCreateUser now r) = create_user ext now r"
| "run_op ext (OpUpdateUser r) = update_user ext r"
| "run_op ext (OpDeleteUser u) = delete_user u"
| "run_op ext (OpAddUserToGroup u g) = add_user_to_group u g"
| "run_op ext (OpRemoveUserFromGroup u g) = remove_user_from_group u g"
| "run_op ext (OpCreateGroup now r) = bind (create_group ext now r) (\<lambda>_. return ())"
| "run_op ext (OpUpdateGroup r) = update_group ext r"
| "run_op ext (OpDeleteGroup g) = delete_group g"
| "run_op ext (OpAddUserAttribute r) = add_user_attribute r"
| "run_op ext (OpAddGroupAttribute r) = add_group_attribute r"
| "run_op ext (OpDeleteUserAttribute n) = delete_user_attribute n"
| "run_op ext (OpDeleteGroupAttribute n) = delete_group_attribute n"
| "run_op ext (OpAddUserObjectClass c) = add_user_object_class c"
| "run_op ext (OpAddGroupObjectClass c) = add_group_object_class c"
| "run_op ext (OpDeleteUserObjectClass c) = delete_user_object_class c"
| "run_op ext (OpDeleteGroupObjectClass c) = delete_group_object_class c"

inductive sql_step :: "externals \<Rightarrow> db \<Rightarrow> db \<Rightarrow> bool" for ext where
  step: "snd (run_op ext op s) = t \<Longrightarrow> sql_step ext s t"

inductive_cases sql_stepE: "sql_step ext s t"

inductive sql_reachable :: "externals \<Rightarrow> db \<Rightarrow> db \<Rightarrow> bool" for ext where
  reachable_refl: "sql_reachable ext s s"
| reachable_step: "sql_reachable ext s t \<Longrightarrow> sql_step ext t u \<Longrightarrow> sql_reachable ext s u"

lemma run_op_inv [preserves_intros]: "preserves db_inv (run_op ext op)"
  by (cases op) (simp_all add: preserves_intros)

lemma sql_step_inv: "sql_step ext s t \<Longrightarrow> db_inv s \<Longrightarrow> db_inv t"
  by (auto elim!: sql_stepE intro: preservesD [OF run_op_inv])

lemma sql_reachable_inv: "sql_reachable ext s t \<Longrightarrow> db_inv s \<Longrightarrow> db_inv t"
  by (induction rule: sql_reachable.induct) (auto intro: sql_step_inv)

text \<open>An action that leaves the state alone unless it succeeds.\<close>

definition atomic_on :: "('s \<Rightarrow> bool) \<Rightarrow> ('s, 'a, 'e) action \<Rightarrow> bool" where
  "atomic_on P m \<longleftrightarrow> (\<forall>s. P s \<longrightarrow> (\<forall>x. fst (m s) \<noteq> Ok x) \<longrightarrow> snd (m s) = s)"

lemma atomic_transaction: "atomic_on P (transaction m)"
  by (auto simp: atomic_on_def transaction_def split: prod.splits result.splits)

lemma atomic_bind_return: "atomic_on P m \<Longrightarrow> atomic_on P (bind m (\<lambda>x. return (f x)))"
  by (auto simp: atomic_on_def monad_simps split: prod.splits result.splits)

lemma filter_none: "filter (\<lambda>x. k x = u) l = [] \<Longrightarrow> filter (\<lambda>x. k x \<noteq> u) l = l"
  by (auto simp: filter_empty_conv filter_id_conv)

lemma no_user_no_rows:
  assumes "db_inv s" and "\<not> user_exists s u"
  shows "sql_delete_user u s = (Ok 0, s)"
proof -
  have "filter (\<lambda>r. usr_user_id r = u) (db_users s) = []" "filter (\<lambda>r. usr_user_id r \<noteq> u) (db_users s) = db_users s"
    "filter (\<lambda>m. mem_user_id m \<noteq> u) (db_memberships s) = db_memberships s"
    "filter (\<lambda>a. uat_user_id a \<noteq> u) (db_user_attributes s) = db_user_attributes s"
    "filter (\<lambda>j. jr_user_id j \<noteq> u) (db_jwt_refresh_storage s) = db_jwt_refresh_storage s"
    "filter (\<lambda>j. js_user_id j \<noteq> u) (db_jwt_storage s) = db_jwt_storage s"
    "filter (\<lambda>t. pr_user_id t \<noteq> u) (db_password_reset_tokens s) = db_password_reset_tokens s"
    using assms by (auto simp: db_inv_def db_ok_defs filter_id_conv filter_empty_conv user_attribute_fk_def)
      (auto simp: user_exists_def)
  then show ?thesis by (simp add: sql_delete_user_def monad_simps)
qed

lemma no_group_no_rows:
  assumes "db_inv s" and "\<not> group_exists s g"
  shows "sql_delete_group g s = (Ok 0, s)"
proof -
  have "filter (\<lambda>r. grp_group_id r = g) (db_groups s) = []" "filter (\<lambda>r. grp_group_id r \<noteq> g) (db_groups s) = db_groups s"
    "filter (\<lambda>m. mem_group_id m \<noteq> g) (db_memberships s) = db_memberships s"
    "filter (\<lambda>a. gat_group_id a \<noteq> g) (db_group_attributes s) = db_group_attributes s"
    using assms by (auto simp: db_inv_def db_ok_defs filter_id_conv filter_empty_conv group_attribute_fk_def)
      (auto simp: group_exists_def)
  then show ?thesis by (simp add: sql_delete_group_def monad_simps)
qed

lemma user_exists_filter: "user_exists s u \<longleftrightarrow> filter (\<lambda>r. usr_user_id r = u) (db_users s) \<noteq> []"
  by (auto simp: user_exists_def filter_empty_conv)

lemma group_exists_filter: "group_exists s g \<longleftrightarrow> filter (\<lambda>r. grp_group_id r = g) (db_groups s) \<noteq> []"
  by (auto simp: group_exists_def filter_empty_conv)

lemma delete_user_cases:
  assumes "db_inv s"
  shows "delete_user u s = (if user_exists s u then (Ok (), snd (sql_delete_user u s))
    else (Err (EntityNotFound (''No such user: '' @ single_quoted (UserId_as_str u))), s))"
  using no_user_no_rows [OF assms, of u]
  by (auto simp: delete_user_def monad_simps sql_delete_user_def user_exists_filter)

lemma delete_group_cases:
  assumes "db_inv s"
  shows "delete_group g s = (if group_exists s g then (Ok (), snd (sql_delete_group g s))
    else (Err (EntityNotFound (''No such group: '' @ single_quoted (GroupId_debug g))), s))"
  using no_group_no_rows [OF assms, of g]
  by (auto simp: delete_group_def monad_simps sql_delete_group_def group_exists_filter)

lemma run_op_atomic: "atomic_on db_inv (run_op ext op)"
proof (cases op)
  case (OpDeleteUser u)
  then show ?thesis by (auto simp: atomic_on_def delete_user_cases)
next
  case (OpDeleteGroup g)
  then show ?thesis by (auto simp: atomic_on_def delete_group_cases)
next
  case (OpRemoveUserFromGroup u g)
  then show ?thesis
    by (auto simp: atomic_on_def remove_user_from_group_def sql_delete_membership_def monad_simps filter_none
        split: if_splits)
next
  case (OpCreateGroup now r)
  then show ?thesis by (simp add: atomic_bind_return create_group_def atomic_transaction Let_def)
qed (auto simp: atomic_transaction create_user_def update_user_def update_group_def Let_def,
     auto simp: atomic_on_def monad_simps add_user_to_group_def sql_insert_membership_def add_user_attribute_def
       add_group_attribute_def delete_user_attribute_def delete_group_attribute_def add_user_object_class_def
       add_group_object_class_def delete_user_object_class_def delete_group_object_class_def Let_def)

section \<open>Creation\<close>

text \<open>The attribute rows a creation request asks for.\<close>

definition requested_attributes :: "externals \<Rightarrow> create_user_request \<Rightarrow> user_attributes_row list" where
  "requested_attributes ext request =
     map (\<lambda>(n, v). \<lparr>uat_user_id = cu_user_id request, uat_attribute_name = n, uat_value = v\<rparr>)
       ((case cu_first_name request of None \<Rightarrow> [] | Some n \<Rightarrow> [(AttributeName ''first_name'', Serialized_from ext (DString n))])
      @ (case cu_last_name request of None \<Rightarrow> [] | Some n \<Rightarrow> [(AttributeName ''last_name'', Serialized_from ext (DString n))])
      @ (case cu_avatar request of None \<Rightarrow> [] | Some p \<Rightarrow> [(AttributeName ''avatar'', Serialized_from ext (DJpegPhoto p))])
      @ map (\<lambda>a. (av_name a, av_value a)) (cu_attributes request))"

lemma new_user_attributes_ok:
  assumes "\<forall>a\<in>set as. av_name a \<in> as_name ` set (attributes (user_attributes schema))"
  shows "new_user_attributes schema u as acc = Ok (acc @ map (\<lambda>a. \<lparr>uat_user_id = u,
    uat_attribute_name = av_name a, uat_value = av_value a\<rparr>) as)"
  using assms
proof (induction "as" arbitrary: acc)
  case (Cons a "as")
  then have "get_attribute_type (user_attributes schema) (av_name a) \<noteq> None"
    by (simp only: get_attribute_type_None_iff) auto
  with Cons show ?case by simp
qed simp

lemma db_schema_user_names:
  "as_name ` set (attributes (user_attributes (db_schema s))) = uas_attribute_name ` set (db_user_attribute_schema s)"
  by (simp add: db_schema_def get_user_attributes_def image_image AttributeSchema_from_user_def)

lemma insert_attributes_ok:
  assumes "\<forall>a\<in>set rows. user_attribute_fk s a"
    and "\<forall>a\<in>set rows. \<forall>b\<in>set (db_user_attributes s). \<not> same_user_attribute a b"
    and "distinct (map (\<lambda>a. (uat_user_id a, uat_attribute_name a)) rows)"
  shows "for_each sql_insert_user_attribute rows s = (Ok (), s\<lparr>db_user_attributes := db_user_attributes s @ rows\<rparr>)"
  using assms
proof (induction rows arbitrary: s)
  case (Cons a rows)
  have "\<not> list_ex (same_user_attribute a) (db_user_attributes s)" "user_attribute_fk s a"
    using Cons.prems by (auto simp: list_ex_iff)
  then have ins: "sql_insert_user_attribute a s = (Ok (), s\<lparr>db_user_attributes := db_user_attributes s @ [a]\<rparr>)"
    by (simp add: sql_insert_user_attribute_def monad_simps)
  have "for_each sql_insert_user_attribute rows (s\<lparr>db_user_attributes := db_user_attributes s @ [a]\<rparr>)
    = (Ok (), s\<lparr>db_user_attributes := db_user_attributes s @ a # rows\<rparr>)"
    using Cons.prems by (subst Cons.IH) (auto simp: db_fk_defs same_user_attribute_def image_iff)
  with ins show ?case by (simp add: monad_simps)
qed (simp add: monad_simps)

lemma create_user_ok:
  assumes inv: "db_inv s"
    and new: "\<not> list_ex (users_conflict (new_user_row ext now request)) (db_users s)"
    and names: "\<forall>a\<in>set (requested_attributes ext request).
      uat_attribute_name a \<in> uas_attribute_name ` set (db_user_attribute_schema s)"
    and distinct: "distinct (map uat_attribute_name (requested_attributes ext request))"
  shows "create_user ext now request s = (Ok (), s\<lparr>db_users := db_users s @ [new_user_row ext now request],
    db_user_attributes := db_user_attributes s @ requested_attributes ext request\<rparr>)"
proof -
  let ?u = "cu_user_id request" and ?s = "s\<lparr>db_users := db_users s @ [new_user_row ext now request]\<rparr>"
  let ?rows = "requested_attributes ext request"
  have "\<lparr>uat_user_id = ?u, uat_attribute_name = av_name a, uat_value = av_value a\<rparr> \<in> set ?rows"
    if "a \<in> set (cu_attributes request)" for a using that by (auto simp: requested_attributes_def)
  with names have known: "\<forall>a\<in>set (cu_attributes request). av_name a \<in> uas_attribute_name ` set (db_user_attribute_schema s)"
    by fastforce
  have rows: "new_user_attributes (db_schema s) ?u (cu_attributes request)
      (fixed_attribute ?u ''first_name'' (map_option (\<lambda>n. Serialized_from ext (DString n)) (cu_first_name request))
       @ fixed_attribute ?u ''last_name'' (map_option (\<lambda>n. Serialized_from ext (DString n)) (cu_last_name request))
       @ fixed_attribute ?u ''avatar'' (map_option (\<lambda>p. Serialized_from ext (DJpegPhoto p)) (cu_avatar request)))
      = Ok ?rows"
    using known by (subst new_user_attributes_ok)
      (auto simp: db_schema_user_names requested_attributes_def fixed_attribute_def AttributeName_from_def
        CaseInsensitiveString_new_def split: option.splits)
  have ids: "uat_user_id a = ?u" if "a \<in> set ?rows" for a
    using that by (auto simp: requested_attributes_def split: option.splits)
  have id: "usr_user_id (new_user_row ext now request) = ?u" by (simp add: new_user_row_def)
  have fresh: "\<not> user_exists s ?u" using new by (auto simp: user_exists_def list_ex_iff users_conflict_def id)
  have "for_each sql_insert_user_attribute ?rows ?s = (Ok (), ?s\<lparr>db_user_attributes := db_user_attributes ?s @ ?rows\<rparr>)"
  proof (rule insert_attributes_ok)
    show "\<forall>a\<in>set ?rows. user_attribute_fk ?s a" using names ids id by (simp add: db_fk_defs)
    show "\<forall>a\<in>set ?rows. \<forall>b\<in>set (db_user_attributes ?s). \<not> same_user_attribute a b"
      using ids fresh db_inv_user_attributesD(2) [OF inv] by (auto simp: same_user_attribute_def user_attribute_fk_def)
    show "distinct (map (\<lambda>a. (uat_user_id a, uat_attribute_name a)) ?rows)"
      using distinct by (auto simp: distinct_map inj_on_def)
  qed
  then have "for_each sql_insert_user_attribute ?rows ?s = (Ok (), s\<lparr>db_users := db_users s @ [new_user_row ext now request],
      db_user_attributes := db_user_attributes s @ ?rows\<rparr>)" by simp
  with rows new show ?thesis
    by (cases "?rows = []") (auto simp: create_user_def Let_def transaction_def monad_simps
        get_schema_with_transaction_def sql_insert_user_def)
qed

lemma find_append: "find P (xs @ ys) = (case find P xs of None \<Rightarrow> find P ys | Some x \<Rightarrow> Some x)"
  by (induction xs) auto

lemma find_filter_key: "(\<And>x. P x \<Longrightarrow> Q x) \<Longrightarrow> find P (filter Q xs) = find P xs"
  by (induction xs) auto

lemma find_user_None: "find_user s u = None \<longleftrightarrow> \<not> user_exists s u"
  by (auto simp: find_user_def find_None_iff user_exists_def)

lemma groups_of_new_user: "db_inv s \<Longrightarrow> \<not> user_exists s u \<Longrightarrow> groups_of_user s u = []"
  by (auto simp: groups_of_user_def filter_empty_conv db_inv_def memberships_ok_def)

section \<open>Updates\<close>

text \<open>The stored value of one attribute of one user.\<close>

definition user_attribute :: "db \<Rightarrow> user_id \<Rightarrow> attribute_name \<Rightarrow> serialized option" where
  "user_attribute s u n = map_option uat_value
     (find (\<lambda>a. uat_user_id a = u \<and> uat_attribute_name a = n) (db_user_attributes s))"

lemma find_upsert:
  "find (\<lambda>b. uat_user_id b = u \<and> uat_attribute_name b = n)
     (map (\<lambda>b. if same_user_attribute a b then b\<lparr>uat_value := v\<rparr> else b) l)
   = map_option (\<lambda>b. if same_user_attribute a b then b\<lparr>uat_value := v\<rparr> else b)
       (find (\<lambda>b. uat_user_id b = u \<and> uat_attribute_name b = n) l)"
  by (induction l) auto

lemma find_list_ex: "list_ex P l \<Longrightarrow> \<exists>x. find P l = Some x"
  by (induction l) auto

lemma upsert_user_attribute:
  assumes "sql_upsert_user_attribute a s = (Ok (), t)"
  shows "user_attribute t u n = (if uat_user_id a = u \<and> uat_attribute_name a = n then Some (uat_value a) else user_attribute s u n)"
    and "db_users t = db_users s \<and> db_memberships t = db_memberships s"
proof -
  let ?P = "\<lambda>b. uat_user_id b = u \<and> uat_attribute_name b = n"
  have P: "(\<lambda>b. uat_user_id b = uat_user_id a \<and> uat_attribute_name b = uat_attribute_name a) = same_user_attribute a"
    by (auto simp: same_user_attribute_def)
  show "user_attribute t u n = (if uat_user_id a = u \<and> uat_attribute_name a = n then Some (uat_value a) else user_attribute s u n)"
  proof (cases "list_ex (same_user_attribute a) (db_user_attributes s)")
    case True
    then have t: "t = s\<lparr>db_user_attributes := map (\<lambda>b. if same_user_attribute a b
        then b\<lparr>uat_value := uat_value a\<rparr> else b) (db_user_attributes s)\<rparr>"
      using assms by (simp add: sql_upsert_user_attribute_def monad_simps)
    obtain b where "find (same_user_attribute a) (db_user_attributes s) = Some b" using find_list_ex [OF True] by blast
    moreover from this have "same_user_attribute a b" by (simp add: find_SomeD)
    moreover have "\<not> same_user_attribute a b" if "find ?P (db_user_attributes s) = Some b"
      "\<not> (uat_user_id a = u \<and> uat_attribute_name a = n)" for b
      using find_SomeD [OF that(1)] that(2) by (auto simp: same_user_attribute_def)
    ultimately show ?thesis
      by (cases "find ?P (db_user_attributes s)") (auto simp: user_attribute_def t find_upsert P)
  next
    case False
    then have t: "t = s\<lparr>db_user_attributes := db_user_attributes s @ [a]\<rparr>"
      using assms by (simp add: sql_upsert_user_attribute_def monad_simps split: if_splits)
    have "find (same_user_attribute a) (db_user_attributes s) = None"
      using False by (auto simp: find_None_iff list_ex_iff)
    then show ?thesis
      by (cases "find ?P (db_user_attributes s)") (auto simp: user_attribute_def t find_append P)
  qed
  show "db_users t = db_users s \<and> db_memberships t = db_memberships s"
    using assms by (auto simp: sql_upsert_user_attribute_def monad_simps split: if_splits)
qed

lemma upsert_all:
  assumes "for_each sql_upsert_user_attribute ups s = (Ok (), t)"
  shows "user_attribute t u n = (case find (\<lambda>a. uat_user_id a = u \<and> uat_attribute_name a = n) (rev ups) of
      Some a \<Rightarrow> Some (uat_value a) | None \<Rightarrow> user_attribute s u n)
      \<and> db_users t = db_users s \<and> db_memberships t = db_memberships s"
  using assms
proof (induction ups arbitrary: s)
  case (Cons a ups)
  then obtain m where m: "sql_upsert_user_attribute a s = (Ok (), m)"
    and rest: "for_each sql_upsert_user_attribute ups m = (Ok (), t)"
    by (auto simp: bind_def split: prod.splits result.splits)
  show ?case
    using Cons.IH [OF rest] upsert_user_attribute(1) [OF m, of u n] upsert_user_attribute(2) [OF m]
    by (simp add: find_append split: option.split)
qed (simp add: monad_simps)

lemma delete_attributes_lookup:
  "user_attribute (s\<lparr>db_user_attributes := filter (\<lambda>a. \<not> (uat_user_id a = u \<and> uat_attribute_name a \<in> set ns)) (db_user_attributes s)\<rparr>) v n
   = (if v = u \<and> n \<in> set ns then None else user_attribute s v n)"
proof (cases "v = u \<and> n \<in> set ns")
  case True
  then show ?thesis by (auto simp: user_attribute_def find_None_iff)
next
  case False
  then show ?thesis by (simp add: user_attribute_def) (subst find_filter_key; auto)
qed

text \<open>The attribute writes and removals a request asks for.\<close>

definition requested_writes :: "externals \<Rightarrow> update_user_request \<Rightarrow> (attribute_name \<times> serialized) list" where
  "requested_writes ext request =
     (case uu_first_name request of None \<Rightarrow> [] | Some n \<Rightarrow> if n = [] then [] else [(AttributeName ''first_name'', Serialized_from ext (DString n))])
   @ (case uu_last_name request of None \<Rightarrow> [] | Some n \<Rightarrow> if n = [] then [] else [(AttributeName ''last_name'', Serialized_from ext (DString n))])
   @ (case uu_avatar request of None \<Rightarrow> [] | Some p \<Rightarrow> if JpegPhoto_is_empty p then [] else [(AttributeName ''avatar'', Serialized_from ext (DJpegPhoto p))])
   @ map (\<lambda>a. (av_name a, av_value a)) (uu_insert_attributes request)"

definition requested_removals :: "update_user_request \<Rightarrow> attribute_name list" where
  "requested_removals request =
     (if uu_first_name request = Some [] then [AttributeName ''first_name''] else [])
   @ (if uu_last_name request = Some [] then [AttributeName ''last_name''] else [])
   @ (if \<exists>p. uu_avatar request = Some p \<and> JpegPhoto_is_empty p then [AttributeName ''avatar''] else [])
   @ uu_delete_attributes request"

lemma process_inserts_Ok:
  "process_inserts schema u as (ups, rems) = Ok ch \<Longrightarrow>
     ch = (ups @ map (\<lambda>a. \<lparr>uat_user_id = u, uat_attribute_name = av_name a, uat_value = av_value a\<rparr>) as, rems)"
  by (induction "as" arbitrary: ups) (fastforce split: if_splits)+

lemma process_deletes_Ok:
  "process_deletes schema ns (ups, rems) = Ok ch \<Longrightarrow> ch = (ups, rems @ ns)"
  by (induction ns arbitrary: rems) (fastforce split: if_splits)+

lemma fixed_changes:
  fixes ext request
  defines "u \<equiv> uu_user_id request"
  shows "process_option u (map_option (JpegPhoto_into_active_value ext) (uu_avatar request)) (AttributeName_from ''avatar'')
    (process_option u (to_serialized_value ext (uu_last_name request)) (AttributeName_from ''last_name'')
      (process_option u (to_serialized_value ext (uu_first_name request)) (AttributeName_from ''first_name'') ([], [])))
   = (map (\<lambda>(n, v). \<lparr>uat_user_id = u, uat_attribute_name = n, uat_value = v\<rparr>)
        (requested_writes ext (request\<lparr>uu_insert_attributes := []\<rparr>)),
      requested_removals (request\<lparr>uu_delete_attributes := []\<rparr>))"
  by (auto simp: process_option_def to_serialized_value_def requested_writes_def requested_removals_def
      JpegPhoto_into_active_value_def AttributeName_from_def CaseInsensitiveString_new_def
      split: option.splits list.splits)

lemma find_writes:
  "find (\<lambda>a. uat_user_id a = v \<and> uat_attribute_name a = n)
     (map (\<lambda>(n, w). \<lparr>uat_user_id = u, uat_attribute_name = n, uat_value = w\<rparr>) l)
   = (if v = u then map_option (\<lambda>w. \<lparr>uat_user_id = u, uat_attribute_name = n, uat_value = w\<rparr>) (map_of l n) else None)"
  by (induction l) auto

lemma find_user_update:
  assumes "\<And>r. usr_user_id (f r) = usr_user_id r"
  shows "find (\<lambda>r. usr_user_id r = v) (map (\<lambda>q. if usr_user_id q = u then f q else q) l)
    = (if v = u then map_option f (find (\<lambda>r. usr_user_id r = u) l) else find (\<lambda>r. usr_user_id r = v) l)"
  using assms by (induction l) auto

lemma update_user_steps:
  assumes "update_user ext request s = (Ok (), t)"
  defines "u \<equiv> uu_user_id request"
  obtains m where "sql_update_user u (update_user_row ext request) s = (Ok (), m)"
    and "for_each sql_upsert_user_attribute
        (map (\<lambda>(n, w). \<lparr>uat_user_id = u, uat_attribute_name = n, uat_value = w\<rparr>) (requested_writes ext request))
        (snd (sql_delete_user_attributes u (requested_removals request) m)) = (Ok (), t)"
proof -
  let ?writes = "map (\<lambda>(n, w). \<lparr>uat_user_id = u, uat_attribute_name = n, uat_value = w\<rparr>)"
  let ?ch = "(?writes (requested_writes ext (request\<lparr>uu_insert_attributes := []\<rparr>)),
      requested_removals (request\<lparr>uu_delete_attributes := []\<rparr>))"
  from assms(1) obtain ch ups rems where
    ch: "process_inserts (db_schema s) u (uu_insert_attributes request) ?ch = Ok ch"
    and del: "process_deletes (db_schema s) (uu_delete_attributes request) ch = Ok (ups, rems)"
    and rest: "bind (sql_update_user u (update_user_row ext request)) (\<lambda>_.
         bind (if rems = [] then return () else sql_delete_user_attributes u rems) (\<lambda>_.
         if ups = [] then return () else for_each sql_upsert_user_attribute ups)) s = (Ok (), t)"
    unfolding update_user_def transaction_Ok_iff update_user_with_transaction_def Let_def bind_Ok_iff
      u_def [symmetric] fixed_changes [where request = request and ext = ext, folded u_def]
    by (auto simp: get_schema_with_transaction_def return_def bind_Ok_iff)
  from rest obtain m m' where m: "sql_update_user u (update_user_row ext request) s = (Ok (), m)"
    and m': "(if rems = [] then return () else sql_delete_user_attributes u rems) m = (Ok (), m')"
    and t: "(if ups = [] then return () else for_each sql_upsert_user_attribute ups) m' = (Ok (), t)"
    unfolding bind_Ok_iff by auto
  have "ups = ?writes (requested_writes ext request)" "rems = requested_removals request"
    using process_deletes_Ok [OF del [unfolded process_inserts_Ok [OF ch]]]
    by (simp_all add: requested_writes_def requested_removals_def comp_def)
  moreover have "m' = snd (sql_delete_user_attributes u rems m)"
    using m' by (auto simp: sql_delete_user_attributes_def monad_simps split: if_splits)
  moreover have "for_each sql_upsert_user_attribute ups m' = (Ok (), t)"
    using t by (cases "ups = []") auto
  ultimately show thesis using that m by blast
qed

lemma update_user_effect:
  assumes "update_user ext request s = (Ok (), t)"
  defines "u \<equiv> uu_user_id request"
  shows "find_user t v = (if v = u then map_option (update_user_row ext request) (find_user s u) else find_user s v)
    \<and> user_attribute t v n =
       (if v \<noteq> u then user_attribute s v n
        else case map_of (rev (requested_writes ext request)) n of
            Some w \<Rightarrow> Some w
          | None \<Rightarrow> if n \<in> set (requested_removals request) then None else user_attribute s u n)
    \<and> db_memberships t = db_memberships s"
proof -
  obtain m where m: "sql_update_user u (update_user_row ext request) s = (Ok (), m)"
    and ups: "for_each sql_upsert_user_attribute
        (map (\<lambda>(n, w). \<lparr>uat_user_id = u, uat_attribute_name = n, uat_value = w\<rparr>) (requested_writes ext request))
        (snd (sql_delete_user_attributes u (requested_removals request) m)) = (Ok (), t)"
    using update_user_steps [OF assms(1)] by (auto simp: u_def)
  have m': "m = s\<lparr>db_users := map (\<lambda>q. if usr_user_id q = u then update_user_row ext request q else q) (db_users s)\<rparr>"
    using m by (auto simp: sql_update_user_def monad_simps split: option.splits if_splits)
  have row: "find_user m v = (if v = u then map_option (update_user_row ext request) (find_user s u) else find_user s v)"
    by (simp add: find_user_def m' find_user_update)
  have attr: "user_attribute m v n = user_attribute s v n" by (simp add: user_attribute_def m')
  have del: "user_attribute (snd (sql_delete_user_attributes u (requested_removals request) m)) v n
    = (if v = u \<and> n \<in> set (requested_removals request) then None else user_attribute s v n)"
    by (simp add: sql_delete_user_attributes_def return_def delete_attributes_lookup attr del: de_Morgan_conj)
  show ?thesis
    using upsert_all [OF ups, of v n] row del
    by (auto simp: rev_map find_writes find_user_def sql_delete_user_attributes_def return_def m' split: option.splits)
qed

section \<open>Properties\<close>

text \<open>
  C5. Every sequence of backend operations, failed ones included, keeps the database well-formed: unique keys
  stay unique and every membership, attribute value and token refers to existing users, groups and
  attributes; and an operation that fails leaves the database as it was.
\<close>

theorem operations_keep_database:
  assumes "db_inv s" and "sql_reachable ext s t"
  shows "db_inv t \<and> (\<forall>op. (\<forall>x. fst (run_op ext op t) \<noteq> Ok x) \<longrightarrow> snd (run_op ext op t) = t)"
proof -
  have "db_inv t" using sql_reachable_inv [OF assms(2,1)] .
  with run_op_atomic [of ext] show ?thesis by (auto simp: atomic_on_def)
qed

theorem operations_keep_database_witness:
  "db_inv (snd (run_op ascii_externals (OpDeleteGroup (GroupId 2)) demo_db))
   \<and> length (db_memberships (snd (run_op ascii_externals (OpDeleteGroup (GroupId 2)) demo_db))) = 1"
proof -
  have "sql_reachable ascii_externals demo_db (snd (run_op ascii_externals (OpDeleteGroup (GroupId 2)) demo_db))"
    by (rule reachable_step [OF reachable_refl]) (rule sql_step.step, rule refl)
  from operations_keep_database [OF demo_db_inv this]
  have "db_inv (snd (run_op ascii_externals (OpDeleteGroup (GroupId 2)) demo_db))" by blast
  moreover have "length (db_memberships (snd (run_op ascii_externals (OpDeleteGroup (GroupId 2)) demo_db))) = 1"
    by code_simp
  ultimately show ?thesis ..
qed

text \<open>
  C10. Creating a user whose id, email and uuid are new and whose attributes are distinct and in the schema
  succeeds, and what was asked for can be read back: the details query returns the email, the name
  (an empty one is no name), the creation time and exactly the requested attributes, ordered by name;
  the new user is in no group; every other user reads as before.
\<close>

theorem create_user_read_back:
  assumes "db_inv s"
    and "\<not> list_ex (users_conflict (new_user_row ext now request)) (db_users s)"
    and "\<forall>a\<in>set (requested_attributes ext request).
      uat_attribute_name a \<in> uas_attribute_name ` set (db_user_attribute_schema s)"
    and "distinct (map uat_attribute_name (requested_attributes ext request))"
  defines "u \<equiv> cu_user_id request"
  shows "\<exists>t. create_user ext now request s = (Ok (), t)
    \<and> get_user_details u t = (Ok \<lparr>u_user_id = u, u_email = cu_email request,
         u_display_name = (if cu_display_name request = Some [] then None else cu_display_name request),
         u_creation_date = now, u_uuid = Uuid_from_name_and_date ext (UserId_as_str u) now,
         u_attributes = map AttributeValue_from_user (sort_key (\<lambda>a. AttributeName_as_str (uat_attribute_name a))
           (requested_attributes ext request))\<rparr>, t)
    \<and> get_user_groups u t = (Ok [], t)
    \<and> (\<forall>v. v \<noteq> u \<longrightarrow> fst (get_user_details v t) = fst (get_user_details v s))"
proof -
  let ?r = "new_user_row ext now request" and ?rows = "requested_attributes ext request"
  define t where "t = s\<lparr>db_users := db_users s @ [?r], db_user_attributes := db_user_attributes s @ ?rows\<rparr>"
  have t: "create_user ext now request s = (Ok (), t)" unfolding t_def by (rule create_user_ok [OF assms(1-4)])
  have id: "usr_user_id ?r = u" by (simp add: new_user_row_def u_def)
  have fresh: "\<not> user_exists s u" using assms(2) by (auto simp: user_exists_def list_ex_iff users_conflict_def id)
  have ids: "\<forall>a\<in>set ?rows. uat_user_id a = u"
    by (auto simp: requested_attributes_def u_def split: option.splits)
  have old: "\<forall>a\<in>set (db_user_attributes s). uat_user_id a \<noteq> u"
    using fresh db_inv_user_attributesD(2) [OF assms(1)] by (auto simp: user_attribute_fk_def)
  have find: "find_user t v = (if v = u then Some ?r else find_user s v)" for v
    using fresh id by (auto simp: find_user_def t_def find_append find_user_None [symmetric] split: option.splits)
  have attrs: "attributes_of_user t v = (if v = u then sort_key (\<lambda>a. AttributeName_as_str (uat_attribute_name a)) ?rows
      else attributes_of_user s v)" for v
    using ids old by (auto simp: attributes_of_user_def t_def filter_id_conv filter_empty_conv)
  have "groups_of_user t u = groups_of_user s u" by (simp add: groups_of_user_def t_def)
  then have "get_user_groups u t = (Ok [], t)"
    using groups_of_new_user [OF assms(1) fresh] by (simp add: get_user_groups_def find monad_simps)
  moreover have "fst (get_user_details v t) = fst (get_user_details v s)" if "v \<noteq> u" for v
    using that by (simp add: get_user_details_def find attrs monad_simps split: option.splits)
  ultimately show ?thesis using t
    by (auto simp: get_user_details_def find attrs monad_simps User_from_def new_user_row_def u_def to_value_def
        split: option.splits)
qed

theorem create_user_read_back_witness:
  "let request = \<lparr>cu_user_id = UserId ''eve'', cu_email = Email ''eve@x.org'', cu_display_name = Some [],
       cu_first_name = Some ''Eve'', cu_last_name = None, cu_avatar = None, cu_attributes = []\<rparr>
   in \<exists>t. create_user ascii_externals 5 request demo_db = (Ok (), t) \<and> get_user_groups (UserId ''eve'') t = (Ok [], t)"
proof -
  let ?r = "\<lparr>cu_user_id = UserId ''eve'', cu_email = Email ''eve@x.org'', cu_display_name = Some [],
       cu_first_name = Some ''Eve'', cu_last_name = None, cu_avatar = None, cu_attributes = []\<rparr>"
  have "\<not> list_ex (users_conflict (new_user_row ascii_externals 5 ?r)) (db_users demo_db)"
    "\<forall>a\<in>set (requested_attributes ascii_externals ?r).
      uat_attribute_name a \<in> uas_attribute_name ` set (db_user_attribute_schema demo_db)"
    "distinct (map uat_attribute_name (requested_attributes ascii_externals ?r))" by code_simp+
  from create_user_read_back [OF demo_db_inv this] show ?thesis by auto
qed





text \<open>
  Adding a user to a group makes the user a member, as both the group list of the user and the member list of
  the group show; adding again is an error; removing the membership restores the database; and a
  membership can be neither added twice nor dangle.
\<close>

theorem membership_add_remove:
  assumes "db_inv s"
  shows "(fst (add_user_to_group u g s) = Ok () \<longleftrightarrow>
       user_exists s u \<and> group_exists s g \<and> u \<notin> set (members_of_group s g))
    \<and> (\<forall>t. add_user_to_group u g s = (Ok (), t) \<longrightarrow>
         u \<in> set (members_of_group t g) \<and> g \<in> grp_group_id ` set (groups_of_user t u)
       \<and> fst (add_user_to_group u g t) \<noteq> Ok () \<and> remove_user_from_group u g t = (Ok (), s))"
proof -
  let ?m = "\<lparr>mem_user_id = u, mem_group_id = g\<rparr>"
  have ok: "fst (add_user_to_group u g s) = Ok () \<longleftrightarrow> ?m \<notin> set (db_memberships s) \<and> user_exists s u \<and> group_exists s g"
    by (auto simp: add_user_to_group_def sql_insert_membership_def monad_simps)
  have "u \<in> set (members_of_group t g) \<and> g \<in> grp_group_id ` set (groups_of_user t u)
      \<and> fst (add_user_to_group u g t) \<noteq> Ok () \<and> remove_user_from_group u g t = (Ok (), s)"
    if "add_user_to_group u g s = (Ok (), t)" for t
  proof -
    have m: "?m \<notin> set (db_memberships s)" "group_exists s g" using that ok by auto
    with that have t: "t = s\<lparr>db_memberships := db_memberships s @ [?m]\<rparr>"
      by (auto simp: add_user_to_group_def sql_insert_membership_def monad_simps split: if_splits)
    have "filter (\<lambda>q. q \<noteq> ?m) (db_memberships s) = db_memberships s" "filter (\<lambda>q. q = ?m) (db_memberships s) = []"
      using m by (auto simp: filter_id_conv filter_empty_conv)
    then have "remove_user_from_group u g t = (Ok (), s)"
      by (simp add: t remove_user_from_group_def sql_delete_membership_def monad_simps)
    moreover have "?m \<in> set (db_memberships t)" by (simp add: t)
    moreover from this have "u \<in> set (members_of_group t g)" by (simp add: membership_in)
    moreover have "g \<in> grp_group_id ` set (groups_of_user t u)"
      using m(2) by (auto simp: t groups_of_user_def group_exists_def image_iff)
    ultimately show ?thesis by (auto simp: add_user_to_group_def sql_insert_membership_def monad_simps)
  qed
  with ok show ?thesis by (auto simp: membership_in)
qed

theorem membership_add_remove_witness:
  "remove_user_from_group (UserId ''bob'') (GroupId 1) (snd (add_user_to_group (UserId ''bob'') (GroupId 1) demo_db))
     = (Ok (), demo_db)"
proof -
  have "fst (add_user_to_group (UserId ''bob'') (GroupId 1) demo_db) = Ok ()" by code_simp
  then have "add_user_to_group (UserId ''bob'') (GroupId 1) demo_db
      = (Ok (), snd (add_user_to_group (UserId ''bob'') (GroupId 1) demo_db))" by (metis prod.collapse)
  with membership_add_remove [OF demo_db_inv, of "UserId ''bob''" "GroupId 1"] show ?thesis by blast
qed

end
