(* ===== verification/Sql_Opaque.thy ===== *)
theory Sql_Opaque
  imports Sql_Crud
begin

text \<open>
  \<open>server/src/domain/sql_opaque_handler.rs\<close> and the wrappers of \<open>auth/src/opaque.rs\<close>: passwords. The OPAQUE
  protocol (\<open>opaque_ke\<close>), the authenticated encryption (\<open>orion\<close>) and the binary encoding of the server's
  state are third-party code: the fields of the parameter \<open>opaque_lib\<close>, with \<open>opaque_ok\<close> stating what their
  documentation promises. \<open>rng\<close> is the sequence of the draws from the random generator of one call.
\<close>

section \<open>The libraries\<close>

text \<open>\<open>None\<close> is a protocol, crypto or decoding error.\<close>

record opaque_lib =
  client_registration_start :: "nat \<Rightarrow> bytes \<Rightarrow> (bytes \<times> bytes) option"
    \<comment> \<open>\<open>ClientRegistration::start(rng, password)\<close>: state and message\<close>
  client_registration_finish :: "bytes \<Rightarrow> bytes \<Rightarrow> nat \<Rightarrow> bytes option"
  client_login_start :: "nat \<Rightarrow> bytes \<Rightarrow> (bytes \<times> bytes) option"
  client_login_finish :: "bytes \<Rightarrow> bytes \<Rightarrow> bytes option"
  server_registration_start :: "bytes \<Rightarrow> bytes \<Rightarrow> bytes \<Rightarrow> bytes option"
    \<comment> \<open>\<open>ServerRegistration::start(setup, message, username)\<close>\<close>
  server_registration_finish :: "bytes \<Rightarrow> bytes"
  server_registration_serialize :: "bytes \<Rightarrow> bytes"
  server_registration_deserialize :: "bytes \<Rightarrow> bytes option"
  server_login_start :: "nat \<Rightarrow> bytes \<Rightarrow> bytes option \<Rightarrow> bytes \<Rightarrow> bytes \<Rightarrow> (bytes \<times> bytes) option"
    \<comment> \<open>\<open>ServerLogin::start(rng, setup, password_file, message, username)\<close>: state and message\<close>
  server_login_finish :: "bytes \<Rightarrow> bytes \<Rightarrow> bytes option"
  secret_key_from_slice :: "bytes \<Rightarrow> bytes option"
  aead_seal :: "nat \<Rightarrow> bytes \<Rightarrow> bytes \<Rightarrow> bytes option"
  aead_open :: "bytes \<Rightarrow> bytes \<Rightarrow> bytes option"
  login_data_serialize :: "user_id \<times> bytes \<Rightarrow> bytes option"
  login_data_deserialize :: "bytes \<Rightarrow> (user_id \<times> bytes) option"
  registration_data_serialize :: "user_id \<Rightarrow> bytes option"
  registration_data_deserialize :: "bytes \<Rightarrow> user_id option"

text \<open>The part of the configuration the handler reads.\<close>

record sql_config =
  server_setup :: bytes
  server_private_key :: bytes

section \<open>The handler\<close>

definition passwords_match ::
  "opaque_lib \<Rightarrow> (nat \<Rightarrow> nat) \<Rightarrow> bytes \<Rightarrow> string \<Rightarrow> bytes \<Rightarrow> user_id \<Rightarrow> (unit, domain_error) result" where
  "passwords_match lib rng password_file_bytes clear_password setup username =
     bind_result (ok_or AuthenticationProtocolError (client_login_start lib (rng 0) clear_password))
       (\<lambda>(client_state, client_message).
     bind_result (ok_or AuthenticationProtocolError (server_registration_deserialize lib password_file_bytes))
       (\<lambda>password_file.
     bind_result (ok_or AuthenticationProtocolError
         (server_login_start lib (rng 1) setup (Some password_file) client_message (UserId_as_str username)))
       (\<lambda>(_, server_message).
     bind_result (ok_or AuthenticationProtocolError (client_login_finish lib client_state server_message))
       (\<lambda>_. Ok ()))))"

definition get_orion_secret_key :: "opaque_lib \<Rightarrow> sql_config \<Rightarrow> (bytes, domain_error) result" where
  "get_orion_secret_key lib cfg = ok_or UnknownCryptoError (secret_key_from_slice lib (server_private_key cfg))"

definition get_password_file_for_user :: "user_id \<Rightarrow> (db, bytes option) backend_action" where
  "get_password_file_for_user u s = return (Option.bind (find_user s u) usr_password_hash) s"

definition sql_bind ::
  "opaque_lib \<Rightarrow> sql_config \<Rightarrow> (nat \<Rightarrow> nat) \<Rightarrow> bind_request \<Rightarrow> (db, unit) backend_action" where
  "sql_bind lib cfg rng request =
     bind (get_password_file_for_user (br_name request)) (\<lambda>file.
       case file of
         Some password_hash \<Rightarrow>
           (case passwords_match lib rng password_hash (br_password request) (server_setup cfg) (br_name request) of
              Ok _ \<Rightarrow> return ()
            | Err _ \<Rightarrow> fail (AuthenticationError ('' for user '' @ single_quoted (UserId_as_str (br_name request))))
            | Panic \<Rightarrow> lift_result Panic)
       | None \<Rightarrow> fail (AuthenticationError ('' for user '' @ single_quoted (UserId_as_str (br_name request)))))"

definition sql_login_start ::
  "externals \<Rightarrow> opaque_lib \<Rightarrow> sql_config \<Rightarrow> (nat \<Rightarrow> nat) \<Rightarrow> login_start_request
     \<Rightarrow> (db, login_start_response) backend_action" where
  "sql_login_start ext lib cfg rng request =
     (let u = ls_username request in
      bind (get_password_file_for_user u) (\<lambda>file.
      bind (lift_result (case file of
          None \<Rightarrow> Ok None
        | Some b \<Rightarrow> map_ok Some (ok_or (InternalError (''Corrupted password file for '' @ UserId_as_str u))
                       (server_registration_deserialize lib b)))) (\<lambda>password_file.
      bind (lift_result (ok_or AuthenticationProtocolError (server_login_start lib (rng 0) (server_setup cfg)
          password_file (ls_login_start_request request) (UserId_as_str u)))) (\<lambda>(state, message).
      bind (lift_result (get_orion_secret_key lib cfg)) (\<lambda>key.
      bind (lift_result (ok_or BinarySerializationError (login_data_serialize lib (u, state)))) (\<lambda>data.
      bind (lift_result (ok_or UnknownCryptoError (aead_seal lib (rng 1) key data))) (\<lambda>encrypted_state.
      return \<lparr>lr_server_data = base64_encode ext encrypted_state, lr_credential_response = message\<rparr>)))))))"

definition sql_login_finish ::
  "externals \<Rightarrow> opaque_lib \<Rightarrow> sql_config \<Rightarrow> login_finish_request \<Rightarrow> (db, user_id) backend_action" where
  "sql_login_finish ext lib cfg request =
     bind (lift_result (get_orion_secret_key lib cfg)) (\<lambda>key.
     bind (lift_result (ok_or Base64DecodeError (base64_decode ext (lf_server_data request)))) (\<lambda>data.
     bind (lift_result (ok_or UnknownCryptoError (aead_open lib key data))) (\<lambda>clear.
     bind (lift_result (ok_or BinarySerializationError (login_data_deserialize lib clear))) (\<lambda>(username, server_login).
     bind (lift_result (ok_or AuthenticationProtocolError
         (server_login_finish lib server_login (lf_credential_finalization request)))) (\<lambda>_.
     return username)))))"

definition sql_registration_start ::
  "externals \<Rightarrow> opaque_lib \<Rightarrow> sql_config \<Rightarrow> (nat \<Rightarrow> nat) \<Rightarrow> registration_start_request
     \<Rightarrow> (db, registration_start_response) backend_action" where
  "sql_registration_start ext lib cfg rng request =
     bind (lift_result (ok_or AuthenticationProtocolError (server_registration_start lib (server_setup cfg)
         (rs_registration_start_request request) (UserId_as_str (rs_username request))))) (\<lambda>message.
     bind (lift_result (get_orion_secret_key lib cfg)) (\<lambda>key.
     bind (lift_result (ok_or BinarySerializationError (registration_data_serialize lib (rs_username request)))) (\<lambda>data.
     bind (lift_result (ok_or UnknownCryptoError (aead_seal lib (rng 0) key data))) (\<lambda>encrypted_state.
     return \<lparr>rr_server_data = base64_encode ext encrypted_state, rr_registration_response = message\<rparr>))))"

definition sql_registration_finish ::
  "externals \<Rightarrow> opaque_lib \<Rightarrow> sql_config \<Rightarrow> registration_finish_request \<Rightarrow> (db, unit) backend_action" where
  "sql_registration_finish ext lib cfg request =
     bind (lift_result (get_orion_secret_key lib cfg)) (\<lambda>key.
     bind (lift_result (ok_or Base64DecodeError (base64_decode ext (rf_server_data request)))) (\<lambda>data.
     bind (lift_result (ok_or UnknownCryptoError (aead_open lib key data))) (\<lambda>clear.
     bind (lift_result (ok_or BinarySerializationError (registration_data_deserialize lib clear))) (\<lambda>username.
     let password_file = server_registration_finish lib (rf_registration_upload request) in
     sql_update_user username
       (\<lambda>r. r\<lparr>usr_password_hash := Some (server_registration_serialize lib password_file)\<rparr>)))))"

definition register_password ::
  "externals \<Rightarrow> opaque_lib \<Rightarrow> sql_config \<Rightarrow> (nat \<Rightarrow> nat) \<Rightarrow> user_id \<Rightarrow> string \<Rightarrow> (db, unit) backend_action" where
  "register_password ext lib cfg rng username password =
     bind (lift_result (ok_or AuthenticationProtocolError (client_registration_start lib (rng 0) password)))
       (\<lambda>(state, message).
     bind (sql_registration_start ext lib cfg (\<lambda>i. rng (i + 1))
         \<lparr>rs_username = username, rs_registration_start_request = message\<rparr>) (\<lambda>start_response.
     bind (lift_result (ok_or AuthenticationProtocolError
         (client_registration_finish lib state (rr_registration_response start_response) (rng 2)))) (\<lambda>upload.
     sql_registration_finish ext lib cfg
       \<lparr>rf_server_data = rr_server_data start_response, rf_registration_upload = upload\<rparr>)))"

section \<open>The backend\<close>

text \<open>\<open>SqlBackendHandler\<close> as an implementation of the backend traits; \<open>now\<close> is the clock, \<open>rng\<close> the random draws.\<close>

definition sql_backend ::
  "externals \<Rightarrow> opaque_lib \<Rightarrow> sql_config \<Rightarrow> (nat \<Rightarrow> nat) \<Rightarrow> naive_date_time \<Rightarrow> db backend_handler" where
  "sql_backend ext lib cfg rng now =
     \<lparr>bh_bind = sql_bind lib cfg rng,
      bh_list_groups = list_groups ext, bh_get_group_details = get_group_details,
      bh_update_group = update_group ext, bh_create_group = create_group ext now, bh_delete_group = delete_group,
      bh_list_users = list_users ext, bh_get_user_details = get_user_details,
      bh_create_user = create_user ext now, bh_update_user = update_user ext, bh_delete_user = delete_user,
      bh_add_user_to_group = add_user_to_group, bh_remove_user_from_group = remove_user_from_group,
      bh_get_user_groups = get_user_groups, bh_get_schema = sql_get_schema,
      bh_add_user_attribute = add_user_attribute, bh_add_group_attribute = add_group_attribute,
      bh_delete_user_attribute = delete_user_attribute, bh_delete_group_attribute = delete_group_attribute,
      bh_add_user_object_class = add_user_object_class, bh_add_group_object_class = add_group_object_class,
      bh_delete_user_object_class = delete_user_object_class, bh_delete_group_object_class = delete_group_object_class,
      bh_login_start = sql_login_start ext lib cfg rng, bh_login_finish = sql_login_finish ext lib cfg,
      bh_registration_start = sql_registration_start ext lib cfg rng,
      bh_registration_finish = sql_registration_finish ext lib cfg\<rparr>"

section \<open>What the libraries promise\<close>

definition base64_ok :: "externals \<Rightarrow> bool" where
  "base64_ok ext \<longleftrightarrow> (\<forall>b. base64_decode ext (base64_encode ext b) = Some b)"

text \<open>The server's encrypted state decrypts to what was sealed.\<close>

definition sealing_ok :: "opaque_lib \<Rightarrow> sql_config \<Rightarrow> bool" where
  "sealing_ok lib cfg \<longleftrightarrow>
     (\<exists>k. secret_key_from_slice lib (server_private_key cfg) = Some k
        \<and> (\<forall>n m. \<exists>c. aead_seal lib n k m = Some c \<and> aead_open lib k c = Some m))
   \<and> (\<forall>u. \<exists>d. registration_data_serialize lib u = Some d \<and> registration_data_deserialize lib d = Some u)
   \<and> (\<forall>p. server_registration_deserialize lib (server_registration_serialize lib p) = Some p)"

text \<open>
  OPAQUE: an honest registration goes through; an honest login against the resulting password file goes
  through on the client side exactly when the passwords are the same.
\<close>

definition opaque_ok :: "opaque_lib \<Rightarrow> bytes \<Rightarrow> bool" where
  "opaque_ok lib setup \<longleftrightarrow>
     (\<forall>r pw. client_registration_start lib r pw \<noteq> None \<and> client_login_start lib r pw \<noteq> None)
   \<and> (\<forall>r pw st msg u. client_registration_start lib r pw = Some (st, msg) \<longrightarrow>
        (\<exists>resp. server_registration_start lib setup msg u = Some resp
          \<and> (\<forall>r'. client_registration_finish lib st resp r' \<noteq> None)))
   \<and> (\<forall>r1 r2 r3 r4 pw st msg u resp up pw' st' msg'.
        client_registration_start lib r1 pw = Some (st, msg) \<longrightarrow>
        server_registration_start lib setup msg u = Some resp \<longrightarrow>
        client_registration_finish lib st resp r2 = Some up \<longrightarrow>
        client_login_start lib r3 pw' = Some (st', msg') \<longrightarrow>
        (\<exists>srv cred. server_login_start lib r4 setup (Some (server_registration_finish lib up)) msg' u = Some (srv, cred)
          \<and> (client_login_finish lib st' cred \<noteq> None \<longleftrightarrow> pw' = pw)))"

text \<open>A toy protocol that sends the password, as an instance of the library.\<close>

definition toy_lib :: opaque_lib where
  "toy_lib =
     \<lparr>client_registration_start = (\<lambda>_ pw. Some (pw, [])), client_registration_finish = (\<lambda>st _ _. Some st),
      client_login_start = (\<lambda>_ pw. Some (pw, [])),
      client_login_finish = (\<lambda>st cred. if st = cred then Some [] else None),
      server_registration_start = (\<lambda>_ _ _. Some []), server_registration_finish = id,
      server_registration_serialize = id, server_registration_deserialize = Some,
      server_login_start = (\<lambda>_ _ file _ _. map_option (\<lambda>f. (f, f)) file),
      server_login_finish = (\<lambda>srv fin. if srv = fin then Some [] else None),
      secret_key_from_slice = Some, aead_seal = (\<lambda>_ _ m. Some m), aead_open = (\<lambda>_ c. Some c),
      login_data_serialize = (\<lambda>_. None), login_data_deserialize = (\<lambda>_. None),
      registration_data_serialize = (\<lambda>u. Some (UserId_as_str u)),
      registration_data_deserialize = (\<lambda>d. Some (UserId d))\<rparr>"

definition toy_config :: sql_config where
  "toy_config = \<lparr>server_setup = [], server_private_key = ''key''\<rparr>"

lemma toy_ok: "base64_ok ascii_externals" "sealing_ok toy_lib toy_config" "opaque_ok toy_lib (server_setup toy_config)"
  by (simp_all add: base64_ok_def ascii_externals_def sealing_ok_def opaque_ok_def toy_lib_def)

section \<open>Lemmas\<close>

lemmas opaque_login = opaque_ok_def [THEN iffD1, THEN conjunct2, THEN conjunct2, rule_format]

lemma password_update_ok:
  assumes inv: "db_inv s" and "user_exists s u"
  shows "sql_update_user u (\<lambda>r. r\<lparr>usr_password_hash := h\<rparr>) s
    = (Ok (), s\<lparr>db_users := map (\<lambda>q. if usr_user_id q = u then q\<lparr>usr_password_hash := h\<rparr> else q) (db_users s)\<rparr>)"
proof -
  obtain r where r: "find (\<lambda>r. usr_user_id r = u) (db_users s) = Some r"
    using assms(2) by (metis find_user_None find_user_def not_None_eq)
  have "\<not> users_conflict (r\<lparr>usr_password_hash := h\<rparr>) q" if "q \<in> set (db_users s)" "usr_user_id q \<noteq> u" for q
    using inv that find_SomeD [OF r]
    by (auto simp: users_conflict_def db_inv_def users_ok_def distinct_map inj_on_def)
  with r show ?thesis by (auto simp: sql_update_user_def monad_simps list_ex_iff)
qed

lemma find_user_password:
  "find_user (s\<lparr>db_users := map (\<lambda>q. if usr_user_id q = u then q\<lparr>usr_password_hash := h\<rparr> else q) (db_users s)\<rparr>) v
   = (if v = u then map_option (\<lambda>r. r\<lparr>usr_password_hash := h\<rparr>) (find_user s u) else find_user s v)"
  by (simp add: find_user_def find_user_update)

lemma sql_update_missing:
  "\<not> user_exists s u \<Longrightarrow> sql_update_user u f s = (Err (DatabaseError ''RecordNotUpdated''), s)"
  using find_user_None [of s u] by (simp add: sql_update_user_def find_user_def monad_simps)

lemma opaque_ops_inv [preserves_intros]:
  "preserves P (sql_bind lib cfg rng b)" "preserves P (sql_login_start ext lib cfg rng ls)"
  "preserves P (sql_login_finish ext lib cfg lf)" "preserves P (sql_registration_start ext lib cfg rng rs)"
  by (rule preservesI, auto simp: sql_bind_def sql_login_start_def sql_login_finish_def sql_registration_start_def
        get_password_file_for_user_def monad_simps Let_def split: option.splits result.splits prod.splits)+

lemma sql_registration_finish_inv [preserves_intros]: "preserves db_inv (sql_registration_finish ext lib cfg rf)"
  by (simp add: sql_registration_finish_def Let_def preserves_intros)

lemma register_password_inv [preserves_intros]: "preserves db_inv (register_password ext lib cfg rng u pw)"
  by (simp add: register_password_def preserves_intros)

lemma register_password_runs:
  assumes ok: "base64_ok ext" "sealing_ok lib cfg" "opaque_ok lib (server_setup cfg)"
  obtains st msg resp up where "client_registration_start lib (rng 0) pw = Some (st, msg)"
    and "server_registration_start lib (server_setup cfg) msg (UserId_as_str u) = Some resp"
    and "client_registration_finish lib st resp (rng 2) = Some up"
    and "register_password ext lib cfg rng u pw s = sql_update_user u
      (\<lambda>r. r\<lparr>usr_password_hash := Some (server_registration_serialize lib (server_registration_finish lib up))\<rparr>) s"
proof -
  obtain st msg where 1: "client_registration_start lib (rng 0) pw = Some (st, msg)"
    using ok(3) unfolding opaque_ok_def by (metis not_None_eq surj_pair)
  obtain resp up where 2: "server_registration_start lib (server_setup cfg) msg (UserId_as_str u) = Some resp"
    and 3: "client_registration_finish lib st resp (rng 2) = Some up"
    using ok(3) 1 unfolding opaque_ok_def by (metis not_None_eq)
  obtain k where k: "secret_key_from_slice lib (server_private_key cfg) = Some k"
    "\<forall>n m. \<exists>c. aead_seal lib n k m = Some c \<and> aead_open lib k c = Some m"
    using ok(2) by (auto simp: sealing_ok_def)
  obtain d where d: "registration_data_serialize lib u = Some d" "registration_data_deserialize lib d = Some u"
    using ok(2) unfolding sealing_ok_def by metis
  obtain c where c: "aead_seal lib (rng 1) k d = Some c" "aead_open lib k c = Some d" using k(2) by blast
  have "base64_decode ext (base64_encode ext c) = Some c" using ok(1) by (simp add: base64_ok_def)
  with 1 2 3 k(1) d c that show thesis
    by (simp add: register_password_def sql_registration_start_def sql_registration_finish_def
        get_orion_secret_key_def monad_simps Let_def)
qed

text \<open>A bind against the password file of a registration.\<close>

lemma registered_bind:
  assumes ok: "sealing_ok lib cfg" "opaque_ok lib (server_setup cfg)"
    and run: "client_registration_start lib r1 pw = Some (st, msg)"
      "server_registration_start lib (server_setup cfg) msg (UserId_as_str u) = Some resp"
      "client_registration_finish lib st resp r2 = Some up"
    and row: "find_user t u = Some r" "usr_password_hash r = Some (server_registration_serialize lib (server_registration_finish lib up))"
  shows "sql_bind lib cfg rng \<lparr>br_name = u, br_password = pw'\<rparr> t =
    (if pw' = pw then Ok () else Err (AuthenticationError ('' for user '' @ single_quoted (UserId_as_str u))), t)"
proof -
  let ?file = "server_registration_finish lib up"
  have pf: "server_registration_deserialize lib (server_registration_serialize lib ?file) = Some ?file"
    using ok(1) by (simp add: sealing_ok_def)
  obtain st' msg' where l: "client_login_start lib (rng 0) pw' = Some (st', msg')"
    using ok(2) unfolding opaque_ok_def by (metis not_None_eq surj_pair)
  obtain srv cred where "server_login_start lib (rng 1) (server_setup cfg) (Some ?file) msg' (UserId_as_str u) = Some (srv, cred)"
    "client_login_finish lib st' cred \<noteq> None \<longleftrightarrow> pw' = pw"
    using opaque_login [OF ok(2) run l, of "rng 1"] by blast
  with l row pf show ?thesis
    by (auto simp: sql_bind_def passwords_match_def get_password_file_for_user_def monad_simps)
qed

section \<open>Property\<close>

text \<open>
  C4. Setting a password: for an existing user it succeeds, and from then on a bind with that user succeeds with
  exactly that password and fails with an authentication error with any other; binds of other users are
  not affected. For an unknown user it is an error and nothing is stored. A bind never changes the
  database.
\<close>

theorem password_set_and_checked:
  assumes "db_inv s" and ok: "base64_ok ext" "sealing_ok lib cfg" "opaque_ok lib (server_setup cfg)"
  shows "\<exists>r t. register_password ext lib cfg rng u pw s = (r, t)
    \<and> (if user_exists s u then r = Ok () else r \<noteq> Ok () \<and> t = s)
    \<and> (user_exists s u \<longrightarrow> (\<forall>rng' pw'. sql_bind lib cfg rng' \<lparr>br_name = u, br_password = pw'\<rparr> t =
         (if pw' = pw then Ok ()
          else Err (AuthenticationError ('' for user '' @ single_quoted (UserId_as_str u))), t)))
    \<and> (\<forall>v rng' pw'. v \<noteq> u \<longrightarrow> fst (sql_bind lib cfg rng' \<lparr>br_name = v, br_password = pw'\<rparr> t)
         = fst (sql_bind lib cfg rng' \<lparr>br_name = v, br_password = pw'\<rparr> s))"
proof -
  obtain st msg resp up where run: "client_registration_start lib (rng 0) pw = Some (st, msg)"
      "server_registration_start lib (server_setup cfg) msg (UserId_as_str u) = Some resp"
      "client_registration_finish lib st resp (rng 2) = Some up"
    and reg: "register_password ext lib cfg rng u pw s = sql_update_user u
      (\<lambda>r. r\<lparr>usr_password_hash := Some (server_registration_serialize lib (server_registration_finish lib up))\<rparr>) s"
    using register_password_runs [OF ok] by blast
  let ?file = "server_registration_finish lib up"
  show ?thesis
  proof (cases "user_exists s u")
    case False
    with reg sql_update_missing [OF False] show ?thesis by simp
  next
    case True
    define t where "t = s\<lparr>db_users := map (\<lambda>q. if usr_user_id q = u
        then q\<lparr>usr_password_hash := Some (server_registration_serialize lib ?file)\<rparr> else q) (db_users s)\<rparr>"
    have t: "register_password ext lib cfg rng u pw s = (Ok (), t)"
      by (simp add: reg password_update_ok [OF assms(1) True] t_def)
    have row: "\<exists>r. find_user t u = Some r \<and> usr_password_hash r = Some (server_registration_serialize lib ?file)"
      using True find_user_None [of s u] unfolding t_def find_user_password by auto
    have other: "find_user t v = find_user s v" if "v \<noteq> u" for v using that by (simp add: t_def find_user_password)
    have "sql_bind lib cfg rng' \<lparr>br_name = u, br_password = pw'\<rparr> t =
         (if pw' = pw then Ok ()
          else Err (AuthenticationError ('' for user '' @ single_quoted (UserId_as_str u))), t)" for rng' pw'
      using row registered_bind [OF ok(2,3) run] by blast
    moreover have "fst (sql_bind lib cfg rng' b t) = fst (sql_bind lib cfg rng' b s)" if "br_name b \<noteq> u" for rng' b
      using other [OF that]
      by (simp add: sql_bind_def get_password_file_for_user_def monad_simps split: option.splits result.splits)
    ultimately show ?thesis using t True by auto
  qed
qed

theorem password_set_and_checked_witness:
  "\<exists>t. register_password ascii_externals toy_lib toy_config id (UserId ''bob'') ''secret'' demo_db = (Ok (), t)
     \<and> fst (sql_bind toy_lib toy_config id \<lparr>br_name = UserId ''bob'', br_password = ''secret''\<rparr> t) = Ok ()
     \<and> fst (sql_bind toy_lib toy_config id \<lparr>br_name = UserId ''bob'', br_password = ''guess''\<rparr> t) \<noteq> Ok ()"
proof -
  have "user_exists demo_db (UserId ''bob'')" by code_simp
  with password_set_and_checked [OF demo_db_inv toy_ok, of id "UserId ''bob''" "''secret''"] show ?thesis by fastforce
qed

end
