(* ===== verification/Ldap_Handler.thy ===== *)
theory Ldap_Handler
  imports Ldap_Group Sql_Opaque
begin

text \<open>
  \<open>server/src/infra/ldap_handler.rs\<close>: the LDAP session. \<open>LdapHandler\<close> holds the bound user and the naming
  information; its methods act on the state \<open>'s\<close> of the backend \<open>h\<close>. The decoder of password-modify requests
  (\<open>ldap3_proto\<close>), the OPAQUE client and the random draws are the parameter \<open>ldap_env\<close>.
\<close>

record ldap_env =
  env_externals :: externals
  env_opaque :: opaque_lib
  env_rng :: "nat \<Rightarrow> nat"
  env_password_modify_request :: "ldap_extended_request \<Rightarrow> ldap_password_modify_request option"
    \<comment> \<open>\<open>LdapPasswordModifyRequest::try_from\<close>\<close>

record ldap_handler =
  lh_user_info :: "validation_results option"
  lh_ldap_info :: ldap_info

section \<open>Search scopes and responses\<close>

datatype search_scope =
    SGlobal | SUsers | SGroups | SUser ldap_filter | SGroup ldap_filter
  | SUserOuOnly | SGroupOuOnly | SUnknown | SInvalid

datatype internal_search_results =
    UsersAndGroups "user_and_groups list" "group list"
  | Raw "ldap_op list"
  | Empty

definition get_search_scope :: "dn \<Rightarrow> dn \<Rightarrow> ldap_search_scope \<Rightarrow> (search_scope, 'e) result" where
  "get_search_scope base_dn dn_parts ldap_scope =
     bind_result (is_subtree dn_parts base_dn) (\<lambda>sub. Ok (
       if \<not> sub then SInvalid
       else if length dn_parts = length base_dn then SGlobal
       else if length dn_parts = length base_dn + 1 \<and> dn_parts ! 0 = (''ou'', ''people'') then
         (if ldap_scope = ScopeBase then SUserOuOnly else SUsers)
       else if length dn_parts = length base_dn + 1 \<and> dn_parts ! 0 = (''ou'', ''groups'') then
         (if ldap_scope = ScopeBase then SGroupOuOnly else SGroups)
       else if length dn_parts = length base_dn + 2 \<and> dn_parts ! 1 = (''ou'', ''people'') then
         SUser (FEquality (fst (dn_parts ! 0)) (snd (dn_parts ! 0)))
       else if length dn_parts = length base_dn + 2 \<and> dn_parts ! 1 = (''ou'', ''groups'') then
         SGroup (FEquality (fst (dn_parts ! 0)) (snd (dn_parts ! 0)))
       else SUnknown))"

definition make_search_request :: "string \<Rightarrow> ldap_filter \<Rightarrow> string list \<Rightarrow> ldap_search_request" where
  "make_search_request base f attrs =
     \<lparr>sr_base = base, sr_scope = ScopeSubtree, sr_aliases = DerefNever, sr_sizelimit = 0, sr_timelimit = 0,
      sr_typesonly = False, sr_filter = f, sr_attrs = attrs\<rparr>"

definition ldap_result_op_of :: "ldap_result_code \<Rightarrow> string \<Rightarrow> ldap_result_op" where
  "ldap_result_op_of code message = \<lparr>lr_code = code, lr_matcheddn = [], lr_message = message, lr_referral = []\<rparr>"

definition make_search_error :: "ldap_result_code \<Rightarrow> string \<Rightarrow> ldap_op" where
  "make_search_error code message = SearchResultDone (ldap_result_op_of code message)"

definition make_search_success :: ldap_op where
  "make_search_success = make_search_error Success []"

definition make_add_error :: "ldap_result_code \<Rightarrow> string \<Rightarrow> ldap_op" where
  "make_add_error code message = AddResponse (ldap_result_op_of code message)"

definition make_extended_response :: "ldap_result_code \<Rightarrow> string \<Rightarrow> ldap_op" where
  "make_extended_response code message = ExtendedResponse (ldap_result_op_of code message) None None"

definition make_modify_response :: "ldap_result_code \<Rightarrow> string \<Rightarrow> ldap_op" where
  "make_modify_response code message = ModifyResponse (ldap_result_op_of code message)"

definition root_dse_response :: "string \<Rightarrow> ldap_op" where
  "root_dse_response base_dn = SearchResultEntry
     \<lparr>sre_dn = [],
      sre_attributes =
        [\<lparr>pa_atype = ''objectClass'', pa_vals = [''top'']\<rparr>,
         \<lparr>pa_atype = ''vendorName'', pa_vals = [''LLDAP'']\<rparr>,
         \<lparr>pa_atype = ''vendorVersion'', pa_vals = [''lldap_0.5.1-alpha'']\<rparr>,
         \<lparr>pa_atype = ''supportedLDAPVersion'', pa_vals = [''3'']\<rparr>,
         \<lparr>pa_atype = ''supportedExtension'', pa_vals = [''1.3.6.1.4.1.4203.1.11.1'']\<rparr>,
         \<lparr>pa_atype = ''supportedControl'', pa_vals = []\<rparr>,
         \<lparr>pa_atype = ''supportedFeatures'', pa_vals = [''1.3.6.1.4.1.4203.1.5.1'']\<rparr>,
         \<lparr>pa_atype = ''defaultNamingContext'', pa_vals = [base_dn]\<rparr>,
         \<lparr>pa_atype = ''namingContexts'', pa_vals = [base_dn]\<rparr>,
         \<lparr>pa_atype = ''isGlobalCatalogReady'', pa_vals = [''false'']\<rparr>]\<rparr>"

section \<open>Construction and binding\<close>

definition LdapHandler_new ::
  "string \<Rightarrow> attribute_name list \<Rightarrow> attribute_name list \<Rightarrow> (ldap_handler, 'e) result" where
  "LdapHandler_new ldap_base_dn ignored_user_attributes ignored_group_attributes =
     (let base = to_ascii_lowercase ldap_base_dn in
      case parse_distinguished_name base of
        Ok base_dn \<Rightarrow> Ok
          \<lparr>lh_user_info = None,
           lh_ldap_info = \<lparr>li_base_dn = base_dn, li_base_dn_str = base,
             li_ignored_user_attributes = ignored_user_attributes,
             li_ignored_group_attributes = ignored_group_attributes\<rparr>\<rparr>
      | _ \<Rightarrow> Panic)"

definition session_user_id :: "ldap_handler \<Rightarrow> string \<Rightarrow> user_id ldap_result" where
  "session_user_id lh dn = get_user_id_from_distinguished_name dn
     (li_base_dn (lh_ldap_info lh)) (li_base_dn_str (lh_ldap_info lh))"

text \<open>The answer and the session afterwards.\<close>

definition do_bind ::
  "ldap_env \<Rightarrow> 's backend_handler \<Rightarrow> ldap_handler \<Rightarrow> ldap_bind_request
     \<Rightarrow> ('s, (ldap_result_code \<times> string) \<times> ldap_handler, ldap_error) action" where
  "do_bind env h lh request =
     match_action (lift_result (session_user_id lh (to_ascii_lowercase (lb_dn request))))
       (\<lambda>user_id. case lb_cred request of
            SASL _ \<Rightarrow> return ((UnwillingToPerform, ''SASL not supported''), lh)
          | Simple password \<Rightarrow>
              match_action (bh_bind h \<lparr>br_name = user_id, br_password = password\<rparr>)
                (\<lambda>_. match_action (get_permissions_for_user (env_externals env) h user_id)
                   (\<lambda>v. return ((Success, []), lh\<lparr>lh_user_info := Some v\<rparr>))
                   (\<lambda>_. return ((Success, []), lh\<lparr>lh_user_info := None\<rparr>)))
                (\<lambda>_. return ((InvalidCredentials, []), lh)))
       (\<lambda>e. return ((NamingViolation, le_message e), lh))"

section \<open>Passwords\<close>

definition change_password ::
  "ldap_env \<Rightarrow> 's backend_handler \<Rightarrow> user_id \<Rightarrow> bytes \<Rightarrow> ('s, unit) backend_action" where
  "change_password env h user password =
     (let lib = env_opaque env in
      bind (lift_result (ok_or AuthenticationProtocolError
          (client_registration_start lib (env_rng env 0) password))) (\<lambda>(state, message).
      bind (bh_registration_start h \<lparr>rs_username = user, rs_registration_start_request = message\<rparr>) (\<lambda>response.
      bind (lift_result (ok_or AuthenticationProtocolError
          (client_registration_finish lib state (rr_registration_response response) (env_rng env 1)))) (\<lambda>upload.
      bh_registration_finish h
        \<lparr>rf_server_data = rr_server_data response, rf_registration_upload = upload\<rparr>))))"

definition no_user_bound :: ldap_error where
  "no_user_bound = LdapError InsufficentAccessRights ''No user currently bound''"

text \<open>Whether the target is an administrator; \<open>expect\<close> panics when its groups may not be read.\<close>

definition target_is_admin ::
  "ldap_env \<Rightarrow> 's backend_handler \<Rightarrow> validation_results \<Rightarrow> user_id \<Rightarrow> ('s, bool, ldap_error) action" where
  "target_is_admin env h credentials uid =
     (case get_readable_handler h credentials uid of
        None \<Rightarrow> lift_result Panic
      | Some readable \<Rightarrow>
          bind (map_err_action (\<lambda>e. LdapError OperationsError ''Internal error while requesting user's groups: '')
                 (ur_get_user_groups readable uid))
            (\<lambda>groups. return (list_ex
               (\<lambda>g. GroupName_eq (env_externals env) (gd_display_name g) (GroupName ''lldap_admin'')) groups)))"

definition cannot_modify_password :: "validation_results \<Rightarrow> user_id \<Rightarrow> ldap_error" where
  "cannot_modify_password credentials uid = LdapError InsufficentAccessRights
     (''User `'' @ UserId_as_str (vr_user credentials) @ ''` cannot modify the password of user `''
        @ UserId_as_str uid @ ''`'')"

definition do_password_modification ::
  "ldap_env \<Rightarrow> 's backend_handler \<Rightarrow> ldap_handler \<Rightarrow> ldap_password_modify_request
     \<Rightarrow> ('s, ldap_op list, ldap_error) action" where
  "do_password_modification env h lh request =
     bind (lift_result (ok_or no_user_bound (lh_user_info lh))) (\<lambda>credentials.
       case (pm_user_identity request, pm_new_password request) of
         (Some user, Some password) \<Rightarrow>
           match_action (lift_result (session_user_id lh user))
             (\<lambda>uid. bind (target_is_admin env h credentials uid) (\<lambda>user_is_admin.
                if \<not> can_change_password credentials uid user_is_admin
                then fail (cannot_modify_password credentials uid)
                else match_action (change_password env h uid password)
                  (\<lambda>_. return [make_extended_response Success []])
                  (\<lambda>_. fail (LdapError Other ''Error while changing the password: ''))))
             (\<lambda>e. fail (LdapError InvalidDNSyntax (''Invalid username: '' @ le_message e)))
       | _ \<Rightarrow> fail (LdapError ConstraintViolation ''Missing either user_id or password''))"

definition do_extended_request ::
  "ldap_env \<Rightarrow> 's backend_handler \<Rightarrow> ldap_handler \<Rightarrow> ldap_extended_request
     \<Rightarrow> ('s, ldap_op list, ldap_error) action" where
  "do_extended_request env h lh request =
     (case env_password_modify_request env request of
        Some password_request \<Rightarrow>
          unwrap_or_else (\<lambda>e. [make_extended_response (le_code e) (le_message e)])
            (do_password_modification env h lh password_request)
      | None \<Rightarrow> return [make_extended_response UnwillingToPerform
            (''Unsupported extended operation: '' @ le_name request)])"

fun modify_type_debug :: "ldap_modify_type \<Rightarrow> string" where
  "modify_type_debug ModAdd = ''Add''"
| "modify_type_debug ModDelete = ''Delete''"
| "modify_type_debug ModReplace = ''Replace''"

definition handle_modify_change ::
  "ldap_env \<Rightarrow> 's backend_handler \<Rightarrow> user_id \<Rightarrow> validation_results \<Rightarrow> bool \<Rightarrow> ldap_modify
     \<Rightarrow> ('s, unit, ldap_error) action" where
  "handle_modify_change env h user_id credentials user_is_admin change =
     (if to_ascii_lowercase (pa_atype (lm_modification change)) \<noteq> ''userpassword''
         \<or> lm_operation change \<noteq> ModReplace
      then fail (LdapError UnwillingToPerform
        (''Unsupported operation: `'' @ modify_type_debug (lm_operation change) @ ''` for `''
           @ pa_atype (lm_modification change) @ ''`''))
      else if \<not> can_change_password credentials user_id user_is_admin
      then fail (cannot_modify_password credentials user_id)
      else case pa_vals (lm_modification change) of
          [v] \<Rightarrow> map_err_action (\<lambda>e. LdapError Other ''Error while changing the password: '')
                   (change_password env h user_id v)
        | vals \<Rightarrow> fail (LdapError InvalidAttributeSyntax
            (''Wrong number of values for password attribute: '' @ i64_to_string (int (length vals)))))"

definition handle_modify_request ::
  "ldap_env \<Rightarrow> 's backend_handler \<Rightarrow> ldap_handler \<Rightarrow> ldap_modify_request
     \<Rightarrow> ('s, ldap_op list, ldap_error) action" where
  "handle_modify_request env h lh request =
     bind (lift_result (ok_or no_user_bound (lh_user_info lh))) (\<lambda>credentials.
       match_action (lift_result (session_user_id lh (lmr_dn request)))
         (\<lambda>uid. bind (target_is_admin env h credentials uid) (\<lambda>user_is_admin.
            bind (for_each (handle_modify_change env h uid credentials user_is_admin) (lmr_changes request)) (\<lambda>_.
            return [make_modify_response Success []])))
         (\<lambda>e. fail (LdapError InvalidDNSyntax (''Invalid username: '' @ le_message e))))"

definition do_modify_request ::
  "ldap_env \<Rightarrow> 's backend_handler \<Rightarrow> ldap_handler \<Rightarrow> ldap_modify_request
     \<Rightarrow> ('s, ldap_op list, ldap_error) action" where
  "do_modify_request env h lh request =
     unwrap_or_else (\<lambda>e. [make_modify_response (le_code e) (le_message e)])
       (handle_modify_request env h lh request)"

section \<open>Searches\<close>

text \<open>The results of a search in a scope, given the two filtered queries.\<close>

definition search_in_scope ::
  "(ldap_filter \<Rightarrow> ('s, user_and_groups list, ldap_error) action)
     \<Rightarrow> (ldap_filter \<Rightarrow> ('s, group list, ldap_error) action)
     \<Rightarrow> ldap_search_request \<Rightarrow> search_scope \<Rightarrow> ('s, internal_search_results, ldap_error) action" where
  "search_in_scope user_list group_list request scope =
     (case scope of
        SGlobal \<Rightarrow>
          match_action (user_list (sr_filter request))
            (\<lambda>users. match_action (group_list (sr_filter request))
               (\<lambda>groups. return (UsersAndGroups users groups))
               (\<lambda>_. return (UsersAndGroups users [])))
            (\<lambda>user_error. match_action (group_list (sr_filter request))
               (\<lambda>groups. return (UsersAndGroups [] groups))
               (\<lambda>_. return (Raw [make_search_error (le_code user_error) (le_message user_error)])))
      | SUsers \<Rightarrow> bind (user_list (sr_filter request)) (\<lambda>users. return (UsersAndGroups users []))
      | SGroups \<Rightarrow> bind (group_list (sr_filter request)) (\<lambda>groups. return (UsersAndGroups [] groups))
      | SUser f \<Rightarrow> bind (user_list (FAnd [sr_filter request, f])) (\<lambda>users. return (UsersAndGroups users []))
      | SGroup f \<Rightarrow> bind (group_list (FAnd [sr_filter request, f])) (\<lambda>groups. return (UsersAndGroups [] groups))
      | SUserOuOnly \<Rightarrow> return (Raw [SearchResultEntry \<lparr>sre_dn = sr_base request,
          sre_attributes = [\<lparr>pa_atype = ''objectClass'', pa_vals = [''top'', ''organizationalUnit'']\<rparr>]\<rparr>])
      | SGroupOuOnly \<Rightarrow> return (Raw [SearchResultEntry \<lparr>sre_dn = sr_base request,
          sre_attributes = [\<lparr>pa_atype = ''objectClass'', pa_vals = [''top'', ''organizationalUnit'']\<rparr>]\<rparr>])
      | SUnknown \<Rightarrow> return Empty
      | SInvalid \<Rightarrow> return Empty)"

definition do_search_internal ::
  "ldap_env \<Rightarrow> ldap_handler
     \<Rightarrow> (user_request_filter option \<Rightarrow> bool \<Rightarrow> ('s, user_and_groups list) backend_action)
     \<Rightarrow> (group_request_filter option \<Rightarrow> ('s, group list) backend_action)
     \<Rightarrow> ldap_search_request \<Rightarrow> public_schema \<Rightarrow> ('s, internal_search_results, ldap_error) action" where
  "do_search_internal env lh user_lister_fn group_lister_fn request schema =
     (let ext = env_externals env; info = lh_ldap_info lh;
          need_groups = list_ex (\<lambda>s. to_ascii_lowercase s = ''memberof'') (sr_attrs request);
          user_list = (\<lambda>f. get_user_list ext info f need_groups (sr_base request) user_lister_fn schema);
          group_list = (\<lambda>f. get_groups_list ext info f (sr_base request) group_lister_fn schema)
      in
      bind (lift_result (parse_distinguished_name (to_ascii_lowercase (sr_base request)))) (\<lambda>dn_parts.
      bind (lift_result (get_search_scope (li_base_dn info) dn_parts (sr_scope request))) (\<lambda>scope.
      search_in_scope user_list group_list request scope)))"

fun is_search_done :: "ldap_op \<Rightarrow> bool" where
  "is_search_done (SearchResultDone _) = True"
| "is_search_done _ = False"

definition do_search ::
  "ldap_env \<Rightarrow> 's backend_handler \<Rightarrow> ldap_handler \<Rightarrow> ldap_search_request
     \<Rightarrow> ('s, ldap_op list, ldap_error) action" where
  "do_search env h lh request =
     bind (lift_result (ok_or no_user_bound (lh_user_info lh))) (\<lambda>user_info.
     (let user_filter = restricted_user_filter user_info; ext = env_externals env; info = lh_ldap_info lh in
      bind (map_err_action (\<lambda>e. LdapError OperationsError ''Unable to get schema: '')
          (restricted_get_schema (bh_get_schema h) user_filter)) (\<lambda>schema0.
      let schema = PublicSchema_from schema0 in
      bind (do_search_internal env lh (restricted_list_users (bh_list_users h) user_filter)
          (restricted_list_groups (bh_list_groups h) user_filter) request schema) (\<lambda>search_results.
      bind (case search_results of
          UsersAndGroups users groups \<Rightarrow>
            bind (lift_result (convert_users_to_ldap_op ext users (sr_attrs request) info schema)) (\<lambda>us.
            bind (lift_result (convert_groups_to_ldap_op ext groups (sr_attrs request) info user_filter schema)) (\<lambda>gs.
            return (us @ gs)))
        | Raw raw_results \<Rightarrow> return raw_results
        | Empty \<Rightarrow> return []) (\<lambda>results.
      return (if results = [] \<or> \<not> is_search_done (last results) then results @ [make_search_success] else results))))))"

definition do_search_or_dse ::
  "ldap_env \<Rightarrow> 's backend_handler \<Rightarrow> ldap_handler \<Rightarrow> ldap_search_request
     \<Rightarrow> ('s, ldap_op list, ldap_error) action" where
  "do_search_or_dse env h lh request =
     (if sr_base request = [] \<and> sr_scope request = ScopeBase
         \<and> (case sr_filter request of FPresent attribute \<Rightarrow> to_ascii_lowercase attribute = ''objectclass'' | _ \<Rightarrow> False)
      then return [root_dse_response (li_base_dn_str (lh_ldap_info lh)), make_search_success]
      else do_search env h lh request)"

section \<open>Creation of users\<close>

text \<open>\<open>std::str::from_utf8\<close>: the well-formed byte sequences of the Unicode standard.\<close>

definition byte_in :: "nat \<Rightarrow> nat \<Rightarrow> char \<Rightarrow> bool" where
  "byte_in lo hi c \<longleftrightarrow> lo \<le> of_char c \<and> of_char c \<le> hi"

fun utf8_valid :: "bytes \<Rightarrow> bool" where
  "utf8_valid [] = True"
| "utf8_valid (a # s) =
     (if byte_in 0x00 0x7F a then utf8_valid s
      else case s of
        [] \<Rightarrow> False
      | b # t \<Rightarrow>
          if byte_in 0xC2 0xDF a \<and> byte_in 0x80 0xBF b then utf8_valid t
          else case t of
            [] \<Rightarrow> False
          | c # v \<Rightarrow>
              if byte_in 0x80 0xBF c \<and> (byte_in 0xE0 0xE0 a \<and> byte_in 0xA0 0xBF b
                  \<or> byte_in 0xE1 0xEC a \<and> byte_in 0x80 0xBF b \<or> byte_in 0xED 0xED a \<and> byte_in 0x80 0x9F b
                  \<or> byte_in 0xEE 0xEF a \<and> byte_in 0x80 0xBF b) then utf8_valid v
              else case v of
                [] \<Rightarrow> False
              | d # w \<Rightarrow>
                  byte_in 0x80 0xBF c \<and> byte_in 0x80 0xBF d
                  \<and> (byte_in 0xF0 0xF0 a \<and> byte_in 0x90 0xBF b \<or> byte_in 0xF1 0xF3 a \<and> byte_in 0x80 0xBF b
                     \<or> byte_in 0xF4 0xF4 a \<and> byte_in 0x80 0x8F b)
                  \<and> utf8_valid w)"

definition parse_attribute :: "ldap_partial_attribute \<Rightarrow> (string \<times> bytes) ldap_result" where
  "parse_attribute attr =
     (case pa_vals attr of
        [] \<Rightarrow> Err (LdapError ConstraintViolation
               (''Missing value for attribute '' @ to_ascii_lowercase (pa_atype attr)))
      | [v] \<Rightarrow> Ok (to_ascii_lowercase (pa_atype attr), v)
      | _ \<Rightarrow> Err (LdapError ConstraintViolation (''Expected a single value for attribute '' @ pa_atype attr)))"

definition decode_attribute_value :: "bytes \<Rightarrow> string ldap_result" where
  "decode_attribute_value v =
     (if utf8_valid v then Ok v else Err (LdapError ConstraintViolation ''Attribute value is invalid UTF-8: ''))"

text \<open>\<open>get_attribute(name).transpose()\<close>.\<close>

definition get_add_attribute :: "(string \<times> bytes) list \<Rightarrow> string \<Rightarrow> string option ldap_result" where
  "get_add_attribute attrs name = (case map_of (rev attrs) name of
       None \<Rightarrow> Ok None | Some v \<Rightarrow> map_ok Some (decode_attribute_value v))"

definition do_create_user ::
  "ldap_env \<Rightarrow> 's backend_handler \<Rightarrow> ldap_handler \<Rightarrow> ldap_add_request
     \<Rightarrow> ('s, ldap_op list, ldap_error) action" where
  "do_create_user env h lh request =
     bind (lift_result (ok_or (LdapError InsufficentAccessRights ''Unauthorized write'')
         (Option.bind (lh_user_info lh) (get_admin_handler h)))) (\<lambda>backend_handler.
     bind (lift_result (session_user_id lh (la_dn request))) (\<lambda>user_id.
     bind (lift_result (collect_results parse_attribute
         (filter (\<lambda>a. to_ascii_lowercase (pa_atype a) \<noteq> ''objectclass'') (la_attributes request)))) (\<lambda>attrs.
     bind (lift_result (if map_of (rev attrs) ''mail'' \<noteq> None then get_add_attribute attrs ''mail''
         else get_add_attribute attrs ''email'')) (\<lambda>email.
     bind (lift_result (get_add_attribute attrs ''cn'')) (\<lambda>display_name.
     bind (lift_result (get_add_attribute attrs ''givenname'')) (\<lambda>first_name.
     bind (lift_result (get_add_attribute attrs ''sn'')) (\<lambda>last_name.
     bind (lift_result (case map_of (rev attrs) ''avatar'' of
         None \<Rightarrow> Ok None
       | Some b \<Rightarrow> map_ok Some (ok_or (LdapError ConstraintViolation ''Invalid JPEG photo: '')
           (JpegPhoto_try_from_bytes (env_externals env) b)))) (\<lambda>avatar.
     bind (map_err_action (\<lambda>e. LdapError OperationsError ''Could not create user: '')
         (ad_create_user backend_handler
            \<lparr>cu_user_id = user_id, cu_email = Email (case email of None \<Rightarrow> [] | Some e \<Rightarrow> e),
             cu_display_name = display_name, cu_first_name = first_name, cu_last_name = last_name,
             cu_avatar = avatar, cu_attributes = []\<rparr>)) (\<lambda>_.
     return [make_add_error Success []])))))))))"

section \<open>Comparison and dispatch\<close>

definition do_compare ::
  "ldap_env \<Rightarrow> 's backend_handler \<Rightarrow> ldap_handler \<Rightarrow> ldap_compare_request
     \<Rightarrow> ('s, ldap_op list, ldap_error) action" where
  "do_compare env h lh request =
     bind (do_search env h lh (make_search_request (li_base_dn_str (lh_ldap_info lh))
         (FEquality ''dn'' (lc_dn request)) [lc_atype request])) (\<lambda>entries.
     if length entries > 2 then fail (LdapError OperationsError ''Too many search results'')
     else case entries of
         SearchResultEntry entry # _ \<Rightarrow>
           return [CompareResult \<lparr>lr_code =
               (if list_ex (\<lambda>attr. pa_atype attr = lc_atype request \<and> lc_val request \<in> set (pa_vals attr)) (sre_attributes entry)
                then CompareTrue else CompareFalse),
             lr_matcheddn = lc_dn request, lr_message = [], lr_referral = []\<rparr>]
       | SearchResultDone _ # _ \<Rightarrow>
           return [CompareResult \<lparr>lr_code = NoSuchObject, lr_matcheddn = li_base_dn_str (lh_ldap_info lh),
             lr_message = [], lr_referral = []\<rparr>]
       | [] \<Rightarrow> fail (LdapError OperationsError ''Search request returned nothing'')
       | _ \<Rightarrow> fail (LdapError OperationsError ''Unexpected results from search''))"

text \<open>The answer to a message, \<open>None\<close> for an unbind, and the session afterwards.\<close>

definition answer :: "ldap_handler \<Rightarrow> ('s, ldap_op list, ldap_error) action
    \<Rightarrow> ('s, ldap_op list option \<times> ldap_handler, ldap_error) action" where
  "answer lh m = bind m (\<lambda>ops. return (Some ops, lh))"

definition handle_ldap_message ::
  "ldap_env \<Rightarrow> 's backend_handler \<Rightarrow> ldap_handler \<Rightarrow> ldap_op
     \<Rightarrow> ('s, ldap_op list option \<times> ldap_handler, ldap_error) action" where
  "handle_ldap_message env h lh ldap_op =
     (case ldap_op of
        BindRequest request \<Rightarrow>
          bind (do_bind env h lh request) (\<lambda>((code, message), lh').
            return (Some [BindResponse (ldap_result_op_of code message) None], lh'))
      | SearchRequest request \<Rightarrow> answer lh
          (unwrap_or_else (\<lambda>e. [make_search_error (le_code e) (le_message e)]) (do_search_or_dse env h lh request))
      | UnbindRequest \<Rightarrow> return (None, lh\<lparr>lh_user_info := None\<rparr>)
      | ModifyRequest request \<Rightarrow> answer lh (do_modify_request env h lh request)
      | ExtendedRequest request \<Rightarrow> answer lh (do_extended_request env h lh request)
      | AddRequest request \<Rightarrow> answer lh
          (unwrap_or_else (\<lambda>e. [make_add_error (le_code e) (le_message e)]) (do_create_user env h lh request))
      | CompareRequest request \<Rightarrow> answer lh
          (unwrap_or_else (\<lambda>e. [make_search_error (le_code e) (le_message e)]) (do_compare env h lh request))
      | _ \<Rightarrow> answer lh (return [make_extended_response UnwillingToPerform ''Unsupported operation: '']))"

end

