(* ===== verification/Ldap_Session.thy ===== *)
theory Ldap_Session
  imports Ldap_Handler
begin

text \<open>
  What an LDAP session guarantees, on the SQL backend: without a bound user nothing is read or written;
  searches are well-formed, do not write, and show an unprivileged user only itself and its groups; the
  only writes are user creation by an administrator and permitted password changes.
\<close>

section \<open>Searches of any backend\<close>

lemma collect_results_all:
  "collect_results f xs = Ok ys \<Longrightarrow> (\<And>x y. f x = Ok y \<Longrightarrow> P y) \<Longrightarrow> \<forall>y\<in>set ys. P y"
  by (induction xs arbitrary: ys) auto

fun is_entry :: "ldap_op \<Rightarrow> bool" where
  "is_entry (SearchResultEntry _) = True"
| "is_entry _ = False"

lemma convert_entries:
  "convert_users_to_ldap_op ext us attrs info schema = Ok ops \<Longrightarrow> \<forall>e\<in>set ops. is_entry e"
  "convert_groups_to_ldap_op ext gs attrs info uf schema = Ok ops \<Longrightarrow> \<forall>e\<in>set ops. is_entry e"
  unfolding convert_users_to_ldap_op_def convert_groups_to_ldap_op_def
  by (erule collect_results_all; auto)+

text \<open>The entry of an organizational unit, and where the results of an internal search come from.\<close>

definition ou_entry :: "ldap_search_request \<Rightarrow> ldap_op" where
  "ou_entry request = SearchResultEntry \<lparr>sre_dn = sr_base request,
     sre_attributes = [\<lparr>pa_atype = ''objectClass'', pa_vals = [''top'', ''organizationalUnit'']\<rparr>]\<rparr>"

definition search_source ::
  "(ldap_filter \<Rightarrow> ('s, user_and_groups list, ldap_error) action)
     \<Rightarrow> (ldap_filter \<Rightarrow> ('s, group list, ldap_error) action) \<Rightarrow> 's
     \<Rightarrow> ldap_search_request \<Rightarrow> internal_search_results \<Rightarrow> bool" where
  "search_source ul gl s request res = (case res of
       UsersAndGroups us gs \<Rightarrow> (us = [] \<or> (\<exists>f. fst (ul f s) = Ok us)) \<and> (gs = [] \<or> (\<exists>f. fst (gl f s) = Ok gs))
     | Raw ops \<Rightarrow> ops = [ou_entry request] \<or> (\<exists>c m. ops = [make_search_error c m])
     | Empty \<Rightarrow> True)"

lemma search_in_scope_source:
  assumes "search_in_scope ul gl request scope s = (Ok res, t)" and pure: "\<And>f. snd (ul f s) = s"
  shows "search_source ul gl s request res"
proof (cases scope)
  case SGlobal
  obtain r where "ul (sr_filter request) s = (r, s)" using pure by (metis prod.collapse)
  moreover obtain q v where "gl (sr_filter request) s = (q, v)" by fastforce
  ultimately show ?thesis using assms(1) SGlobal
    by (cases r; cases q) (auto simp: search_in_scope_def monad_simps search_source_def ou_entry_def; metis fst_conv)+
qed (use assms(1) in \<open>auto simp: search_in_scope_def monad_simps search_source_def ou_entry_def split: prod.splits result.splits\<close>,
     (metis fst_conv)+)

lemma get_user_list_Ok:
  "fst (get_user_list ext info f b base l schema s) = Ok us \<Longrightarrow> \<exists>fs. fst (l (Some fs) b s) = Ok us"
  by (auto simp: get_user_list_def monad_simps split: prod.splits result.splits) (metis fst_conv)

lemma get_groups_list_Ok:
  "fst (get_groups_list ext info f base l schema s) = Ok gs \<Longrightarrow> \<exists>fs. fst (l (Some fs) s) = Ok gs"
  by (auto simp: get_groups_list_def monad_simps split: prod.splits result.splits) (metis fst_conv)

lemma get_lists_preserve [preserves_intros]:
  "(\<And>fs b. preserves P (l fs b)) \<Longrightarrow> preserves P (get_user_list ext info f b base l schema)"
  "(\<And>fs. preserves P (g fs)) \<Longrightarrow> preserves P (get_groups_list ext info f base g schema)"
  by (simp_all add: get_user_list_def get_groups_list_def preserves_intros)

lemma search_in_scope_preserve [preserves_intros]:
  assumes "\<And>f. preserves P (ul f)" and "\<And>f. preserves P (gl f)"
  shows "preserves P (search_in_scope ul gl request scope)"
  unfolding search_in_scope_def by (auto split: search_scope.split intro!: preserves_intros assms)

lemma do_search_internal_preserve [preserves_intros]:
  assumes "\<And>fs b. preserves P (l fs b)" and "\<And>fs. preserves P (g fs)"
  shows "preserves P (do_search_internal env lh l g request schema)"
  unfolding do_search_internal_def Let_def by (intro preserves_intros assms)

lemma preserves_map_action [preserves_intros]: "preserves P m \<Longrightarrow> preserves P (map_action f m)"
  by (auto simp: preserves_def map_action_def split: prod.splits)

lemma do_search_preserve [preserves_intros]:
  assumes "\<And>fs b. preserves P (bh_list_users h fs b)" and "\<And>fs. preserves P (bh_list_groups h fs)"
    and "preserves P (bh_get_schema h)"
  shows "preserves P (do_search env h lh request)"
  unfolding do_search_def Let_def restricted_get_schema_def restricted_list_users_def restricted_list_groups_def
  by (intro preserves_intros assms) (auto split: internal_search_results.split intro!: preserves_intros)

lemma do_search_internal_source:
  assumes "do_search_internal env lh l g request schema s = (Ok res, t)" and "\<And>fs b. snd (l fs b s) = s"
  obtains ul gl where "search_source ul gl s request res"
    and "\<And>f us. fst (ul f s) = Ok us \<Longrightarrow> \<exists>fs b. fst (l (Some fs) b s) = Ok us"
    and "\<And>f gs. fst (gl f s) = Ok gs \<Longrightarrow> \<exists>fs. fst (g (Some fs) s) = Ok gs"
proof -
  let ?ul = "\<lambda>f. get_user_list (env_externals env) (lh_ldap_info lh) f
    (list_ex (\<lambda>s. to_ascii_lowercase s = ''memberof'') (sr_attrs request)) (sr_base request) l schema"
  let ?gl = "\<lambda>f. get_groups_list (env_externals env) (lh_ldap_info lh) f (sr_base request) g schema"
  have "snd (?ul f s) = s" for f
    using assms(2) by (auto simp: get_user_list_def monad_simps split: prod.splits result.splits) (metis snd_conv)+
  moreover obtain scope where "search_in_scope ?ul ?gl request scope s = (Ok res, t)"
    using assms(1) by (auto simp: do_search_internal_def Let_def bind_Ok_iff)
  ultimately have "search_source ?ul ?gl s request res" by (intro search_in_scope_source)
  then show thesis by (rule that) (blast dest: get_user_list_Ok, blast dest: get_groups_list_Ok)
qed

text \<open>The operations of a search result.\<close>

definition shown ::
  "ldap_env \<Rightarrow> ldap_handler \<Rightarrow> validation_results \<Rightarrow> ldap_search_request \<Rightarrow> public_schema
     \<Rightarrow> internal_search_results \<Rightarrow> ldap_op list ldap_result" where
  "shown env lh v request schema res = (case res of
       UsersAndGroups us gs \<Rightarrow>
         bind_result (convert_users_to_ldap_op (env_externals env) us (sr_attrs request) (lh_ldap_info lh) schema) (\<lambda>a.
         bind_result (convert_groups_to_ldap_op (env_externals env) gs (sr_attrs request) (lh_ldap_info lh)
           (restricted_user_filter v) schema) (\<lambda>b. Ok (a @ b)))
     | Raw raw \<Rightarrow> Ok raw
     | Empty \<Rightarrow> Ok [])"

lemma bind_lift_Ok [simp]: "bind (lift_result (Ok v)) f = f v"
  by (rule ext) (simp add: monad_simps)

lemma shown_action:
  "(case res of UsersAndGroups users groups \<Rightarrow>
      bind (lift_result (convert_users_to_ldap_op ext users as info schema)) (\<lambda>us.
      bind (lift_result (convert_groups_to_ldap_op ext groups as info uf schema)) (\<lambda>gs. return (us @ gs)))
    | Raw raw_results \<Rightarrow> return raw_results | Empty \<Rightarrow> return [])
   = lift_result (case res of UsersAndGroups users groups \<Rightarrow>
      bind_result (convert_users_to_ldap_op ext users as info schema) (\<lambda>us.
      bind_result (convert_groups_to_ldap_op ext groups as info uf schema) (\<lambda>gs. Ok (us @ gs)))
    | Raw raw_results \<Rightarrow> Ok raw_results | Empty \<Rightarrow> Ok [])"
  by (rule HOL.ext) (auto simp: monad_simps split: internal_search_results.split result.split)

lemma do_search_unfold:
  assumes "lh_user_info lh = Some v"
  shows "do_search env h lh request =
    bind (map_err_action (\<lambda>e. LdapError OperationsError ''Unable to get schema: '')
        (restricted_get_schema (bh_get_schema h) (restricted_user_filter v))) (\<lambda>schema.
    bind (do_search_internal env lh (restricted_list_users (bh_list_users h) (restricted_user_filter v))
        (restricted_list_groups (bh_list_groups h) (restricted_user_filter v)) request (PublicSchema_from schema)) (\<lambda>res.
    bind (lift_result (shown env lh v request (PublicSchema_from schema) res)) (\<lambda>results.
    return (if results = [] \<or> \<not> is_search_done (last results) then results @ [make_search_success] else results))))"
  using assms by (simp add: do_search_def Let_def shown_def shown_action)

lemma do_search_Ok:
  assumes "do_search env h lh request s = (Ok ops, t)"
  obtains v schema res results s1 where "lh_user_info lh = Some v"
    and "restricted_get_schema (bh_get_schema h) (restricted_user_filter v) s = (Ok schema, s1)"
    and "do_search_internal env lh (restricted_list_users (bh_list_users h) (restricted_user_filter v))
      (restricted_list_groups (bh_list_groups h) (restricted_user_filter v)) request (PublicSchema_from schema) s1 = (Ok res, t)"
    and "shown env lh v request (PublicSchema_from schema) res = Ok results"
    and "ops = (if results = [] \<or> \<not> is_search_done (last results) then results @ [make_search_success] else results)"
proof -
  obtain v where v: "lh_user_info lh = Some v" using assms by (auto simp: do_search_def bind_Ok_iff)
  show thesis
    using assms that [OF v] unfolding do_search_unfold [OF v]
    by (auto simp: bind_Ok_iff map_err_action_def return_def split: prod.splits)
qed

lemma shown_entries:
  assumes "shown env lh v request schema res = Ok results" and "search_source ul gl s request res"
  shows "(\<forall>op\<in>set results. is_entry op) \<or> (\<exists>c m. results = [make_search_error c m])"
  using assms
  by (cases res) (auto simp: shown_def search_source_def ou_entry_def dest!: convert_entries)

section \<open>Searches on the SQL backend\<close>

text \<open>The SQL backend with the libraries of the session's environment.\<close>

abbreviation session_backend :: "ldap_env \<Rightarrow> sql_config \<Rightarrow> (nat \<Rightarrow> nat) \<Rightarrow> naive_date_time \<Rightarrow> db backend_handler" where
  "session_backend env \<equiv> sql_backend (env_externals env) (env_opaque env)"

lemma session_backend_sel [simp]:
  "bh_list_users (sql_backend ext lib cfg rng now) = list_users ext"
  "bh_list_groups (sql_backend ext lib cfg rng now) = list_groups ext"
  "bh_get_schema (sql_backend ext lib cfg rng now) = sql_get_schema"
  "bh_get_user_groups (sql_backend ext lib cfg rng now) = get_user_groups"
  "bh_create_user (sql_backend ext lib cfg rng now) = create_user ext now"
  "bh_bind (sql_backend ext lib cfg rng now) = sql_bind lib cfg rng"
  "bh_registration_start (sql_backend ext lib cfg rng now) = sql_registration_start ext lib cfg rng"
  "bh_registration_finish (sql_backend ext lib cfg rng now) = sql_registration_finish ext lib cfg"
  by (simp_all add: sql_backend_def)

lemma sql_search_preserve [preserves_intros]: "preserves P (do_search env (sql_backend ext lib cfg rng now) lh request)"
  by (intro preserves_intros) (simp_all add: preserves_intros)

lemma sql_search_pure: "snd (do_search env (sql_backend ext lib cfg rng now) lh request s) = s"
  using preservesD [OF sql_search_preserve, where P = "(=) s" and s = s] by simp

lemma sql_schema_pure:
  "restricted_get_schema sql_get_schema uf s = (Ok schema, s1) \<Longrightarrow>
     s1 = s \<and> schema = (if uf = None then db_schema s else (db_schema s)
       \<lparr>user_attributes := AttributeList (filter as_is_visible (attributes (user_attributes (db_schema s)))),
        group_attributes := AttributeList (filter as_is_visible (attributes (group_attributes (db_schema s))))\<rparr>)"
  by (auto simp: restricted_get_schema_def map_action_def sql_get_schema_def transaction_def
      get_schema_with_transaction_def return_def)

lemma sql_search_source:
  assumes "do_search env (session_backend env cfg rng now) lh request s = (Ok ops, t)"
  obtains v schema res results ul gl where "lh_user_info lh = Some v"
    and "fst (restricted_get_schema sql_get_schema (restricted_user_filter v) s) = Ok schema"
    and "search_source ul gl s request res"
    and "\<And>f us. fst (ul f s) = Ok us \<Longrightarrow> \<exists>fs b. fst (restricted_list_users (list_users (env_externals env))
            (restricted_user_filter v) (Some fs) b s) = Ok us"
    and "\<And>f gs. fst (gl f s) = Ok gs \<Longrightarrow> \<exists>fs. fst (restricted_list_groups (list_groups (env_externals env))
            (restricted_user_filter v) (Some fs) s) = Ok gs"
    and "shown env lh v request (PublicSchema_from schema) res = Ok results"
    and "ops = (if results = [] \<or> \<not> is_search_done (last results) then results @ [make_search_success] else results)"
proof (rule do_search_Ok [OF assms], goal_cases)
  case (1 v schema res results s1)
  note sch = 1(3) [unfolded session_backend_sel]
  have "s1 = s" using sql_schema_pure [OF sch] by simp
  note int = 1(4) [unfolded session_backend_sel this]
  show thesis
  proof (rule do_search_internal_source [OF int], goal_cases)
    case (2 ul gl)
    show thesis
      by (rule that [OF 1(2) _ 2(1) _ _ 1(5,6)]) (use sch 2(2,3) in \<open>simp_all add: fst_def\<close>)
  qed (simp add: sql_users.restricted_users_pure)
qed

lemma split_search_results:
  assumes "(\<forall>op\<in>set results. is_entry op) \<or> (\<exists>c m. results = [make_search_error c m])"
  shows "\<exists>es d. (if results = [] \<or> \<not> is_search_done (last results) then results @ [make_search_success] else results)
    = map SearchResultEntry es @ [SearchResultDone d]"
proof -
  have "\<exists>es. l = map SearchResultEntry es" if "\<forall>op\<in>set l. is_entry op" for l
    using that
  proof (induction l)
    case (Cons op l)
    then obtain es e where "l = map SearchResultEntry es" "op = SearchResultEntry e" by (cases op) auto
    then have "op # l = map SearchResultEntry (e # es)" by simp
    then show ?case by (rule exI)
  qed simp
  moreover have "\<not> is_search_done (last l)" if "\<forall>op\<in>set l. is_entry op" "l \<noteq> []" for l
    using that last_in_set [of l] by (cases "last l") auto
  ultimately show ?thesis using assms
    by (auto simp: make_search_error_def make_search_success_def)
qed

lemma sql_search_form:
  assumes "do_search env (session_backend env cfg rng now) lh request s = (Ok ops, t)"
  shows "\<exists>es d. ops = map SearchResultEntry es @ [SearchResultDone d]"
proof (rule sql_search_source [OF assms], goal_cases)
  case (1 v schema res results ul gl)
  show ?case unfolding 1(7) by (rule split_search_results [OF shown_entries [OF 1(6,3)]])
qed

text \<open>The entries an unprivileged user may be shown.\<close>

definition own_entry :: "db \<Rightarrow> ldap_info \<Rightarrow> user_id \<Rightarrow> ldap_op \<Rightarrow> bool" where
  "own_entry s info u op \<longleftrightarrow> entry_dn op = Some (user_dn (li_base_dn_str info) u)"

definition own_group_entry :: "db \<Rightarrow> ldap_info \<Rightarrow> user_id \<Rightarrow> ldap_op \<Rightarrow> bool" where
  "own_group_entry s info u op \<longleftrightarrow> (\<exists>g\<in>set (db_groups s). u \<in> set (members_of_group s (grp_group_id g))
       \<and> entry_dn op = Some (group_dn (li_base_dn_str info) (grp_display_name g)))
     \<and> (\<forall>e. op = SearchResultEntry e \<longrightarrow> (\<forall>a\<in>set (sre_attributes e).
          to_ascii_lowercase (pa_atype a) \<in> {''member'', ''uniquemember''} \<longrightarrow>
          set (pa_vals a) \<subseteq> {user_dn (li_base_dn_str info) u}))"

lemma collect_attributes_mem:
  "collect_attributes f as = Ok attrs \<Longrightarrow> a \<in> set attrs \<Longrightarrow> f (pa_atype a) = Ok (Some (pa_vals a))"
  by (induction "as" arbitrary: attrs) (auto split: option.splits)

lemma member_values_own:
  assumes "to_ascii_lowercase n \<in> {''member'', ''uniquemember''}"
    and "get_group_attribute ext g base n (Some u) ignored schema = Ok (Some vals)"
  shows "set vals \<subseteq> {user_dn base u}"
proof -
  have "map_group_field (AttributeName_from n) schema = GFMember"
    using assms(1) by (auto simp: map_group_field_def)
  with assms(2) show ?thesis
    by (auto simp: get_group_attribute_def Let_def nonempty_values_def user_dn_def Option.bind_eq_Some_conv split: if_splits)
qed

lemma convert_users_own:
  assumes "convert_users_to_ldap_op ext us attrs info schema = Ok ops" and "op \<in> set ops"
    and "\<forall>u\<in>set us. u_user_id (ug_user u) = i"
  shows "own_entry s info i op"
proof -
  have "entry_dn op \<in> set (map entry_dn ops)" using assms(2) by simp
  then have "entry_dn op \<in> (\<lambda>u. Some (user_dn (li_base_dn_str info) (u_user_id (ug_user u)))) ` set us"
    by (simp only: convert_users_dns [OF assms(1)] set_map)
  with assms(3) show ?thesis by (auto simp: own_entry_def)
qed

lemma collect_results_from:
  "collect_results f xs = Ok ys \<Longrightarrow> y \<in> set ys \<Longrightarrow> \<exists>x\<in>set xs. f x = Ok y"
  by (induction xs arbitrary: ys) auto

lemma convert_groups_own:
  assumes "convert_groups_to_ldap_op ext gs attrs info (Some i) schema = (Ok ops :: ldap_op list ldap_result)"
    and "op \<in> set ops"
    and "\<forall>g\<in>set gs. \<exists>r\<in>set (db_groups s). g_display_name g = grp_display_name r \<and> i \<in> set (members_of_group s (grp_group_id r))"
  shows "own_group_entry s info i op"
proof -
  obtain g where g: "g \<in> set gs" and mk: "map_ok SearchResultEntry (make_ldap_search_group_result_entry ext g
      (li_base_dn_str info) (expand_group_attribute_wildcards attrs) (Some i) (li_ignored_group_attributes info) schema)
      = (Ok op :: ldap_op ldap_result)"
    using collect_results_from [OF assms(1) [unfolded convert_groups_to_ldap_op_def] assms(2)] by blast
  then obtain e as where op: "op = SearchResultEntry e"
    and e: "e = \<lparr>sre_dn = group_dn (li_base_dn_str info) (g_display_name g), sre_attributes = as\<rparr>"
    and as: "collect_attributes (\<lambda>a. get_group_attribute ext g (li_base_dn_str info) a (Some i)
       (li_ignored_group_attributes info) schema) (expand_group_attribute_wildcards attrs) = (Ok as :: (_, ldap_error) result)"
    by (auto simp: make_ldap_search_group_result_entry_def group_dn_def)
  have "set (pa_vals a) \<subseteq> {user_dn (li_base_dn_str info) i}"
    if "a \<in> set as" "to_ascii_lowercase (pa_atype a) \<in> {''member'', ''uniquemember''}" for a
    by (rule member_values_own [OF that(2) collect_attributes_mem [OF as that(1)]])
  moreover obtain r where "r \<in> set (db_groups s)" "g_display_name g = grp_display_name r"
    "i \<in> set (members_of_group s (grp_group_id r))" using assms(3) g by blast
  ultimately show ?thesis by (auto simp: own_group_entry_def op e)
qed

section \<open>Properties\<close>

text \<open>
  Answers to a search are well-formed and searching does not write: whatever the request and whoever is
  bound, the answer is a sequence of entries closed by exactly one result, and neither the database nor
  the session changes.
\<close>

theorem search_answer_well_formed:
  "let (r, t) = handle_ldap_message env (session_backend env cfg rng now) lh (SearchRequest request) s
   in t = s \<and> (r = Panic \<or> (\<exists>es d. r = Ok (Some (map SearchResultEntry es @ [SearchResultDone d]), lh)))"
proof -
  let ?h = "session_backend env cfg rng now"
  obtain q where q: "do_search env ?h lh request s = (q, s)"
    using sql_search_pure by (metis prod.collapse)
  have dse: "\<exists>es d. [root_dse_response b, make_search_success] = map SearchResultEntry es @ [SearchResultDone d]" for b
    by (rule exI [of _ "[case root_dse_response b of SearchResultEntry e \<Rightarrow> e]"])
       (simp add: root_dse_response_def make_search_success_def make_search_error_def)
  have err: "\<exists>es d. [make_search_error c m] = map SearchResultEntry es @ [SearchResultDone d]" for c m
    by (rule exI [of _ "[]"]) (simp add: make_search_error_def)
  show ?thesis
    using q sql_search_form [of env cfg rng now lh request s] dse err
    by (cases q) (auto simp: handle_ldap_message_def answer_def do_search_or_dse_def monad_simps)
qed

text \<open>
  C2. What an unprivileged user can see: a search by a user that is in none of the privileged groups shows only
  the user's own entry, the groups it is a member of with no other member in their member lists, and
  the bare entry of an organizational unit.
\<close>

theorem regular_user_sees_own_entries:
  assumes "lh_user_info lh = Some v" and "\<not> can_read_all v"
    and "do_search env (session_backend env cfg rng now) lh request s = (Ok ops, t)" and "op \<in> set ops"
  shows "is_search_done op \<or> own_entry s (lh_ldap_info lh) (vr_user v) op
    \<or> own_group_entry s (lh_ldap_info lh) (vr_user v) op \<or> op = ou_entry request"
proof (rule sql_search_source [OF assms(3)], goal_cases)
  case (1 v' schema res results ul gl)
  let ?ext = "env_externals env"
  have v: "v' = v" using 1(1) assms(1) by simp
  have uf: "restricted_user_filter v = Some (vr_user v)" using assms(2) by (simp add: restricted_user_filter_def)
  have users: "\<forall>u\<in>set us. u_user_id (ug_user u) = vr_user v" if "fst (ul f s) = Ok us" for f us
    using 1(4) [OF that] sql_users.restricted_users_own unfolding v uf by blast
  have groups: "\<forall>g\<in>set gs. \<exists>r\<in>set (db_groups s). g_display_name g = grp_display_name r
      \<and> vr_user v \<in> set (members_of_group s (grp_group_id r))" if "fst (gl f s) = Ok gs" for f gs
  proof
    fix g assume g: "g \<in> set gs"
    from 1(5) [OF that] obtain fs where fs: "fst (restricted_list_groups (list_groups ?ext) (Some (vr_user v)) (Some fs) s) = Ok gs"
      unfolding v uf by blast
    from sql_groups.restricted_groups_member [OF fs g] sql_groups.restricted_groups_sat [OF fs g]
    show "\<exists>r\<in>set (db_groups s). g_display_name g = grp_display_name r \<and> vr_user v \<in> set (members_of_group s (grp_group_id r))"
      by (auto simp: sql_group_sat_def)
  qed
  have "op \<in> set results \<or> op = make_search_success" using 1(7) assms(4) by (auto split: if_splits)
  moreover have "is_search_done op \<or> own_entry s (lh_ldap_info lh) (vr_user v) op
      \<or> own_group_entry s (lh_ldap_info lh) (vr_user v) op \<or> op = ou_entry request" if op: "op \<in> set results"
  proof (cases res)
    case (UsersAndGroups us gs)
    then obtain a b where a: "convert_users_to_ldap_op ?ext us (sr_attrs request) (lh_ldap_info lh) (PublicSchema_from schema) = (Ok a :: ldap_op list ldap_result)"
      and b: "convert_groups_to_ldap_op ?ext gs (sr_attrs request) (lh_ldap_info lh) (Some (vr_user v)) (PublicSchema_from schema) = (Ok b :: ldap_op list ldap_result)"
      and "results = a @ b"
      using 1(6) by (auto simp: shown_def v uf)
    then have "op \<in> set a \<or> op \<in> set b" using op by simp
    moreover have "\<forall>u\<in>set us. u_user_id (ug_user u) = vr_user v"
      using 1(3) users UsersAndGroups by (auto simp: search_source_def)
    moreover have "\<forall>g\<in>set gs. \<exists>r\<in>set (db_groups s). g_display_name g = grp_display_name r
        \<and> vr_user v \<in> set (members_of_group s (grp_group_id r))"
      using 1(3) groups UsersAndGroups by (auto simp: search_source_def)
    ultimately show ?thesis using convert_users_own [OF a] convert_groups_own [OF b] by blast
  qed (use 1(3,6) op in \<open>auto simp: shown_def search_source_def make_search_error_def\<close>)
  ultimately show ?case by (auto simp: make_search_success_def make_search_error_def)
qed

definition demo_env :: ldap_env where
  "demo_env = \<lparr>env_externals = ascii_externals, env_opaque = toy_lib, env_rng = id,
     env_password_modify_request = (\<lambda>_. None)\<rparr>"

definition demo_session :: "validation_results option \<Rightarrow> ldap_handler" where
  "demo_session v = \<lparr>lh_user_info = v, lh_ldap_info =
     \<lparr>li_base_dn = [(''dc'', ''x'')], li_base_dn_str = ''dc=x'',
      li_ignored_user_attributes = [], li_ignored_group_attributes = []\<rparr>\<rparr>"

text \<open>Sessions on the example database.\<close>

theorem regular_user_sees_own_entries_witness:
  "let v = \<lparr>vr_user = UserId ''bob'', vr_permission = Regular\<rparr>;
     request = make_search_request ''dc=x'' (FPresent ''objectClass'') [''cn'', ''member'', ''givenName''];
     ops = (case fst (do_search demo_env (session_backend demo_env toy_config id 0) (demo_session (Some v)) request demo_db) of
         Ok ops \<Rightarrow> ops | _ \<Rightarrow> [])
   in map entry_dn ops = [Some ''uid=bob,ou=people,dc=x'', Some ''cn=Friends,ou=groups,dc=x'', None]
    \<and> own_group_entry demo_db (lh_ldap_info (demo_session (Some v))) (UserId ''bob'') (ops ! 1)"
proof -
  let ?v = "\<lparr>vr_user = UserId ''bob'', vr_permission = Regular\<rparr>"
  let ?r = "make_search_request ''dc=x'' (FPresent ''objectClass'') [''cn'', ''member'', ''givenName'']"
  let ?m = "do_search demo_env (session_backend demo_env toy_config id 0) (demo_session (Some ?v)) ?r demo_db"
  define ops where "ops = (case fst ?m of Ok ops \<Rightarrow> ops | _ \<Rightarrow> [])"
  have run: "?m = (Ok ops, demo_db)"
  proof -
    have "fst ?m \<noteq> Panic \<and> (case fst ?m of Ok x \<Rightarrow> True | _ \<Rightarrow> False)" by code_simp
    then show ?thesis using sql_search_pure by (cases "fst ?m") (auto simp: ops_def prod_eq_iff)
  qed
  have dns: "map entry_dn ops = [Some ''uid=bob,ou=people,dc=x'', Some ''cn=Friends,ou=groups,dc=x'', None]"
    unfolding ops_def by code_simp
  then have len: "length ops = 3" by (metis length_map list.size(3,4) One_nat_def Suc_1 add.commute numeral_3_eq_3 plus_1_eq_Suc)
  have "entry_dn (ops ! 1) = Some ''cn=Friends,ou=groups,dc=x''" using arg_cong [OF dns, of "\<lambda>l. l ! 1"] len by simp
  moreover have "\<not> can_read_all ?v" by (simp add: can_read_all_def)
  moreover have "lh_user_info (demo_session (Some ?v)) = Some ?v" by (simp add: demo_session_def)
  ultimately have "own_group_entry demo_db (lh_ldap_info (demo_session (Some ?v))) (UserId ''bob'') (ops ! 1)"
    using regular_user_sees_own_entries [OF _ _ run, of ?v "ops ! 1"] len
    by (cases "ops ! 1") (auto simp: own_entry_def user_dn_def demo_session_def ou_entry_def make_search_request_def)
  with dns show ?thesis by (simp add: ops_def Let_def)
qed

fun response_code :: "ldap_op \<Rightarrow> ldap_result_code option" where
  "response_code (SearchResultDone r) = Some (lr_code r)"
| "response_code (ModifyResponse r) = Some (lr_code r)"
| "response_code (AddResponse r) = Some (lr_code r)"
| "response_code (ExtendedResponse r _ _) = Some (lr_code r)"
| "response_code (CompareResult r) = Some (lr_code r)"
| "response_code (BindResponse r _) = Some (lr_code r)"
| "response_code _ = None"

lemmas response_defs = make_search_error_def make_search_success_def make_add_error_def make_extended_response_def
  make_modify_response_def ldap_result_op_of_def no_user_bound_def

text \<open>
  C3. Without a bound user, a session reads and writes nothing: every message other than a bind leaves the backend
  and the session as they are and is answered, if at all, by the public root entry or by a single error.
\<close>

theorem unbound_session_rejected:
  assumes "lh_user_info lh = None" and "\<forall>request. op \<noteq> BindRequest request"
  shows "\<exists>answer. handle_ldap_message env h lh op s = (Ok (answer, lh), s)
    \<and> (answer = None \<or> answer = Some [root_dse_response (li_base_dn_str (lh_ldap_info lh)), make_search_success]
      \<or> (\<exists>p. answer = Some [p] \<and> response_code p \<in> {Some InsufficentAccessRights, Some UnwillingToPerform}))"
proof -
  have lh: "lh\<lparr>lh_user_info := None\<rparr> = lh" using assms(1) by (cases lh) simp
  have search: "do_search env h lh request s = (Err no_user_bound, s)" for request
    using assms(1) by (simp add: do_search_def monad_simps)
  have modify: "handle_modify_request env h lh request s = (Err no_user_bound, s)"
    "do_password_modification env h lh prequest s = (Err no_user_bound, s)" for request prequest
    using assms(1) by (simp_all add: handle_modify_request_def do_password_modification_def monad_simps)
  have add: "do_create_user env h lh request s = (Err (LdapError InsufficentAccessRights ''Unauthorized write''), s)" for request
    using assms(1) by (simp add: do_create_user_def monad_simps)
  show ?thesis
    using assms(2)
    by (cases op) (auto simp: handle_ldap_message_def answer_def do_search_or_dse_def do_compare_def do_modify_request_def
        do_extended_request_def monad_simps lh search modify add response_defs split: option.split)
qed

theorem unbound_session_rejected_witness:
  "\<exists>a. handle_ldap_message demo_env (session_backend demo_env toy_config id 0) (demo_session None)
     (CompareRequest \<lparr>lc_dn = ''uid=bob,ou=people,dc=x'', lc_atype = ''cn'', lc_val = ''b''\<rparr>) demo_db
     = (Ok (a, demo_session None), demo_db)"
  using unbound_session_rejected [of "demo_session None" "CompareRequest \<lparr>lc_dn = ''uid=bob,ou=people,dc=x'', lc_atype = ''cn'', lc_val = ''b''\<rparr>"
    demo_env "session_backend demo_env toy_config id 0" demo_db]
  by (auto simp: demo_session_def)

section \<open>Writes\<close>

text \<open>Two databases that differ at most in the stored password of one user.\<close>

definition only_password_changed :: "user_id \<Rightarrow> db \<Rightarrow> db \<Rightarrow> bool" where
  "only_password_changed u s t \<longleftrightarrow> (\<exists>f. t = s\<lparr>db_users :=
     map (\<lambda>q. if usr_user_id q = u then q\<lparr>usr_password_hash := f q\<rparr> else q) (db_users s)\<rparr>)"

lemma only_password_refl: "only_password_changed u s s"
proof -
  have "map (\<lambda>q. if usr_user_id q = u then q\<lparr>usr_password_hash := usr_password_hash q\<rparr> else q) (db_users s) = db_users s"
    by (rule map_idI) simp
  then show ?thesis unfolding only_password_changed_def by (intro exI [of _ usr_password_hash]) simp
qed

lemma only_password_trans:
  assumes "only_password_changed u s t" and "only_password_changed u t w"
  shows "only_password_changed u s w"
proof -
  obtain f g where "t = s\<lparr>db_users := map (\<lambda>q. if usr_user_id q = u then q\<lparr>usr_password_hash := f q\<rparr> else q) (db_users s)\<rparr>"
    and "w = t\<lparr>db_users := map (\<lambda>q. if usr_user_id q = u then q\<lparr>usr_password_hash := g q\<rparr> else q) (db_users t)\<rparr>"
    using assms by (auto simp: only_password_changed_def)
  then have "w = s\<lparr>db_users := map (\<lambda>q. if usr_user_id q = u
      then q\<lparr>usr_password_hash := g (q\<lparr>usr_password_hash := f q\<rparr>)\<rparr> else q) (db_users s)\<rparr>"
    by (auto simp: comp_def)
  then show ?thesis unfolding only_password_changed_def
    by (intro exI [of _ "\<lambda>q. g (q\<lparr>usr_password_hash := f q\<rparr>)"])
qed

lemma sql_update_password: "only_password_changed u s (snd (sql_update_user u (\<lambda>r. r\<lparr>usr_password_hash := h\<rparr>) s))"
  using only_password_refl
  by (auto simp: sql_update_user_def monad_simps only_password_changed_def intro: exI [of _ "\<lambda>_. h"] split: option.split)

lemma change_password_only:
  assumes "base64_ok (env_externals env)" and seal: "sealing_ok (env_opaque env) cfg"
  shows "only_password_changed u s (snd (change_password env (session_backend env cfg rng now) u pw s))"
proof -
  let ?lib = "env_opaque env" and ?h = "session_backend env cfg rng now"
  obtain k where k: "secret_key_from_slice ?lib (server_private_key cfg) = Some k"
    "\<forall>n m. \<exists>c. aead_seal ?lib n k m = Some c \<and> aead_open ?lib k c = Some m"
    using seal by (auto simp: sealing_ok_def)
  obtain d where d: "registration_data_serialize ?lib u = Some d" "registration_data_deserialize ?lib d = Some u"
    using seal unfolding sealing_ok_def by metis
  obtain c where c: "aead_seal ?lib (rng 0) k d = Some c" "aead_open ?lib k c = Some d" using k(2) by blast
  have b: "base64_decode (env_externals env) (base64_encode (env_externals env) c) = Some c"
    using assms(1) by (simp add: base64_ok_def)
  show ?thesis
    using k(1) d c b only_password_refl [of u s] sql_update_password [of u s]
    by (auto simp: change_password_def sql_registration_start_def sql_registration_finish_def
        get_orion_secret_key_def monad_simps Let_def split: option.split result.split prod.split)
qed

lemma target_is_admin_sql:
  "target_is_admin env (sql_backend ext lib cfg rng now) v u s =
     (if \<not> can_read v u then (Panic, s)
      else if user_exists s u then (Ok (list_ex (\<lambda>g. GroupName_eq (env_externals env) (grp_display_name g)
        (GroupName ''lldap_admin'')) (groups_of_user s u)), s)
      else (Err (LdapError OperationsError ''Internal error while requesting user's groups: ''), s))"
  using find_user_None [of s u]
  by (auto simp: target_is_admin_def get_readable_handler_def as_user_readable_def get_user_groups_def monad_simps
      GroupDetails_from_def list_ex_iff split: option.splits)

text \<open>Whether a user is an administrator according to the database.\<close>

definition admin_in :: "externals \<Rightarrow> db \<Rightarrow> user_id \<Rightarrow> bool" where
  "admin_in ext s u \<longleftrightarrow>
     list_ex (\<lambda>g. GroupName_eq ext (grp_display_name g) (GroupName ''lldap_admin'')) (groups_of_user s u)"

lemma modify_changes_only:
  assumes "base64_ok (env_externals env)" and "sealing_ok (env_opaque env) cfg"
  shows "preserves (only_password_changed u s)
      (for_each (handle_modify_change env (session_backend env cfg rng now) u v admin) changes)"
proof (rule preserves_for_each, rule preservesI)
  fix change t assume t: "only_password_changed u s t"
  have "only_password_changed u s (snd (change_password env (session_backend env cfg rng now) u pw t))" for pw
    using only_password_trans [OF t change_password_only [OF assms]] .
  with t show "only_password_changed u s (snd (handle_modify_change env (session_backend env cfg rng now) u v admin change t))"
    by (auto simp: handle_modify_change_def monad_simps split: list.split result.split prod.split) (metis snd_conv)
qed

lemma modify_denied:
  assumes "\<not> can_change_password v u admin"
  shows "snd (for_each (handle_modify_change env h u v admin) changes s) = s"
proof (cases changes)
  case (Cons c cs)
  have "\<exists>e. handle_modify_change env h u v admin c s = (Err e, s)"
    using assms by (auto simp: handle_modify_change_def monad_simps)
  with Cons show ?thesis by (auto simp: monad_simps)
qed (simp add: monad_simps)

lemma snd_bind_lift:
  "(\<And>x. r = Ok x \<Longrightarrow> snd (f x s) \<in> Q) \<Longrightarrow> s \<in> Q \<Longrightarrow> snd (bind (lift_result r) f s) \<in> Q"
  by (cases r) (auto simp: monad_simps)

lemma snd_bind_last: "snd (bind (map_err_action g m) (\<lambda>_. return x) s) = snd (m s)"
  by (auto simp: monad_simps split: prod.split result.split)

lemma modify_request_writes:
  assumes ok: "base64_ok (env_externals env)" "sealing_ok (env_opaque env) cfg"
    and "snd (handle_modify_request env (session_backend env cfg rng now) lh request s) \<noteq> s"
  shows "\<exists>v u. lh_user_info lh = Some v \<and> session_user_id lh (lmr_dn request) = Ok u
    \<and> can_change_password v u (admin_in (env_externals env) s u)
    \<and> only_password_changed u s (snd (handle_modify_request env (session_backend env cfg rng now) lh request s))"
proof -
  let ?h = "session_backend env cfg rng now"
  obtain v where v: "lh_user_info lh = Some v"
    using assms(3) by (cases "lh_user_info lh") (auto simp: handle_modify_request_def monad_simps)
  obtain u where u: "session_user_id lh (lmr_dn request) = Ok u"
    using assms(3) v by (cases "session_user_id lh (lmr_dn request)") (auto simp: handle_modify_request_def monad_simps)
  have ex: "can_read v u" "user_exists s u"
    using assms(3) v u by (auto simp: handle_modify_request_def monad_simps target_is_admin_sql split: if_splits)
  let ?loop = "for_each (handle_modify_change env ?h u v (admin_in (env_externals env) s u)) (lmr_changes request)"
  have run: "snd (handle_modify_request env ?h lh request s) = snd (?loop s)"
    using v u ex
    by (auto simp: handle_modify_request_def monad_simps target_is_admin_sql admin_in_def split: prod.split result.split)
  have "can_change_password v u (admin_in (env_externals env) s u)"
    using modify_denied run assms(3) by metis
  moreover have "only_password_changed u s (snd (?loop s))"
    by (rule preservesD [OF modify_changes_only [OF ok] only_password_refl])
  ultimately show ?thesis using v u run by auto
qed

lemma password_modification_writes:
  assumes ok: "base64_ok (env_externals env)" "sealing_ok (env_opaque env) cfg"
    and "snd (do_password_modification env (session_backend env cfg rng now) lh request s) \<noteq> s"
  shows "\<exists>v u. lh_user_info lh = Some v \<and> can_change_password v u (admin_in (env_externals env) s u)
    \<and> only_password_changed u s (snd (do_password_modification env (session_backend env cfg rng now) lh request s))"
proof -
  let ?h = "session_backend env cfg rng now"
  obtain v where v: "lh_user_info lh = Some v"
    using assms(3) by (cases "lh_user_info lh") (auto simp: do_password_modification_def monad_simps)
  obtain user pw where p: "pm_user_identity request = Some user" "pm_new_password request = Some pw"
    using assms(3) v by (cases "pm_user_identity request"; cases "pm_new_password request")
      (auto simp: do_password_modification_def monad_simps)
  obtain u where u: "session_user_id lh user = Ok u"
    using assms(3) v p by (cases "session_user_id lh user") (auto simp: do_password_modification_def monad_simps)
  have ex: "can_read v u" "user_exists s u"
    using assms(3) v u p by (auto simp: do_password_modification_def monad_simps target_is_admin_sql split: if_splits)
  have can: "can_change_password v u (admin_in (env_externals env) s u)"
    using assms(3) v u p ex by (auto simp: do_password_modification_def monad_simps target_is_admin_sql admin_in_def split: if_splits)
  then have "snd (do_password_modification env ?h lh request s) = snd (change_password env ?h u pw s)"
    using v u p ex by (auto simp: do_password_modification_def monad_simps target_is_admin_sql admin_in_def
        split: prod.split result.split)
  then show ?thesis using can change_password_only [OF ok] v by metis
qed

lemma create_user_writes:
  assumes "snd (do_create_user env (session_backend env cfg rng now) lh request s) \<noteq> s"
  shows "\<exists>v creq. lh_user_info lh = Some v \<and> is_admin v
    \<and> snd (do_create_user env (session_backend env cfg rng now) lh request s) = snd (create_user (env_externals env) now creq s)"
proof -
  obtain v where v: "lh_user_info lh = Some v" "is_admin v"
    using assms by (cases "lh_user_info lh") (auto simp: do_create_user_def monad_simps get_admin_handler_def split: if_splits)
  have "ad_create_user (as_admin (session_backend env cfg rng now)) creq = create_user (env_externals env) now creq" for creq
    by (simp add: as_admin_def)
  with v have "snd (do_create_user env (session_backend env cfg rng now) lh request s)
      \<in> {s} \<union> {snd (create_user (env_externals env) now creq s) |creq. True}"
    unfolding do_create_user_def by (intro snd_bind_lift) (auto simp: snd_bind_last get_admin_handler_def)
  then show ?thesis using v assms by auto
qed

text \<open>
  C1. The writes of an LDAP session: a message changes the database only when a user is bound and the message is
  an addition by an administrator, whose effect is that of creating one user, or a password change, which
  changes nothing but the stored password of one user whose password the bound user may change.
\<close>

theorem ldap_writes_authorised:
  fixes rng :: "nat \<Rightarrow> nat" and now :: naive_date_time
  assumes "base64_ok (env_externals env)" and "sealing_ok (env_opaque env) cfg"
  defines "t \<equiv> \<lambda>lh op s. snd (handle_ldap_message env (session_backend env cfg rng now) lh op s)"
  shows "t lh op s = s \<or>
    (\<exists>v. lh_user_info lh = Some v \<and>
      ((\<exists>request creq. op = AddRequest request \<and> is_admin v \<and> t lh op s = snd (create_user (env_externals env) now creq s))
       \<or> (\<exists>u. can_change_password v u (admin_in (env_externals env) s u) \<and> only_password_changed u s (t lh op s))))"
proof -
  let ?h = "session_backend env cfg rng now"
  have unwrap: "snd (answer lh (unwrap_or_else g m) s) = snd (m s)" for g m and s :: db
    by (auto simp: answer_def monad_simps split: prod.split result.split)
  have bind: "preserves ((=) s) (do_bind env ?h lh request)" for request
    by (simp add: do_bind_def get_permissions_for_user_def preserves_intros split: ldap_bind_cred.split)
  show ?thesis
  proof (cases op)
    case (BindRequest request)
    then show ?thesis using preservesD [OF bind [of request] refl]
      by (auto simp: t_def handle_ldap_message_def bind_def return_def split: prod.split result.split)
  next
    case (SearchRequest request)
    then show ?thesis using sql_search_pure
      by (auto simp: t_def handle_ldap_message_def unwrap do_search_or_dse_def return_def)
  next
    case (CompareRequest request)
    have "preserves ((=) s) (do_compare env ?h lh request)"
      unfolding do_compare_def by (intro preserves_intros) (auto intro!: preserves_intros split: list.split ldap_op.split)
    from preservesD [OF this refl] show ?thesis using CompareRequest
      by (auto simp: t_def handle_ldap_message_def unwrap)
  next
    case (ModifyRequest request)
    then show ?thesis using modify_request_writes [OF assms(1,2), of rng now lh request s]
      by (auto simp: t_def handle_ldap_message_def unwrap do_modify_request_def)
  next
    case (AddRequest request)
    then show ?thesis using create_user_writes [of env cfg rng now lh request s]
      by (auto simp: t_def handle_ldap_message_def unwrap)
  next
    case (ExtendedRequest request)
    then show ?thesis
      using password_modification_writes [OF assms(1,2), of rng now lh _ s]
      by (cases "env_password_modify_request env request")
         (auto simp: t_def handle_ldap_message_def unwrap do_extended_request_def answer_def monad_simps split: prod.split result.split; metis snd_conv)+
  qed (auto simp: t_def handle_ldap_message_def answer_def monad_simps)
qed

theorem ldap_writes_authorised_witness:
  "let v = \<lparr>vr_user = UserId ''bob'', vr_permission = Regular\<rparr>;
     op = ModifyRequest \<lparr>lmr_dn = ''uid=bob,ou=people,dc=x'', lmr_changes =
       [\<lparr>lm_operation = ModReplace, lm_modification = \<lparr>pa_atype = ''userPassword'', pa_vals = [''new'']\<rparr>\<rparr>]\<rparr>;
     t = snd (handle_ldap_message demo_env (session_backend demo_env toy_config id 0) (demo_session (Some v)) op demo_db)
   in t \<noteq> demo_db \<and> (\<exists>u. can_change_password v u (admin_in ascii_externals demo_db u) \<and> only_password_changed u demo_db t)"
proof -
  let ?v = "\<lparr>vr_user = UserId ''bob'', vr_permission = Regular\<rparr>"
  let ?op = "ModifyRequest \<lparr>lmr_dn = ''uid=bob,ou=people,dc=x'', lmr_changes =
       [\<lparr>lm_operation = ModReplace, lm_modification = \<lparr>pa_atype = ''userPassword'', pa_vals = [''new'']\<rparr>\<rparr>]\<rparr>"
  let ?t = "snd (handle_ldap_message demo_env (session_backend demo_env toy_config id 0) (demo_session (Some ?v)) ?op demo_db)"
  have ok: "base64_ok (env_externals demo_env)" "sealing_ok (env_opaque demo_env) toy_config"
    using toy_ok by (simp_all add: demo_env_def)
  have "map usr_password_hash (db_users ?t) = [None, Some ''new'']" by code_simp
  moreover have "map usr_password_hash (db_users demo_db) = [None, Some ''hash'']" by code_simp
  ultimately have "?t \<noteq> demo_db" by force
  with ldap_writes_authorised [OF ok, where rng = id and now = 0 and lh = "demo_session (Some ?v)" and op = ?op and s = demo_db]
  show ?thesis by (auto simp: Let_def demo_session_def demo_env_def)
qed

text \<open>
  C11. Binding: the answer is success exactly when the name denotes a user and the backend accepts the password, and
  then the session carries the permissions of the user's groups as the database has them; every
  failure answers with the right error and leaves the session, with a user bound earlier, as it was.
\<close>

theorem bind_sets_permissions:
  assumes "dn_is_lower (li_base_dn (lh_ldap_info lh))"
  defines "reply \<equiv> \<lambda>code message. [BindResponse (ldap_result_op_of code message) None]"
  shows "handle_ldap_message env (session_backend env cfg rng now) lh (BindRequest request) s =
    (case session_user_id lh (to_ascii_lowercase (lb_dn request)) of
       Ok u \<Rightarrow>
         (case lb_cred request of
            SASL _ \<Rightarrow> (Ok (Some (reply UnwillingToPerform ''SASL not supported''), lh), s)
          | Simple pw \<Rightarrow>
              (if fst (sql_bind (env_opaque env) cfg rng \<lparr>br_name = u, br_password = pw\<rparr> s) = Ok ()
               then (Ok (Some (reply Success []), lh\<lparr>lh_user_info := Some (get_permissions_from_groups (env_externals env) u
                      (map grp_display_name (groups_of_user s u)))\<rparr>), s)
               else (Ok (Some (reply InvalidCredentials []), lh), s)))
     | Err e \<Rightarrow> (Ok (Some (reply NamingViolation (le_message e)), lh), s)
     | Panic \<Rightarrow> (Panic, s))
    \<and> session_user_id lh (to_ascii_lowercase (lb_dn request)) \<noteq> Panic"
proof -
  let ?b = "\<lambda>u pw. sql_bind (env_opaque env) cfg rng \<lparr>br_name = u, br_password = pw\<rparr> s"
  have pm: "passwords_match lib r f p st u \<noteq> Panic" for lib r f p st u
    by (auto simp: passwords_match_def bind_result_Panic_iff split: prod.splits)
  have b: "(\<exists>e. ?b u pw = (Err e, s)) \<or> (?b u pw = (Ok (), s) \<and> find_user s u \<noteq> None)" for u pw
    using pm by (cases "find_user s u")
      (auto simp: sql_bind_def get_password_file_for_user_def monad_simps split: option.split result.split)
  have perm: "get_permissions_for_user (env_externals env) (session_backend env cfg rng now) u s =
      (Ok (get_permissions_from_groups (env_externals env) u (map grp_display_name (groups_of_user s u))), s)"
    if "find_user s u \<noteq> None" for u
    using that by (auto simp: get_permissions_for_user_def get_user_groups_def monad_simps comp_def GroupDetails_from_def
        split: option.split)
  have denied: "handle_ldap_message env (session_backend env cfg rng now) lh (BindRequest request) s =
      (Ok (Some (reply InvalidCredentials []), lh), s)"
    if "session_user_id lh (to_ascii_lowercase (lb_dn request)) = Ok u" "lb_cred request = Simple pw" "?b u pw = (Err e, s)" for u pw e
    using that by (simp add: handle_ldap_message_def do_bind_def monad_simps reply_def)
  have granted: "handle_ldap_message env (session_backend env cfg rng now) lh (BindRequest request) s =
      (Ok (Some (reply Success []), lh\<lparr>lh_user_info := Some (get_permissions_from_groups (env_externals env) u
         (map grp_display_name (groups_of_user s u)))\<rparr>), s)"
    if "session_user_id lh (to_ascii_lowercase (lb_dn request)) = Ok u" "lb_cred request = Simple pw" "?b u pw = (Ok (), s)"
      "find_user s u \<noteq> None" for u pw
    using that perm [OF that(4)] by (simp add: handle_ldap_message_def do_bind_def monad_simps reply_def)
  have np: "session_user_id lh (to_ascii_lowercase (lb_dn request)) \<noteq> Panic"
    using assms(1) by (simp add: session_user_id_def get_user_id_from_distinguished_name_def get_id_panic_iff)
  show ?thesis
  proof (cases "session_user_id lh (to_ascii_lowercase (lb_dn request))")
    case (Ok u)
    show ?thesis
    proof (cases "lb_cred request")
      case (Simple pw)
      from b [of u pw] denied [OF Ok Simple] granted [OF Ok Simple] show ?thesis using Ok Simple np by fastforce
    next
      case (SASL m)
      then show ?thesis using Ok by (simp add: handle_ldap_message_def do_bind_def monad_simps reply_def)
    qed
  next
    case (Err e)
    then show ?thesis by (simp add: handle_ldap_message_def do_bind_def monad_simps reply_def)
  qed (use np in simp)
qed

theorem bind_sets_permissions_witness:
  "fst (handle_ldap_message demo_env (session_backend demo_env toy_config id 0) (demo_session None)
      (BindRequest \<lparr>lb_dn = ''UID=Bob,ou=people,dc=x'', lb_cred = Simple ''hash''\<rparr>) demo_db)
   = Ok (Some [BindResponse (ldap_result_op_of Success []) None], (demo_session None)\<lparr>lh_user_info :=
       Some (get_permissions_from_groups ascii_externals (UserId ''bob'') [GroupName ''Friends''])\<rparr>)"
proof -
  have low: "dn_is_lower (li_base_dn (lh_ldap_info (demo_session None)))" by code_simp
  have u: "session_user_id (demo_session None) (to_ascii_lowercase ''UID=Bob,ou=people,dc=x'') = Ok (UserId ''bob'')"
    by code_simp
  have ok: "fst (sql_bind (env_opaque demo_env) toy_config id \<lparr>br_name = UserId ''bob'', br_password = ''hash''\<rparr> demo_db) = Ok ()"
    by code_simp
  have g: "map grp_display_name (groups_of_user demo_db (UserId ''bob'')) = [GroupName ''Friends'']" by code_simp
  have e: "env_externals demo_env = ascii_externals" by (simp add: demo_env_def)
  show ?thesis
    using bind_sets_permissions [OF low, of demo_env toy_config id 0
        "\<lparr>lb_dn = ''UID=Bob,ou=people,dc=x'', lb_cred = Simple ''hash''\<rparr>" demo_db] u ok g e by simp
qed

text \<open>
  Where the password change of another user panics: a password modification or a modification request by a
  bound user that may not read the target's entry, or whose target name is not lowercase, ends in a
  panic instead of an error answer.
\<close>

theorem modify_panics:
  assumes "lh_user_info lh = Some v" and "dn_is_lower (li_base_dn (lh_ldap_info lh))"
    and "\<not> is_lower (lmr_dn request) \<or> (\<exists>u. session_user_id lh (lmr_dn request) = Ok u \<and> \<not> can_read v u)"
  shows "handle_ldap_message env h lh (ModifyRequest request) s = (Panic, s)
    \<and> do_password_modification env h lh \<lparr>pm_user_identity = Some (lmr_dn request), pm_old_password = old,
        pm_new_password = Some pw\<rparr> s = (Panic, s)"
proof -
  have "session_user_id lh (lmr_dn request) = Panic \<or> (\<exists>u. session_user_id lh (lmr_dn request) = Ok u \<and> \<not> can_read v u)"
    using assms(2,3) by (auto simp: session_user_id_def get_user_id_from_distinguished_name_def get_id_panic_iff)
  then show ?thesis using assms(1)
    by (auto simp: handle_ldap_message_def answer_def do_modify_request_def handle_modify_request_def
        do_password_modification_def target_is_admin_def get_readable_handler_def monad_simps)
qed

theorem modify_panics_witness:
  "fst (handle_ldap_message demo_env (session_backend demo_env toy_config id 0)
      (demo_session (Some \<lparr>vr_user = UserId ''bob'', vr_permission = Regular\<rparr>))
      (ModifyRequest \<lparr>lmr_dn = ''uid=patrick,ou=people,dc=x'', lmr_changes = []\<rparr>) demo_db) = Panic"
proof -
  let ?v = "\<lparr>vr_user = UserId ''bob'', vr_permission = Regular\<rparr>"
  have low: "dn_is_lower (li_base_dn (lh_ldap_info (demo_session (Some ?v))))" by code_simp
  have u: "session_user_id (demo_session (Some ?v)) ''uid=patrick,ou=people,dc=x'' = Ok (UserId ''patrick'')" by code_simp
  have "lh_user_info (demo_session (Some ?v)) = Some ?v" by (simp add: demo_session_def)
  from modify_panics [OF this low, of "\<lparr>lmr_dn = ''uid=patrick,ou=people,dc=x'', lmr_changes = []\<rparr>" demo_env
      "session_backend demo_env toy_config id 0" demo_db] u
  show ?thesis by (simp add: can_read_def)
qed

section \<open>Searches that do not panic\<close>

lemma user_filter_expr_Ok: "user_filter_ok f \<Longrightarrow> \<exists>c. get_user_filter_expr ext f = (Ok c :: (user_cond, domain_error) result)"
proof (induction f)
  case (UAnd fs)
  then have "\<exists>cs. collect_results (get_user_filter_expr ext) fs = (Ok cs :: (user_cond list, domain_error) result)"
    by (intro collect_results_Ok_ex) auto
  then show ?case by auto
next
  case (UOr fs)
  then have "\<exists>cs. collect_results (get_user_filter_expr ext) fs = (Ok cs :: (user_cond list, domain_error) result)"
    by (intro collect_results_Ok_ex) auto
  then show ?case by auto
qed auto

lemma restricted_filter_ok: "user_filter_ok f \<Longrightarrow> \<exists>g. combine_user_filters (Some f) (map_option UUserId uf) = Some g \<and> user_filter_ok g"
  by (cases uf) auto

text \<open>Every stored value decodes at the type the schema gives its attribute.\<close>

definition db_typed :: "externals \<Rightarrow> db \<Rightarrow> bool" where
  "db_typed ext s \<longleftrightarrow>
     (\<forall>a\<in>set (db_user_attributes s). \<forall>r\<in>set (db_user_attribute_schema s). uas_attribute_name r = uat_attribute_name a
        \<longrightarrow> Serialized_convert_to ext (uas_attribute_type r, uas_is_list r) (uat_value a) \<noteq> None)
   \<and> (\<forall>a\<in>set (db_group_attributes s). \<forall>r\<in>set (db_group_attribute_schema s). gas_attribute_name r = gat_attribute_name a
        \<longrightarrow> Serialized_convert_to ext (gas_attribute_type r, gas_is_list r) (gat_value a) \<noteq> None)"

lemma get_attribute_type_Some:
  "get_attribute_type (AttributeList l) n = Some t \<Longrightarrow> \<exists>x\<in>set l. as_name x = n \<and> t = (as_attribute_type x, as_is_list x)"
  by (auto simp: get_attribute_type_def get_attribute_schema_def dest!: find_SomeD)

lemma db_schema_sel [simp]:
  "set (attributes (user_attributes (db_schema s))) = AttributeSchema_from_user ` set (db_user_attribute_schema s)"
  "set (attributes (group_attributes (db_schema s))) = AttributeSchema_from_group ` set (db_group_attribute_schema s)"
  by (simp_all add: db_schema_def get_user_attributes_def get_group_attributes_def)

lemma user_view_typed:
  assumes inv: "db_inv s" and typed: "db_typed ext s" and clash: "schema_no_clash (db_schema s)"
    and l: "set (attributes (user_attributes schema)) \<subseteq> set (attributes (user_attributes (db_schema s)))"
  shows "user_typed ext (PublicSchema_from schema) (user_view s r)"
  unfolding user_typed_def attrs_typed_def
proof
  fix a assume "a \<in> set (u_attributes (user_view s r))"
  then obtain row where row: "row \<in> set (db_user_attributes s)" "a = AttributeValue_from_user row"
    by (auto simp: user_view_def attributes_of_user_def)
  obtain d where d: "d \<in> set (db_user_attribute_schema s)" "uas_attribute_name d = uat_attribute_name row"
    using db_inv_user_attributesD(2) [OF inv row(1)] by (auto simp: user_attribute_fk_def)
  have not_hard: "x \<notin> set hardcoded_user_attributes" if "as_name x = uat_attribute_name row" for x
  proof
    assume "x \<in> set hardcoded_user_attributes"
    moreover have "uat_attribute_name row \<in> as_name ` set (attributes (user_attributes (db_schema s)))"
      using d by (force simp: AttributeSchema_from_user_def image_iff)
    moreover have "as_name ` set (attributes (user_attributes (db_schema s))) \<inter> as_name ` set hardcoded_user_attributes = {}"
      using clash by (simp add: schema_no_clash_def)
    ultimately show False using that by (metis IntI emptyE imageI)
  qed
  show "case get_attribute_type (SchemaUserAttributeExtractor (PublicSchema_from schema)) (av_name a) of
      None \<Rightarrow> True | Some t \<Rightarrow> Serialized_convert_to ext t (av_value a) \<noteq> None"
  proof (cases "get_attribute_type (SchemaUserAttributeExtractor (PublicSchema_from schema)) (av_name a)")
    case (Some t)
    then obtain x where x: "x \<in> set (attributes (user_attributes schema)) \<union> set hardcoded_user_attributes"
      "as_name x = uat_attribute_name row" "t = (as_attribute_type x, as_is_list x)"
      by (auto simp: SchemaUserAttributeExtractor_def PublicSchema_from_def row(2) AttributeValue_from_user_def
          dest!: get_attribute_type_Some)
    with not_hard l obtain e where "e \<in> set (db_user_attribute_schema s)" "x = AttributeSchema_from_user e" by auto
    with x typed row Some show ?thesis
      by (auto simp: db_typed_def AttributeSchema_from_user_def AttributeValue_from_user_def)
  qed simp
qed

lemma group_view_typed:
  assumes inv: "db_inv s" and typed: "db_typed ext s" and clash: "schema_no_clash (db_schema s)"
    and l: "set (attributes (group_attributes schema)) \<subseteq> set (attributes (group_attributes (db_schema s)))"
  shows "group_typed ext (PublicSchema_from schema) (listed_group s r)"
  unfolding group_typed_def attrs_typed_def
proof
  fix a assume "a \<in> set (g_attributes (listed_group s r))"
  then obtain row where row: "row \<in> set (db_group_attributes s)" "a = AttributeValue_from_group row"
    by (auto simp: listed_group_def attributes_of_group_def)
  obtain d where d: "d \<in> set (db_group_attribute_schema s)" "gas_attribute_name d = gat_attribute_name row"
    using db_inv_group_attributesD(2) [OF inv row(1)] by (auto simp: group_attribute_fk_def)
  have not_hard: "x \<notin> set hardcoded_group_attributes" if "as_name x = gat_attribute_name row" for x
  proof
    assume "x \<in> set hardcoded_group_attributes"
    moreover have "gat_attribute_name row \<in> as_name ` set (attributes (group_attributes (db_schema s)))"
      using d by (force simp: AttributeSchema_from_group_def image_iff)
    moreover have "as_name ` set (attributes (group_attributes (db_schema s))) \<inter> as_name ` set hardcoded_group_attributes = {}"
      using clash by (simp add: schema_no_clash_def)
    ultimately show False using that by (metis IntI emptyE imageI)
  qed
  show "case get_attribute_type (SchemaGroupAttributeExtractor (PublicSchema_from schema)) (av_name a) of
      None \<Rightarrow> True | Some t \<Rightarrow> Serialized_convert_to ext t (av_value a) \<noteq> None"
  proof (cases "get_attribute_type (SchemaGroupAttributeExtractor (PublicSchema_from schema)) (av_name a)")
    case (Some t)
    then obtain x where x: "x \<in> set (attributes (group_attributes schema)) \<union> set hardcoded_group_attributes"
      "as_name x = gat_attribute_name row" "t = (as_attribute_type x, as_is_list x)"
      by (auto simp: SchemaGroupAttributeExtractor_def PublicSchema_from_def row(2) AttributeValue_from_group_def
          dest!: get_attribute_type_Some)
    with not_hard l obtain e where "e \<in> set (db_group_attribute_schema s)" "x = AttributeSchema_from_group e" by auto
    with x typed row Some show ?thesis
      by (auto simp: db_typed_def AttributeSchema_from_group_def AttributeValue_from_group_def)
  qed simp
qed

lemma restricted_users_run:
  assumes "db_inv s" and "user_filter_ok f"
  shows "\<exists>rows. restricted_list_users (list_users ext) uf (Some f) b s = (Ok (map (listed_user s) rows), s)"
proof -
  obtain g where g: "combine_user_filters (Some f) (map_option UUserId uf) = Some g" "user_filter_ok g"
    using restricted_filter_ok [OF assms(2)] by blast
  obtain c where "get_user_filter_expr ext g = (Ok c :: (user_cond, domain_error) result)"
    using user_filter_expr_Ok [OF g(2)] by blast
  then have "(case Some g of None \<Rightarrow> Ok (UcValue True) | Some f \<Rightarrow> get_user_filter_expr ext f) = (Ok c :: (user_cond, domain_error) result)"
    by simp
  from list_users_rows [OF assms(1) this] show ?thesis by (auto simp: restricted_list_users_def g(1))
qed

lemma insort_key_map: "insort_key k (f x) (map f xs) = map f (insort_key (\<lambda>y. k (f y)) x xs)"
  by (induction xs) auto

lemma sort_key_map: "sort_key k (map f xs) = map f (sort_key (\<lambda>y. k (f y)) xs)"
  by (induction xs) (simp_all add: sort_key_def insort_key_map)

lemma restricted_groups_run:
  assumes "db_inv s"
  shows "\<exists>rows. restricted_list_groups (list_groups ext) uf (Some f) s = (Ok (map (listed_group s) rows), s)"
proof -
  obtain g where "combine_group_filters (Some f) (map_option GMember uf) = Some g" by (cases uf) auto
  moreover have "sort_groups ext (map (listed_group s) rows) = map (listed_group s)
      (sort_key (\<lambda>r. chars_to_lowercase ext (GroupName_as_str (g_display_name (listed_group s r)))) rows)" for rows
    by (simp add: sort_groups_def sort_key_map)
  ultimately show ?thesis using list_groups_rows [OF assms refl, of ext "Some g"]
    by (auto simp: restricted_list_groups_def)
qed

lemma schema_subset:
  assumes "fst (restricted_get_schema sql_get_schema uf s) = Ok schema"
  shows "set (attributes (user_attributes schema)) \<subseteq> set (attributes (user_attributes (db_schema s)))"
    and "set (attributes (group_attributes schema)) \<subseteq> set (attributes (group_attributes (db_schema s)))"
proof -
  obtain s1 where "restricted_get_schema sql_get_schema uf s = (Ok schema, s1)" using assms by (metis prod.collapse)
  from sql_schema_pure [OF this] show "set (attributes (user_attributes schema)) \<subseteq> set (attributes (user_attributes (db_schema s)))"
    "set (attributes (group_attributes schema)) \<subseteq> set (attributes (group_attributes (db_schema s)))"
    by (auto split: if_splits)
qed

text \<open>A query that reads: it returns, with a value satisfying \<open>Q\<close> or an error, and does not write.\<close>

definition reads :: "('a \<Rightarrow> bool) \<Rightarrow> ('s, 'a, 'e) action \<Rightarrow> 's \<Rightarrow> bool" where
  "reads Q m s \<longleftrightarrow> (\<exists>x. m s = (Ok x, s) \<and> Q x) \<or> (\<exists>e. m s = (Err e, s))"

lemma reads_user_list:
  assumes "db_inv s" and "dn_is_lower (li_base_dn info)"
  shows "reads (\<lambda>us. \<exists>rows. us = map (listed_user s) rows)
    (get_user_list ext info f b base (restricted_list_users (list_users ext) uf) schema) s"
proof (cases "convert_user_filter ext info schema f")
  case (Ok g)
  from restricted_users_run [OF assms(1) convert_user_filter_ok [OF Ok], of ext uf b] Ok show ?thesis
    by (auto simp: reads_def get_user_list_def monad_simps)
qed (use convert_user_filter_no_panic [OF assms(2)] in \<open>auto simp: reads_def get_user_list_def monad_simps\<close>)

lemma reads_group_list:
  assumes "db_inv s" and "dn_is_lower (li_base_dn info)"
  shows "reads (\<lambda>gs. \<exists>rows. gs = map (listed_group s) rows)
    (get_groups_list ext info f base (restricted_list_groups (list_groups ext) uf) schema) s"
proof (cases "convert_group_filter ext info schema f")
  case (Ok g)
  from restricted_groups_run [OF assms(1), of ext uf g] Ok show ?thesis
    by (auto simp: reads_def get_groups_list_def monad_simps)
qed (use convert_group_filter_no_panic [OF assms(2)] in \<open>auto simp: reads_def get_groups_list_def monad_simps\<close>)

fun results_in :: "(user_and_groups list \<Rightarrow> bool) \<Rightarrow> (group list \<Rightarrow> bool) \<Rightarrow> internal_search_results \<Rightarrow> bool" where
  "results_in Q R (UsersAndGroups us gs) = (Q us \<and> R gs)"
| "results_in Q R _ = True"

lemma reads_search_in_scope:
  assumes ul: "\<And>f. reads Q (ul f) s" and gl: "\<And>f. reads R (gl f) s" and "Q []" and "R []"
  shows "reads (results_in Q R) (search_in_scope ul gl request scope) s"
proof (cases scope)
  case SGlobal
  then show ?thesis using ul [of "sr_filter request"] gl [of "sr_filter request"] assms(3,4)
    by (auto simp: reads_def search_in_scope_def monad_simps)
next
  case SUsers
  then show ?thesis using ul [of "sr_filter request"] assms(4) by (auto simp: reads_def search_in_scope_def monad_simps)
next
  case SGroups
  then show ?thesis using gl [of "sr_filter request"] assms(3) by (auto simp: reads_def search_in_scope_def monad_simps)
next
  case (SUser f)
  then show ?thesis using ul [of "FAnd [sr_filter request, f]"] assms(4)
    by (auto simp: reads_def search_in_scope_def monad_simps)
next
  case (SGroup f)
  then show ?thesis using gl [of "FAnd [sr_filter request, f]"] assms(3)
    by (auto simp: reads_def search_in_scope_def monad_simps)
qed (auto simp: reads_def search_in_scope_def monad_simps)

lemma get_search_scope_Ok:
  "dn_is_lower parts \<Longrightarrow> dn_is_lower base \<Longrightarrow> \<exists>scope. get_search_scope base parts sc = Ok scope"
  by (simp add: get_search_scope_def is_subtree_suffix)

lemma reads_search_internal:
  assumes "db_inv s" and low: "dn_is_lower (li_base_dn (lh_ldap_info lh))" and ext: "env_externals env = ext"
  shows "reads (results_in (\<lambda>us. \<exists>rows. us = map (listed_user s) rows) (\<lambda>gs. \<exists>rows. gs = map (listed_group s) rows))
    (do_search_internal env lh (restricted_list_users (list_users ext) uf) (restricted_list_groups (list_groups ext) uf)
       request schema) s"
proof (cases "parse_distinguished_name (to_ascii_lowercase (sr_base request))")
  case (Ok parts)
  obtain scope where scope: "get_search_scope (li_base_dn (lh_ldap_info lh)) parts (sr_scope request) = (Ok scope :: search_scope ldap_result)"
    using get_search_scope_Ok [OF parse_dn_lower [OF Ok] low] by blast
  show ?thesis
    unfolding do_search_internal_def Let_def Ok bind_lift_Ok scope ext
    by (rule reads_search_in_scope) (use reads_user_list [OF assms(1) low] reads_group_list [OF assms(1) low] in auto)
next
  case Panic
  then show ?thesis using parse_dn_panic_iff by auto
qed (auto simp: reads_def do_search_internal_def Let_def monad_simps)

text \<open>
  C12. A search always gets its answer: on a well-formed database whose values decode at their declared types and
  whose stored attributes do not redeclare the built-in ones, no search request of a bound user panics,
  whatever its base, scope, filter and attributes.
\<close>

theorem search_never_panics:
  assumes "db_inv s" and "db_typed (env_externals env) s" and "schema_no_clash (db_schema s)"
    and "dn_is_lower (li_base_dn (lh_ldap_info lh))"
  shows "fst (handle_ldap_message env (session_backend env cfg rng now) lh (SearchRequest request) s) \<noteq> Panic"
proof -
  let ?h = "session_backend env cfg rng now" and ?ext = "env_externals env"
  have "fst (do_search env ?h lh request s) \<noteq> Panic"
  proof (cases "lh_user_info lh")
    case (Some v)
    let ?uf = "restricted_user_filter v"
    obtain schema where schema: "restricted_get_schema sql_get_schema ?uf s = (Ok schema, s)"
      by (auto simp: restricted_get_schema_def map_action_def sql_get_schema_def transaction_def
          get_schema_with_transaction_def return_def)
    let ?ps = "PublicSchema_from schema"
    note sub = schema_subset [of ?uf s schema, unfolded schema fst_conv, OF refl]
    have shown: "shown env lh v request ?ps res \<noteq> Panic"
      if r: "results_in (\<lambda>us. \<exists>rows. us = map (listed_user s) rows) (\<lambda>gs. \<exists>rows. gs = map (listed_group s) rows) res"
      for res
    proof (cases res)
      case (UsersAndGroups us gs)
      then obtain rs qs where "us = map (listed_user s) rs" "gs = map (listed_group s) qs" using r by auto
      then have typed: "\<forall>u\<in>set us. user_typed ?ext ?ps (ug_user u)" "\<forall>g\<in>set gs. group_typed ?ext ?ps g"
        using user_view_typed [OF assms(1-3) sub(1)] group_view_typed [OF assms(1-3) sub(2)]
        by (auto simp: listed_user_def)
      obtain a where a: "convert_users_to_ldap_op ?ext us (sr_attrs request) (lh_ldap_info lh) ?ps = (Ok a :: ldap_op list ldap_result)"
        using convert_users_Ok [OF typed(1)] by blast
      obtain b where b: "convert_groups_to_ldap_op ?ext gs (sr_attrs request) (lh_ldap_info lh) ?uf ?ps = (Ok b :: ldap_op list ldap_result)"
        using convert_groups_Ok [OF typed(2)] by blast
      show ?thesis by (simp add: shown_def UsersAndGroups a b)
    qed (auto simp: shown_def)
    from reads_search_internal [OF assms(1,4) refl, where env = env and uf = ?uf and request = request and schema = ?ps]
    show ?thesis
      using schema shown by (auto simp: do_search_unfold [OF Some] reads_def monad_simps split: result.splits)
  qed (simp add: do_search_def monad_simps)
  then show ?thesis
    by (auto simp: handle_ldap_message_def answer_def do_search_or_dse_def monad_simps split: prod.split result.split)
qed

theorem search_never_panics_witness:
  "fst (handle_ldap_message demo_env (session_backend demo_env toy_config id 0)
      (demo_session (Some \<lparr>vr_user = UserId ''patrick'', vr_permission = Admin\<rparr>))
      (SearchRequest (make_search_request ''dc=x'' (FOr [FEquality ''sn'' ''Star'', FNot (FPresent ''mail'')]) [''*''])) demo_db)
    \<noteq> Panic"
proof -
  have t: "db_typed (env_externals demo_env) demo_db"
    by (simp add: db_typed_def demo_db_def demo_env_def ascii_externals_def Serialized_convert_to_def)
  have c: "schema_no_clash (db_schema demo_db)" by code_simp
  have l: "dn_is_lower (li_base_dn (lh_ldap_info (demo_session v)))" for v
    by (simp add: demo_session_def dn_is_lower_def)
  show ?thesis by (rule search_never_panics [OF demo_db_inv t c l])
qed

end
