(* ===== verification/Tcp_Backend.thy ===== *)
theory Tcp_Backend
  imports Sql_Opaque "HOL-Library.Word"
begin

text \<open>
  The sessions of the web server: \<open>server/src/infra/tcp_backend_handler.rs\<close> (the trait), its implementation on
  the token tables in \<open>server/src/infra/sql_backend_handler.rs\<close>, and the hourly cleanup of
  \<open>server/src/infra/db_cleaner.rs\<close>. Token hashes are \<open>u64\<close> in the program and \<open>i64\<close> in the tables, so the casts
  between them are written out. \<open>hash\<close> is \<open>DefaultHasher\<close>, whose algorithm the standard library leaves open;
  \<open>sample\<close> is the sequence of draws from \<open>Alphanumeric\<close>; \<open>now\<close> is the clock reading of the call.
\<close>

section \<open>Hashes and durations\<close>

type_synonym u64 = "64 word"

text \<open>The casts \<open>as i64\<close> and \<open>as u64\<close>.\<close>

definition as_i64 :: "u64 \<Rightarrow> int" where
  "as_i64 w = sint w"

definition as_u64 :: "int \<Rightarrow> u64" where
  "as_u64 i = word_of_int i"

lemma as_u64_as_i64 [simp]: "as_u64 (as_i64 w) = w"
  by (simp add: as_u64_def as_i64_def)

lemma as_i64_eq_iff [simp]: "as_i64 v = as_i64 w \<longleftrightarrow> v = w"
  by (metis as_u64_as_i64)

text \<open>\<open>chrono::Duration\<close>, in nanoseconds.\<close>

type_synonym duration = int

definition duration_minutes :: "int \<Rightarrow> duration" where
  "duration_minutes n = n * 60 * 1000000000"

definition duration_days :: "int \<Rightarrow> duration" where
  "duration_days n = n * 86400 * 1000000000"

section \<open>The trait\<close>

record 's tcp_backend_handler =
  tb_get_jwt_blacklist :: "('s, u64 set) backend_action"
  tb_create_refresh_token :: "user_id \<Rightarrow> ('s, string \<times> duration) backend_action"
  tb_register_jwt :: "user_id \<Rightarrow> u64 \<Rightarrow> naive_date_time \<Rightarrow> ('s, unit) backend_action"
  tb_check_token :: "u64 \<Rightarrow> user_id \<Rightarrow> ('s, bool) backend_action"
  tb_blacklist_jwts :: "user_id \<Rightarrow> ('s, u64 set) backend_action"
  tb_delete_refresh_token :: "u64 \<Rightarrow> ('s, unit) backend_action"
  tb_start_password_reset :: "user_id \<Rightarrow> ('s, string option) backend_action"
  tb_get_user_id_for_password_reset_token :: "string \<Rightarrow> ('s, user_id) backend_action"
  tb_delete_password_reset_token :: "string \<Rightarrow> ('s, unit) backend_action"

section \<open>The SQL implementation\<close>

definition gen_random_string :: "(nat \<Rightarrow> char) \<Rightarrow> nat \<Rightarrow> string" where
  "gen_random_string sample len = map sample [0..<len]"

definition sql_get_jwt_blacklist :: "(db, u64 set) backend_action" where
  "sql_get_jwt_blacklist s =
     return (set (map (\<lambda>j. as_u64 (js_jwt_hash j)) (filter js_blacklisted (db_jwt_storage s)))) s"

definition sql_insert_refresh_token :: "jwt_refresh_row \<Rightarrow> (db, unit) backend_action" where
  "sql_insert_refresh_token r s =
     (if list_ex (\<lambda>q. jr_refresh_token_hash q = jr_refresh_token_hash r) (db_jwt_refresh_storage s) then db_unique s
      else if \<not> user_exists s (jr_user_id r) then db_foreign_key s
      else return () (s\<lparr>db_jwt_refresh_storage := db_jwt_refresh_storage s @ [r]\<rparr>))"

definition sql_create_refresh_token ::
  "(string \<Rightarrow> u64) \<Rightarrow> (nat \<Rightarrow> char) \<Rightarrow> naive_date_time \<Rightarrow> user_id \<Rightarrow> (db, string \<times> duration) backend_action" where
  "sql_create_refresh_token hash sample now user =
     (let refresh_token = gen_random_string sample 100;
          duration = duration_days 30
      in bind (sql_insert_refresh_token \<lparr>jr_refresh_token_hash = as_i64 (hash refresh_token),
             jr_user_id = user, jr_expiry_date = now + duration\<rparr>) (\<lambda>_.
         return (refresh_token, duration)))"

definition sql_register_jwt :: "user_id \<Rightarrow> u64 \<Rightarrow> naive_date_time \<Rightarrow> (db, unit) backend_action" where
  "sql_register_jwt user jwt_hash expiry_date s =
     (let r = \<lparr>js_jwt_hash = as_i64 jwt_hash, js_user_id = user, js_expiry_date = expiry_date,
               js_blacklisted = False\<rparr> in
      if list_ex (\<lambda>q. js_jwt_hash q = js_jwt_hash r) (db_jwt_storage s) then db_unique s
      else if \<not> user_exists s user then db_foreign_key s
      else return () (s\<lparr>db_jwt_storage := db_jwt_storage s @ [r]\<rparr>))"

definition sql_check_token :: "u64 \<Rightarrow> user_id \<Rightarrow> (db, bool) backend_action" where
  "sql_check_token refresh_token_hash user s =
     return (list_ex (\<lambda>r. jr_refresh_token_hash r = as_i64 refresh_token_hash \<and> jr_user_id r = user)
       (db_jwt_refresh_storage s)) s"

definition sql_blacklist_jwts :: "user_id \<Rightarrow> (db, u64 set) backend_action" where
  "sql_blacklist_jwts user s =
     return (set (map (\<lambda>j. as_u64 (js_jwt_hash j))
               (filter (\<lambda>j. js_user_id j = user \<and> \<not> js_blacklisted j) (db_jwt_storage s))))
       (s\<lparr>db_jwt_storage := map (\<lambda>j. if js_user_id j = user then j\<lparr>js_blacklisted := True\<rparr> else j) (db_jwt_storage s)\<rparr>)"

definition sql_delete_refresh_token :: "u64 \<Rightarrow> (db, unit) backend_action" where
  "sql_delete_refresh_token refresh_token_hash s =
     return () (s\<lparr>db_jwt_refresh_storage :=
       filter (\<lambda>r. jr_refresh_token_hash r \<noteq> as_i64 refresh_token_hash) (db_jwt_refresh_storage s)\<rparr>)"

definition sql_insert_reset_token :: "password_reset_row \<Rightarrow> (db, unit) backend_action" where
  "sql_insert_reset_token r s =
     (if list_ex (\<lambda>q. pr_token q = pr_token r) (db_password_reset_tokens s) then db_unique s
      else if \<not> user_exists s (pr_user_id r) then db_foreign_key s
      else return () (s\<lparr>db_password_reset_tokens := db_password_reset_tokens s @ [r]\<rparr>))"

definition sql_start_password_reset ::
  "(nat \<Rightarrow> char) \<Rightarrow> naive_date_time \<Rightarrow> user_id \<Rightarrow> (db, string option) backend_action" where
  "sql_start_password_reset sample now user s =
     (if find_user s user = None then return None s
      else let token = gen_random_string sample 100 in
        bind (sql_insert_reset_token \<lparr>pr_token = token, pr_user_id = user,
            pr_expiry_date = now + duration_minutes 10\<rparr>) (\<lambda>_. return (Some token)) s)"

definition sql_get_user_id_for_password_reset_token ::
  "naive_date_time \<Rightarrow> string \<Rightarrow> (db, user_id) backend_action" where
  "sql_get_user_id_for_password_reset_token now token s =
     (case find (\<lambda>t. pr_token t = token \<and> now < pr_expiry_date t) (db_password_reset_tokens s) of
        None \<Rightarrow> fail (EntityNotFound ''Invalid reset token'') s
      | Some t \<Rightarrow> return (pr_user_id t) s)"

definition sql_delete_password_reset_token :: "string \<Rightarrow> (db, unit) backend_action" where
  "sql_delete_password_reset_token token s =
     (let n = length (filter (\<lambda>t. pr_token t = token) (db_password_reset_tokens s));
          s' = s\<lparr>db_password_reset_tokens := filter (\<lambda>t. pr_token t \<noteq> token) (db_password_reset_tokens s)\<rparr>
      in if n = 0 then fail (EntityNotFound (''No such password reset token: '' @ single_quoted token)) s'
         else return () s')"

definition sql_tcp_backend ::
  "(string \<Rightarrow> u64) \<Rightarrow> (nat \<Rightarrow> char) \<Rightarrow> naive_date_time \<Rightarrow> db tcp_backend_handler" where
  "sql_tcp_backend hash sample now =
     \<lparr>tb_get_jwt_blacklist = sql_get_jwt_blacklist,
      tb_create_refresh_token = sql_create_refresh_token hash sample now,
      tb_register_jwt = sql_register_jwt, tb_check_token = sql_check_token,
      tb_blacklist_jwts = sql_blacklist_jwts, tb_delete_refresh_token = sql_delete_refresh_token,
      tb_start_password_reset = sql_start_password_reset sample now,
      tb_get_user_id_for_password_reset_token = sql_get_user_id_for_password_reset_token now,
      tb_delete_password_reset_token = sql_delete_password_reset_token\<rparr>"

text \<open>\<open>Scheduler::cleanup_db\<close>: three deletions, each on its own; a failure is only logged.\<close>

definition cleanup_db :: "naive_date_time \<Rightarrow> db \<Rightarrow> db" where
  "cleanup_db now s =
     s\<lparr>db_jwt_refresh_storage := filter (\<lambda>r. \<not> jr_expiry_date r < now) (db_jwt_refresh_storage s),
       db_jwt_storage := filter (\<lambda>j. \<not> js_expiry_date j < now) (db_jwt_storage s),
       db_password_reset_tokens := filter (\<lambda>t. \<not> pr_expiry_date t < now) (db_password_reset_tokens s)\<rparr>"

section \<open>The invariant of the database\<close>

lemmas tcp_ok_defs = db_inv_def db_ok_defs db_fk_defs

lemma sql_insert_refresh_token_inv [preserves_intros]: "preserves db_inv (sql_insert_refresh_token r)"
  by (rule preservesI) (auto simp: sql_insert_refresh_token_def monad_simps tcp_ok_defs list_ex_iff)

lemma sql_register_jwt_inv [preserves_intros]: "preserves db_inv (sql_register_jwt u k e)"
  by (rule preservesI) (auto simp: sql_register_jwt_def monad_simps tcp_ok_defs list_ex_iff)

lemma sql_insert_reset_token_inv [preserves_intros]: "preserves db_inv (sql_insert_reset_token r)"
  by (rule preservesI) (auto simp: sql_insert_reset_token_def monad_simps tcp_ok_defs list_ex_iff)

lemma distinct_map_filter_key: "distinct (map f xs) \<Longrightarrow> distinct (map f (filter P xs))"
  by (simp add: distinct_map_filter)

lemma map_keeps_key:
  assumes "\<And>x. h (f x) = h x"
  shows "map h (map f xs) = map h xs"
    and "(\<forall>x\<in>set (map f xs). P (h x)) \<longleftrightarrow> (\<forall>x\<in>set xs. P (h x))"
  using assms by simp_all

lemma sql_blacklist_jwts_inv [preserves_intros]: "preserves db_inv (sql_blacklist_jwts u)"
proof (rule preservesI)
  fix s assume inv: "db_inv s"
  let ?f = "\<lambda>j. if js_user_id j = u then j\<lparr>js_blacklisted := True\<rparr> else j"
  have "js_jwt_hash (?f j) = js_jwt_hash j" "js_user_id (?f j) = js_user_id j" for j by simp_all
  note keys = map_keeps_key(1) [of js_jwt_hash ?f, OF this(1)]
    map_keeps_key(2) [where h = js_user_id and f = ?f and P = "\<lambda>v. v \<in> usr_user_id ` set (db_users s)", OF this(2)]
  from inv show "db_inv (snd (sql_blacklist_jwts u s))"
    unfolding sql_blacklist_jwts_def return_def snd_conv tcp_ok_defs by (simp add: keys del: set_map map_map)
qed

lemma sql_delete_refresh_token_inv [preserves_intros]: "preserves db_inv (sql_delete_refresh_token k)"
  by (rule preservesI) (auto simp: sql_delete_refresh_token_def monad_simps tcp_ok_defs distinct_map_filter_key)

lemma sql_delete_password_reset_token_inv [preserves_intros]: "preserves db_inv (sql_delete_password_reset_token t)"
  by (rule preservesI)
     (auto simp: sql_delete_password_reset_token_def monad_simps Let_def tcp_ok_defs distinct_map_filter_key)

lemma cleanup_db_inv: "db_inv s \<Longrightarrow> db_inv (cleanup_db now s)"
  by (auto simp: cleanup_db_def tcp_ok_defs distinct_map_filter_key)

lemma sql_tcp_reads [preserves_intros]:
  "preserves P (sql_check_token k u)" "preserves P sql_get_jwt_blacklist"
  "preserves P (sql_get_user_id_for_password_reset_token now tok)"
  by (rule preservesI, auto simp: sql_check_token_def sql_get_jwt_blacklist_def
        sql_get_user_id_for_password_reset_token_def monad_simps split: option.split)+

lemma sql_create_refresh_token_inv [preserves_intros]: "preserves db_inv (sql_create_refresh_token hash sample now u)"
  by (simp add: sql_create_refresh_token_def Let_def preserves_intros)

lemma sql_start_password_reset_inv [preserves_intros]: "preserves db_inv (sql_start_password_reset sample now u)"
proof (rule preservesI)
  fix s assume "db_inv s"
  then show "db_inv (snd (sql_start_password_reset sample now u s))"
    using preservesD [OF preserves_bind [OF sql_insert_reset_token_inv preserves_return] \<open>db_inv s\<close>]
    by (auto simp: sql_start_password_reset_def Let_def return_def)
qed

end
