(* ===== verification/Mail.thy ===== *)
theory Mail
  imports Handler
begin

text \<open>
  \<open>server/src/infra/mail.rs\<close>: the mails the server sends. Mailbox parsing, message building and the SMTP
  transport (\<open>lettre\<close>) and URLs (\<open>url\<close>) are third-party code: the fields of \<open>mail_lib\<close>. A mailbox is its text.
  The state is the list of mails handed to the transport successfully.
\<close>

datatype smtp_encryption = SmtpNone | SmtpTls | SmtpStartTls

record mail_options =
  mo_enable_password_reset :: bool
  mo_from :: "string option"
  mo_reply_to :: "string option"
  mo_server :: string
  mo_port :: nat
  mo_user :: string
  mo_password :: string
  mo_smtp_encryption :: smtp_encryption
  mo_tls_required :: "bool option"

record email_message =
  em_message_id :: string
  em_from :: string
  em_reply_to :: string
  em_to :: string
  em_subject :: string
  em_body :: string

record smtp_session =
  ss_encryption :: smtp_encryption
  ss_server :: string
  ss_credentials :: "(string \<times> string) option"
  ss_port :: nat

record mail_lib =
  ml_parse_mailbox :: "string \<Rightarrow> string option"
  ml_new_uuid_v1 :: string
  ml_url_domain :: "string \<Rightarrow> string option"
  ml_extend_path :: "string \<Rightarrow> string list \<Rightarrow> string option"
    \<comment> \<open>\<open>path_segments_mut\<close> and \<open>extend\<close>; \<open>None\<close> for a URL that cannot be a base\<close>
  ml_message_builds :: "email_message \<Rightarrow> bool"
  ml_transport_builds :: "smtp_encryption \<Rightarrow> string \<Rightarrow> bool"
  ml_send :: "smtp_session \<Rightarrow> email_message \<Rightarrow> string option"
    \<comment> \<open>\<open>Some e\<close> when the transport fails with error \<open>e\<close>\<close>

section \<open>Sending\<close>

fun contains :: "string \<Rightarrow> string \<Rightarrow> bool" where
  "contains [] pat \<longleftrightarrow> pat = []"
| "contains (c # cs) pat \<longleftrightarrow> prefix pat (c # cs) \<or> contains cs pat"

definition build_transport :: "mail_lib \<Rightarrow> mail_options \<Rightarrow> (smtp_session, string) result" where
  "build_transport lib options =
     (if mo_smtp_encryption options \<noteq> SmtpNone \<and> \<not> ml_transport_builds lib (mo_smtp_encryption options) (mo_server options)
      then Err ''transport''
      else Ok \<lparr>ss_encryption = mo_smtp_encryption options, ss_server = mo_server options,
               ss_credentials = (if mo_user options \<noteq> [] then Some (mo_user options, mo_password options) else None),
               ss_port = mo_port options\<rparr>)"

definition send_email ::
  "mail_lib \<Rightarrow> string \<Rightarrow> string \<Rightarrow> string \<Rightarrow> mail_options \<Rightarrow> string \<Rightarrow> (email_message list, unit, string) action" where
  "send_email lib to subject body options server_url =
     (let from = (case mo_from options of Some f \<Rightarrow> Some f | None \<Rightarrow> ml_parse_mailbox lib ''LLDAP <nobody@lldap>'') in
      bind (lift_result (case from of None \<Rightarrow> Panic | Some f \<Rightarrow> Ok f)) (\<lambda>from.
      let email = \<lparr>em_message_id = ''<'' @ ml_new_uuid_v1 lib @ ''@''
             @ (case ml_url_domain lib server_url of None \<Rightarrow> [] | Some d \<Rightarrow> d) @ ''>'',
           em_from = from, em_reply_to = (case mo_reply_to options of None \<Rightarrow> from | Some r \<Rightarrow> r),
           em_to = to, em_subject = subject, em_body = body\<rparr> in
      if \<not> ml_message_builds lib email then fail ''message''
      else bind (lift_result (build_transport lib options)) (\<lambda>session outbox.
        case ml_send lib session email of
          Some e \<Rightarrow> (Err (if contains e ''CorruptMessage''
              then ''CorruptMessage returned by lettre, this usually means the SMTP encryption setting is wrong.''
              else e), outbox)
        | None \<Rightarrow> (Ok (), outbox @ [email]))))"

definition newline :: string where
  "newline = [CHR 0x0A]"

definition reset_body :: "string \<Rightarrow> string \<Rightarrow> string" where
  "reset_body username reset_url =
     ''Hello '' @ username @ '','' @ newline
     @ ''This email has been sent to you in order to validate your identity.'' @ newline
     @ ''If you did not initiate the process your credentials might have been'' @ newline
     @ ''compromised. You should reset your password and contact an administrator.'' @ newline @ newline
     @ ''To reset your password please visit the following URL: '' @ reset_url @ newline @ newline
     @ ''Please contact an administrator if you did not initiate the process.''"

definition send_password_reset_email ::
  "mail_lib \<Rightarrow> string \<Rightarrow> string \<Rightarrow> string \<Rightarrow> string \<Rightarrow> mail_options \<Rightarrow> (email_message list, unit, string) action" where
  "send_password_reset_email lib username to token server_url options =
     bind (lift_result (ok_or ''invalid address'' (ml_parse_mailbox lib to))) (\<lambda>mailbox.
     bind (lift_result (case ml_extend_path lib server_url [''reset-password'', ''step2'', token] of
         None \<Rightarrow> Panic | Some u \<Rightarrow> Ok u)) (\<lambda>reset_url.
     send_email lib mailbox ''[LLDAP] Password reset requested'' (reset_body username reset_url) options server_url))"

definition send_test_email ::
  "mail_lib \<Rightarrow> string \<Rightarrow> mail_options \<Rightarrow> (email_message list, unit, string) action" where
  "send_test_email lib to options =
     send_email lib to ''LLDAP test email'' ''The test is successful! You can send emails from LLDAP'' options
       ''http://localhost''"

section \<open>Lemmas\<close>

lemma send_email_appends:
  assumes "send_email lib to subject body options url outbox = (r, outbox')"
  shows "outbox' = outbox \<or> (r = Ok () \<and> (\<exists>m. outbox' = outbox @ [m] \<and> em_to m = to \<and> em_subject m = subject \<and> em_body m = body))"
  using assms by (auto simp: send_email_def build_transport_def Let_def monad_simps
      split: option.splits if_splits result.splits prod.splits)

lemma send_email_Ok:
  assumes "send_email lib to subject body options url outbox = (Ok (), outbox')"
  shows "\<exists>m. outbox' = outbox @ [m] \<and> em_to m = to \<and> em_subject m = subject \<and> em_body m = body"
  using assms by (auto simp: send_email_def build_transport_def Let_def monad_simps
      split: option.splits if_splits result.splits prod.splits)

text \<open>A reset mail goes to the parsed address only and carries the link.\<close>

lemma send_password_reset_email_Ok:
  assumes "send_password_reset_email lib username to token url options outbox = (Ok (), outbox')"
  shows "\<exists>m mailbox link. outbox' = outbox @ [m] \<and> ml_parse_mailbox lib to = Some mailbox \<and> em_to m = mailbox
    \<and> ml_extend_path lib url [''reset-password'', ''step2'', token] = Some link \<and> em_body m = reset_body username link"
  using assms by (auto simp: send_password_reset_email_def bind_Ok_iff split: option.splits dest!: send_email_Ok)

lemma send_password_reset_email_fails:
  assumes "send_password_reset_email lib username to token url options outbox = (r, outbox')" and "r \<noteq> Ok ()"
  shows "outbox' = outbox"
  using assms
  by (auto simp: send_password_reset_email_def bind_def lift_result_def dest: send_email_appends
      split: option.splits result.splits prod.splits)

end
