(* ===== verification/Auth_Service.thy ===== *)
theory Auth_Service
  imports Tcp_Backend Mail
begin

text \<open>
  \<open>server/src/infra/auth_service.rs\<close> and the errors and shared state of \<open>server/src/infra/tcp_server.rs\<close>: logging in and
  out, refreshing a session, resetting and registering a password over HTTP, and checking the token of a request.
  The state is that of the backend, the set of logged-out tokens (\<open>AppState::jwt_blacklist\<close>; the server runs one
  worker, so there is one) and the mails sent. JWT signing and verification (\<open>jwt\<close>) and the extraction of headers
  and bodies (\<open>actix-web\<close>) are third-party code: the fields of \<open>http_env\<close>. \<open>he_now\<close> is the clock reading of the
  request, and \<open>he_sample\<close> its random draws.
\<close>

section \<open>Requests, responses and errors\<close>

datatype tcp_error =
    TcpDomainError domain_error
  | TcpBadRequest string
  | TcpInternalServerError string
  | TcpNotFoundError string
  | TcpUnauthorizedError string

datatype http_status = StatusOk | StatusBadRequest | StatusUnauthorized | StatusNotFound | StatusInternalServerError

record cookie =
  ck_name :: string
  ck_value :: string
  ck_max_age :: duration
  ck_path :: string
  ck_http_only :: bool
  ck_same_site_strict :: bool

datatype http_body =
    NoBody
  | ErrorBody tcp_error \<comment> \<open>the text of the error\<close>
  | LoginBody string "string option"
  | ResetBody string string
  | LoginStartBody login_start_response
  | RegisterStartBody registration_start_response

record http_response =
  hr_status :: http_status
  hr_cookies :: "cookie list"
  hr_body :: http_body

record http_request =
  rq_cookies :: "(string \<times> string) list"
  rq_headers :: "(string \<times> bytes) list"
  rq_match_info :: "(string \<times> string) list"
  rq_payload :: bytes

fun error_status :: "tcp_error \<Rightarrow> http_status" where
  "error_status (TcpDomainError (AuthenticationError _)) = StatusUnauthorized"
| "error_status (TcpDomainError AuthenticationProtocolError) = StatusUnauthorized"
| "error_status (TcpDomainError (DatabaseError _)) = StatusInternalServerError"
| "error_status (TcpDomainError (InternalError _)) = StatusInternalServerError"
| "error_status (TcpDomainError UnknownCryptoError) = StatusInternalServerError"
| "error_status (TcpDomainError Base64DecodeError) = StatusBadRequest"
| "error_status (TcpDomainError BinarySerializationError) = StatusBadRequest"
| "error_status (TcpDomainError (EntityNotFound _)) = StatusBadRequest"
| "error_status (TcpBadRequest _) = StatusBadRequest"
| "error_status (TcpNotFoundError _) = StatusNotFound"
| "error_status (TcpInternalServerError _) = StatusInternalServerError"
| "error_status (TcpUnauthorizedError _) = StatusUnauthorized"

definition error_to_http_response :: "tcp_error \<Rightarrow> http_response" where
  "error_to_http_response e = \<lparr>hr_status = error_status e, hr_cookies = [], hr_body = ErrorBody e\<rparr>"

section \<open>Tokens and the shared state\<close>

datatype jwt_algorithm = Hs512 | OtherAlgorithm string

record jwt_claims =
  jc_exp :: naive_date_time
  jc_iat :: naive_date_time
  jc_user :: string
  jc_groups :: "string list" \<comment> \<open>a \<open>HashSet\<close>; only membership is asked\<close>

record http_env =
  he_externals :: externals
  he_hash :: "string \<Rightarrow> u64"
  he_sample :: "nat \<Rightarrow> char"
  he_now :: naive_date_time
  he_jwt_sign :: "bytes \<Rightarrow> jwt_algorithm \<Rightarrow> jwt_claims \<Rightarrow> string option"
  he_jwt_verify :: "bytes \<Rightarrow> string \<Rightarrow> (jwt_algorithm \<times> jwt_claims) option"
  he_header_to_str :: "bytes \<Rightarrow> string option"
  he_header_from_str :: "string \<Rightarrow> bytes option"
  he_bearer :: "http_request \<Rightarrow> string option"
    \<comment> \<open>\<open>BearerAuth::from_request\<close>\<close>
  he_registration_json :: "bytes \<Rightarrow> registration_start_request option"
  he_url_path :: "string \<Rightarrow> string"
  he_mail :: mail_lib

record 's app_state =
  ap_backend_handler :: "'s backend_handler"
  ap_tcp_handler :: "'s tcp_backend_handler"
  ap_jwt_key :: bytes
  ap_server_url :: string
  ap_mail_options :: mail_options

record 's http_state =
  ht_backend :: 's
  ht_jwt_blacklist :: "u64 set"
  ht_outbox :: "email_message list"

text \<open>A call of the backend from a handler; its error becomes a \<open>TcpError\<close> by \<open>?\<close>.\<close>

definition on_backend :: "('s, 'a) backend_action \<Rightarrow> ('s http_state, 'a, tcp_error) action" where
  "on_backend m t = (case m (ht_backend t) of (r, s) \<Rightarrow> (map_err TcpDomainError r, t\<lparr>ht_backend := s\<rparr>))"

text \<open>\<open>unwrap\<close>: an error is a panic.\<close>

definition unwrap_action :: "('s, 'a, 'e) action \<Rightarrow> ('s, 'a, 'f) action" where
  "unwrap_action m = match_action m return (\<lambda>_. lift_result Panic)"

definition create_jwt ::
  "http_env \<Rightarrow> 's app_state \<Rightarrow> user_id \<Rightarrow> group_name list \<Rightarrow> ('s http_state, string, tcp_error) action" where
  "create_jwt env app user groups =
     (let claims = \<lparr>jc_exp = he_now env + duration_days 1, jc_iat = he_now env,
            jc_user = UserId_as_str user, jc_groups = map GroupName_as_str groups\<rparr>
      in bind (lift_result (case he_jwt_sign env (ap_jwt_key app) Hs512 claims of None \<Rightarrow> Panic | Some t \<Rightarrow> Ok t)) (\<lambda>token.
         bind (unwrap_action (on_backend (tb_register_jwt (ap_tcp_handler app) user (he_hash env token) (jc_exp claims)))) (\<lambda>_.
         return token)))"

definition parse_refresh_token :: "http_env \<Rightarrow> string \<Rightarrow> (u64 \<times> user_id, tcp_error) result" where
  "parse_refresh_token env token =
     (case split_once (CHR ''+'') token of
        None \<Rightarrow> Err (TcpDomainError (AuthenticationError ''Invalid refresh token''))
      | Some (token, u) \<Rightarrow> Ok (he_hash env token, UserId_new u))"

definition get_refresh_token :: "http_env \<Rightarrow> http_request \<Rightarrow> (u64 \<times> user_id, tcp_error) result" where
  "get_refresh_token env request =
     (case (map_of (rq_cookies request) ''refresh_token'', map_of (rq_headers request) ''refresh-token'') of
        (Some c, _) \<Rightarrow> parse_refresh_token env c
      | (None, Some t) \<Rightarrow> (case he_header_to_str env t of None \<Rightarrow> Panic | Some c \<Rightarrow> parse_refresh_token env c)
      | (None, None) \<Rightarrow> Err (TcpDomainError (AuthenticationError ''Missing refresh token'')))"

text \<open>The path of the cookies, closed by a slash.\<close>

definition cookie_path :: "http_env \<Rightarrow> 's app_state \<Rightarrow> string" where
  "cookie_path env app =
     (let path = he_url_path env (ap_server_url app) in if suffix ''/'' path then path else path @ ''/'')"

definition build_cookie :: "string \<Rightarrow> string \<Rightarrow> duration \<Rightarrow> string \<Rightarrow> cookie" where
  "build_cookie name value max_age path =
     \<lparr>ck_name = name, ck_value = value, ck_max_age = max_age, ck_path = path, ck_http_only = True,
      ck_same_site_strict = True\<rparr>"

definition http_ok :: "cookie list \<Rightarrow> http_body \<Rightarrow> http_response" where
  "http_ok cookies body = \<lparr>hr_status = StatusOk, hr_cookies = cookies, hr_body = body\<rparr>"

section \<open>The handlers\<close>

definition get_refresh ::
  "http_env \<Rightarrow> 's app_state \<Rightarrow> http_request \<Rightarrow> ('s http_state, http_response, tcp_error) action" where
  "get_refresh env app request =
     bind (lift_result (get_refresh_token env request)) (\<lambda>(refresh_token_hash, user).
     bind (on_backend (tb_check_token (ap_tcp_handler app) refresh_token_hash user)) (\<lambda>found.
     if \<not> found then fail (TcpDomainError (AuthenticationError ''Invalid refresh token''))
     else bind (on_backend (bh_get_user_groups (ap_backend_handler app) user)) (\<lambda>groups.
       bind (create_jwt env app user (map gd_display_name groups)) (\<lambda>token.
       return (http_ok [build_cookie ''token'' token (duration_days 1) (cookie_path env app)] (LoginBody token None))))))"

definition send_reset_mail ::
  "http_env \<Rightarrow> 's app_state \<Rightarrow> user \<Rightarrow> string \<Rightarrow> ('s http_state, unit, tcp_error) action" where
  "send_reset_mail env app user token t =
     (case send_password_reset_email (he_mail env)
         (case u_display_name user of Some n \<Rightarrow> n | None \<Rightarrow> UserId_as_str (u_user_id user))
         (Email_as_str (u_email user)) token (ap_server_url app) (ap_mail_options app) (ht_outbox t) of
       (r, outbox) \<Rightarrow> (map_err (\<lambda>e. TcpInternalServerError (''Could not send email: '' @ e)) r, t\<lparr>ht_outbox := outbox\<rparr>))"

text \<open>The account found, a token for it, and the mail.\<close>

definition reset_for_user ::
  "http_env \<Rightarrow> 's app_state \<Rightarrow> user \<Rightarrow> ('s http_state, unit, tcp_error) action" where
  "reset_for_user env app user =
     bind (on_backend (tb_start_password_reset (ap_tcp_handler app) (u_user_id user))) (\<lambda>started.
     case started of None \<Rightarrow> return () | Some token \<Rightarrow> send_reset_mail env app user token)"

definition get_password_reset_step1 ::
  "http_env \<Rightarrow> 's app_state \<Rightarrow> http_request \<Rightarrow> ('s http_state, unit, tcp_error) action" where
  "get_password_reset_step1 env app request =
     bind (lift_result (ok_or (TcpBadRequest ''Missing user ID'') (map_of (rq_match_info request) ''user_id''))) (\<lambda>user_string.
     bind (on_backend (bh_list_users (ap_backend_handler app)
         (Some (UOr [UUserId (UserId_new user_string), UEquality ColEmail user_string])) False)) (\<lambda>user_results.
     case user_results of
       [] \<Rightarrow> return ()
     | [u] \<Rightarrow> reset_for_user env app (ug_user u)
     | _ \<Rightarrow> fail (TcpInternalServerError ''Ambiguous user id or email'')))"

definition get_password_reset_step2 ::
  "http_env \<Rightarrow> 's app_state \<Rightarrow> http_request \<Rightarrow> ('s http_state, http_response, tcp_error) action" where
  "get_password_reset_step2 env app request =
     bind (lift_result (ok_or (TcpBadRequest ''Missing reset token'') (map_of (rq_match_info request) ''token''))) (\<lambda>token.
     bind (map_err_action (\<lambda>_. TcpNotFoundError ''Wrong or expired reset token'')
         (on_backend (tb_get_user_id_for_password_reset_token (ap_tcp_handler app) token))) (\<lambda>user_id.
     bind (match_action (on_backend (tb_delete_password_reset_token (ap_tcp_handler app) token))
       (\<lambda>_. return ()) (\<lambda>_. return ())) (\<lambda>_.
     bind (create_jwt env app user_id []) (\<lambda>token.
     return (http_ok [build_cookie ''token'' token (duration_minutes 5) (cookie_path env app @ ''auth'')]
       (ResetBody (UserId_as_str user_id) token))))))"

definition get_logout ::
  "http_env \<Rightarrow> 's app_state \<Rightarrow> http_request \<Rightarrow> ('s http_state, http_response, tcp_error) action" where
  "get_logout env app request =
     bind (lift_result (get_refresh_token env request)) (\<lambda>(refresh_token_hash, user).
     bind (on_backend (tb_delete_refresh_token (ap_tcp_handler app) refresh_token_hash)) (\<lambda>_.
     bind (on_backend (tb_blacklist_jwts (ap_tcp_handler app) user)) (\<lambda>new_blacklisted_jwt_hashes.
     bind (\<lambda>t. (Ok (), t\<lparr>ht_jwt_blacklist := ht_jwt_blacklist t \<union> new_blacklisted_jwt_hashes\<rparr>)) (\<lambda>_.
     return (http_ok [build_cookie ''token'' [] 0 (cookie_path env app),
                      build_cookie ''refresh_token'' [] 0 (cookie_path env app @ ''auth'')] NoBody)))))"

definition opaque_login_start ::
  "'s app_state \<Rightarrow> login_start_request \<Rightarrow> ('s http_state, http_response, tcp_error) action" where
  "opaque_login_start app request =
     bind (on_backend (bh_login_start (ap_backend_handler app) request)) (\<lambda>res.
       return (http_ok [] (LoginStartBody res)))"

definition get_login_successful_response ::
  "http_env \<Rightarrow> 's app_state \<Rightarrow> user_id \<Rightarrow> ('s http_state, http_response, tcp_error) action" where
  "get_login_successful_response env app name =
     bind (on_backend (bh_get_user_groups (ap_backend_handler app) name)) (\<lambda>groups.
     bind (on_backend (tb_create_refresh_token (ap_tcp_handler app) name)) (\<lambda>(refresh_token, max_age).
     bind (create_jwt env app name (map gd_display_name groups)) (\<lambda>token.
     let refresh_token_plus_name = refresh_token @ ''+'' @ UserId_as_str name in
     return (http_ok
       [build_cookie ''token'' token (duration_days 1) (cookie_path env app),
        build_cookie ''refresh_token'' refresh_token_plus_name
          (duration_days (max_age div duration_days 1)) (cookie_path env app @ ''auth'')]
       (LoginBody token (Some refresh_token_plus_name))))))"

definition opaque_login_finish ::
  "http_env \<Rightarrow> 's app_state \<Rightarrow> login_finish_request \<Rightarrow> ('s http_state, http_response, tcp_error) action" where
  "opaque_login_finish env app request =
     bind (on_backend (bh_login_finish (ap_backend_handler app) request)) (\<lambda>name.
       get_login_successful_response env app name)"

record client_simple_login_request =
  cs_username :: user_id
  cs_password :: string

definition simple_login ::
  "http_env \<Rightarrow> 's app_state \<Rightarrow> client_simple_login_request \<Rightarrow> ('s http_state, http_response, tcp_error) action" where
  "simple_login env app request =
     bind (on_backend (bh_bind (ap_backend_handler app)
         \<lparr>br_name = cs_username request, br_password = cs_password request\<rparr>)) (\<lambda>_.
       get_login_successful_response env app (cs_username request))"

definition post_authorize ::
  "http_env \<Rightarrow> 's app_state \<Rightarrow> bind_request \<Rightarrow> ('s http_state, http_response, tcp_error) action" where
  "post_authorize env app request =
     bind (on_backend (bh_bind (ap_backend_handler app) request)) (\<lambda>_.
       get_login_successful_response env app (br_name request))"

section \<open>Checking a token\<close>

text \<open>The error is the text of the \<open>Unauthorized\<close> answer.\<close>

definition check_if_token_is_valid ::
  "http_env \<Rightarrow> 's app_state \<Rightarrow> u64 set \<Rightarrow> string \<Rightarrow> (validation_results, string) result" where
  "check_if_token_is_valid env app jwt_blacklist token_str =
     (case he_jwt_verify env (ap_jwt_key app) token_str of
        None \<Rightarrow> Err ''Invalid JWT''
      | Some (algorithm, claims) \<Rightarrow>
          if jc_exp claims < he_now env then Err ''Expired JWT''
          else if algorithm \<noteq> Hs512 then Err ''Unsupported JWT algorithm''
          else if he_hash env token_str \<in> jwt_blacklist then Err ''JWT was logged out''
          else Ok (get_permissions_from_groups (he_externals env) (UserId_new (jc_user claims))
                 (map GroupName (jc_groups claims))))"

definition not_authorized :: tcp_error where
  "not_authorized = TcpUnauthorizedError ''Not authorized to change the user's password''"

definition opaque_register_start ::
  "http_env \<Rightarrow> 's app_state \<Rightarrow> http_request \<Rightarrow> ('s http_state, http_response, tcp_error) action" where
  "opaque_register_start env app request t =
     bind (lift_result (case he_bearer env request of
         None \<Rightarrow> Err not_authorized
       | Some token \<Rightarrow> map_err (\<lambda>_. not_authorized) (check_if_token_is_valid env app (ht_jwt_blacklist t) token)))
       (\<lambda>validation_result.
     bind (lift_result (ok_or (TcpBadRequest ''Json error'') (he_registration_json env (rq_payload request))))
       (\<lambda>registration_start_request.
     bind (on_backend (bh_get_user_groups (ap_backend_handler app) (rs_username registration_start_request))) (\<lambda>groups.
     let user_is_admin = list_ex (\<lambda>g. GroupName_eq (he_externals env) (gd_display_name g) (GroupName ''lldap_admin'')) groups in
     if \<not> can_change_password validation_result (rs_username registration_start_request) user_is_admin
     then fail not_authorized
     else bind (on_backend (bh_registration_start (ap_backend_handler app) registration_start_request)) (\<lambda>res.
       return (http_ok [] (RegisterStartBody res)))))) t"

definition opaque_register_finish ::
  "'s app_state \<Rightarrow> registration_finish_request \<Rightarrow> ('s http_state, http_response, tcp_error) action" where
  "opaque_register_finish app request =
     bind (on_backend (bh_registration_finish (ap_backend_handler app) request)) (\<lambda>_. return (http_ok [] NoBody))"

text \<open>\<open>CookieToHeaderTranslator\<close>: the token cookie becomes the \<open>Authorization\<close> header, replacing one that is there.\<close>

definition cookie_to_header :: "http_env \<Rightarrow> http_request \<Rightarrow> (http_request, tcp_error) result" where
  "cookie_to_header env req =
     (case map_of (rq_cookies req) ''token'' of
        None \<Rightarrow> Ok req
      | Some token_cookie \<Rightarrow>
          (case he_header_from_str env (''Bearer '' @ token_cookie) of
             None \<Rightarrow> Err (TcpBadRequest ''Invalid token cookie'')
           | Some header_value \<Rightarrow> Ok (req\<lparr>rq_headers := (''authorization'', header_value)
                 # filter (\<lambda>h. fst h \<noteq> ''authorization'') (rq_headers req)\<rparr>)))"

section \<open>The routes\<close>

text \<open>One constructor per route of \<open>configure_server\<close>, with the body its handler extracts.\<close>

datatype auth_call =
    PostAuthorize bind_request
  | OpaqueLoginStart login_start_request
  | OpaqueLoginFinish login_finish_request
  | SimpleLogin client_simple_login_request
  | Refresh
  | Logout
  | RegisterStart
  | RegisterFinish registration_finish_request
  | ResetStep1
  | ResetStep2

fun auth_handler ::
  "http_env \<Rightarrow> 's app_state \<Rightarrow> auth_call \<Rightarrow> http_request \<Rightarrow> ('s http_state, http_response, tcp_error) action" where
  "auth_handler env app (PostAuthorize b) req = post_authorize env app b"
| "auth_handler env app (OpaqueLoginStart b) req = opaque_login_start app b"
| "auth_handler env app (OpaqueLoginFinish b) req = opaque_login_finish env app b"
| "auth_handler env app (SimpleLogin b) req = simple_login env app b"
| "auth_handler env app Refresh req = get_refresh env app req"
| "auth_handler env app Logout req = get_logout env app req"
| "auth_handler env app RegisterStart req =
     bind (lift_result (cookie_to_header env req)) (opaque_register_start env app)"
| "auth_handler env app (RegisterFinish b) req =
     bind (lift_result (cookie_to_header env req)) (\<lambda>_. opaque_register_finish app b)"
| "auth_handler env app ResetStep1 req =
     (if mo_enable_password_reset (ap_mail_options app)
      then bind (get_password_reset_step1 env app req) (\<lambda>_. return (http_ok [] NoBody))
      else fail (TcpNotFoundError []))"
| "auth_handler env app ResetStep2 req =
     (if mo_enable_password_reset (ap_mail_options app) then get_password_reset_step2 env app req
      else fail (TcpNotFoundError []))"

text \<open>Every handler answers an error by \<open>error_to_http_response\<close>.\<close>

definition handle_auth ::
  "http_env \<Rightarrow> 's app_state \<Rightarrow> auth_call \<Rightarrow> http_request \<Rightarrow> ('s http_state, http_response, tcp_error) action" where
  "handle_auth env app call req = unwrap_or_else error_to_http_response (auth_handler env app call req)"

end
