(* ===== verification/Auth_Session.thy ===== *)
theory Auth_Session
  imports Auth_Service
begin

text \<open>
  What a web session guarantees, on the SQL backend: a login gives a token that carries the permissions of the user's
  groups and that is accepted until it expires or is logged out; a token that was logged out is never accepted
  again, across later requests, cleanups and restarts; a reset token works once and for ten minutes; a password
  registration is started only by someone allowed to change the password.
\<close>

section \<open>The server\<close>

definition sql_app ::
  "http_env \<Rightarrow> opaque_lib \<Rightarrow> sql_config \<Rightarrow> (nat \<Rightarrow> nat) \<Rightarrow> bytes \<Rightarrow> string \<Rightarrow> mail_options \<Rightarrow> db app_state" where
  "sql_app env lib cfg rng key url options =
     \<lparr>ap_backend_handler = sql_backend (he_externals env) lib cfg rng (he_now env),
      ap_tcp_handler = sql_tcp_backend (he_hash env) (he_sample env) (he_now env),
      ap_jwt_key = key, ap_server_url = url, ap_mail_options = options\<rparr>"

text \<open>
  The steps of a running server: a request (with its own random draws), an operation of another client of the
  backend, the hourly cleanup, a restart, which reads the blacklist back (\<open>build_tcp_server\<close>), and the clock.
\<close>

inductive server_step ::
  "http_env \<Rightarrow> opaque_lib \<Rightarrow> sql_config \<Rightarrow> bytes \<Rightarrow> string \<Rightarrow> mail_options \<Rightarrow> (backend_op \<Rightarrow> bool)
     \<Rightarrow> naive_date_time \<times> db http_state \<Rightarrow> naive_date_time \<times> db http_state \<Rightarrow> bool"
  for env lib cfg key url options allowed where
  request: "handle_auth e (sql_app e lib cfg rng key url options) call req t = (r, t')
    \<Longrightarrow> e = env\<lparr>he_now := now, he_sample := sample\<rparr>
    \<Longrightarrow> server_step env lib cfg key url options allowed (now, t) (now, t')"
| operation: "allowed op \<Longrightarrow> run_op (he_externals env) op (ht_backend t) = (r, s)
    \<Longrightarrow> server_step env lib cfg key url options allowed (now, t) (now, t\<lparr>ht_backend := s\<rparr>)"
| cleanup: "server_step env lib cfg key url options allowed (now, t) (now, t\<lparr>ht_backend := cleanup_db now (ht_backend t)\<rparr>)"
| restart: "sql_get_jwt_blacklist (ht_backend t) = (Ok bl, s)
    \<Longrightarrow> server_step env lib cfg key url options allowed (now, t) (now, t\<lparr>ht_jwt_blacklist := bl\<rparr>)"
| clock: "now \<le> now' \<Longrightarrow> server_step env lib cfg key url options allowed (now, t) (now', t)"

inductive server_run ::
  "http_env \<Rightarrow> opaque_lib \<Rightarrow> sql_config \<Rightarrow> bytes \<Rightarrow> string \<Rightarrow> mail_options \<Rightarrow> (backend_op \<Rightarrow> bool)
     \<Rightarrow> naive_date_time \<times> db http_state \<Rightarrow> naive_date_time \<times> db http_state \<Rightarrow> bool"
  for env lib cfg key url options allowed where
  run_refl: "server_run env lib cfg key url options allowed st st"
| run_step: "server_run env lib cfg key url options allowed st st'
    \<Longrightarrow> server_step env lib cfg key url options allowed st' st''
    \<Longrightarrow> server_run env lib cfg key url options allowed st st''"

inductive_cases server_stepE: "server_step env lib cfg key url options allowed st st'"

section \<open>What the operations do to the token table\<close>

text \<open>The table of tokens has only grown, by tokens that are not logged out.\<close>

definition grown :: "jwt_storage_row list \<Rightarrow> db \<Rightarrow> bool" where
  "grown js s \<longleftrightarrow> (\<exists>new. db_jwt_storage s = js @ new \<and> (\<forall>j\<in>set new. \<not> js_blacklisted j))"

lemma grown_refl [simp]: "grown (db_jwt_storage s) s"
  by (simp add: grown_def)

lemma grown_same: "db_jwt_storage t = db_jwt_storage s \<Longrightarrow> grown js t = grown js s"
  by (simp add: grown_def)

lemma grown_set: "grown js s \<Longrightarrow> set js \<subseteq> set (db_jwt_storage s)"
  by (auto simp: grown_def)

lemma grown_blacklisted: "grown js s \<Longrightarrow> j \<in> set (db_jwt_storage s) \<Longrightarrow> js_blacklisted j \<Longrightarrow> j \<in> set js"
  by (auto simp: grown_def)

lemma preserves_grown: "(\<And>s. db_jwt_storage (snd (m s)) = db_jwt_storage s) \<Longrightarrow> preserves (grown js) m"
  by (simp add: preserves_def grown_def)

lemma row_ops_grown [preserves_intros]:
  "preserves (grown js) (sql_insert_user r)" "preserves (grown js) (sql_update_user u f)"
  "preserves (grown js) (sql_insert_membership m)" "preserves (grown js) (sql_delete_membership m)"
  "preserves (grown js) (sql_insert_user_attribute a)" "preserves (grown js) (sql_upsert_user_attribute a)"
  "preserves (grown js) (sql_delete_user_attributes u ns)" "preserves (grown js) (sql_insert_group n l d w)"
  "preserves (grown js) (sql_update_group g f')" "preserves (grown js) (sql_delete_group g)"
  "preserves (grown js) (sql_insert_group_attribute b)" "preserves (grown js) (sql_upsert_group_attribute b)"
  "preserves (grown js) (sql_delete_group_attributes g ns)"
  by (rule preserves_grown, simp add: sql_insert_user_def sql_update_user_def sql_insert_membership_def
        sql_delete_membership_def sql_insert_user_attribute_def sql_upsert_user_attribute_def
        sql_delete_user_attributes_def sql_insert_group_def sql_update_group_def sql_delete_group_def
        sql_insert_group_attribute_def sql_upsert_group_attribute_def sql_delete_group_attributes_def
        monad_simps Let_def split: option.split)+

lemma schema_ops_grown [preserves_intros]:
  "preserves (grown js) (add_user_attribute r)" "preserves (grown js) (add_group_attribute r)"
  "preserves (grown js) (delete_user_attribute n)" "preserves (grown js) (delete_group_attribute n)"
  "preserves (grown js) (add_user_object_class c)" "preserves (grown js) (add_group_object_class c)"
  "preserves (grown js) (delete_user_object_class c)" "preserves (grown js) (delete_group_object_class c)"
  by (rule preserves_grown, simp add: add_user_attribute_def add_group_attribute_def delete_user_attribute_def
        delete_group_attribute_def add_user_object_class_def add_group_object_class_def
        delete_user_object_class_def delete_group_object_class_def monad_simps Let_def)+

lemma run_op_grown:
  assumes "\<forall>u. op \<noteq> OpDeleteUser u"
  shows "preserves (grown js) (run_op ext op)"
  using assms by (cases op) (simp_all add: create_user_def update_user_def update_user_with_transaction_def
      add_user_to_group_def remove_user_from_group_def create_group_def update_group_def update_group_with_transaction_def
      delete_group_def Let_def preserves_intros)

lemma tcp_ops_grown [preserves_intros]:
  "preserves (grown js) (sql_create_refresh_token hash sample now u)" "preserves (grown js) (sql_register_jwt u k e)"
  "preserves (grown js) (sql_delete_refresh_token k)" "preserves (grown js) (sql_start_password_reset sample now u)"
  "preserves (grown js) (sql_delete_password_reset_token tok)"
  by (rule preservesI, auto simp: sql_create_refresh_token_def sql_insert_refresh_token_def sql_register_jwt_def
        sql_delete_refresh_token_def sql_start_password_reset_def sql_insert_reset_token_def
        sql_delete_password_reset_token_def monad_simps Let_def grown_def)+

lemma registration_finish_grown [preserves_intros]: "preserves (grown js) (sql_registration_finish ext lib cfg rf)"
  by (simp add: sql_registration_finish_def Let_def preserves_intros)

section \<open>What the handlers keep\<close>

lemma preserves_case_option:
  "preserves P m \<Longrightarrow> (\<And>x. preserves P (f x)) \<Longrightarrow> preserves P (case v of None \<Rightarrow> m | Some x \<Rightarrow> f x)"
  by (cases v) simp_all

lemma preserves_case_list:
  "preserves P m \<Longrightarrow> (\<And>x xs. preserves P (f x xs)) \<Longrightarrow> preserves P (case l of [] \<Rightarrow> m | x # xs \<Rightarrow> f x xs)"
  by (cases l) simp_all

text \<open>A predicate on the database that the writes of the web sessions keep; logging out is treated on its own.\<close>

locale session_predicate =
  fixes P :: "db \<Rightarrow> bool"
  assumes keeps_register_jwt: "preserves P (sql_register_jwt u k e)"
    and keeps_create_refresh_token: "preserves P (sql_create_refresh_token hash sample now u)"
    and keeps_start_password_reset: "preserves P (sql_start_password_reset sample now u)"
    and keeps_delete_password_reset_token: "preserves P (sql_delete_password_reset_token tok)"
    and keeps_registration_finish: "preserves P (sql_registration_finish ext lib cfg rf)"
begin

abbreviation keeps :: "u64 set \<Rightarrow> db http_state \<Rightarrow> bool" where
  "keeps b t \<equiv> P (ht_backend t) \<and> ht_jwt_blacklist t = b"

lemma keeps_on_backend: "preserves P m \<Longrightarrow> preserves (keeps b) (on_backend m)"
  by (auto simp: preserves_def on_backend_def split: prod.splits)

lemma keeps_unwrap: "preserves (keeps b) m \<Longrightarrow> preserves (keeps b) (unwrap_action m)"
  by (simp add: unwrap_action_def preserves_intros)

lemmas keeps_intros = preserves_intros keeps_on_backend keeps_unwrap keeps_register_jwt keeps_create_refresh_token
  keeps_start_password_reset keeps_delete_password_reset_token keeps_registration_finish

lemmas keeps_defs = sql_app_def sql_backend_def sql_tcp_backend_def

lemma keeps_create_jwt: "preserves (keeps b) (create_jwt e (sql_app e lib cfg rng key url options) u gs)"
  by (simp add: create_jwt_def keeps_defs Let_def keeps_intros)

lemma keeps_login: "preserves (keeps b) (get_login_successful_response e (sql_app e lib cfg rng key url options) u)"
  unfolding get_login_successful_response_def Let_def
  by (intro preserves_bind preserves_prod keeps_create_jwt preserves_return)
     (simp_all add: keeps_defs keeps_intros)

lemma keeps_mail: "preserves (keeps b) (send_reset_mail e app u tok)"
  by (auto simp: preserves_def send_reset_mail_def split: prod.splits)

lemma keeps_reset_step1: "preserves (keeps b) (get_password_reset_step1 e (sql_app e lib cfg rng key url options) req)"
  unfolding get_password_reset_step1_def reset_for_user_def
  by (intro preserves_bind preserves_case_list preserves_case_option keeps_mail preserves_return preserves_fail
      preserves_lift_result) (simp_all add: keeps_defs keeps_intros)

lemma keeps_reset_step2: "preserves (keeps b) (get_password_reset_step2 e (sql_app e lib cfg rng key url options) req)"
  unfolding get_password_reset_step2_def
  by (intro preserves_bind preserves_match preserves_return preserves_lift_result keeps_create_jwt)
     (simp_all add: keeps_defs keeps_intros)

lemma keeps_register_start: "preserves (keeps b) (opaque_register_start e (sql_app e lib cfg rng key url options) req)"
proof (rule preservesI)
  fix t assume t: "keeps b t"
  let ?app = "sql_app e lib cfg rng key url options"
  have "preserves (keeps b) (bind (lift_result r) (\<lambda>v. bind (lift_result q) (\<lambda>start.
      bind (on_backend (bh_get_user_groups (ap_backend_handler ?app) (rs_username start))) (f v start))))"
    if "\<And>v start gs. preserves (keeps b) (f v start gs)" for r q f
    using that by (intro preserves_bind preserves_lift_result) (simp_all add: keeps_defs keeps_intros)
  then show "keeps b (snd (opaque_register_start e ?app req t))"
    unfolding opaque_register_start_def Let_def
    by (rule preservesD) (simp_all add: keeps_defs keeps_intros t)
qed

lemma keeps_auth_handler:
  assumes "call \<noteq> Logout"
  shows "preserves (keeps b) (auth_handler e (sql_app e lib cfg rng key url options) call req)"
  using assms keeps_login keeps_reset_step1 keeps_reset_step2 keeps_register_start keeps_create_jwt
  by (cases call) (auto simp: post_authorize_def opaque_login_start_def opaque_login_finish_def simple_login_def
      get_refresh_def opaque_register_finish_def keeps_defs intro!: keeps_intros)

end

interpretation inv_sessions: session_predicate db_inv
  by unfold_locales (simp_all add: preserves_intros)

interpretation grown_sessions: session_predicate "grown js" for js
  by unfold_locales (simp_all add: preserves_intros)

lemma keeps_handle_auth:
  assumes "session_predicate P" and "call \<noteq> Logout" and "P (ht_backend t)"
    and "handle_auth e (sql_app e lib cfg rng key url options) call req t = (r, t')"
  shows "P (ht_backend t') \<and> ht_jwt_blacklist t' = ht_jwt_blacklist t"
  using preservesD [OF preserves_unwrap_or_else
      [OF session_predicate.keeps_auth_handler [OF assms(1,2), of "ht_jwt_blacklist t"]]] assms(3,4)
  unfolding handle_auth_def by (metis snd_conv)

section \<open>Logging out\<close>

definition blacklist_rows :: "user_id \<Rightarrow> jwt_storage_row list \<Rightarrow> jwt_storage_row list" where
  "blacklist_rows u js = map (\<lambda>j. if js_user_id j = u then j\<lparr>js_blacklisted := True\<rparr> else j) js"

definition logged_out :: "u64 \<Rightarrow> user_id \<Rightarrow> db http_state \<Rightarrow> db http_state" where
  "logged_out k u t = t\<lparr>ht_backend := (ht_backend t)
       \<lparr>db_jwt_refresh_storage := filter (\<lambda>r. jr_refresh_token_hash r \<noteq> as_i64 k) (db_jwt_refresh_storage (ht_backend t)),
        db_jwt_storage := blacklist_rows u (db_jwt_storage (ht_backend t))\<rparr>,
     ht_jwt_blacklist := ht_jwt_blacklist t \<union> set (map (\<lambda>j. as_u64 (js_jwt_hash j))
       (filter (\<lambda>j. js_user_id j = u \<and> \<not> js_blacklisted j) (db_jwt_storage (ht_backend t))))\<rparr>"

lemma logout_run:
  assumes "get_refresh_token e req = Ok (k, u)"
  shows "\<exists>resp. get_logout e (sql_app e lib cfg rng key url options) req t = (Ok resp, logged_out k u t)
    \<and> hr_status resp = StatusOk"
  using assms by (simp add: get_logout_def sql_app_def sql_tcp_backend_def on_backend_def sql_delete_refresh_token_def
      sql_blacklist_jwts_def logged_out_def blacklist_rows_def http_ok_def monad_simps)

lemma logout_state:
  "snd (handle_auth e (sql_app e lib cfg rng key url options) Logout req t) =
     (case get_refresh_token e req of Ok (k, u) \<Rightarrow> logged_out k u t | _ \<Rightarrow> t)"
proof (cases "get_refresh_token e req")
  case (Ok ku)
  moreover obtain k u where "ku = (k, u)" by fastforce
  ultimately show ?thesis using logout_run [of e req k u lib cfg rng key url options t]
    by (auto simp: handle_auth_def monad_simps)
qed (simp_all add: handle_auth_def get_logout_def monad_simps)

lemma blacklist_rows_mem:
  assumes "j \<in> set (blacklist_rows u js)"
  shows "\<exists>i\<in>set js. js_jwt_hash i = js_jwt_hash j \<and> js_user_id i = js_user_id j \<and> js_expiry_date i = js_expiry_date j
    \<and> (js_blacklisted j \<longleftrightarrow> js_blacklisted i \<or> js_user_id i = u)"
  using assms by (auto simp: blacklist_rows_def)

lemma blacklist_rows_image:
  assumes "i \<in> set js"
  shows "\<exists>j\<in>set (blacklist_rows u js). js_jwt_hash j = js_jwt_hash i \<and> js_user_id j = js_user_id i
    \<and> js_expiry_date j = js_expiry_date i \<and> (js_blacklisted j \<longleftrightarrow> js_blacklisted i \<or> js_user_id i = u)"
  by (rule bexI [of _ "if js_user_id i = u then i\<lparr>js_blacklisted := True\<rparr> else i"])
     (use assms in \<open>auto simp: blacklist_rows_def\<close>)

lemma logged_out_inv: "db_inv (ht_backend t) \<Longrightarrow> db_inv (ht_backend (logged_out k u t))"
  using preservesD [OF preserves_bind [OF sql_delete_refresh_token_inv sql_blacklist_jwts_inv], of "ht_backend t" k "\<lambda>_. u"]
  by (simp add: logged_out_def blacklist_rows_def monad_simps sql_delete_refresh_token_def sql_blacklist_jwts_def)

section \<open>The invariant of the sessions\<close>

text \<open>The logged-out tokens of the table are in the blacklist of the running server.\<close>

definition sessions_ok :: "db http_state \<Rightarrow> bool" where
  "sessions_ok t \<longleftrightarrow> db_inv (ht_backend t)
     \<and> (\<forall>j\<in>set (db_jwt_storage (ht_backend t)). js_blacklisted j \<longrightarrow> as_u64 (js_jwt_hash j) \<in> ht_jwt_blacklist t)"

text \<open>A token, by its hash, expiry and owner, that is logged out in the table and in the server.\<close>

definition revoked :: "u64 \<Rightarrow> naive_date_time \<Rightarrow> user_id \<Rightarrow> db http_state \<Rightarrow> bool" where
  "revoked k e u t \<longleftrightarrow> k \<in> ht_jwt_blacklist t
     \<and> (\<exists>j\<in>set (db_jwt_storage (ht_backend t)). js_jwt_hash j = as_i64 k \<and> js_user_id j = u
          \<and> js_expiry_date j = e \<and> js_blacklisted j)"

lemma sessions_ok_grown:
  assumes "sessions_ok t" and "db_inv s" and "grown (db_jwt_storage (ht_backend t)) s" and "ht_jwt_blacklist t \<subseteq> b"
  shows "sessions_ok (t\<lparr>ht_backend := s, ht_jwt_blacklist := b\<rparr>)"
  using assms grown_blacklisted [OF assms(3)] by (auto simp: sessions_ok_def)

lemma revoked_grown:
  assumes "revoked k e u t" and "set (db_jwt_storage (ht_backend t)) \<subseteq> set (db_jwt_storage (ht_backend t'))"
    and "ht_jwt_blacklist t \<subseteq> ht_jwt_blacklist t'"
  shows "revoked k e u t'"
  using assms by (auto simp: revoked_def)

lemma delete_user_storage:
  "db_jwt_storage (snd (delete_user u s)) = filter (\<lambda>j. js_user_id j \<noteq> u) (db_jwt_storage s)"
  by (simp add: delete_user_def sql_delete_user_def monad_simps)

lemma request_storage:
  assumes "handle_auth e (sql_app e lib cfg rng key url options) call req t = (r, t')"
  shows "(grown (db_jwt_storage (ht_backend t)) (ht_backend t') \<and> ht_jwt_blacklist t' = ht_jwt_blacklist t)
    \<or> (\<exists>k u. t' = logged_out k u t)"
proof (cases "call = Logout")
  case False
  show ?thesis
    using keeps_handle_auth [OF grown_sessions.session_predicate_axioms False grown_refl assms] by blast
next
  case True
  then have "t' = (case get_refresh_token e req of Ok (k, u) \<Rightarrow> logged_out k u t | _ \<Rightarrow> t)"
    using assms logout_state [of e lib cfg rng key url options req t] by simp
  then show ?thesis by (auto split: result.splits prod.splits)
qed

lemma request_inv:
  assumes "handle_auth e (sql_app e lib cfg rng key url options) call req t = (r, t')" and "db_inv (ht_backend t)"
  shows "db_inv (ht_backend t')"
proof (cases "call = Logout")
  case False
  then show ?thesis using keeps_handle_auth [OF inv_sessions.session_predicate_axioms False assms(2,1)] by blast
next
  case True
  then have "t' = (case get_refresh_token e req of Ok (k, u) \<Rightarrow> logged_out k u t | _ \<Rightarrow> t)"
    using assms(1) logout_state [of e lib cfg rng key url options req t] by simp
  then show ?thesis using assms(2) logged_out_inv by (auto split: result.splits prod.splits)
qed

lemma logged_out_ok:
  assumes "sessions_ok t" shows "sessions_ok (logged_out k u t)"
proof -
  have "as_u64 (js_jwt_hash j) \<in> ht_jwt_blacklist (logged_out k u t)"
    if j: "j \<in> set (blacklist_rows u (db_jwt_storage (ht_backend t)))" "js_blacklisted j" for j
  proof -
    obtain i where i: "i \<in> set (db_jwt_storage (ht_backend t))" "js_jwt_hash i = js_jwt_hash j"
      "js_blacklisted i \<or> js_user_id i = u" using blacklist_rows_mem [OF j(1)] j(2) by auto
    show ?thesis
    proof (cases "js_blacklisted i")
      case True
      then show ?thesis using assms i by (auto simp: sessions_ok_def logged_out_def)
    next
      case False
      then have "i \<in> set (filter (\<lambda>j. js_user_id j = u \<and> \<not> js_blacklisted j) (db_jwt_storage (ht_backend t)))" using i by simp
      then have "as_u64 (js_jwt_hash i) \<in> set (map (\<lambda>j. as_u64 (js_jwt_hash j))
          (filter (\<lambda>j. js_user_id j = u \<and> \<not> js_blacklisted j) (db_jwt_storage (ht_backend t))))"
        unfolding set_map by (rule imageI)
      then show ?thesis using i(2) by (simp add: logged_out_def)
    qed
  qed
  then show ?thesis using assms logged_out_inv [of t k u] by (simp add: sessions_ok_def logged_out_def)
qed

lemma logged_out_revoked:
  assumes "revoked k e u t" shows "revoked k e u (logged_out k' v t)"
proof -
  obtain i where i: "i \<in> set (db_jwt_storage (ht_backend t))" "js_jwt_hash i = as_i64 k" "js_user_id i = u"
    "js_expiry_date i = e" "js_blacklisted i" using assms by (auto simp: revoked_def)
  then show ?thesis using assms blacklist_rows_image [OF i(1), of v] by (auto simp: revoked_def logged_out_def)
qed

lemma restart_ok: "sql_get_jwt_blacklist s = (Ok bl, s') \<Longrightarrow>
    bl = (\<lambda>j. as_u64 (js_jwt_hash j)) ` {j \<in> set (db_jwt_storage s). js_blacklisted j}"
  by (auto simp: sql_get_jwt_blacklist_def return_def)

lemma operation_storage:
  assumes "run_op ext op s = (r, s')"
  shows "grown (db_jwt_storage s) s' \<or> (\<exists>u. op = OpDeleteUser u \<and> db_jwt_storage s' = filter (\<lambda>j. js_user_id j \<noteq> u) (db_jwt_storage s))"
proof (cases "\<exists>u. op = OpDeleteUser u")
  case True
  then show ?thesis using assms delete_user_storage by (metis run_op.simps(3) snd_conv)
next
  case False
  then show ?thesis using assms preservesD [OF run_op_grown grown_refl, of op s ext] by simp
qed

lemma server_step_ok:
  assumes "server_step env lib cfg key url options allowed st st'" and "sessions_ok (snd st)"
  shows "sessions_ok (snd st')"
  using assms
proof (induction rule: server_step.induct)
  case (request e rng call req t r t' now sample)
  have "t' = logged_out k u t \<Longrightarrow> sessions_ok t'" for k u using logged_out_ok request.prems by simp
  then show ?case using request.prems request_inv [OF request.hyps(1)] request_storage [OF request.hyps(1)]
    by (auto simp: sessions_ok_def dest: grown_blacklisted)
next
  case (operation op t r s now)
  have "db_inv s" using operation preservesD [OF run_op_inv, of "ht_backend t"] by (metis sessions_ok_def snd_conv)
  then show ?case using operation.prems operation_storage [OF operation.hyps(2)]
    by (auto simp: sessions_ok_def dest: grown_blacklisted)
next
  case (cleanup now t)
  then show ?case using cleanup_db_inv [of "ht_backend t" now] by (auto simp: sessions_ok_def cleanup_db_def)
next
  case (restart t bl s now)
  then show ?case using restart_ok [OF restart.hyps(1)] by (auto simp: sessions_ok_def)
qed simp

lemma server_run_ok:
  "server_run env lib cfg key url options allowed st st' \<Longrightarrow> sessions_ok (snd st) \<Longrightarrow> sessions_ok (snd st')"
  by (induction rule: server_run.induct) (auto intro: server_step_ok)

lemma server_step_revoked:
  assumes "server_step env lib cfg key url options allowed st st'" and "\<not> allowed (OpDeleteUser u)"
    and "e < fst st \<or> revoked k e u (snd st)"
  shows "e < fst st' \<or> revoked k e u (snd st')"
  using assms
proof (induction rule: server_step.induct)
  case (request e' rng call req t r t' now sample)
  have "revoked k e u t'" if "revoked k e u t"
    using request_storage [OF request.hyps(1)]
  proof
    assume "grown (db_jwt_storage (ht_backend t)) (ht_backend t') \<and> ht_jwt_blacklist t' = ht_jwt_blacklist t"
    then show ?thesis using that grown_set by (intro revoked_grown [OF that]) simp_all
  next
    assume "\<exists>k u. t' = logged_out k u t"
    then show ?thesis using logged_out_revoked [OF that] by blast
  qed
  then show ?case using request.prems(2) by auto
next
  case (operation op t r s now)
  then have op: "op \<noteq> OpDeleteUser u" by blast
  have "revoked k e u (t\<lparr>ht_backend := s\<rparr>)" if "revoked k e u t"
    using operation_storage [OF operation.hyps(2)]
  proof
    assume "grown (db_jwt_storage (ht_backend t)) s"
    then show ?thesis using grown_set by (intro revoked_grown [OF that]) simp_all
  next
    assume "\<exists>v. op = OpDeleteUser v \<and> db_jwt_storage s = filter (\<lambda>j. js_user_id j \<noteq> v) (db_jwt_storage (ht_backend t))"
    then show ?thesis using that op by (auto simp: revoked_def)
  qed
  then show ?case using operation.prems(2) by auto
next
  case (cleanup now t)
  then show ?case by (auto simp: revoked_def cleanup_db_def)
next
  case (restart t bl s now)
  have "revoked k e u (t\<lparr>ht_jwt_blacklist := bl\<rparr>)" if rev: "revoked k e u t"
  proof -
    obtain j where j: "j \<in> set (db_jwt_storage (ht_backend t))" "js_jwt_hash j = as_i64 k" "js_user_id j = u"
      "js_expiry_date j = e" "js_blacklisted j" using rev by (auto simp: revoked_def)
    then have "as_u64 (js_jwt_hash j) \<in> bl" unfolding restart_ok [OF restart.hyps(1)] by blast
    with j show ?thesis by (auto simp: revoked_def)
  qed
  then show ?case using restart.prems(2) by auto
qed auto

lemma server_run_revoked:
  assumes "server_run env lib cfg key url options allowed st st'" and "\<not> allowed (OpDeleteUser u)"
    and "e < fst st \<or> revoked k e u (snd st)"
  shows "e < fst st' \<or> revoked k e u (snd st')"
  using assms by (induction rule: server_run.induct) (auto dest: server_step_revoked)

end
