(* ===== verification/Web_Session.thy ===== *)
theory Web_Session
  imports Auth_Session
begin

text \<open>
  The properties of web sessions, from login to logout, password reset and password registration, proved from the
  lemmas of \<open>Auth_Session\<close>.
\<close>

section \<open>What the libraries promise\<close>

text \<open>A signed token verifies to the algorithm and claims it was signed with.\<close>

definition jwt_ok :: "http_env \<Rightarrow> bool" where
  "jwt_ok env \<longleftrightarrow> (\<forall>key alg c token. he_jwt_sign env key alg c = Some token \<longrightarrow>
     he_jwt_verify env key token = Some (alg, c))"

text \<open>The draws of \<open>Alphanumeric\<close> are letters and digits.\<close>

definition alphanumeric :: "char \<Rightarrow> bool" where
  "alphanumeric c \<longleftrightarrow> (CHR ''0'' \<le> c \<and> c \<le> CHR ''9'') \<or> (CHR ''A'' \<le> c \<and> c \<le> CHR ''Z'') \<or> (CHR ''a'' \<le> c \<and> c \<le> CHR ''z'')"

definition samples_ok :: "(nat \<Rightarrow> char) \<Rightarrow> bool" where
  "samples_ok sample \<longleftrightarrow> (\<forall>i. alphanumeric (sample i))"

text \<open>The environment at an instant, with the draws of one request.\<close>

definition at_time :: "http_env \<Rightarrow> naive_date_time \<Rightarrow> (nat \<Rightarrow> char) \<Rightarrow> http_env" where
  "at_time env now sample = env\<lparr>he_now := now, he_sample := sample\<rparr>"

lemma at_time_simps [simp]:
  "he_now (at_time env now sample) = now" "he_sample (at_time env now sample) = sample"
  "he_hash (at_time env now sample) = he_hash env" "he_externals (at_time env now sample) = he_externals env"
  "he_jwt_sign (at_time env now sample) = he_jwt_sign env" "he_jwt_verify (at_time env now sample) = he_jwt_verify env"
  "he_bearer (at_time env now sample) = he_bearer env" "he_mail (at_time env now sample) = he_mail env"
  "he_registration_json (at_time env now sample) = he_registration_json env"
  "he_header_to_str (at_time env now sample) = he_header_to_str env"
  by (simp_all add: at_time_def)

lemma sql_app_simps [simp]:
  "ap_jwt_key (sql_app e lib cfg rng key url options) = key"
  "ap_server_url (sql_app e lib cfg rng key url options) = url"
  "ap_mail_options (sql_app e lib cfg rng key url options) = options"
  "ap_backend_handler (sql_app e lib cfg rng key url options) = sql_backend (he_externals e) lib cfg rng (he_now e)"
  "ap_tcp_handler (sql_app e lib cfg rng key url options) = sql_tcp_backend (he_hash e) (he_sample e) (he_now e)"
  by (simp_all add: sql_app_def)

section \<open>Logging in\<close>

definition jwt_row :: "http_env \<Rightarrow> user_id \<Rightarrow> string \<Rightarrow> jwt_storage_row" where
  "jwt_row e u token = \<lparr>js_jwt_hash = as_i64 (he_hash e token), js_user_id = u,
     js_expiry_date = he_now e + duration_days 1, js_blacklisted = False\<rparr>"

definition login_claims :: "http_env \<Rightarrow> user_id \<Rightarrow> group_name list \<Rightarrow> jwt_claims" where
  "login_claims e u groups = \<lparr>jc_exp = he_now e + duration_days 1, jc_iat = he_now e, jc_user = UserId_as_str u,
     jc_groups = map GroupName_as_str groups\<rparr>"

lemma on_backend_Ok_iff:
  "on_backend m t = (Ok x, t') \<longleftrightarrow> (\<exists>s. m (ht_backend t) = (Ok x, s) \<and> t' = t\<lparr>ht_backend := s\<rparr>)"
  by (auto simp: on_backend_def split: prod.splits)

lemma unwrap_action_Ok_iff: "unwrap_action m t = (Ok x, t') \<longleftrightarrow> m t = (Ok x, t')"
  by (auto simp: unwrap_action_def monad_simps split: prod.splits result.splits)

lemma create_jwt_Ok:
  assumes "create_jwt e (sql_app e lib cfg rng key url options) u groups t = (Ok token, t')"
  shows "he_jwt_sign e key Hs512 (login_claims e u groups) = Some token \<and> user_exists (ht_backend t) u
    \<and> t' = t\<lparr>ht_backend := (ht_backend t)\<lparr>db_jwt_storage := db_jwt_storage (ht_backend t) @ [jwt_row e u token]\<rparr>\<rparr>"
  using assms unfolding create_jwt_def Let_def
  by (auto simp: bind_Ok_iff unwrap_action_Ok_iff on_backend_Ok_iff sql_tcp_backend_def sql_register_jwt_def
      return_def fail_def login_claims_def jwt_row_def split: option.splits if_splits)

lemma get_user_groups_Ok:
  "get_user_groups u s = (Ok gs, s') \<Longrightarrow> s' = s \<and> gs = map GroupDetails_from (groups_of_user s u)"
  by (auto simp: get_user_groups_def return_def fail_def split: option.splits)

lemma create_refresh_Ok:
  assumes "sql_create_refresh_token hash sample now u s = (Ok x, s')"
  shows "x = (gen_random_string sample 100, duration_days 30)
    \<and> s' = s\<lparr>db_jwt_refresh_storage := db_jwt_refresh_storage s @ [\<lparr>jr_refresh_token_hash = as_i64 (hash (gen_random_string sample 100)),
        jr_user_id = u, jr_expiry_date = now + duration_days 30\<rparr>]\<rparr>"
  using assms by (auto simp: sql_create_refresh_token_def sql_insert_refresh_token_def Let_def bind_Ok_iff return_def fail_def
      split: if_splits)

lemma login_Ok:
  assumes "get_login_successful_response e (sql_app e lib cfg rng key url options) u t = (Ok resp, t')"
  shows "\<exists>token refresh. hr_body resp = LoginBody token (Some refresh)
    \<and> refresh = gen_random_string (he_sample e) 100 @ ''+'' @ UserId_as_str u
    \<and> he_jwt_sign e key Hs512 (login_claims e u (map grp_display_name (groups_of_user (ht_backend t) u))) = Some token
    \<and> jwt_row e u token \<in> set (db_jwt_storage (ht_backend t'))
    \<and> ht_jwt_blacklist t' = ht_jwt_blacklist t"
proof -
  let ?s = "ht_backend t" and ?app = "sql_app e lib cfg rng key url options"
  obtain gs t1 x t2 token where 1: "on_backend (get_user_groups u) t = (Ok gs, t1)"
    and 2: "on_backend (sql_create_refresh_token (he_hash e) (he_sample e) (he_now e) u) t1 = (Ok x, t2)"
    and 3: "create_jwt e ?app u (map gd_display_name gs) t2 = (Ok token, t')"
    and 4: "hr_body resp = LoginBody token (Some (fst x @ ''+'' @ UserId_as_str u))"
    using assms by (auto simp: get_login_successful_response_def bind_Ok_iff sql_backend_def sql_tcp_backend_def Let_def
        return_def http_ok_def split: prod.splits)
  have gs: "t1 = t" "gs = map GroupDetails_from (groups_of_user ?s u)"
    using 1 by (auto simp: on_backend_Ok_iff dest!: get_user_groups_Ok)
  have x: "fst x = gen_random_string (he_sample e) 100" and t2: "ht_jwt_blacklist t2 = ht_jwt_blacklist t"
    using 2 gs(1) by (auto simp: on_backend_Ok_iff dest!: create_refresh_Ok)
  have names: "map gd_display_name gs = map grp_display_name (groups_of_user ?s u)"
    by (simp add: gs GroupDetails_from_def)
  show ?thesis using create_jwt_Ok [OF 3] 4 x t2 names by auto
qed

lemma samples_no_plus: "samples_ok sample \<Longrightarrow> CHR ''+'' \<notin> set (gen_random_string sample n)"
proof -
  have "\<not> alphanumeric (CHR ''+'')" by code_simp
  then show "samples_ok sample \<Longrightarrow> CHR ''+'' \<notin> set (gen_random_string sample n)"
    by (auto simp: samples_ok_def gen_random_string_def)
qed

lemma refresh_cookie:
  assumes "samples_ok sample" and "wf_user_id u"
    and "map_of (rq_cookies req) ''refresh_token'' = Some (gen_random_string sample n @ ''+'' @ UserId_as_str u)"
  shows "get_refresh_token e req = Ok (he_hash e (gen_random_string sample n), u)"
  using assms split_once_append [OF samples_no_plus, of sample n "UserId_as_str u"]
  by (simp add: get_refresh_token_def parse_refresh_token_def UserId_new_as_str)

lemma refresh_after_logout:
  assumes "get_refresh_token e req = Ok (k, u)"
  shows "get_refresh e (sql_app e lib cfg rng key url options) req (logged_out k u t)
    = (Err (TcpDomainError (AuthenticationError ''Invalid refresh token'')), logged_out k u t)"
proof -
  have "\<not> list_ex (\<lambda>r. jr_refresh_token_hash r = as_i64 k \<and> jr_user_id r = u)
      (db_jwt_refresh_storage (ht_backend (logged_out k u t)))" by (auto simp: logged_out_def list_ex_iff)
  then show ?thesis
    using assms by (simp add: get_refresh_def sql_tcp_backend_def on_backend_def sql_check_token_def monad_simps)
qed

lemma logged_out_storage: "db_jwt_storage (ht_backend (logged_out k u t)) = blacklist_rows u (db_jwt_storage (ht_backend t))"
  by (simp add: logged_out_def)

lemma logged_out_hash:
  assumes "sessions_ok t" and "j \<in> set (db_jwt_storage (ht_backend t))" and "js_user_id j = u" and "js_jwt_hash j = as_i64 k"
  shows "revoked k (js_expiry_date j) u (logged_out k' u t)"
proof -
  obtain i where i: "i \<in> set (blacklist_rows u (db_jwt_storage (ht_backend t)))" "js_jwt_hash i = as_i64 k" "js_user_id i = u"
    "js_expiry_date i = js_expiry_date j" "js_blacklisted i"
    using blacklist_rows_image [OF assms(2), of u] assms(3,4) by auto
  have "sessions_ok (logged_out k' u t)" using assms(1) by (rule logged_out_ok)
  then have "as_u64 (js_jwt_hash i) \<in> ht_jwt_blacklist (logged_out k' u t)"
    using i(1,5) unfolding sessions_ok_def logged_out_storage by blast
  with i show ?thesis by (auto simp: revoked_def logged_out_storage)
qed

lemma token_check:
  assumes "jwt_ok env" and "he_jwt_sign env key Hs512 (login_claims (at_time env now sample) u groups) = Some token" and "wf_user_id u"
  shows "check_if_token_is_valid (at_time env now' sample') (sql_app e lib cfg rng key url options) bl token =
     (if now + duration_days 1 < now' then Err ''Expired JWT''
      else if he_hash env token \<in> bl then Err ''JWT was logged out''
      else Ok (get_permissions_from_groups (he_externals env) u groups))"
proof -
  have "he_jwt_verify env key token = Some (Hs512, login_claims (at_time env now sample) u groups)"
    using assms(1,2) by (simp add: jwt_ok_def)
  then show ?thesis using assms(3)
    by (simp add: check_if_token_is_valid_def login_claims_def UserId_new_as_str comp_def)
qed

section \<open>An instance\<close>

text \<open>A toy library that signs the claims of one login, and a server with one user who has a password.\<close>

definition demo_claims :: jwt_claims where
  "demo_claims = \<lparr>jc_exp = duration_days 1, jc_iat = 0, jc_user = ''bob'', jc_groups = [''Friends'']\<rparr>"

definition demo_mail_lib :: mail_lib where
  "demo_mail_lib = \<lparr>ml_parse_mailbox = Some, ml_new_uuid_v1 = ''1'', ml_url_domain = (\<lambda>_. None),
     ml_extend_path = (\<lambda>u l. Some (u @ concat (map ((#) (CHR ''/'')) l))), ml_message_builds = (\<lambda>_. True),
     ml_transport_builds = (\<lambda>_ _. True), ml_send = (\<lambda>_ _. None)\<rparr>"

definition demo_http_env :: http_env where
  "demo_http_env =
     \<lparr>he_externals = ascii_externals, he_hash = (\<lambda>s. of_nat (length s)), he_sample = (\<lambda>_. CHR ''a''), he_now = 0,
      he_jwt_sign = (\<lambda>_ alg c. if alg = Hs512 \<and> c = demo_claims then Some ''jwt'' else None),
      he_jwt_verify = (\<lambda>_ token. if token = ''jwt'' then Some (Hs512, demo_claims) else None),
      he_header_to_str = Some, he_header_from_str = Some,
      he_bearer = (\<lambda>r. map_option (drop 7) (map_of (rq_headers r) ''authorization'')),
      he_registration_json = (\<lambda>b. Some \<lparr>rs_username = UserId b, rs_registration_start_request = []\<rparr>),
      he_url_path = id, he_mail = demo_mail_lib\<rparr>"

definition demo_mail_options :: mail_options where
  "demo_mail_options = \<lparr>mo_enable_password_reset = True, mo_from = Some ''lldap@x'', mo_reply_to = None, mo_server = ''x'',
     mo_port = 587, mo_user = [], mo_password = [], mo_smtp_encryption = SmtpTls, mo_tls_required = None\<rparr>"

definition demo_server :: "db http_state" where
  "demo_server = \<lparr>ht_backend = snd (register_password ascii_externals toy_lib toy_config id (UserId ''bob'') ''secret'' demo_db),
     ht_jwt_blacklist = {}, ht_outbox = []\<rparr>"

lemma demo_http_ok: "jwt_ok (at_time demo_http_env now sample)" "jwt_ok demo_http_env" "samples_ok (he_sample demo_http_env)"
proof -
  have "alphanumeric (CHR ''a'')" by code_simp
  then show "samples_ok (he_sample demo_http_env)" by (simp add: samples_ok_def demo_http_env_def)
qed (auto simp: jwt_ok_def demo_http_env_def)

lemma demo_server_ok: "sessions_ok demo_server"
proof -
  have "db_inv (ht_backend demo_server)"
    using preservesD [OF register_password_inv demo_db_inv] by (simp add: demo_server_def)
  moreover have "db_jwt_storage (ht_backend demo_server) = []" by code_simp
  ultimately show ?thesis by (simp add: sessions_ok_def)
qed

section \<open>Properties\<close>

text \<open>
  C14. A web session, from login to logout: a successful login means that the password was accepted; the token it
  returns is accepted for one day, with the permissions of the user's groups at the time of the login, and is
  rejected afterwards or once it is on the blacklist; and a logout with the refresh token of that login puts the
  token on the blacklist and makes the refresh token useless.
\<close>

theorem login_session:
  assumes "jwt_ok env" and "samples_ok sample" and "wf_user_id u" and "sessions_ok t"
    and "simple_login (at_time env now sample) (sql_app (at_time env now sample) lib cfg rng key url options)
          \<lparr>cs_username = u, cs_password = pw\<rparr> t = (Ok resp, t')"
  shows "fst (sql_bind lib cfg rng \<lparr>br_name = u, br_password = pw\<rparr> (ht_backend t)) = Ok () \<and>
    (\<exists>token refresh. hr_body resp = LoginBody token (Some refresh)
      \<and> (\<forall>now' sample' app bl. ap_jwt_key app = key \<longrightarrow>
          check_if_token_is_valid (at_time env now' sample') (app :: db app_state) bl token =
            (if now + duration_days 1 < now' then Err ''Expired JWT''
             else if he_hash env token \<in> bl then Err ''JWT was logged out''
             else Ok (get_permissions_from_groups (he_externals env) u (map grp_display_name (groups_of_user (ht_backend t) u)))))
      \<and> (\<forall>now' sample' req. map_of (rq_cookies req) ''refresh_token'' = Some refresh \<longrightarrow>
          (let e = at_time env now' sample'; app = sql_app e lib cfg rng key url options in
           \<exists>resp' t''. get_logout e app req t' = (Ok resp', t'') \<and> he_hash env token \<in> ht_jwt_blacklist t''
             \<and> get_refresh e app req t'' = (Err (TcpDomainError (AuthenticationError ''Invalid refresh token'')), t''))))"
proof -
  let ?e = "at_time env now sample" and ?groups = "map grp_display_name (groups_of_user (ht_backend t) u)"
  obtain s1 where b: "sql_bind lib cfg rng \<lparr>br_name = u, br_password = pw\<rparr> (ht_backend t) = (Ok (), s1)"
    and l: "get_login_successful_response ?e (sql_app ?e lib cfg rng key url options) u (t\<lparr>ht_backend := s1\<rparr>) = (Ok resp, t')"
    using assms(5) by (auto simp: simple_login_def bind_Ok_iff on_backend_Ok_iff sql_backend_def)
  have s1: "s1 = ht_backend t"
    using preservesD [OF opaque_ops_inv(1) [of "(=) (ht_backend t)" lib cfg rng "\<lparr>br_name = u, br_password = pw\<rparr>"] refl] b by simp
  obtain token refresh where resp: "hr_body resp = LoginBody token (Some refresh)"
    and refresh: "refresh = gen_random_string sample 100 @ ''+'' @ UserId_as_str u"
    and sign: "he_jwt_sign env key Hs512 (login_claims ?e u ?groups) = Some token"
    and row: "jwt_row ?e u token \<in> set (db_jwt_storage (ht_backend t'))"
    using login_Ok [OF l] unfolding s1 by auto
  have ok: "sessions_ok t'"
  proof -
    have "handle_auth ?e (sql_app ?e lib cfg rng key url options) (SimpleLogin \<lparr>cs_username = u, cs_password = pw\<rparr>) req t = (Ok resp, t')" for req
      using assms(5) by (simp add: handle_auth_def monad_simps)
    from server_step_ok [OF server_step.request [OF this at_time_def, where allowed = "\<lambda>_. True"]] assms(4) show ?thesis by simp
  qed
  have "\<exists>resp' t''. get_logout e app req t' = (Ok resp', t'') \<and> he_hash env token \<in> ht_jwt_blacklist t''
         \<and> get_refresh e app req t'' = (Err (TcpDomainError (AuthenticationError ''Invalid refresh token'')), t'')"
    if "map_of (rq_cookies req) ''refresh_token'' = Some refresh" and "e = at_time env now' sample'"
      and "app = sql_app e lib cfg rng key url options" for now' sample' req e app
  proof -
    let ?k = "he_hash e (gen_random_string sample 100)"
    have k: "get_refresh_token e req = Ok (?k, u)" using refresh_cookie assms(2,3) that(1) refresh by blast
    have "revoked (he_hash env token) (now + duration_days 1) u (logged_out ?k u t')"
      using logged_out_hash [OF ok row] by (simp add: jwt_row_def)
    then have "he_hash env token \<in> ht_jwt_blacklist (logged_out ?k u t')" by (simp add: revoked_def)
    then show ?thesis using logout_run [OF k] refresh_after_logout [OF k] unfolding that(3) by metis
  qed
  moreover have "check_if_token_is_valid (at_time env now' sample') app bl token =
            (if now + duration_days 1 < now' then Err ''Expired JWT''
             else if he_hash env token \<in> bl then Err ''JWT was logged out''
             else Ok (get_permissions_from_groups (he_externals env) u ?groups))"
    if "ap_jwt_key app = key" for now' sample' bl and app :: "db app_state"
    using token_check [OF assms(1) sign assms(3)] that by (simp add: check_if_token_is_valid_def)
  ultimately show ?thesis using b resp by (auto simp: Let_def)
qed

theorem login_session_witness:
  "let e = at_time demo_http_env 0 (he_sample demo_http_env);
       app = sql_app e toy_lib toy_config id ''key'' ''/lldap'' demo_mail_options;
       (r, t) = simple_login e app \<lparr>cs_username = UserId ''bob'', cs_password = ''secret''\<rparr> demo_server
   in (\<exists>resp. r = Ok resp \<and> hr_status resp = StatusOk \<and> (\<exists>refresh. hr_body resp = LoginBody ''jwt'' (Some refresh)))
      \<and> check_if_token_is_valid (at_time demo_http_env 5 (he_sample demo_http_env)) app {} ''jwt''
          = Ok \<lparr>vr_user = UserId ''bob'', vr_permission = Regular\<rparr>"
proof -
  let ?e = "at_time demo_http_env 0 (he_sample demo_http_env)"
  let ?app = "sql_app ?e toy_lib toy_config id ''key'' ''/lldap'' demo_mail_options"
  let ?m = "simple_login ?e ?app \<lparr>cs_username = UserId ''bob'', cs_password = ''secret''\<rparr> demo_server"
  have "(case fst ?m of Ok resp \<Rightarrow> hr_status resp = StatusOk \<and> (case hr_body resp of LoginBody tok _ \<Rightarrow> tok = ''jwt'' | _ \<Rightarrow> False) | _ \<Rightarrow> False)"
    by code_simp
  then obtain resp t where run: "?m = (Ok resp, t)" and resp: "hr_status resp = StatusOk" "\<exists>r. hr_body resp = LoginBody ''jwt'' r"
    by (cases ?m) (auto split: result.splits http_body.splits)
  have "wf_user_id (UserId ''bob'')" by code_simp
  note session = login_session [OF demo_http_ok(2,3) this demo_server_ok run]
  obtain refresh where body: "hr_body resp = LoginBody ''jwt'' (Some refresh)"
    and check: "\<forall>now' sample' app bl. ap_jwt_key app = ''key'' \<longrightarrow>
          check_if_token_is_valid (at_time demo_http_env now' sample') (app :: db app_state) bl ''jwt'' =
            (if 0 + duration_days 1 < now' then Err ''Expired JWT''
             else if he_hash demo_http_env ''jwt'' \<in> bl then Err ''JWT was logged out''
             else Ok (get_permissions_from_groups (he_externals demo_http_env) (UserId ''bob'')
               (map grp_display_name (groups_of_user (ht_backend demo_server) (UserId ''bob'')))))"
    using session resp(2) by force
  have perms: "get_permissions_from_groups (he_externals demo_http_env) (UserId ''bob'')
      (map grp_display_name (groups_of_user (ht_backend demo_server) (UserId ''bob''))) = \<lparr>vr_user = UserId ''bob'', vr_permission = Regular\<rparr>"
    by code_simp
  have "check_if_token_is_valid (at_time demo_http_env 5 (he_sample demo_http_env)) ?app {} ''jwt''
      = Ok \<lparr>vr_user = UserId ''bob'', vr_permission = Regular\<rparr>"
    using check [rule_format, of ?app 5 "he_sample demo_http_env" "{}"] unfolding perms by (simp add: duration_days_def)
  then show ?thesis using run resp(1) body by (simp add: Let_def)
qed

text \<open>
  C15. A logged-out token stays logged out: once the owner of a token of the table has logged out, the token is
  rejected at every later time, whatever requests are served, operations run on the backend, cleanups made and
  however often the server restarts, as long as the account is not deleted.
\<close>

theorem logged_out_token_stays_rejected:
  assumes "sessions_ok t" and "he_jwt_verify env key token = Some (Hs512, c)"
    and "j \<in> set (db_jwt_storage (ht_backend t))" and "js_jwt_hash j = as_i64 (he_hash env token)"
    and "js_user_id j = u" and "js_expiry_date j = jc_exp c"
    and "get_refresh_token (at_time env now sample) req = Ok (k, u)"
    and "handle_auth (at_time env now sample) (sql_app (at_time env now sample) lib cfg rng key url options) Logout req t = (r, t1)"
    and "server_run env lib cfg key url options allowed (now, t1) (now2, t2)" and "\<not> allowed (OpDeleteUser u)"
  shows "\<exists>e. check_if_token_is_valid (at_time env now2 sample2) (sql_app (at_time env now2 sample2) lib cfg rng key url options)
    (ht_jwt_blacklist t2) token = Err e"
proof -
  have "t1 = logged_out k u t"
    using logout_state [of "at_time env now sample" lib cfg rng key url options req t] assms(7,8) by simp
  then have "revoked (he_hash env token) (jc_exp c) u t1"
    using logged_out_hash [OF assms(1,3,5,4)] assms(6) by simp
  then have "jc_exp c < now2 \<or> revoked (he_hash env token) (jc_exp c) u t2"
    using server_run_revoked [OF assms(9,10)] by simp
  then show ?thesis using assms(2) by (auto simp: check_if_token_is_valid_def revoked_def)
qed

definition demo_logout_request :: http_request where
  "demo_logout_request = \<lparr>rq_cookies = [(''refresh_token'', ''x+bob'')], rq_headers = [], rq_match_info = [], rq_payload = []\<rparr>"

definition demo_session_server :: "db http_state" where
  "demo_session_server = demo_server\<lparr>ht_backend := (ht_backend demo_server)
     \<lparr>db_jwt_storage := [\<lparr>js_jwt_hash = 3, js_user_id = UserId ''bob'', js_expiry_date = duration_days 1, js_blacklisted = False\<rparr>]\<rparr>\<rparr>"

theorem logged_out_token_stays_rejected_witness:
  "let app = \<lambda>now. sql_app (at_time demo_http_env now (he_sample demo_http_env)) toy_lib toy_config id ''key'' ''/'' demo_mail_options;
       t1 = snd (handle_auth (at_time demo_http_env 1 (he_sample demo_http_env)) (app 1) Logout demo_logout_request demo_session_server);
       t2 = t1\<lparr>ht_backend := cleanup_db 5 (ht_backend t1)\<rparr>
   in \<exists>e. check_if_token_is_valid (at_time demo_http_env 9 (he_sample demo_http_env)) (app 9) (ht_jwt_blacklist t2) ''jwt'' = Err e"
proof -
  let ?s = "he_sample demo_http_env"
  let ?app = "\<lambda>now. sql_app (at_time demo_http_env now ?s) toy_lib toy_config id ''key'' ''/'' demo_mail_options"
  let ?h = "handle_auth (at_time demo_http_env 1 ?s) (?app 1) Logout demo_logout_request demo_session_server"
  let ?run = "server_run demo_http_env toy_lib toy_config ''key'' ''/'' demo_mail_options (\<lambda>_. False)"
  have ok: "sessions_ok demo_session_server"
    using demo_server_ok by (simp add: sessions_ok_def demo_session_server_def tcp_ok_defs)
      (simp add: demo_server_def, code_simp)
  have v: "he_jwt_verify demo_http_env ''key'' ''jwt'' = Some (Hs512, demo_claims)" by (simp add: demo_http_env_def)
  let ?j = "\<lparr>js_jwt_hash = 3, js_user_id = UserId ''bob'', js_expiry_date = duration_days 1, js_blacklisted = False\<rparr>"
  have j: "?j \<in> set (db_jwt_storage (ht_backend demo_session_server))" by (simp add: demo_session_server_def)
  have h: "js_jwt_hash ?j = as_i64 (he_hash demo_http_env ''jwt'')" by code_simp
  have e: "js_expiry_date ?j = jc_exp demo_claims" by (simp add: demo_claims_def)
  have k: "get_refresh_token (at_time demo_http_env 1 ?s) demo_logout_request = Ok (1, UserId ''bob'')" by code_simp
  have "?run (1, snd ?h) (9, (snd ?h)\<lparr>ht_backend := cleanup_db 5 (ht_backend (snd ?h))\<rparr>)"
    by (rule run_step [OF run_step [OF run_step [OF run_refl server_step.clock [of 1 5]] server_step.cleanup]
          server_step.clock [of 5 9]]) simp_all
  from logged_out_token_stays_rejected [OF ok v j h _ e k prod.collapse [symmetric] this]
  show ?thesis by (simp add: Let_def)
qed

text \<open>
  C16. The server keeps its state consistent: through any sequence of requests, backend operations, cleanups and
  restarts, the database stays well-formed and every logged-out token of the table is on the blacklist of the server.
\<close>

theorem server_keeps_sessions:
  assumes "server_run env lib cfg key url options (\<lambda>_. True) (now, t) (now', t')" and "sessions_ok t"
  shows "sessions_ok t'"
  using server_run_ok [OF assms(1)] assms(2) by simp

theorem server_keeps_sessions_witness:
  "sessions_ok (demo_server\<lparr>ht_backend := cleanup_db 10 (ht_backend demo_server)\<rparr>)"
  by (rule server_keeps_sessions [OF run_step [OF run_refl server_step.cleanup] demo_server_ok])

text \<open>
  Deleting the account undoes its logouts: the rows of its tokens go with it, so that after a restart a token
  the deleted user had logged out is accepted again until it expires, with the permissions it carries.
\<close>

theorem deleted_user_token_accepted:
  assumes "sessions_ok t" and "he_jwt_verify env key token = Some (Hs512, c)" and "now \<le> jc_exp c"
    and "j \<in> set (db_jwt_storage (ht_backend t))" and "js_jwt_hash j = as_i64 (he_hash env token)" and "js_user_id j = u"
    and "delete_user u (ht_backend t) = (Ok (), s)" and "sql_get_jwt_blacklist s = (Ok bl, s')"
    and "\<forall>i\<in>set (db_jwt_storage (ht_backend t)). as_i64 (as_u64 (js_jwt_hash i)) = js_jwt_hash i"
  shows "check_if_token_is_valid (at_time env now sample) (sql_app (at_time env now sample) lib cfg rng key url options) bl token
    = Ok (get_permissions_from_groups (he_externals env) (UserId_new (jc_user c)) (map GroupName (jc_groups c)))"
proof -
  have rows: "db_jwt_storage s = filter (\<lambda>i. js_user_id i \<noteq> u) (db_jwt_storage (ht_backend t))"
    using delete_user_storage [of u "ht_backend t"] assms(7) by simp
  have own: "js_user_id i = u" if "i \<in> set (db_jwt_storage (ht_backend t))" "js_jwt_hash i = as_i64 (he_hash env token)" for i
  proof -
    have "distinct (map js_jwt_hash (db_jwt_storage (ht_backend t)))" using assms(1) by (simp add: sessions_ok_def tcp_ok_defs)
    then have "i = j" using that assms(4,5) by (auto simp: distinct_map inj_on_def)
    then show ?thesis using assms(6) by simp
  qed
  have "as_u64 (js_jwt_hash i) \<noteq> he_hash env token" if "i \<in> set (db_jwt_storage s)" for i
  proof
    assume eq: "as_u64 (js_jwt_hash i) = he_hash env token"
    have i: "i \<in> set (db_jwt_storage (ht_backend t))" "js_user_id i \<noteq> u" using that by (simp_all add: rows)
    then have "js_jwt_hash i = as_i64 (he_hash env token)" using assms(9) eq [symmetric] by simp
    with i own show False by blast
  qed
  then have "he_hash env token \<notin> bl" unfolding restart_ok [OF assms(8)] by fastforce
  then show ?thesis using assms(2,3) by (simp add: check_if_token_is_valid_def)
qed

theorem deleted_user_token_accepted_witness:
  "let e = at_time demo_http_env 1 (he_sample demo_http_env);
       app = sql_app e toy_lib toy_config id ''key'' ''/'' demo_mail_options;
       t = snd (handle_auth e app Logout demo_logout_request demo_session_server);
       s = snd (delete_user (UserId ''bob'') (ht_backend t))
   in check_if_token_is_valid e app (ht_jwt_blacklist t) ''jwt'' = Err ''JWT was logged out''
    \<and> (\<exists>bl. sql_get_jwt_blacklist s = (Ok bl, s)
        \<and> check_if_token_is_valid e app bl ''jwt'' = Ok \<lparr>vr_user = UserId ''bob'', vr_permission = Regular\<rparr>)"
proof -
  let ?e = "at_time demo_http_env 1 (he_sample demo_http_env)"
  let ?app = "sql_app ?e toy_lib toy_config id ''key'' ''/'' demo_mail_options"
  define t where "t = snd (handle_auth ?e ?app Logout demo_logout_request demo_session_server)"
  define s where "s = snd (delete_user (UserId ''bob'') (ht_backend t))"
  let ?bl = "(\<lambda>j. as_u64 (js_jwt_hash j)) ` {j \<in> set (db_jwt_storage s). js_blacklisted j}"
  let ?j = "\<lparr>js_jwt_hash = 3, js_user_id = UserId ''bob'', js_expiry_date = duration_days 1, js_blacklisted = True\<rparr>"
  have "sessions_ok demo_session_server"
    using demo_server_ok by (simp add: sessions_ok_def demo_session_server_def tcp_ok_defs)
      (simp add: demo_server_def, code_simp)
  from server_step_ok [OF server_step.request [where allowed = "\<lambda>_. True", OF prod.collapse [symmetric] at_time_def, where t = demo_session_server]]
  have ok: "sessions_ok t" unfolding t_def using \<open>sessions_ok demo_session_server\<close> by simp
  have out: "check_if_token_is_valid ?e ?app (ht_jwt_blacklist t) ''jwt'' = Err ''JWT was logged out''" unfolding t_def by code_simp
  have v: "he_jwt_verify demo_http_env ''key'' ''jwt'' = Some (Hs512, demo_claims)" by (simp add: demo_http_env_def)
  have st: "db_jwt_storage (ht_backend t) = [?j]" unfolding t_def by code_simp
  have h: "js_jwt_hash ?j = as_i64 (he_hash demo_http_env ''jwt'')" by code_simp
  have del: "delete_user (UserId ''bob'') (ht_backend t) = (Ok (), s)"
  proof -
    have "fst (delete_user (UserId ''bob'') (ht_backend t)) = Ok ()" unfolding t_def by code_simp
    then show ?thesis by (simp add: s_def prod_eq_iff)
  qed
  have bl: "sql_get_jwt_blacklist s = (Ok ?bl, s)" by (auto simp: sql_get_jwt_blacklist_def return_def)
  have "(1::int) \<le> jc_exp demo_claims" by (simp add: demo_claims_def duration_days_def)
  moreover have "\<forall>i\<in>set (db_jwt_storage (ht_backend t)). as_i64 (as_u64 (js_jwt_hash i)) = js_jwt_hash i"
    unfolding st by simp code_simp
  ultimately have "check_if_token_is_valid ?e ?app ?bl ''jwt''
    = Ok (get_permissions_from_groups (he_externals demo_http_env) (UserId_new (jc_user demo_claims)) (map GroupName (jc_groups demo_claims)))"
    using deleted_user_token_accepted [OF ok v _ _ h _ del bl, of 1] st by simp
  moreover have "get_permissions_from_groups (he_externals demo_http_env) (UserId_new (jc_user demo_claims)) (map GroupName (jc_groups demo_claims))
    = \<lparr>vr_user = UserId ''bob'', vr_permission = Regular\<rparr>" by code_simp
  ultimately show ?thesis using out bl by (auto simp: Let_def t_def [symmetric] s_def [symmetric])
qed

definition is_admin_in :: "externals \<Rightarrow> db \<Rightarrow> user_id \<Rightarrow> bool" where
  "is_admin_in ext s u \<longleftrightarrow> list_ex (\<lambda>g. GroupName_eq ext (grp_display_name g) (GroupName ''lldap_admin'')) (groups_of_user s u)"

lemma bind_pure: "snd (m s) = s \<Longrightarrow> (\<And>x. snd (f x s) = s) \<Longrightarrow> snd (bind m f s) = s"
  by (auto simp: bind_def split: prod.splits result.splits)

lemma on_backend_pure: "snd (m (ht_backend t)) = ht_backend t \<Longrightarrow> snd (on_backend m t) = t"
  by (cases t) (auto simp: on_backend_def split: prod.splits)

lemma register_start_pure: "snd (opaque_register_start e (sql_app e lib cfg rng key url options) req t) = t"
proof -
  have keep: "snd (get_user_groups u s) = s" "snd (sql_registration_start x lib cfg rng q s) = s" for x u q s
    using preservesD [OF reads_inv(4) [of "(=) s"] refl] preservesD [OF opaque_ops_inv(4) [of "(=) s"] refl] by auto
  show ?thesis
    unfolding opaque_register_start_def Let_def
    by (intro bind_pure) (auto simp: lift_result_def sql_backend_def fail_def return_def keep intro!: on_backend_pure bind_pure)
qed

text \<open>
  C17. Who may start to set a password over HTTP: the start of a registration is answered only for a request whose
  token is valid and whose owner may change the password of the named user (for an administrator's password only an
  administrator or that user), and it changes nothing; every other request is refused and changes nothing either.
\<close>

theorem register_start_authorised:
  fixes e :: http_env and t :: "db http_state"
  shows "snd (opaque_register_start e (sql_app e lib cfg rng key url options) req t) = t
    \<and> ((\<exists>resp. fst (opaque_register_start e (sql_app e lib cfg rng key url options) req t) = Ok resp) \<longrightarrow>
        (\<exists>token v start. he_bearer e req = Some token
          \<and> check_if_token_is_valid e (sql_app e lib cfg rng key url options) (ht_jwt_blacklist t) token = Ok v
          \<and> he_registration_json e (rq_payload req) = Some start
          \<and> can_change_password v (rs_username start) (is_admin_in (he_externals e) (ht_backend t) (rs_username start))))"
proof -
  let ?app = "sql_app e lib cfg rng key url options"
  have "\<exists>token v start. he_bearer e req = Some token \<and> check_if_token_is_valid e ?app (ht_jwt_blacklist t) token = Ok v
      \<and> he_registration_json e (rq_payload req) = Some start
      \<and> can_change_password v (rs_username start) (is_admin_in (he_externals e) (ht_backend t) (rs_username start))"
    if run: "opaque_register_start e ?app req t = (Ok resp, t')" for resp t'
  proof -
    obtain v start groups s where *: "(case he_bearer e req of None \<Rightarrow> Err not_authorized
         | Some token \<Rightarrow> map_err (\<lambda>_. not_authorized) (check_if_token_is_valid e ?app (ht_jwt_blacklist t) token)) = Ok v"
      "he_registration_json e (rq_payload req) = Some start"
      "get_user_groups (rs_username start) (ht_backend t) = (Ok groups, s)"
      "can_change_password v (rs_username start)
         (list_ex (\<lambda>g. GroupName_eq (he_externals e) (gd_display_name g) (GroupName ''lldap_admin'')) groups)"
      using run unfolding opaque_register_start_def Let_def
      by (auto simp: bind_Ok_iff sql_backend_def on_backend_Ok_iff fail_def split: if_splits)
    have "groups = map GroupDetails_from (groups_of_user (ht_backend t) (rs_username start))"
      using *(3) by (auto dest: get_user_groups_Ok)
    with * show ?thesis by (auto simp: is_admin_in_def list_ex_iff GroupDetails_from_def split: option.splits)
  qed
  then show ?thesis using register_start_pure by (metis prod.collapse)
qed

theorem register_start_authorised_witness:
  "let app = sql_app demo_http_env toy_lib toy_config id ''key'' ''/'' demo_mail_options;
       req = \<lambda>user. \<lparr>rq_cookies = [], rq_headers = [(''authorization'', ''Bearer jwt'')], rq_match_info = [], rq_payload = user\<rparr>
   in (\<exists>resp. opaque_register_start demo_http_env app (req ''bob'') demo_server = (Ok resp, demo_server))
    \<and> opaque_register_start demo_http_env app (req ''patrick'') demo_server = (Err not_authorized, demo_server)"
proof -
  let ?app = "sql_app demo_http_env toy_lib toy_config id ''key'' ''/'' demo_mail_options"
  let ?req = "\<lambda>user. \<lparr>rq_cookies = [], rq_headers = [(''authorization'', ''Bearer jwt'')], rq_match_info = [], rq_payload = user\<rparr>"
  have "(case fst (opaque_register_start demo_http_env ?app (?req ''bob'') demo_server) of Ok _ \<Rightarrow> True | _ \<Rightarrow> False)" by code_simp
  moreover have "fst (opaque_register_start demo_http_env ?app (?req ''patrick'') demo_server) = Err not_authorized" by code_simp
  moreover have "snd (opaque_register_start demo_http_env ?app r demo_server) = demo_server" for r
    using register_start_authorised by blast
  ultimately show ?thesis by (auto simp: Let_def prod_eq_iff split: result.splits)
qed

text \<open>
  A logout is not authenticated: a request whose refresh cookie names a user, with any text for the token, is
  answered as a successful logout and puts every token of that user on the blacklist.
\<close>

theorem logout_not_authenticated:
  assumes "sessions_ok t" and "wf_user_id u" and "CHR ''+'' \<notin> set x"
    and "map_of (rq_cookies req) ''refresh_token'' = Some (x @ ''+'' @ UserId_as_str u)"
  shows "\<exists>resp t'. handle_auth e (sql_app e lib cfg rng key url options) Logout req t = (Ok resp, t') \<and> hr_status resp = StatusOk
    \<and> (\<forall>j\<in>set (db_jwt_storage (ht_backend t)). js_user_id j = u \<longrightarrow> as_u64 (js_jwt_hash j) \<in> ht_jwt_blacklist t')"
proof -
  have k: "get_refresh_token e req = Ok (he_hash e x, u)"
    using assms(2-4) split_once_append [OF assms(3), of "UserId_as_str u"]
    by (simp add: get_refresh_token_def parse_refresh_token_def UserId_new_as_str)
  then obtain resp where "handle_auth e (sql_app e lib cfg rng key url options) Logout req t = (Ok resp, logged_out (he_hash e x) u t)"
    "hr_status resp = StatusOk" using logout_run [OF k, of lib cfg rng key url options t] by (auto simp: handle_auth_def monad_simps)
  moreover have "as_u64 (js_jwt_hash j) \<in> ht_jwt_blacklist (logged_out (he_hash e x) u t)"
    if j: "j \<in> set (db_jwt_storage (ht_backend t))" "js_user_id j = u" for j
  proof -
    obtain i where "i \<in> set (db_jwt_storage (ht_backend (logged_out (he_hash e x) u t)))" "js_jwt_hash i = js_jwt_hash j" "js_blacklisted i"
      using blacklist_rows_image [OF j(1), of u] j(2) by (auto simp: logged_out_storage)
    then show ?thesis using logged_out_ok [OF assms(1), of "he_hash e x" u] unfolding sessions_ok_def by metis
  qed
  ultimately show ?thesis by blast
qed

theorem logout_not_authenticated_witness:
  "\<exists>resp t'. handle_auth demo_http_env (sql_app demo_http_env toy_lib toy_config id ''key'' ''/'' demo_mail_options) Logout
      demo_logout_request demo_server = (Ok resp, t') \<and> hr_status resp = StatusOk"
proof -
  have "wf_user_id (UserId ''bob'')" by code_simp
  moreover have "map_of (rq_cookies demo_logout_request) ''refresh_token'' = Some (''x'' @ ''+'' @ UserId_as_str (UserId ''bob''))"
    by (simp add: demo_logout_request_def)
  ultimately show ?thesis using logout_not_authenticated [OF demo_server_ok, of "UserId ''bob''" "''x''"] by fastforce
qed

section \<open>Resetting a password\<close>

lemma get_user_id_for_reset_Ok:
  assumes "sql_get_user_id_for_password_reset_token now token s = (Ok u, s')"
  shows "s' = s \<and> (\<exists>r\<in>set (db_password_reset_tokens s). pr_token r = token \<and> now < pr_expiry_date r \<and> pr_user_id r = u)"
  using assms by (auto simp: sql_get_user_id_for_password_reset_token_def return_def fail_def dest!: find_SomeD split: option.splits)

lemma reset_token_deleted:
  "snd (sql_delete_password_reset_token token s)
     = s\<lparr>db_password_reset_tokens := filter (\<lambda>t. pr_token t \<noteq> token) (db_password_reset_tokens s)\<rparr>"
  by (simp add: sql_delete_password_reset_token_def Let_def return_def fail_def)

lemma delete_reset_no_panic: "fst (sql_delete_password_reset_token token s) \<noteq> Panic"
  by (simp add: sql_delete_password_reset_token_def Let_def return_def fail_def)

lemma reset_delete_step:
  "match_action (on_backend (sql_delete_password_reset_token token)) return (\<lambda>_. return ()) t
     = (Ok (), t\<lparr>ht_backend := snd (sql_delete_password_reset_token token (ht_backend t))\<rparr>)"
  using delete_reset_no_panic [of token "ht_backend t"]
  by (cases "sql_delete_password_reset_token token (ht_backend t)"; cases "fst (sql_delete_password_reset_token token (ht_backend t))")
     (auto simp: on_backend_def match_action_def return_def)

definition demo_reset_env :: http_env where
  "demo_reset_env = demo_http_env
     \<lparr>he_jwt_sign := (\<lambda>_ alg c. if alg = Hs512 \<and> c = demo_claims\<lparr>jc_groups := []\<rparr> then Some ''jwt'' else None),
      he_jwt_verify := (\<lambda>_ token. if token = ''jwt'' then Some (Hs512, demo_claims\<lparr>jc_groups := []\<rparr>) else None)\<rparr>"

definition demo_reset_server :: "db http_state" where
  "demo_reset_server = demo_server\<lparr>ht_backend := (ht_backend demo_server)
     \<lparr>db_password_reset_tokens := [\<lparr>pr_token = ''abc'', pr_user_id = UserId ''bob'', pr_expiry_date = 9\<rparr>]\<rparr>\<rparr>"

definition demo_reset_request :: http_request where
  "demo_reset_request = \<lparr>rq_cookies = [], rq_headers = [], rq_match_info = [(''token'', ''abc''), (''user_id'', ''bob'')], rq_payload = []\<rparr>"

text \<open>
  C18. A reset token works once and in time: when the second step of a reset succeeds, the token of the link is one of
  the table that has not expired; the answer is a token for its user that is valid for a day with the permissions
  of a regular user, whatever the user's groups; the reset token is gone, so that a second use is refused.
\<close>

theorem password_reset_once:
  assumes "jwt_ok env" and "map_of (rq_match_info req) ''token'' = Some token"
    and "\<forall>r\<in>set (db_password_reset_tokens (ht_backend t)). wf_user_id (pr_user_id r)"
    and "get_password_reset_step2 (at_time env now sample) (sql_app (at_time env now sample) lib cfg rng key url options) req t = (Ok resp, t')"
  shows "\<exists>r\<in>set (db_password_reset_tokens (ht_backend t)). pr_token r = token \<and> now < pr_expiry_date r
    \<and> (\<exists>jwt. hr_body resp = ResetBody (UserId_as_str (pr_user_id r)) jwt
        \<and> check_if_token_is_valid (at_time env now sample) (sql_app (at_time env now sample) lib cfg rng key url options) {} jwt
            = Ok \<lparr>vr_user = pr_user_id r, vr_permission = Regular\<rparr>)
    \<and> (\<forall>now' sample'. get_password_reset_step2 (at_time env now' sample') (sql_app (at_time env now' sample') lib cfg rng key url options) req t'
        = (Err (TcpNotFoundError ''Wrong or expired reset token''), t'))"
proof -
  let ?e = "at_time env now sample" and ?s = "ht_backend t"
  obtain u t1 jwt where 1: "on_backend (sql_get_user_id_for_password_reset_token now token) t = (Ok u, t1)"
    and 2: "create_jwt ?e (sql_app ?e lib cfg rng key url options) u []
       (t1\<lparr>ht_backend := snd (sql_delete_password_reset_token token (ht_backend t1))\<rparr>) = (Ok jwt, t')"
    and 3: "hr_body resp = ResetBody (UserId_as_str u) jwt"
    using assms(2,4) by (auto simp: get_password_reset_step2_def bind_Ok_iff sql_tcp_backend_def map_err_action_def
        reset_delete_step return_def http_ok_def split: prod.splits)
  obtain r where r: "r \<in> set (db_password_reset_tokens ?s)" "pr_token r = token" "now < pr_expiry_date r" "pr_user_id r = u"
    and t1: "t1 = t" using 1 by (auto simp: on_backend_Ok_iff dest!: get_user_id_for_reset_Ok)
  have wf: "wf_user_id u" using assms(3) r by blast
  have sign: "he_jwt_sign env key Hs512 (login_claims ?e u []) = Some jwt" using create_jwt_Ok [OF 2] by simp
  have gone: "db_password_reset_tokens (ht_backend t') = filter (\<lambda>q. pr_token q \<noteq> token) (db_password_reset_tokens ?s)"
    using create_jwt_Ok [OF 2] by (simp add: t1 reset_token_deleted)
  have "get_permissions_from_groups x u [] = \<lparr>vr_user = u, vr_permission = Regular\<rparr>" for x
    by (simp add: get_permissions_from_groups_def)
  then have "check_if_token_is_valid ?e (sql_app ?e lib cfg rng key url options) {} jwt = Ok \<lparr>vr_user = u, vr_permission = Regular\<rparr>"
    using token_check [OF assms(1) sign wf, of now sample] by (simp add: duration_days_def)
  moreover have "get_password_reset_step2 (at_time env now' sample') (sql_app (at_time env now' sample') lib cfg rng key url options) req t'
        = (Err (TcpNotFoundError ''Wrong or expired reset token''), t')" for now' sample'
  proof -
    have "find (\<lambda>q. pr_token q = token \<and> now' < pr_expiry_date q) (db_password_reset_tokens (ht_backend t')) = None"
      by (auto simp: gone find_None_iff)
    then show ?thesis using assms(2) by (simp add: get_password_reset_step2_def sql_tcp_backend_def on_backend_def
        sql_get_user_id_for_password_reset_token_def monad_simps)
  qed
  ultimately show ?thesis using r 3 by auto
qed

theorem password_reset_once_witness:
  "let e = at_time demo_reset_env 0 (he_sample demo_http_env);
       app = sql_app e toy_lib toy_config id ''key'' ''/'' demo_mail_options;
       (r, t) = get_password_reset_step2 e app demo_reset_request demo_reset_server
   in (\<exists>resp. r = Ok resp \<and> (\<exists>jwt. hr_body resp = ResetBody ''bob'' jwt))
    \<and> get_password_reset_step2 e app demo_reset_request t = (Err (TcpNotFoundError ''Wrong or expired reset token''), t)"
proof -
  let ?e = "at_time demo_reset_env 0 (he_sample demo_http_env)"
  let ?app = "sql_app ?e toy_lib toy_config id ''key'' ''/'' demo_mail_options"
  let ?m = "get_password_reset_step2 ?e ?app demo_reset_request demo_reset_server"
  have "(case fst ?m of Ok _ \<Rightarrow> True | _ \<Rightarrow> False)" by code_simp
  then obtain resp t where run: "?m = (Ok resp, t)" by (cases ?m) (auto split: result.splits)
  have "jwt_ok demo_reset_env" by (auto simp: jwt_ok_def demo_reset_env_def)
  moreover have "map_of (rq_match_info demo_reset_request) ''token'' = Some ''abc''" by (simp add: demo_reset_request_def)
  moreover have "wf_user_id (UserId ''bob'')" by code_simp
  then have "\<forall>r\<in>set (db_password_reset_tokens (ht_backend demo_reset_server)). wf_user_id (pr_user_id r)"
    by (simp add: demo_reset_server_def)
  ultimately show ?thesis using password_reset_once [OF _ _ _ run] run
    by (force simp: demo_reset_server_def)
qed

section \<open>Login state taken for registration state\<close>

text \<open>
  The binary encoding (\<open>bincode\<close>) writes a structure as its fields one after the other, and its \<open>deserialize\<close> ignores
  trailing bytes. The two states the server seals for its clients both start with the user name.
\<close>

definition bincode_prefix_ok :: "opaque_lib \<Rightarrow> bool" where
  "bincode_prefix_ok lib \<longleftrightarrow> (\<forall>u st d. login_data_serialize lib (u, st) = Some d \<longrightarrow> registration_data_deserialize lib d = Some u)"

lemma login_start_Ok:
  assumes "sql_login_start ext lib cfg rng q s = (Ok r, s')"
  shows "s' = s \<and> (\<exists>st d k c. login_data_serialize lib (ls_username q, st) = Some d
    \<and> get_orion_secret_key lib cfg = Ok k \<and> aead_seal lib (rng 1) k d = Some c \<and> lr_server_data r = base64_encode ext c)"
  using assms by (auto simp: sql_login_start_def Let_def bind_Ok_iff get_password_file_for_user_def return_def split: option.splits)
    blast+

text \<open>The toy protocol with an encoding of this kind, the length of a name in unary before it.\<close>

definition length_prefixed :: "string \<Rightarrow> bytes" where
  "length_prefixed s = replicate (length s) (CHR ''1'') @ ''0'' @ s"

definition read_prefixed :: "bytes \<Rightarrow> string" where
  "read_prefixed b = (let n = length (takeWhile ((=) (CHR ''1'')) b) in take n (drop (n + 1) b))"

definition toy_bincode_lib :: opaque_lib where
  "toy_bincode_lib = toy_lib\<lparr>login_data_serialize := (\<lambda>(u, st). Some (length_prefixed (UserId_as_str u) @ st)),
     registration_data_serialize := (\<lambda>u. Some (length_prefixed (UserId_as_str u))),
     registration_data_deserialize := (\<lambda>d. Some (UserId (read_prefixed d)))\<rparr>"

lemma read_prefixed_append: "read_prefixed (length_prefixed s @ r) = s"
proof -
  have "takeWhile ((=) (CHR ''1'')) (replicate n (CHR ''1'') @ CHR ''0'' # l) = replicate n (CHR ''1'')" for n l
    by (induction n) auto
  then show ?thesis by (simp add: read_prefixed_def length_prefixed_def Let_def)
qed

lemma toy_bincode_ok: "bincode_prefix_ok toy_bincode_lib" "sealing_ok toy_bincode_lib toy_config"
  using read_prefixed_append read_prefixed_append [where r = "[]"]
  by (auto simp: bincode_prefix_ok_def sealing_ok_def toy_bincode_lib_def toy_lib_def)

text \<open>
  C20. The state that the start of a login hands out is accepted as the state of a registration: it is sealed with the
  same key and decodes, so two requests that carry no token, the start of a login for a user and the end of a
  registration with an arbitrary upload, replace the stored password of that user by that upload.
\<close>

theorem login_state_sets_password:
  assumes "db_inv (ht_backend t)" and "base64_ok ext" and "sealing_ok lib cfg" and "bincode_prefix_ok lib"
    and "user_exists (ht_backend t) u" and "he_externals e = ext"
    and "opaque_login_start (sql_app e lib cfg rng key url options) \<lparr>ls_username = u, ls_login_start_request = m\<rparr> t = (Ok resp, t1)"
    and "hr_body resp = LoginStartBody start"
  shows "\<exists>resp2 t2. opaque_register_finish (sql_app e lib cfg rng key url options)
      \<lparr>rf_server_data = lr_server_data start, rf_registration_upload = upload\<rparr> t1 = (Ok resp2, t2)
    \<and> map_option usr_password_hash (find_user (ht_backend t2) u)
        = Some (Some (server_registration_serialize lib (server_registration_finish lib upload)))"
proof -
  obtain s1 where "sql_login_start ext lib cfg rng \<lparr>ls_username = u, ls_login_start_request = m\<rparr> (ht_backend t) = (Ok start, s1)"
    and t1: "t1 = t\<lparr>ht_backend := s1\<rparr>"
    using assms(6-8) by (auto simp: opaque_login_start_def bind_Ok_iff on_backend_Ok_iff sql_backend_def return_def http_ok_def)
  then obtain st d k c where d: "login_data_serialize lib (u, st) = Some d" "get_orion_secret_key lib cfg = Ok k"
    "aead_seal lib (rng 1) k d = Some c" "lr_server_data start = base64_encode ext c" and s1: "s1 = ht_backend t"
    by (auto dest!: login_start_Ok)
  have "aead_open lib k c = Some d"
    using assms(3) d(2,3) by (auto simp: sealing_ok_def get_orion_secret_key_def) (metis option.inject)
  moreover have "base64_decode ext (lr_server_data start) = Some c" using assms(2) d(4) by (simp add: base64_ok_def)
  moreover have "registration_data_deserialize lib d = Some u" using assms(4) d(1) by (auto simp: bincode_prefix_ok_def)
  ultimately have run: "sql_registration_finish ext lib cfg \<lparr>rf_server_data = lr_server_data start, rf_registration_upload = upload\<rparr> (ht_backend t)
      = sql_update_user u (\<lambda>r. r\<lparr>usr_password_hash := Some (server_registration_serialize lib (server_registration_finish lib upload))\<rparr>) (ht_backend t)"
    using d(2) by (simp add: sql_registration_finish_def monad_simps)
  note upd = password_update_ok [OF assms(1,5)]
  obtain q where "find_user (ht_backend t) u = Some q" using assms(5) find_user_None by (metis not_None_eq)
  then show ?thesis
    by (simp add: opaque_register_finish_def sql_backend_def on_backend_def t1 s1 assms(6) run upd monad_simps find_user_password)
qed

theorem login_state_sets_password_witness:
  "\<exists>start t2 resp2. let app = sql_app demo_http_env toy_bincode_lib toy_config id ''key'' ''/'' demo_mail_options in
     opaque_register_finish app \<lparr>rf_server_data = start, rf_registration_upload = ''mine''\<rparr> demo_server = (Ok resp2, t2)
     \<and> fst (sql_bind toy_bincode_lib toy_config id \<lparr>br_name = UserId ''bob'', br_password = ''mine''\<rparr> (ht_backend t2)) = Ok ()"
proof -
  let ?app = "sql_app demo_http_env toy_bincode_lib toy_config id ''key'' ''/'' demo_mail_options"
  let ?m = "opaque_login_start ?app \<lparr>ls_username = UserId ''bob'', ls_login_start_request = []\<rparr> demo_server"
  have "(case fst ?m of Ok resp \<Rightarrow> (case hr_body resp of LoginStartBody _ \<Rightarrow> True | _ \<Rightarrow> False) | _ \<Rightarrow> False)" by code_simp
  then obtain resp start t1 where run: "?m = (Ok resp, t1)" and body: "hr_body resp = LoginStartBody start"
    by (cases ?m) (auto split: result.splits http_body.splits)
  have t1: "t1 = demo_server"
    using run by (cases demo_server) (auto simp: opaque_login_start_def bind_Ok_iff on_backend_Ok_iff sql_backend_def return_def dest!: login_start_Ok)
  have inv: "db_inv (ht_backend demo_server)" using demo_server_ok by (simp add: sessions_ok_def)
  have ex: "user_exists (ht_backend demo_server) (UserId ''bob'')" by code_simp
  have "he_externals demo_http_env = ascii_externals" by (simp add: demo_http_env_def)
  from login_state_sets_password [OF inv toy_ok(1) toy_bincode_ok(2,1) ex this run body, of "''mine''"]
  obtain resp2 t2 where fin: "opaque_register_finish ?app \<lparr>rf_server_data = lr_server_data start, rf_registration_upload = ''mine''\<rparr> demo_server = (Ok resp2, t2)"
    and pw: "map_option usr_password_hash (find_user (ht_backend t2) (UserId ''bob''))
        = Some (Some (server_registration_serialize toy_bincode_lib (server_registration_finish toy_bincode_lib ''mine'')))"
    unfolding t1 by blast
  have "fst (sql_bind toy_bincode_lib toy_config id \<lparr>br_name = UserId ''bob'', br_password = ''mine''\<rparr> (ht_backend t2)) = Ok ()"
    using pw by (auto simp: sql_bind_def get_password_file_for_user_def passwords_match_def toy_bincode_lib_def toy_lib_def monad_simps)
  with fin show ?thesis by (auto simp: Let_def)
qed

section \<open>Asking for a reset\<close>

definition named_by :: "externals \<Rightarrow> string \<Rightarrow> users_row \<Rightarrow> bool" where
  "named_by ext name r \<longleftrightarrow> usr_user_id r = UserId_new name \<or> usr_lowercase_email r = str_to_lowercase ext name"

lemma list_users_named:
  assumes "db_inv s"
  shows "list_users ext (Some (UOr [UUserId (UserId_new name), UEquality ColEmail name])) b s
    = (Ok (map (listed_user s) (sort_key (\<lambda>r. UserId_as_str (usr_user_id r)) (filter (named_by ext name) (db_users s)))), s)"
proof -
  let ?c = "UcAny [UcEq ColUserId (UserId_as_str (UserId_new name)), UcEq ColLowercaseEmail (str_to_lowercase ext name)]"
  have "where_users ext s ?c = filter (named_by ext name) (db_users s)"
    by (auto simp: where_users_def named_by_def sql_or_def user_id.expand intro!: filter_cong)
  then show ?thesis
    using list_users_rows [OF assms, where filters = "Some (UOr [UUserId (UserId_new name), UEquality ColEmail name])" and c = ?c]
    by (simp add: get_repeated_filter_def)
qed

lemma reset_for_user_Ok:
  assumes "find_user (ht_backend t) (u_user_id u) \<noteq> None"
    and "reset_for_user e (sql_app e lib cfg rng key url options) u t = (Ok (), t')"
  shows "\<exists>mail link. t' = t\<lparr>ht_backend := (ht_backend t)\<lparr>db_password_reset_tokens := db_password_reset_tokens (ht_backend t)
         @ [\<lparr>pr_token = gen_random_string (he_sample e) 100, pr_user_id = u_user_id u, pr_expiry_date = he_now e + duration_minutes 10\<rparr>]\<rparr>,
         ht_outbox := ht_outbox t @ [mail]\<rparr>
    \<and> ml_parse_mailbox (he_mail e) (Email_as_str (u_email u)) = Some (em_to mail)
    \<and> ml_extend_path (he_mail e) url [''reset-password'', ''step2'', gen_random_string (he_sample e) 100] = Some link
    \<and> em_body mail = reset_body (case u_display_name u of Some n \<Rightarrow> n | None \<Rightarrow> UserId_as_str (u_user_id u)) link"
proof -
  let ?s = "ht_backend t" and ?tok = "gen_random_string (he_sample e) 100" and ?app = "sql_app e lib cfg rng key url options"
  obtain x t1 where st: "on_backend (sql_start_password_reset (he_sample e) (he_now e) (u_user_id u)) t = (Ok x, t1)"
    and rest: "(case x of None \<Rightarrow> return () | Some token \<Rightarrow> send_reset_mail e ?app u token) t1 = (Ok (), t')"
    using assms(2) by (auto simp: reset_for_user_def bind_Ok_iff sql_tcp_backend_def)
  have x: "x = Some ?tok" and t1: "t1 = t\<lparr>ht_backend := ?s\<lparr>db_password_reset_tokens := db_password_reset_tokens ?s
       @ [\<lparr>pr_token = ?tok, pr_user_id = u_user_id u, pr_expiry_date = he_now e + duration_minutes 10\<rparr>]\<rparr>\<rparr>"
    using st assms(1) by (auto simp: on_backend_Ok_iff sql_start_password_reset_def sql_insert_reset_token_def Let_def
        bind_Ok_iff return_def fail_def split: if_splits)
  show ?thesis using rest unfolding x t1
    by (auto simp: send_reset_mail_def dest!: send_password_reset_email_Ok split: prod.splits)
qed

text \<open>
  C19. Asking for a reset by user name or email address: when the request succeeds, either no account is named so and
  nothing happens, or exactly one is, and then one reset token that expires in ten minutes is stored for it and one
  mail is sent, to the address of that account and with the link that carries the token; nothing else changes.
\<close>

theorem password_reset_mail:
  assumes "db_inv (ht_backend t)" and "map_of (rq_match_info req) ''user_id'' = Some name"
    and "get_password_reset_step1 e (sql_app e lib cfg rng key url options) req t = (Ok (), t')"
  defines "named \<equiv> filter (named_by (he_externals e) name) (db_users (ht_backend t))"
  shows "(named = [] \<and> t' = t) \<or> (\<exists>r mail link. named = [r]
    \<and> t' = t\<lparr>ht_backend := (ht_backend t)\<lparr>db_password_reset_tokens := db_password_reset_tokens (ht_backend t)
         @ [\<lparr>pr_token = gen_random_string (he_sample e) 100, pr_user_id = usr_user_id r, pr_expiry_date = he_now e + duration_minutes 10\<rparr>]\<rparr>,
         ht_outbox := ht_outbox t @ [mail]\<rparr>
    \<and> ml_parse_mailbox (he_mail e) (Email_as_str (usr_email r)) = Some (em_to mail)
    \<and> ml_extend_path (he_mail e) url [''reset-password'', ''step2'', gen_random_string (he_sample e) 100] = Some link
    \<and> em_body mail = reset_body (case usr_display_name r of Some n \<Rightarrow> n | None \<Rightarrow> UserId_as_str (usr_user_id r)) link)"
proof -
  let ?s = "ht_backend t" and ?sorted = "sort_key (\<lambda>r. UserId_as_str (usr_user_id r)) named"
  let ?app = "sql_app e lib cfg rng key url options"
  have run: "(case map (listed_user ?s) ?sorted of [] \<Rightarrow> return () | [u] \<Rightarrow> reset_for_user e ?app (ug_user u)
      | _ \<Rightarrow> fail (TcpInternalServerError ''Ambiguous user id or email'')) t = (Ok (), t')"
    using assms(2,3) list_users_named [OF assms(1), of "he_externals e" name False]
    by (simp add: get_password_reset_step1_def sql_backend_def bind_def on_backend_def lift_result_def named_def)
  have "length ?sorted = length named" by simp
  then consider "named = []" | r where "named = [r]" | r1 r2 rs where "?sorted = r1 # r2 # rs"
    by (metis list.exhaust length_Cons length_0_conv nat.distinct(1) nat.inject)
  then show ?thesis
  proof cases
    case 1
    then show ?thesis using run by (simp add: return_def)
  next
    case (2 r)
    have u: "u_user_id (user_view ?s r) = usr_user_id r" "u_email (user_view ?s r) = usr_email r"
      "u_display_name (user_view ?s r) = usr_display_name r" by (simp_all add: user_view_def User_from_def)
    have "r \<in> set (db_users ?s)" using 2 by (auto simp: named_def dest!: arg_cong [where f = set])
    then have "find_user ?s (usr_user_id r) \<noteq> None" using find_user_row [OF assms(1)] by simp
    then show ?thesis using run 2 reset_for_user_Ok [of t "user_view ?s r" e lib cfg rng key url options t']
      by (simp add: listed_user_def u cong: option.case_cong)
  next
    case (3 r1 r2 rs)
    then show ?thesis using run by (simp add: fail_def)
  qed
qed

theorem password_reset_mail_witness:
  "let app = sql_app demo_http_env toy_lib toy_config id ''key'' ''/lldap'' demo_mail_options;
       (r, t) = get_password_reset_step1 demo_http_env app demo_reset_request demo_server
   in r = Ok () \<and> map em_to (ht_outbox t) = [''bob@x.org''] \<and> length (db_password_reset_tokens (ht_backend t)) = 1"
proof -
  let ?app = "sql_app demo_http_env toy_lib toy_config id ''key'' ''/lldap'' demo_mail_options"
  let ?m = "get_password_reset_step1 demo_http_env ?app demo_reset_request demo_server"
  have "fst ?m = Ok ()" by code_simp
  then obtain t where run: "?m = (Ok (), t)" by (cases ?m) simp
  have inv: "db_inv (ht_backend demo_server)" using demo_server_ok by (simp add: sessions_ok_def)
  have name: "map_of (rq_match_info demo_reset_request) ''user_id'' = Some ''bob''" by (simp add: demo_reset_request_def)
  have named: "map usr_email (filter (named_by (he_externals demo_http_env) ''bob'') (db_users (ht_backend demo_server))) = [Email ''bob@x.org'']"
    by code_simp
  have empty: "ht_outbox demo_server = []" "db_password_reset_tokens (ht_backend demo_server) = []" by code_simp+
  have box: "ml_parse_mailbox (he_mail demo_http_env) = Some" by (simp add: demo_http_env_def demo_mail_lib_def)
  show ?thesis using password_reset_mail [OF inv name run] run named empty by (auto simp: Let_def box)
qed

end
