(* ===== verification/Graphql_Query.thy ===== *)
theory Graphql_Query
  imports Ldap_Utils Access_Control
begin

text \<open>
  \<open>server/src/infra/graphql/query.rs\<close> and the context of \<open>server/src/infra/graphql/api.rs\<close>: the query type of the
  GraphQL API, its filters, and the resolvers of the objects it returns. The message of a backend error in an answer
  is the rendering of that error; the model keeps the error itself. The percent-decoding of the \<open>urlencoding\<close> crate
  is an argument of the query that uses it.
\<close>

section \<open>The context of a request\<close>

record 's graphql_context =
  cx_handler :: "'s backend_handler"
  cx_validation_result :: validation_results

datatype field_error = FieldError string | FieldDomainError domain_error

definition field_error_callback :: "string \<Rightarrow> field_error" where
  "field_error_callback error_message = FieldError error_message"

definition context_get_admin_handler :: "'s graphql_context \<Rightarrow> 's admin_backend_handler option" where
  "context_get_admin_handler cx = get_admin_handler (cx_handler cx) (cx_validation_result cx)"

definition context_get_readonly_handler :: "'s graphql_context \<Rightarrow> 's readonly_backend_handler option" where
  "context_get_readonly_handler cx = get_readonly_handler (cx_handler cx) (cx_validation_result cx)"

definition context_get_writeable_handler ::
  "'s graphql_context \<Rightarrow> user_id \<Rightarrow> 's user_writeable_backend_handler option" where
  "context_get_writeable_handler cx user_id = get_writeable_handler (cx_handler cx) (cx_validation_result cx) user_id"

definition context_get_readable_handler ::
  "'s graphql_context \<Rightarrow> user_id \<Rightarrow> 's user_readable_backend_handler option" where
  "context_get_readable_handler cx user_id = get_readable_handler (cx_handler cx) (cx_validation_result cx) user_id"

type_synonym ('s, 'a) field_action = "('s, 'a, field_error) action"

text \<open>A call of the backend from a resolver; \<open>?\<close> turns its error into a \<open>FieldError\<close>.\<close>

definition on_handler :: "('s, 'a) backend_action \<Rightarrow> ('s, 'a) field_action" where
  "on_handler m = map_err_action FieldDomainError m"

text \<open>\<open>ok_or_else(field_error_callback(...))?\<close>.\<close>

definition handler_or :: "string \<Rightarrow> 'h option \<Rightarrow> ('s, 'h) field_action" where
  "handler_or error_message h = lift_result (ok_or (field_error_callback error_message) h)"

section \<open>Request filters\<close>

record equality_constraint =
  eq_field :: string
  eq_value :: string

datatype request_filter = RequestFilter
  (rf_any: "request_filter list option")
  (rf_all: "request_filter list option")
  (rf_not: "request_filter option")
  (rf_eq: "equality_constraint option")
  (rf_member_of: "string option")
  (rf_member_of_id: "int option")

definition convert_equality ::
  "externals \<Rightarrow> public_schema \<Rightarrow> equality_constraint \<Rightarrow> (user_request_filter, field_error) result" where
  "convert_equality ext schema eq =
     (case map_user_field (AttributeName_from (eq_field eq)) schema of
        UFNoMatch \<Rightarrow> Err (FieldError (''Unknown request filter: '' @ eq_field eq))
      | UFPrimaryField ColUserId \<Rightarrow> Ok (UUserId (UserId_new (eq_value eq)))
      | UFPrimaryField column \<Rightarrow> Ok (UEquality column (eq_value eq))
      | UFAttribute name typ False \<Rightarrow>
          bind_result (map_err (\<lambda>_. FieldError (''While deserializing attribute '' @ AttributeName_as_str name))
              (deserialize_attribute_value ext [eq_value eq] typ False)) (\<lambda>value.
            Ok (UAttributeEquality name value))
      | UFAttribute _ _ True \<Rightarrow> Err (FieldError ''Equality not supported for list fields'')
      | UFMemberOf \<Rightarrow> Ok (UMemberOf (GroupName (eq_value eq)))
      | UFObjectClass \<Rightarrow> Err (FieldError ''Ldap fields not supported in request filter'')
      | UFDn \<Rightarrow> Err (FieldError ''Ldap fields not supported in request filter'')
      | UFEntryDn \<Rightarrow> Err (FieldError ''Ldap fields not supported in request filter''))"

fun try_into_domain_filter ::
  "externals \<Rightarrow> public_schema \<Rightarrow> request_filter \<Rightarrow> (user_request_filter, field_error) result" where
  "try_into_domain_filter ext schema (RequestFilter any all not_f eq member_of member_of_id) =
     (case (eq, any, all, not_f, member_of, member_of_id) of
        (Some eq, None, None, None, None, None) \<Rightarrow> convert_equality ext schema eq
      | (None, Some any, None, None, None, None) \<Rightarrow>
          bind_result (collect_results (try_into_domain_filter ext schema) any) (\<lambda>fs. Ok (UOr fs))
      | (None, None, Some all, None, None, None) \<Rightarrow>
          bind_result (collect_results (try_into_domain_filter ext schema) all) (\<lambda>fs. Ok (UAnd fs))
      | (None, None, None, Some f, None, None) \<Rightarrow>
          bind_result (try_into_domain_filter ext schema f) (\<lambda>g. Ok (UNot g))
      | (None, None, None, None, Some name, None) \<Rightarrow> Ok (UMemberOf (GroupName name))
      | (None, None, None, None, None, Some group_id) \<Rightarrow> Ok (UMemberOfId (GroupId group_id))
      | (None, None, None, None, None, None) \<Rightarrow> Err (FieldError ''No field specified in request filter'')
      | _ \<Rightarrow> Err (FieldError ''Multiple fields specified in request filter''))"

section \<open>The objects returned\<close>

text \<open>The phantom fields of the structs and the \<open>Arc\<close> around the schema are left out.\<close>

record gql_attribute_value =
  ga_attribute :: attribute_value
  ga_schema :: attribute_schema

definition from_schema :: "attribute_value \<Rightarrow> attribute_list \<Rightarrow> (gql_attribute_value, field_error) result" where
  "from_schema a schema = (case get_attribute_schema schema (av_name a) of
       Some s \<Rightarrow> Ok \<lparr>ga_attribute = a, ga_schema = s\<rparr>
     | None \<Rightarrow> Err (FieldError (''Unknown attribute '' @ AttributeName_as_str (av_name a))))"

record gql_group =
  gg_group_id :: int
  gg_display_name :: string
  gg_creation_date :: naive_date_time
  gg_uuid :: string
  gg_attributes :: "gql_attribute_value list"
  gg_schema :: public_schema

definition from_group :: "group \<Rightarrow> public_schema \<Rightarrow> (gql_group, field_error) result" where
  "from_group gr schema =
     bind_result (collect_results (\<lambda>a. from_schema a (group_attributes (get_schema schema))) (g_attributes gr)) (\<lambda>attributes.
     Ok \<lparr>gg_group_id = group_id_int (g_id gr), gg_display_name = GroupName_as_str (g_display_name gr),
         gg_creation_date = g_creation_date gr, gg_uuid = Uuid_as_str (g_uuid gr),
         gg_attributes = attributes, gg_schema = schema\<rparr>)"

definition from_group_details :: "group_details \<Rightarrow> public_schema \<Rightarrow> (gql_group, field_error) result" where
  "from_group_details group_details schema =
     bind_result (collect_results (\<lambda>a. from_schema a (group_attributes (get_schema schema))) (gd_attributes group_details)) (\<lambda>attributes.
     Ok \<lparr>gg_group_id = group_id_int (gd_group_id group_details), gg_display_name = GroupName_as_str (gd_display_name group_details),
         gg_creation_date = gd_creation_date group_details, gg_uuid = Uuid_as_str (gd_uuid group_details),
         gg_attributes = attributes, gg_schema = schema\<rparr>)"

record gql_user =
  gu_user :: user
  gu_attributes :: "gql_attribute_value list"
  gu_schema :: public_schema
  gu_groups :: "gql_group list option"

text \<open>\<open>mem::take\<close> leaves the user without attributes.\<close>

definition from_user :: "user \<Rightarrow> public_schema \<Rightarrow> (gql_user, field_error) result" where
  "from_user user schema =
     bind_result (collect_results (\<lambda>a. from_schema a (user_attributes (get_schema schema))) (u_attributes user)) (\<lambda>attributes.
     Ok \<lparr>gu_user = user\<lparr>u_attributes := []\<rparr>, gu_attributes = attributes, gu_schema = schema, gu_groups = None\<rparr>)"

definition from_user_and_groups :: "user_and_groups \<Rightarrow> public_schema \<Rightarrow> (gql_user, field_error) result" where
  "from_user_and_groups ug schema =
     bind_result (from_user (ug_user ug) schema) (\<lambda>user.
     case ug_groups ug of
       None \<Rightarrow> Ok user
     | Some groups \<Rightarrow> bind_result (collect_results (\<lambda>g. from_group_details g schema) groups) (\<lambda>gs.
         Ok (user\<lparr>gu_groups := Some gs\<rparr>)))"

section \<open>Resolvers of attributes\<close>

text \<open>The text of a decoded value, by its type.\<close>

fun data_to_strings :: "externals \<Rightarrow> attribute_data \<Rightarrow> string list" where
  "data_to_strings ext (DString s) = [s]"
| "data_to_strings ext (DInteger i) = [i64_to_string i]"
| "data_to_strings ext (DJpegPhoto p) = [JpegPhoto_to_string ext p]"
| "data_to_strings ext (DDateTime d) = [to_rfc3339 ext d]"
| "data_to_strings ext (DStrings ss) = ss"
| "data_to_strings ext (DIntegers is) = map i64_to_string is"
| "data_to_strings ext (DJpegPhotos ps) = map (JpegPhoto_to_string ext) ps"
| "data_to_strings ext (DDateTimes ds) = map (to_rfc3339 ext) ds"

definition serialize_attribute :: "externals \<Rightarrow> attribute_value \<Rightarrow> attribute_schema \<Rightarrow> (string list, 'e) result" where
  "serialize_attribute ext attribute attribute_schema =
     map_ok (data_to_strings ext)
       (Serialized_unwrap ext (as_attribute_type attribute_schema, as_is_list attribute_schema) (av_value attribute))"

definition attribute_value_value :: "externals \<Rightarrow> gql_attribute_value \<Rightarrow> (string list, field_error) result" where
  "attribute_value_value ext v = serialize_attribute ext (ga_attribute v) (ga_schema v)"

text \<open>\<open>user.attributes.iter().find(...)\<close>, decoded at a type.\<close>

definition find_attribute_data ::
  "externals \<Rightarrow> gql_user \<Rightarrow> string \<Rightarrow> attribute_type \<Rightarrow> (attribute_data option, 'e) result" where
  "find_attribute_data ext user name typ =
     (case find (\<lambda>a. AttributeName_as_str (av_name a) = name) (u_attributes (gu_user user)) of
        None \<Rightarrow> Ok None
      | Some a \<Rightarrow> map_ok Some (Serialized_unwrap ext (typ, False) (av_value a)))"

definition user_first_name :: "externals \<Rightarrow> gql_user \<Rightarrow> (string, 'e) result" where
  "user_first_name ext user = map_ok (\<lambda>v. case v of Some (DString s) \<Rightarrow> s | _ \<Rightarrow> [])
     (find_attribute_data ext user ''first_name'' AttrString)"

definition user_last_name :: "externals \<Rightarrow> gql_user \<Rightarrow> (string, 'e) result" where
  "user_last_name ext user = map_ok (\<lambda>v. case v of Some (DString s) \<Rightarrow> s | _ \<Rightarrow> [])
     (find_attribute_data ext user ''last_name'' AttrString)"

definition user_avatar :: "externals \<Rightarrow> gql_user \<Rightarrow> (string option, 'e) result" where
  "user_avatar ext user = map_ok (\<lambda>v. case v of Some (DJpegPhoto p) \<Rightarrow> Some (JpegPhoto_to_string ext p) | _ \<Rightarrow> None)
     (find_attribute_data ext user ''avatar'' AttrJpegPhoto)"

definition user_display_name :: "gql_user \<Rightarrow> string" where
  "user_display_name user = (case u_display_name (gu_user user) of Some n \<Rightarrow> n | None \<Rightarrow> [])"

section \<open>Queries\<close>

definition api_version :: string where
  "api_version = ''1.0''"

text \<open>The schema shown to the caller, which leaves out the attributes the caller may not see.\<close>

definition query_get_schema :: "'s graphql_context \<Rightarrow> ('s, public_schema) field_action" where
  "query_get_schema cx =
     on_handler (map_action PublicSchema_from (restricted_get_schema (bh_get_schema (cx_handler cx))
       (restricted_user_filter (cx_validation_result cx))))"

definition query_user :: "(string \<Rightarrow> string option) \<Rightarrow> 's graphql_context \<Rightarrow> string \<Rightarrow> ('s, gql_user) field_action" where
  "query_user urldecode cx user_id =
     bind (lift_result (ok_or (FieldError ''Invalid user parameter'') (urldecode user_id))) (\<lambda>user_id.
     let user_id = UserId_new user_id in
     bind (handler_or ''Unauthorized access to user data'' (context_get_readable_handler cx user_id)) (\<lambda>handler.
     bind (query_get_schema cx) (\<lambda>schema.
     bind (on_handler (ur_get_user_details handler user_id)) (\<lambda>user.
     lift_result (from_user user schema)))))"

definition query_users ::
  "externals \<Rightarrow> 's graphql_context \<Rightarrow> request_filter option \<Rightarrow> ('s, gql_user list) field_action" where
  "query_users ext cx filters =
     bind (handler_or ''Unauthorized access to user list'' (context_get_readonly_handler cx)) (\<lambda>handler.
     bind (query_get_schema cx) (\<lambda>schema.
     bind (lift_result (case filters of None \<Rightarrow> Ok None
         | Some f \<Rightarrow> map_ok Some (try_into_domain_filter ext schema f))) (\<lambda>domain_filter.
     bind (on_handler (ro_list_users handler domain_filter False)) (\<lambda>users.
     lift_result (collect_results (\<lambda>u. from_user_and_groups u schema) users)))))"

definition query_groups :: "'s graphql_context \<Rightarrow> ('s, gql_group list) field_action" where
  "query_groups cx =
     bind (handler_or ''Unauthorized access to group list'' (context_get_readonly_handler cx)) (\<lambda>handler.
     bind (query_get_schema cx) (\<lambda>schema.
     bind (on_handler (ro_list_groups handler None)) (\<lambda>domain_groups.
     lift_result (collect_results (\<lambda>g. from_group g schema) domain_groups))))"

definition query_group :: "'s graphql_context \<Rightarrow> int \<Rightarrow> ('s, gql_group) field_action" where
  "query_group cx group_id =
     bind (handler_or ''Unauthorized access to group data'' (context_get_readonly_handler cx)) (\<lambda>handler.
     bind (query_get_schema cx) (\<lambda>schema.
     bind (on_handler (ro_get_group_details handler (GroupId group_id))) (\<lambda>group_details.
     lift_result (from_group_details group_details schema))))"

definition query_schema :: "'s graphql_context \<Rightarrow> ('s, public_schema) field_action" where
  "query_schema cx = query_get_schema cx"

text \<open>The schema object: its two lists, each with its extra object classes.\<close>

definition schema_user_schema :: "public_schema \<Rightarrow> attribute_list \<times> string list" where
  "schema_user_schema s = (user_attributes (get_schema s), map LdapObjectClass_as_str (extra_user_object_classes (get_schema s)))"

definition schema_group_schema :: "public_schema \<Rightarrow> attribute_list \<times> string list" where
  "schema_group_schema s = (group_attributes (get_schema s), map LdapObjectClass_as_str (extra_group_object_classes (get_schema s)))"

section \<open>Resolvers that read the backend\<close>

text \<open>The \<open>expect\<close> of the readable handler is the panic.\<close>

definition user_groups :: "'s graphql_context \<Rightarrow> gql_user \<Rightarrow> ('s, gql_group list) field_action" where
  "user_groups cx user =
     (case gu_groups user of
        Some groups \<Rightarrow> return groups
      | None \<Rightarrow>
          bind (lift_result (case context_get_readable_handler cx (u_user_id (gu_user user)) of None \<Rightarrow> Panic | Some h \<Rightarrow> Ok h)) (\<lambda>handler.
          bind (on_handler (ur_get_user_groups handler (u_user_id (gu_user user)))) (\<lambda>domain_groups.
          bind (lift_result (collect_results (\<lambda>g. from_group_details g (gu_schema user)) domain_groups)) (\<lambda>groups.
          return (sort_key gg_display_name groups)))))"

definition group_users :: "'s graphql_context \<Rightarrow> gql_group \<Rightarrow> ('s, gql_user list) field_action" where
  "group_users cx gr =
     bind (handler_or ''Unauthorized access to group data'' (context_get_readonly_handler cx)) (\<lambda>handler.
     bind (on_handler (ro_list_users handler (Some (UMemberOfId (GroupId (gg_group_id gr)))) False)) (\<lambda>domain_users.
     lift_result (collect_results (\<lambda>u. from_user_and_groups u (gg_schema gr)) domain_users)))"

end
