(* ===== verification/Graphql_Mutation.thy ===== *)
theory Graphql_Mutation
  imports Graphql_Query
begin

text \<open>
  \<open>server/src/infra/graphql/mutation.rs\<close>: the mutations of the GraphQL API, each with its permission check, its
  guards and the backend call it makes.
\<close>

section \<open>Inputs\<close>

record attribute_value_input =
  ai_name :: string
  ai_value :: "string list"

record create_user_input =
  cui_id :: string
  cui_email :: string
  cui_display_name :: "string option"
  cui_first_name :: "string option"
  cui_last_name :: "string option"
  cui_avatar :: "string option"
  cui_attributes :: "attribute_value_input list option"

record create_group_input =
  cgi_display_name :: string
  cgi_attributes :: "attribute_value_input list option"

record update_user_input =
  uui_id :: string
  uui_email :: "string option"
  uui_display_name :: "string option"
  uui_first_name :: "string option"
  uui_last_name :: "string option"
  uui_avatar :: "string option"
  uui_remove_attributes :: "string list option"
  uui_insert_attributes :: "attribute_value_input list option"

record update_group_input =
  ugi_id :: int
  ugi_display_name :: "string option"
  ugi_remove_attributes :: "string list option"
  ugi_insert_attributes :: "attribute_value_input list option"

datatype success = Success

definition unwrap_or_default :: "'a list option \<Rightarrow> 'a list" where
  "unwrap_or_default v = (case v of Some l \<Rightarrow> l | None \<Rightarrow> [])"

section \<open>Attributes and photos\<close>

definition deserialize_attribute ::
  "externals \<Rightarrow> attribute_list \<Rightarrow> attribute_value_input \<Rightarrow> bool \<Rightarrow> (attribute_value, field_error) result" where
  "deserialize_attribute ext attribute_schema attribute admin =
     (let attribute_name = AttributeName_from (ai_name attribute) in
      bind_result (ok_or (FieldError (''Attribute '' @ ai_name attribute @ '' is not defined in the schema''))
          (get_attribute_schema attribute_schema attribute_name)) (\<lambda>attribute_schema.
      if \<not> admin \<and> \<not> as_is_editable attribute_schema then
        Err (FieldError (''Permission denied: Attribute '' @ ai_name attribute @ '' is not editable by regular users''))
      else
        bind_result (map_err (\<lambda>_. FieldError (''While deserializing attribute '' @ ai_name attribute))
            (deserialize_attribute_value ext (ai_value attribute) (as_attribute_type attribute_schema)
              (as_is_list attribute_schema))) (\<lambda>deserialized_values.
        Ok \<lparr>av_name = attribute_name, av_value = deserialized_values\<rparr>)))"

definition decode_avatar :: "externals \<Rightarrow> string option \<Rightarrow> (jpeg_photo option, field_error) result" where
  "decode_avatar ext avatar =
     (case avatar of
        None \<Rightarrow> Ok None
      | Some text \<Rightarrow>
          bind_result (ok_or (FieldError ''Invalid base64 image'') (base64_decode ext text)) (\<lambda>b.
          map_ok Some (ok_or (FieldError ''Provided image is not a valid JPEG'') (JpegPhoto_try_from_bytes ext b))))"

section \<open>Users\<close>

definition mutation_create_user ::
  "externals \<Rightarrow> 's graphql_context \<Rightarrow> create_user_input \<Rightarrow> ('s, gql_user) field_action" where
  "mutation_create_user ext cx user =
     bind (handler_or ''Unauthorized user creation'' (context_get_admin_handler cx)) (\<lambda>handler.
     let user_id = UserId_new (cui_id user) in
     bind (lift_result (decode_avatar ext (cui_avatar user))) (\<lambda>avatar.
     bind (on_handler (ur_get_schema handler)) (\<lambda>schema.
     bind (lift_result (collect_results (\<lambda>attr. deserialize_attribute ext (user_attributes (get_schema schema)) attr True)
         (unwrap_or_default (cui_attributes user)))) (\<lambda>attributes.
     bind (on_handler (ad_create_user handler
         \<lparr>cu_user_id = user_id, cu_email = Email (cui_email user), cu_display_name = cui_display_name user,
          cu_first_name = cui_first_name user, cu_last_name = cui_last_name user, cu_avatar = avatar,
          cu_attributes = attributes\<rparr>)) (\<lambda>_.
     bind (on_handler (ur_get_user_details handler user_id)) (\<lambda>user_details.
     lift_result (from_user user_details schema)))))))"

definition mutation_update_user ::
  "externals \<Rightarrow> 's graphql_context \<Rightarrow> update_user_input \<Rightarrow> ('s, success) field_action" where
  "mutation_update_user ext cx user =
     (let user_id = UserId_new (uui_id user) in
     bind (handler_or ''Unauthorized user update'' (context_get_writeable_handler cx user_id)) (\<lambda>handler.
     let admin = is_admin (cx_validation_result cx) in
     bind (lift_result (decode_avatar ext (uui_avatar user))) (\<lambda>avatar.
     bind (on_handler (ur_get_schema handler)) (\<lambda>schema.
     bind (lift_result (collect_results (\<lambda>attr. deserialize_attribute ext (user_attributes (get_schema schema)) attr admin)
         (unwrap_or_default (uui_insert_attributes user)))) (\<lambda>insert_attributes.
     bind (on_handler (uw_update_user handler
         \<lparr>uu_user_id = user_id, uu_email = map_option Email (uui_email user), uu_display_name = uui_display_name user,
          uu_first_name = uui_first_name user, uu_last_name = uui_last_name user, uu_avatar = avatar,
          uu_delete_attributes = map AttributeName_from (unwrap_or_default (uui_remove_attributes user)),
          uu_insert_attributes = insert_attributes\<rparr>)) (\<lambda>_.
     return Success))))))"

definition mutation_delete_user :: "'s graphql_context \<Rightarrow> string \<Rightarrow> ('s, success) field_action" where
  "mutation_delete_user cx user_id =
     (let user_id = UserId_new user_id in
     bind (handler_or ''Unauthorized user deletion'' (context_get_admin_handler cx)) (\<lambda>handler.
     if vr_user (cx_validation_result cx) = user_id then fail (FieldError ''Cannot delete current user'')
     else bind (on_handler (ad_delete_user handler user_id)) (\<lambda>_. return Success)))"

section \<open>Groups and memberships\<close>

definition create_group_with_details ::
  "externals \<Rightarrow> 's graphql_context \<Rightarrow> create_group_input \<Rightarrow> ('s, gql_group) field_action" where
  "create_group_with_details ext cx request =
     bind (handler_or ''Unauthorized group creation'' (context_get_admin_handler cx)) (\<lambda>handler.
     bind (on_handler (ur_get_schema handler)) (\<lambda>schema.
     bind (lift_result (collect_results (\<lambda>attr. deserialize_attribute ext (group_attributes (get_schema schema)) attr True)
         (unwrap_or_default (cgi_attributes request)))) (\<lambda>attributes.
     bind (on_handler (ad_create_group handler
         \<lparr>cg_display_name = GroupName (cgi_display_name request), cg_attributes = attributes\<rparr>)) (\<lambda>group_id.
     bind (on_handler (ro_get_group_details handler group_id)) (\<lambda>group_details.
     lift_result (from_group_details group_details schema))))))"

definition mutation_create_group :: "externals \<Rightarrow> 's graphql_context \<Rightarrow> string \<Rightarrow> ('s, gql_group) field_action" where
  "mutation_create_group ext cx name =
     create_group_with_details ext cx \<lparr>cgi_display_name = name, cgi_attributes = Some []\<rparr>"

definition mutation_create_group_with_details ::
  "externals \<Rightarrow> 's graphql_context \<Rightarrow> create_group_input \<Rightarrow> ('s, gql_group) field_action" where
  "mutation_create_group_with_details ext cx request = create_group_with_details ext cx request"

definition mutation_update_group ::
  "externals \<Rightarrow> 's graphql_context \<Rightarrow> update_group_input \<Rightarrow> ('s, success) field_action" where
  "mutation_update_group ext cx gr =
     bind (handler_or ''Unauthorized group update'' (context_get_admin_handler cx)) (\<lambda>handler.
     if ugi_id gr = 1 \<and> ugi_display_name gr \<noteq> None then fail (FieldError ''Cannot change lldap_admin group name'')
     else bind (on_handler (ur_get_schema handler)) (\<lambda>schema.
     bind (lift_result (collect_results (\<lambda>attr. deserialize_attribute ext (group_attributes (get_schema schema)) attr True)
         (unwrap_or_default (ugi_insert_attributes gr)))) (\<lambda>insert_attributes.
     bind (on_handler (ad_update_group handler
         \<lparr>upg_group_id = GroupId (ugi_id gr), upg_display_name = map_option GroupName (ugi_display_name gr),
          upg_delete_attributes = map AttributeName_from (unwrap_or_default (ugi_remove_attributes gr)),
          upg_insert_attributes = insert_attributes\<rparr>)) (\<lambda>_.
     return Success))))"

definition mutation_add_user_to_group :: "'s graphql_context \<Rightarrow> string \<Rightarrow> int \<Rightarrow> ('s, success) field_action" where
  "mutation_add_user_to_group cx user_id group_id =
     bind (handler_or ''Unauthorized group membership modification'' (context_get_admin_handler cx)) (\<lambda>handler.
     bind (on_handler (ad_add_user_to_group handler (UserId_new user_id) (GroupId group_id))) (\<lambda>_. return Success))"

definition mutation_remove_user_from_group :: "'s graphql_context \<Rightarrow> string \<Rightarrow> int \<Rightarrow> ('s, success) field_action" where
  "mutation_remove_user_from_group cx user_id group_id =
     bind (handler_or ''Unauthorized group membership modification'' (context_get_admin_handler cx)) (\<lambda>handler.
     let user_id = UserId_new user_id in
     if vr_user (cx_validation_result cx) = user_id \<and> group_id = 1
     then fail (FieldError ''Cannot remove admin rights for current user'')
     else bind (on_handler (ad_remove_user_from_group handler user_id (GroupId group_id))) (\<lambda>_. return Success))"

definition mutation_delete_group :: "'s graphql_context \<Rightarrow> int \<Rightarrow> ('s, success) field_action" where
  "mutation_delete_group cx group_id =
     bind (handler_or ''Unauthorized group deletion'' (context_get_admin_handler cx)) (\<lambda>handler.
     if group_id = 1 then fail (FieldError ''Cannot delete admin group'')
     else bind (on_handler (ad_delete_group handler (GroupId group_id))) (\<lambda>_. return Success))"

section \<open>The schema\<close>

definition mutation_add_user_attribute ::
  "'s graphql_context \<Rightarrow> string \<Rightarrow> attribute_type \<Rightarrow> bool \<Rightarrow> bool \<Rightarrow> bool \<Rightarrow> ('s, success) field_action" where
  "mutation_add_user_attribute cx name attribute_type is_list is_visible is_editable =
     bind (handler_or ''Unauthorized attribute creation'' (context_get_admin_handler cx)) (\<lambda>handler.
     bind (on_handler (ad_add_user_attribute handler
         \<lparr>ca_name = AttributeName_from name, ca_attribute_type = attribute_type, ca_is_list = is_list,
          ca_is_visible = is_visible, ca_is_editable = is_editable\<rparr>)) (\<lambda>_. return Success))"

definition mutation_add_group_attribute ::
  "'s graphql_context \<Rightarrow> string \<Rightarrow> attribute_type \<Rightarrow> bool \<Rightarrow> bool \<Rightarrow> bool \<Rightarrow> ('s, success) field_action" where
  "mutation_add_group_attribute cx name attribute_type is_list is_visible is_editable =
     bind (handler_or ''Unauthorized attribute creation'' (context_get_admin_handler cx)) (\<lambda>handler.
     bind (on_handler (ad_add_group_attribute handler
         \<lparr>ca_name = AttributeName_from name, ca_attribute_type = attribute_type, ca_is_list = is_list,
          ca_is_visible = is_visible, ca_is_editable = is_editable\<rparr>)) (\<lambda>_. return Success))"

definition mutation_delete_user_attribute :: "'s graphql_context \<Rightarrow> string \<Rightarrow> ('s, success) field_action" where
  "mutation_delete_user_attribute cx name =
     (let name = AttributeName_from name in
     bind (handler_or ''Unauthorized attribute deletion'' (context_get_admin_handler cx)) (\<lambda>handler.
     bind (on_handler (ur_get_schema handler)) (\<lambda>schema.
     bind (lift_result (ok_or (FieldError (''Attribute '' @ AttributeName_as_str name @ '' is not defined in the schema''))
         (get_attribute_schema (user_attributes (get_schema schema)) name))) (\<lambda>attribute_schema.
     if as_is_hardcoded attribute_schema
     then fail (FieldError (''Permission denied: Attribute '' @ AttributeName_as_str name @ '' cannot be deleted''))
     else bind (on_handler (ad_delete_user_attribute handler name)) (\<lambda>_. return Success)))))"

definition mutation_delete_group_attribute :: "'s graphql_context \<Rightarrow> string \<Rightarrow> ('s, success) field_action" where
  "mutation_delete_group_attribute cx name =
     (let name = AttributeName_from name in
     bind (handler_or ''Unauthorized attribute deletion'' (context_get_admin_handler cx)) (\<lambda>handler.
     bind (on_handler (ur_get_schema handler)) (\<lambda>schema.
     bind (lift_result (ok_or (FieldError (''Attribute '' @ AttributeName_as_str name @ '' is not defined in the schema''))
         (get_attribute_schema (group_attributes (get_schema schema)) name))) (\<lambda>attribute_schema.
     if as_is_hardcoded attribute_schema
     then fail (FieldError (''Permission denied: Attribute '' @ AttributeName_as_str name @ '' cannot be deleted''))
     else bind (on_handler (ad_delete_group_attribute handler name)) (\<lambda>_. return Success)))))"

definition mutation_add_user_object_class :: "'s graphql_context \<Rightarrow> string \<Rightarrow> ('s, success) field_action" where
  "mutation_add_user_object_class cx name =
     bind (handler_or ''Unauthorized object class addition'' (context_get_admin_handler cx)) (\<lambda>handler.
     bind (on_handler (ad_add_user_object_class handler (LdapObjectClass name))) (\<lambda>_. return Success))"

definition mutation_add_group_object_class :: "'s graphql_context \<Rightarrow> string \<Rightarrow> ('s, success) field_action" where
  "mutation_add_group_object_class cx name =
     bind (handler_or ''Unauthorized object class addition'' (context_get_admin_handler cx)) (\<lambda>handler.
     bind (on_handler (ad_add_group_object_class handler (LdapObjectClass name))) (\<lambda>_. return Success))"

definition mutation_delete_user_object_class :: "'s graphql_context \<Rightarrow> string \<Rightarrow> ('s, success) field_action" where
  "mutation_delete_user_object_class cx name =
     bind (handler_or ''Unauthorized object class deletion'' (context_get_admin_handler cx)) (\<lambda>handler.
     bind (on_handler (ad_delete_user_object_class handler (LdapObjectClass name))) (\<lambda>_. return Success))"

definition mutation_delete_group_object_class :: "'s graphql_context \<Rightarrow> string \<Rightarrow> ('s, success) field_action" where
  "mutation_delete_group_object_class cx name =
     bind (handler_or ''Unauthorized object class deletion'' (context_get_admin_handler cx)) (\<lambda>handler.
     bind (on_handler (ad_delete_group_object_class handler (LdapObjectClass name))) (\<lambda>_. return Success))"

end
