(* ===== verification/Graphql_Api.thy ===== *)
theory Graphql_Api
  imports Graphql_Mutation Auth_Service
begin

text \<open>
  \<open>server/src/infra/graphql/api.rs\<close>: the HTTP route of the GraphQL API. Parsing and validating a document is the
  work of the \<open>juniper\<close> and \<open>serde_json\<close> crates, the fields of \<open>graphql_lib\<close>; a request that passes names one field of
  the root objects, with its arguments (\<open>graphql_call\<close>), and \<open>execute_call\<close> is the resolver \<open>juniper\<close> calls for it. A
  document that names several fields calls their resolvers one after the other.
\<close>

section \<open>Root fields\<close>

datatype graphql_call =
    ApiVersion
  | QueryUser string
  | QueryUsers "request_filter option"
  | QueryGroups
  | QueryGroup int
  | QuerySchema
  | CreateUser create_user_input
  | CreateGroup string
  | CreateGroupWithDetails create_group_input
  | UpdateUser update_user_input
  | UpdateGroup update_group_input
  | AddUserToGroup string int
  | RemoveUserFromGroup string int
  | DeleteUser string
  | DeleteGroup int
  | AddUserAttribute string attribute_type bool bool bool
  | AddGroupAttribute string attribute_type bool bool bool
  | DeleteUserAttribute string
  | DeleteGroupAttribute string
  | AddUserObjectClass string
  | AddGroupObjectClass string
  | DeleteUserObjectClass string
  | DeleteGroupObjectClass string

datatype graphql_answer =
    AnswerText string
  | AnswerUser gql_user
  | AnswerUsers "gql_user list"
  | AnswerGroup gql_group
  | AnswerGroups "gql_group list"
  | AnswerSchema public_schema
  | AnswerSuccess success

fun execute_call ::
  "externals \<Rightarrow> (string \<Rightarrow> string option) \<Rightarrow> 's graphql_context \<Rightarrow> graphql_call \<Rightarrow> ('s, graphql_answer) field_action" where
  "execute_call ext urldecode cx ApiVersion = return (AnswerText api_version)"
| "execute_call ext urldecode cx (QueryUser u) = map_action AnswerUser (query_user urldecode cx u)"
| "execute_call ext urldecode cx (QueryUsers f) = map_action AnswerUsers (query_users ext cx f)"
| "execute_call ext urldecode cx QueryGroups = map_action AnswerGroups (query_groups cx)"
| "execute_call ext urldecode cx (QueryGroup g) = map_action AnswerGroup (query_group cx g)"
| "execute_call ext urldecode cx QuerySchema = map_action AnswerSchema (query_schema cx)"
| "execute_call ext urldecode cx (CreateUser i) = map_action AnswerUser (mutation_create_user ext cx i)"
| "execute_call ext urldecode cx (CreateGroup n) = map_action AnswerGroup (mutation_create_group ext cx n)"
| "execute_call ext urldecode cx (CreateGroupWithDetails i) = map_action AnswerGroup (mutation_create_group_with_details ext cx i)"
| "execute_call ext urldecode cx (UpdateUser i) = map_action AnswerSuccess (mutation_update_user ext cx i)"
| "execute_call ext urldecode cx (UpdateGroup i) = map_action AnswerSuccess (mutation_update_group ext cx i)"
| "execute_call ext urldecode cx (AddUserToGroup u g) = map_action AnswerSuccess (mutation_add_user_to_group cx u g)"
| "execute_call ext urldecode cx (RemoveUserFromGroup u g) = map_action AnswerSuccess (mutation_remove_user_from_group cx u g)"
| "execute_call ext urldecode cx (DeleteUser u) = map_action AnswerSuccess (mutation_delete_user cx u)"
| "execute_call ext urldecode cx (DeleteGroup g) = map_action AnswerSuccess (mutation_delete_group cx g)"
| "execute_call ext urldecode cx (AddUserAttribute n t l v e) = map_action AnswerSuccess (mutation_add_user_attribute cx n t l v e)"
| "execute_call ext urldecode cx (AddGroupAttribute n t l v e) = map_action AnswerSuccess (mutation_add_group_attribute cx n t l v e)"
| "execute_call ext urldecode cx (DeleteUserAttribute n) = map_action AnswerSuccess (mutation_delete_user_attribute cx n)"
| "execute_call ext urldecode cx (DeleteGroupAttribute n) = map_action AnswerSuccess (mutation_delete_group_attribute cx n)"
| "execute_call ext urldecode cx (AddUserObjectClass n) = map_action AnswerSuccess (mutation_add_user_object_class cx n)"
| "execute_call ext urldecode cx (AddGroupObjectClass n) = map_action AnswerSuccess (mutation_add_group_object_class cx n)"
| "execute_call ext urldecode cx (DeleteUserObjectClass n) = map_action AnswerSuccess (mutation_delete_user_object_class cx n)"
| "execute_call ext urldecode cx (DeleteGroupObjectClass n) = map_action AnswerSuccess (mutation_delete_group_object_class cx n)"

section \<open>The route\<close>

text \<open>The parameters of a request; the variables are a JSON text.\<close>

record get_graphql_request =
  gr_query :: string
  gr_operation_name :: "string option"
  gr_variables :: "string option"

record graphql_lib =
  gl_from_query :: "http_request \<Rightarrow> get_graphql_request option"
    \<comment> \<open>\<open>web::Query::from_query\<close> of the query string\<close>
  gl_valid_json :: "string \<Rightarrow> bool"
  gl_content_type :: "http_request \<Rightarrow> string"
  gl_body_text :: "http_request \<Rightarrow> string option"
    \<comment> \<open>\<open>String::from_request\<close>\<close>
  gl_json_request :: "string \<Rightarrow> get_graphql_request option"
  gl_validate :: "get_graphql_request \<Rightarrow> graphql_call option"
    \<comment> \<open>parsing and validation of the document against the schema\<close>
  gl_urldecode :: "string \<Rightarrow> string option"

datatype http_method = MethodGet | MethodPost | OtherMethod

text \<open>
  The answer: that of the resolver, or its error, both with status 200; or a status without an answer. An invalid
  document is answered with status 400.
\<close>

datatype graphql_response =
    GraphqlData graphql_answer
  | GraphqlFieldError field_error
  | GraphqlStatus http_status

definition graphql_execute ::
  "http_env \<Rightarrow> graphql_lib \<Rightarrow> 's graphql_context \<Rightarrow> get_graphql_request \<Rightarrow> ('s, graphql_response, http_status) action" where
  "graphql_execute env gl cx request =
     (case gl_validate gl request of
        None \<Rightarrow> return (GraphqlStatus StatusBadRequest)
      | Some call \<Rightarrow> match_action (execute_call (he_externals env) (gl_urldecode gl) cx call)
          (\<lambda>a. return (GraphqlData a)) (\<lambda>e. return (GraphqlFieldError e)))"

text \<open>\<open>GraphQLRequest::from\<close>: variables that are not JSON are a panic.\<close>

definition graphql_request_from :: "graphql_lib \<Rightarrow> get_graphql_request \<Rightarrow> (get_graphql_request, http_status) result" where
  "graphql_request_from gl get_req = (case gr_variables get_req of
       None \<Rightarrow> Ok get_req
     | Some v \<Rightarrow> if gl_valid_json gl v then Ok get_req else Panic)"

definition get_graphql_handler ::
  "http_env \<Rightarrow> graphql_lib \<Rightarrow> 's graphql_context \<Rightarrow> http_request \<Rightarrow> ('s, graphql_response, http_status) action" where
  "get_graphql_handler env gl cx req =
     bind (lift_result (ok_or StatusBadRequest (gl_from_query gl req))) (\<lambda>get_req.
     bind (lift_result (graphql_request_from gl get_req)) (\<lambda>request.
     graphql_execute env gl cx request))"

definition post_graphql_handler ::
  "http_env \<Rightarrow> graphql_lib \<Rightarrow> 's graphql_context \<Rightarrow> http_request \<Rightarrow> ('s, graphql_response, http_status) action" where
  "post_graphql_handler env gl cx req =
     bind (lift_result
       (if gl_content_type gl req = ''application/json'' then
          bind_result (ok_or StatusBadRequest (gl_body_text gl req)) (\<lambda>body.
          ok_or StatusBadRequest (gl_json_request gl body))
        else if gl_content_type gl req = ''application/graphql'' then
          bind_result (ok_or StatusBadRequest (gl_body_text gl req)) (\<lambda>body.
          Ok \<lparr>gr_query = body, gr_operation_name = None, gr_variables = None\<rparr>)
        else Err StatusBadRequest)) (\<lambda>request.
     graphql_execute env gl cx request)"

text \<open>The state of the backend inside that of the server.\<close>

definition in_backend :: "('s, 'a, 'e) action \<Rightarrow> ('s http_state, 'a, 'e) action" where
  "in_backend m t = (case m (ht_backend t) of (r, s) \<Rightarrow> (r, t\<lparr>ht_backend := s\<rparr>))"

definition graphql_route ::
  "http_env \<Rightarrow> graphql_lib \<Rightarrow> 's app_state \<Rightarrow> http_method \<Rightarrow> http_request
     \<Rightarrow> ('s http_state, graphql_response, http_status) action" where
  "graphql_route env gl app verb req t =
     bind (lift_result (ok_or StatusUnauthorized (he_bearer env req))) (\<lambda>token.
     bind (lift_result (map_err (\<lambda>_. StatusUnauthorized) (check_if_token_is_valid env app (ht_jwt_blacklist t) token)))
       (\<lambda>validation_result.
     let context = \<lparr>cx_handler = ap_backend_handler app, cx_validation_result = validation_result\<rparr> in
     case verb of
       MethodPost \<Rightarrow> in_backend (post_graphql_handler env gl context req)
     | MethodGet \<Rightarrow> in_backend (get_graphql_handler env gl context req)
     | OtherMethod \<Rightarrow> fail StatusInternalServerError)) t"

text \<open>The route as it is mounted: the token cookie is read first (\<open>CookieToHeaderTranslator\<close>).\<close>

definition handle_graphql ::
  "http_env \<Rightarrow> graphql_lib \<Rightarrow> 's app_state \<Rightarrow> http_method \<Rightarrow> http_request
     \<Rightarrow> ('s http_state, graphql_response, http_status) action" where
  "handle_graphql env gl app verb req =
     unwrap_or_else GraphqlStatus
       (bind (map_err_action (\<lambda>_. StatusBadRequest) (lift_result (cookie_to_header env req)))
         (graphql_route env gl app verb))"

end
