(* ===== verification/Text_Externals.thy ===== *)
theory Text_Externals
  imports Deserialize
begin

text \<open>
  An instance of the external functions that satisfies every law the development assumes of them: values are stored as
  text, lists with an escape before each character and a dot after each element, and dates are numbers. The examples
  of the properties that need a full serialization run on it.
\<close>

definition encode_item :: "string \<Rightarrow> string" where
  "encode_item s = concat (map (\<lambda>c. [CHR ''x'', c]) s) @ ''.''"

fun decode_items :: "string \<Rightarrow> string \<Rightarrow> string list option" where
  "decode_items cur [] = (if cur = [] then Some [] else None)"
| "decode_items cur [m] = (if m = CHR ''.'' then Some [rev cur] else None)"
| "decode_items cur (m # c # cs) =
     (if m = CHR ''.'' then map_option ((#) (rev cur)) (decode_items [] (c # cs))
      else if m = CHR ''x'' then decode_items (c # cur) cs else None)"

definition parse_whole_int :: "string \<Rightarrow> int option" where
  "parse_whole_int s = (case s of [] \<Rightarrow> None
     | c # cs \<Rightarrow> if c = CHR ''-'' then map_option uminus (digits_value 0 cs) else digits_value 0 s)"

fun text_serialize :: "attribute_data \<Rightarrow> bytes" where
  "text_serialize (DString s) = s"
| "text_serialize (DInteger i) = i64_to_string i"
| "text_serialize (DJpegPhoto p) = JpegPhoto_into_bytes p"
| "text_serialize (DDateTime d) = i64_to_string d"
| "text_serialize (DStrings l) = concat (map encode_item l)"
| "text_serialize (DIntegers l) = concat (map (\<lambda>i. encode_item (i64_to_string i)) l)"
| "text_serialize (DJpegPhotos l) = concat (map (\<lambda>p. encode_item (JpegPhoto_into_bytes p)) l)"
| "text_serialize (DDateTimes l) = concat (map (\<lambda>i. encode_item (i64_to_string i)) l)"

fun text_deserialize :: "attribute_type \<times> bool \<Rightarrow> bytes \<Rightarrow> attribute_data option" where
  "text_deserialize (AttrString, False) b = Some (DString b)"
| "text_deserialize (AttrInteger, False) b = map_option DInteger (parse_whole_int b)"
| "text_deserialize (AttrJpegPhoto, False) b = Some (DJpegPhoto (JpegPhoto b))"
| "text_deserialize (AttrDateTime, False) b = map_option DDateTime (parse_whole_int b)"
| "text_deserialize (AttrString, True) b = map_option DStrings (decode_items [] b)"
| "text_deserialize (AttrInteger, True) b =
     map_option DIntegers (Option.bind (decode_items [] b) (\<lambda>l. those (map parse_whole_int l)))"
| "text_deserialize (AttrJpegPhoto, True) b = map_option (\<lambda>l. DJpegPhotos (map JpegPhoto l)) (decode_items [] b)"
| "text_deserialize (AttrDateTime, True) b =
     map_option DDateTimes (Option.bind (decode_items [] b) (\<lambda>l. those (map parse_whole_int l)))"

definition text_externals :: externals where
  "text_externals = ascii_externals\<lparr>to_rfc3339 := i64_to_string, parse_from_rfc3339 := parse_whole_int,
     bincode_serialize := text_serialize, bincode_deserialize := text_deserialize\<rparr>"

lemma parse_whole_int_to_string [simp]: "parse_whole_int (i64_to_string i) = Some i"
proof -
  obtain d cs where d: "nat_to_string (nat i) = digit_char d # cs" "d < 10" using nat_to_string_first by blast
  show ?thesis
    using d digit_char_not_sign [OF d(2)] digits_value_nat_to_string [of "nat i"] digits_value_nat_to_string [of "nat (- i)"]
    by (cases "i < 0") (auto simp: parse_whole_int_def i64_to_string_def)
qed

lemma decode_items_append: "decode_items cur (encode_item s @ rest) = map_option ((#) (rev cur @ s)) (decode_items [] rest)"
proof (induction s arbitrary: cur)
  case Nil
  then show ?case by (cases rest) (auto simp: encode_item_def)
next
  case (Cons c s)
  have "decode_items (c # cur) (concat (map (\<lambda>c. [CHR ''x'', c]) s) @ CHR ''.'' # rest)
      = map_option ((#) (rev cur @ c # s)) (decode_items [] rest)"
    using Cons [of "c # cur"] by (simp add: encode_item_def)
  then show ?case by (simp add: encode_item_def)
qed

lemma decode_items_concat [simp]: "decode_items [] (concat (map (\<lambda>x. encode_item (f x)) l)) = Some (map f l)"
  by (induction l) (simp_all add: decode_items_append)

lemma those_map_Some [simp]: "those (map (\<lambda>x. Some (f x)) l) = Some (map f l)"
  by (induction l) simp_all

lemma text_externals_ok: "bincode_ok text_externals" "rfc3339_ok text_externals" "lowercase_ok text_externals"
proof -
  have "text_deserialize (data_type v) (text_serialize v) = Some v" for v
    using decode_items_concat [of id] by (cases v) (simp_all add: o_def)
  moreover have "text_deserialize t b = Some v \<Longrightarrow> data_type v = t" for t b v
    by (cases "(t, b)" rule: text_deserialize.cases) auto
  ultimately show "bincode_ok text_externals" by (simp add: bincode_ok_def text_externals_def)
  show "rfc3339_ok text_externals" by (simp add: rfc3339_ok_def text_externals_def)
  show "lowercase_ok text_externals" by (simp add: lowercase_ok_def text_externals_def ascii_externals_def)
qed

end
