(* ===== verification/Graphql_Session.thy ===== *)
theory Graphql_Session
  imports Graphql_Api Web_Session Ldap_Session Text_Externals
begin

text \<open>
  What the GraphQL API guarantees over the SQL backend: which database operations a caller can cause, that an
  administrator cannot lock itself out, what queries return, and that resolvers do not panic.
\<close>

section \<open>The API on the SQL backend\<close>

definition sql_context ::
  "externals \<Rightarrow> opaque_lib \<Rightarrow> sql_config \<Rightarrow> (nat \<Rightarrow> nat) \<Rightarrow> naive_date_time \<Rightarrow> validation_results \<Rightarrow> db graphql_context" where
  "sql_context ext lib cfg rng now v = \<lparr>cx_handler = sql_backend ext lib cfg rng now, cx_validation_result = v\<rparr>"

lemma sql_context_sel [simp]:
  "cx_handler (sql_context ext lib cfg rng now v) = sql_backend ext lib cfg rng now"
  "cx_validation_result (sql_context ext lib cfg rng now v) = v"
  by (simp_all add: sql_context_def)

lemmas context_handler_defs = context_get_admin_handler_def context_get_readonly_handler_def
  context_get_writeable_handler_def context_get_readable_handler_def get_admin_handler_def get_readonly_handler_def
  get_writeable_handler_def get_readable_handler_def

lemma bind_handler_or:
  "bind (handler_or msg (context_get_admin_handler cx)) fa s
     = (if is_admin (cx_validation_result cx) then fa (as_admin (cx_handler cx)) s else (Err (FieldError msg), s))"
  "bind (handler_or msg (context_get_readonly_handler cx)) fr s
     = (if can_read_all (cx_validation_result cx) then fr (as_readonly (cx_handler cx)) s else (Err (FieldError msg), s))"
  "bind (handler_or msg (context_get_writeable_handler cx u)) fw s
     = (if can_write (cx_validation_result cx) u then fw (as_user_writeable (cx_handler cx)) s else (Err (FieldError msg), s))"
  "bind (handler_or msg (context_get_readable_handler cx u)) fu s
     = (if can_read (cx_validation_result cx) u then fu (as_user_readable (cx_handler cx)) s else (Err (FieldError msg), s))"
  by (auto simp: handler_or_def field_error_callback_def context_handler_defs monad_simps)

lemma sql_public_schema:
  "map_action PublicSchema_from sql_get_schema s = (Ok (PublicSchema_from (db_schema s)), s)"
  by (simp add: map_action_def sql_get_schema_def transaction_def get_schema_with_transaction_def return_def)

lemma bind_sql_schema: "bind (on_handler (map_action PublicSchema_from sql_get_schema)) f s = f (PublicSchema_from (db_schema s)) s"
  by (simp add: on_handler_def map_err_action_def bind_def sql_public_schema)

lemma snd_on_handler [simp]: "snd (on_handler m s) = snd (m s)"
  by (simp add: on_handler_def map_err_action_def split: prod.split)

lemma snd_map_action [simp]: "snd (map_action f m s) = snd (m s)"
  by (simp add: map_action_def split: prod.split)

lemmas handed_out_defs = as_admin_def as_readonly_def as_user_writeable_def as_user_readable_def sql_backend_def

section \<open>Which operations a mutation runs\<close>

text \<open>An action leaves the database alone or has the effect of one operation that satisfies \<open>P\<close>.\<close>

definition writes_op :: "(backend_op \<Rightarrow> bool) \<Rightarrow> externals \<Rightarrow> (db, 'a, 'e) action \<Rightarrow> db \<Rightarrow> bool" where
  "writes_op P ext m s \<longleftrightarrow> snd (m s) = s \<or> (\<exists>op. P op \<and> snd (m s) = snd (run_op ext op s))"

lemma writes_pure: "snd (m s) = s \<Longrightarrow> writes_op P ext m s"
  by (simp add: writes_op_def)

lemma writes_fail [simp]: "writes_op P ext (fail e) s"
  by (simp add: writes_op_def fail_def)

lemma writes_if: "(b \<Longrightarrow> writes_op P ext m s) \<Longrightarrow> (\<not> b \<Longrightarrow> writes_op P ext n s) \<Longrightarrow> writes_op P ext (if b then m else n) s"
  by simp

lemma writes_run: "P op \<Longrightarrow> snd (m s) = snd (run_op ext op s) \<Longrightarrow> writes_op P ext m s"
  by (auto simp: writes_op_def)

lemma writes_bind_lift: "(\<And>x. r = Ok x \<Longrightarrow> writes_op P ext (f x) s) \<Longrightarrow> writes_op P ext (bind (lift_result r) f) s"
  by (cases r) (auto simp: monad_simps writes_op_def)

lemma writes_bind_last:
  assumes "writes_op P ext m s" and "\<And>x t. snd (f x t) = t"
  shows "writes_op P ext (bind m f) s"
proof -
  have "snd (bind m f s) = snd (m s)" using assms(2) by (auto simp: bind_def split: prod.splits result.splits)
  with assms(1) show ?thesis by (simp add: writes_op_def)
qed

lemma writes_map_action: "writes_op P ext (map_action f m) s = writes_op P ext m s"
  by (simp add: writes_op_def)

lemma writes_handler:
  assumes "is_admin (cx_validation_result cx) \<Longrightarrow> writes_op P ext (f (as_admin (cx_handler cx))) s"
  shows "writes_op P ext (bind (handler_or msg (context_get_admin_handler cx)) f) s"
  using assms by (auto simp: writes_op_def bind_handler_or)

lemma writes_handler_user:
  assumes "can_write (cx_validation_result cx) u \<Longrightarrow> writes_op P ext (f (as_user_writeable (cx_handler cx))) s"
  shows "writes_op P ext (bind (handler_or msg (context_get_writeable_handler cx u)) f) s"
  using assms by (auto simp: writes_op_def bind_handler_or)

lemma writes_schema:
  "writes_op P ext (f (PublicSchema_from (db_schema s))) s
     \<Longrightarrow> writes_op P ext (bind (on_handler (map_action PublicSchema_from sql_get_schema)) f) s"
  by (simp add: writes_op_def bind_sql_schema)

text \<open>
  The operations a caller may cause. A regular user may only update its own entry, setting attributes the schema
  declares editable; an administrator may not delete itself, leave the group of administrators (group 1), or delete
  or rename that group, and may not delete a built-in attribute.
\<close>

fun graphql_permitted :: "validation_results \<Rightarrow> schema \<Rightarrow> backend_op \<Rightarrow> bool" where
  "graphql_permitted v sc (OpUpdateUser r) \<longleftrightarrow> is_admin v \<or> uu_user_id r = vr_user v
     \<and> (\<forall>a\<in>set (uu_insert_attributes r). \<exists>c. get_attribute_schema (user_attributes sc) (av_name a) = Some c \<and> as_is_editable c)"
| "graphql_permitted v sc (OpDeleteUser u) \<longleftrightarrow> is_admin v \<and> u \<noteq> vr_user v"
| "graphql_permitted v sc (OpRemoveUserFromGroup u g) \<longleftrightarrow> is_admin v \<and> \<not> (u = vr_user v \<and> g = GroupId 1)"
| "graphql_permitted v sc (OpDeleteGroup g) \<longleftrightarrow> is_admin v \<and> g \<noteq> GroupId 1"
| "graphql_permitted v sc (OpUpdateGroup r) \<longleftrightarrow> is_admin v \<and> (upg_group_id r = GroupId 1 \<longrightarrow> upg_display_name r = None)"
| "graphql_permitted v sc (OpDeleteUserAttribute n) \<longleftrightarrow>
     is_admin v \<and> (\<exists>c. get_attribute_schema (user_attributes sc) n = Some c \<and> \<not> as_is_hardcoded c)"
| "graphql_permitted v sc (OpDeleteGroupAttribute n) \<longleftrightarrow>
     is_admin v \<and> (\<exists>c. get_attribute_schema (group_attributes sc) n = Some c \<and> \<not> as_is_hardcoded c)"
| "graphql_permitted v sc _ \<longleftrightarrow> is_admin v"

abbreviation permitted_here :: "validation_results \<Rightarrow> db \<Rightarrow> backend_op \<Rightarrow> bool" where
  "permitted_here v s \<equiv> graphql_permitted v (get_schema (PublicSchema_from (db_schema s)))"

lemma deserialize_attribute_Ok:
  "deserialize_attribute ext l a admin = Ok d \<Longrightarrow>
     \<exists>c. get_attribute_schema l (av_name d) = Some c \<and> (admin \<or> as_is_editable c)
       \<and> av_name d = AttributeName_from (ai_name a)
       \<and> deserialize_attribute_value ext (ai_value a) (as_attribute_type c) (as_is_list c) = Ok (av_value d)"
  by (auto simp: deserialize_attribute_def Let_def split: if_splits)

lemma deserialized_editable:
  assumes "collect_results (\<lambda>a. deserialize_attribute ext l a False) as = Ok ds"
  shows "\<forall>d\<in>set ds. \<exists>c. get_attribute_schema l (av_name d) = Some c \<and> as_is_editable c"
proof
  fix d assume "d \<in> set ds"
  with assms obtain a where "deserialize_attribute ext l a False = Ok d"
    by (auto simp: collect_results_Ok_iff list_all2_conv_all_nth in_set_conv_nth)
  then show "\<exists>c. get_attribute_schema l (av_name d) = Some c \<and> as_is_editable c"
    by (auto dest: deserialize_attribute_Ok)
qed

lemma sql_reads_pure:
  "snd (get_user_details u s) = s" "snd (get_group_details g s) = s" "snd (get_user_groups u s) = s"
  "snd (list_users ext f b s) = s" "snd (list_groups ext f0 s) = s" "snd (map_action h sql_get_schema s) = s"
  "snd (restricted_get_schema sql_get_schema uf s) = s"
  using preservesD [OF reads_inv(3) [of "(=) s"] refl] preservesD [OF reads_inv(5) [of "(=) s"] refl]
    preservesD [OF reads_inv(4) [of "(=) s"] refl] preservesD [OF reads_inv(1) [of "(=) s"] refl]
    preservesD [OF reads_inv(2) [of "(=) s"] refl]
  by (auto simp: restricted_get_schema_def sql_get_schema_def transaction_def get_schema_with_transaction_def return_def)

lemma then_return_pure [simp]: "snd (bind (on_handler m) (\<lambda>x. lift_result (g x)) s) = snd (m s)"
  by (auto simp: on_handler_def monad_simps split: prod.splits result.splits)

lemma writes_call:
  assumes "P op" and "\<And>x t. snd (f x t) = t"
  shows "writes_op P ext (bind (on_handler (run_op ext op)) f) s"
  by (rule writes_run [where P = P, OF assms(1)]) (use assms(2) in \<open>auto simp: on_handler_def monad_simps split: prod.splits result.splits\<close>)

lemma writes_create_group:
  assumes "P (OpCreateGroup now r)" and "\<And>x t. snd (f x t) = t"
  shows "writes_op P ext (bind (on_handler (create_group ext now r)) f) s"
  by (rule writes_run [where P = P, OF assms(1)]) (use assms(2) in \<open>auto simp: on_handler_def monad_simps split: prod.splits result.splits\<close>)

lemmas writes_calls = writes_create_group
  writes_call [where op = "OpCreateUser now r" for now r, unfolded run_op.simps]
  writes_call [where op = "OpUpdateUser r" for r, unfolded run_op.simps]
  writes_call [where op = "OpDeleteUser u" for u, unfolded run_op.simps]
  writes_call [where op = "OpUpdateGroup r" for r, unfolded run_op.simps]
  writes_call [where op = "OpDeleteGroup g" for g, unfolded run_op.simps]
  writes_call [where op = "OpAddUserToGroup u g" for u g, unfolded run_op.simps]
  writes_call [where op = "OpRemoveUserFromGroup u g" for u g, unfolded run_op.simps]
  writes_call [where op = "OpAddUserAttribute r" for r, unfolded run_op.simps]
  writes_call [where op = "OpAddGroupAttribute r" for r, unfolded run_op.simps]
  writes_call [where op = "OpDeleteUserAttribute n" for n, unfolded run_op.simps]
  writes_call [where op = "OpDeleteGroupAttribute n" for n, unfolded run_op.simps]
  writes_call [where op = "OpAddUserObjectClass c" for c, unfolded run_op.simps]
  writes_call [where op = "OpAddGroupObjectClass c" for c, unfolded run_op.simps]
  writes_call [where op = "OpDeleteUserObjectClass c" for c, unfolded run_op.simps]
  writes_call [where op = "OpDeleteGroupObjectClass c" for c, unfolded run_op.simps]

lemmas writes_intros = writes_handler writes_handler_user writes_schema writes_bind_lift writes_if writes_calls

lemma mutations_write:
  assumes cx: "cx = sql_context ext lib cfg rng now v"
  shows "writes_op (permitted_here v s) ext (mutation_create_user ext cx ci) s"
    and "writes_op (permitted_here v s) ext (create_group_with_details ext cx cg) s"
    and "writes_op (permitted_here v s) ext (mutation_update_user ext cx ui) s"
    and "writes_op (permitted_here v s) ext (mutation_delete_user cx u) s"
    and "writes_op (permitted_here v s) ext (mutation_update_group ext cx gi) s"
    and "writes_op (permitted_here v s) ext (mutation_delete_group cx g) s"
    and "writes_op (permitted_here v s) ext (mutation_add_user_to_group cx u g) s"
    and "writes_op (permitted_here v s) ext (mutation_remove_user_from_group cx u g) s"
    and "writes_op (permitted_here v s) ext (mutation_add_user_attribute cx n ty li vi ed) s"
    and "writes_op (permitted_here v s) ext (mutation_add_group_attribute cx n ty li vi ed) s"
    and "writes_op (permitted_here v s) ext (mutation_delete_user_attribute cx n) s"
    and "writes_op (permitted_here v s) ext (mutation_delete_group_attribute cx n) s"
    and "writes_op (permitted_here v s) ext (mutation_add_user_object_class cx n) s"
    and "writes_op (permitted_here v s) ext (mutation_add_group_object_class cx n) s"
    and "writes_op (permitted_here v s) ext (mutation_delete_user_object_class cx n) s"
    and "writes_op (permitted_here v s) ext (mutation_delete_group_object_class cx n) s"
  unfolding mutation_create_user_def create_group_with_details_def mutation_update_user_def mutation_delete_user_def mutation_update_group_def mutation_delete_group_def
    mutation_add_user_to_group_def mutation_remove_user_from_group_def
    mutation_add_user_attribute_def mutation_add_group_attribute_def mutation_delete_user_attribute_def
    mutation_delete_group_attribute_def mutation_add_user_object_class_def mutation_add_group_object_class_def
    mutation_delete_user_object_class_def mutation_delete_group_object_class_def Let_def cx
  by (intro writes_intros; auto simp: handed_out_defs sql_reads_pure return_def can_write_def is_admin_def dest!: deserialized_editable intro!: writes_intros)+

lemma handler_pure:
  "(can_read_all (cx_validation_result cx) \<Longrightarrow> snd (f (as_readonly (cx_handler cx)) s) = s)
     \<Longrightarrow> snd (bind (handler_or msg (context_get_readonly_handler cx)) f s) = s"
  "(can_read (cx_validation_result cx) u \<Longrightarrow> snd (g (as_user_readable (cx_handler cx)) s) = s)
     \<Longrightarrow> snd (bind (handler_or msg (context_get_readable_handler cx u)) g s) = s"
  by (auto simp: bind_handler_or)

lemma queries_pure:
  assumes cx: "cx = sql_context ext lib cfg rng now v"
  shows "snd (query_get_schema cx s) = s" "snd (query_user dec cx u s) = s" "snd (query_users ext cx f s) = s"
    "snd (query_groups cx s) = s" "snd (query_group cx g s) = s" "snd (user_groups cx gu s) = s" "snd (group_users cx gg s) = s"
proof -
  show sc: "snd (query_get_schema cx s) = s" for s
    by (simp add: query_get_schema_def cx sql_backend_def sql_reads_pure)
  note facts = sc [unfolded cx] handed_out_defs sql_reads_pure lift_result_def return_def
  show "snd (query_user dec cx u s) = s" "snd (query_users ext cx f s) = s" "snd (query_groups cx s) = s"
    "snd (query_group cx g s) = s" "snd (group_users cx gg s) = s"
    unfolding query_user_def query_users_def query_groups_def query_group_def group_users_def Let_def cx
    by (rule handler_pure bind_pure | simp add: facts)+
  show "snd (user_groups cx gu s) = s"
  proof (cases "gu_groups gu")
    case None
    then show ?thesis
      by (simp add: user_groups_def cx context_handler_defs handed_out_defs)
         (use sql_reads_pure(3) [of "u_user_id (gu_user gu)" s] in \<open>auto simp: monad_simps on_handler_def split: prod.splits result.splits\<close>)
  qed (simp add: user_groups_def return_def)
qed

lemma execute_call_writes:
  "writes_op (permitted_here v s) ext (execute_call ext dec (sql_context ext lib cfg rng now v) call) s"
  by (cases call)
     (simp_all add: writes_map_action writes_pure return_def queries_pure [OF refl] query_schema_def
       mutations_write [OF refl]
       mutation_create_group_def mutation_create_group_with_details_def)

section \<open>An administrator keeps its rights\<close>

text \<open>The user is a member of group 1, and that group has the name \<open>n\<close>.\<close>

definition admin_member :: "user_id \<Rightarrow> group_name \<Rightarrow> db \<Rightarrow> bool" where
  "admin_member u n s \<longleftrightarrow> user_exists s u \<and> \<lparr>mem_user_id = u, mem_group_id = GroupId 1\<rparr> \<in> set (db_memberships s)
     \<and> (\<exists>r\<in>set (db_groups s). grp_group_id r = GroupId 1 \<and> grp_display_name r = n)"

lemma admin_member_same:
  assumes "admin_member u n s" and "usr_user_id ` set (db_users s) \<subseteq> usr_user_id ` set (db_users t)"
    and "db_memberships t = db_memberships s" and "db_groups t = db_groups s"
  shows "admin_member u n t"
  using assms by (auto simp: admin_member_def user_exists_def)

lemma row_ops_admin [preserves_intros]:
  "preserves (admin_member u n) (sql_insert_user r)" "preserves (admin_member u n) (sql_insert_membership m)"
  "preserves (admin_member u n) (sql_insert_user_attribute a)" "preserves (admin_member u n) (sql_upsert_user_attribute a)"
  "preserves (admin_member u n) (sql_delete_user_attributes w ns)" "preserves (admin_member u n) (sql_insert_group gn l d i)"
  "preserves (admin_member u n) (sql_insert_group_attribute b)" "preserves (admin_member u n) (sql_upsert_group_attribute b)"
  "preserves (admin_member u n) (sql_delete_group_attributes g ns)"
  by (rule preservesI, auto simp: admin_member_def user_exists_def sql_insert_user_def sql_insert_membership_def
        sql_insert_user_attribute_def sql_upsert_user_attribute_def sql_delete_user_attributes_def sql_insert_group_def
        sql_insert_group_attribute_def sql_upsert_group_attribute_def sql_delete_group_attributes_def monad_simps Let_def)+

lemma row_updates_admin:
  "preserves (admin_member u n) (sql_update_user w (update_user_row ext ur))"
  "(upg_group_id gr = GroupId 1 \<Longrightarrow> upg_display_name gr = None)
     \<Longrightarrow> preserves (admin_member u n) (sql_update_group (upg_group_id gr) (update_group_row ext gr))"
  "w \<noteq> u \<Longrightarrow> preserves (admin_member u n) (sql_delete_user w)"
  "g \<noteq> GroupId 1 \<Longrightarrow> preserves (admin_member u n) (sql_delete_group g)"
  "\<not> (w = u \<and> g = GroupId 1) \<Longrightarrow> preserves (admin_member u n) (sql_delete_membership \<lparr>mem_user_id = w, mem_group_id = g\<rparr>)"
proof -
  show "preserves (admin_member u n) (sql_update_user w (update_user_row ext ur))"
  proof (rule preservesI, erule admin_member_same)
    fix s :: db
    have "usr_user_id ` set (map (\<lambda>q. if usr_user_id q = w then update_user_row ext ur q else q) (db_users s)) = usr_user_id ` set (db_users s)"
      by (rule set_key_update) simp
    then show "usr_user_id ` set (db_users s) \<subseteq> usr_user_id ` set (db_users (snd (sql_update_user w (update_user_row ext ur) s)))"
      by (auto simp: sql_update_user_def monad_simps split: option.split)
  qed (auto simp: sql_update_user_def monad_simps split: option.split)
  show "preserves (admin_member u n) (sql_update_group (upg_group_id gr) (update_group_row ext gr))"
    if "upg_group_id gr = GroupId 1 \<Longrightarrow> upg_display_name gr = None"
    using that by (intro preservesI)
      (force simp: admin_member_def user_exists_def sql_update_group_def update_group_row_def monad_simps split: option.split)
qed (auto intro!: preservesI simp: admin_member_def user_exists_def sql_delete_user_def sql_delete_group_def sql_delete_membership_def monad_simps)

lemma schema_ops_admin [preserves_intros]:
  "preserves (admin_member u n) (add_user_attribute r)" "preserves (admin_member u n) (add_group_attribute r)"
  "preserves (admin_member u n) (delete_user_attribute k)" "preserves (admin_member u n) (delete_group_attribute k)"
  "preserves (admin_member u n) (add_user_object_class c)" "preserves (admin_member u n) (add_group_object_class c)"
  "preserves (admin_member u n) (delete_user_object_class c)" "preserves (admin_member u n) (delete_group_object_class c)"
  by (rule preservesI, erule admin_member_same; simp add: add_user_attribute_def add_group_attribute_def delete_user_attribute_def
        delete_group_attribute_def add_user_object_class_def add_group_object_class_def
        delete_user_object_class_def delete_group_object_class_def monad_simps Let_def)+

lemma permitted_keeps_admin:
  assumes "graphql_permitted v sc op"
  shows "preserves (admin_member (vr_user v) n) (run_op ext op)"
  using assms by (cases op) (auto simp: create_user_def update_user_def update_user_with_transaction_def
      add_user_to_group_def remove_user_from_group_def create_group_def update_group_def update_group_with_transaction_def
      delete_user_def delete_group_def Let_def intro!: preserves_intros row_updates_admin)

primrec run_calls ::
  "externals \<Rightarrow> (string \<Rightarrow> string option) \<Rightarrow> 's graphql_context \<Rightarrow> graphql_call list \<Rightarrow> 's \<Rightarrow> 's" where
  "run_calls ext dec cx [] s = s"
| "run_calls ext dec cx (c # cs) s = run_calls ext dec cx cs (snd (execute_call ext dec cx c s))"

lemma graphql_execute_state:
  "snd (graphql_execute e gl cx r s) = s \<or> (\<exists>call. snd (graphql_execute e gl cx r s) = snd (execute_call (he_externals e) (gl_urldecode gl) cx call s))"
proof (cases "gl_validate gl r")
  case (Some call)
  then have "snd (graphql_execute e gl cx r s) = snd (execute_call (he_externals e) (gl_urldecode gl) cx call s)"
    by (simp add: graphql_execute_def monad_simps split: prod.split result.split)
  then show ?thesis by blast
qed (simp add: graphql_execute_def return_def)

lemma graphql_route_state:
  fixes e :: http_env and app :: "'s app_state" and t :: "'s http_state"
  shows "snd (graphql_route e gl app verb req t) = t
    \<or> (\<exists>token v call. he_bearer e req = Some token \<and> check_if_token_is_valid e app (ht_jwt_blacklist t) token = Ok v
       \<and> snd (graphql_route e gl app verb req t) = t\<lparr>ht_backend := snd (execute_call (he_externals e) (gl_urldecode gl)
            \<lparr>cx_handler = ap_backend_handler app, cx_validation_result = v\<rparr> call (ht_backend t))\<rparr>)"
proof (cases "he_bearer e req")
  case None
  then show ?thesis by (simp add: graphql_route_def monad_simps)
next
  case (Some token)
  show ?thesis
  proof (cases "check_if_token_is_valid e app (ht_jwt_blacklist t) token")
    case (Ok v)
    let ?cx = "\<lparr>cx_handler = ap_backend_handler app, cx_validation_result = v\<rparr>"
    let ?Q = "{ht_backend t} \<union> {snd (execute_call (he_externals e) (gl_urldecode gl) ?cx call (ht_backend t)) |call. True}"
    have x: "snd (graphql_execute e gl ?cx r (ht_backend t)) \<in> ?Q" for r
      using graphql_execute_state [of e gl ?cx r "ht_backend t"] by auto
    have "snd (post_graphql_handler e gl ?cx req (ht_backend t)) \<in> ?Q"
      unfolding post_graphql_handler_def by (rule snd_bind_lift) (use x in auto)
    moreover have "snd (get_graphql_handler e gl ?cx req (ht_backend t)) \<in> ?Q"
      unfolding get_graphql_handler_def by (intro snd_bind_lift) (use x in auto)
    moreover have "snd (graphql_route e gl app verb req t) = (case verb of
        MethodPost \<Rightarrow> t\<lparr>ht_backend := snd (post_graphql_handler e gl ?cx req (ht_backend t))\<rparr>
      | MethodGet \<Rightarrow> t\<lparr>ht_backend := snd (get_graphql_handler e gl ?cx req (ht_backend t))\<rparr>
      | OtherMethod \<Rightarrow> t)"
      using Some Ok by (simp add: graphql_route_def monad_simps Let_def in_backend_def split: http_method.split prod.split)
    ultimately show ?thesis using Some Ok by (cases verb) auto
  qed (use Some in \<open>simp_all add: graphql_route_def monad_simps\<close>)
qed

lemma handle_graphql_state:
  fixes e :: http_env and app :: "'s app_state" and t :: "'s http_state"
  shows "snd (handle_graphql e gl app verb req t) = t
    \<or> (\<exists>req'. cookie_to_header e req = Ok req' \<and> snd (handle_graphql e gl app verb req t) = snd (graphql_route e gl app verb req' t))"
  by (cases "cookie_to_header e req")
     (auto simp: handle_graphql_def monad_simps split: prod.split result.split)

lemma execute_call_admin:
  "preserves (admin_member (vr_user v) n) (execute_call ext dec (sql_context ext lib cfg rng now v) call)"
proof (rule preservesI)
  fix s assume s: "admin_member (vr_user v) n s"
  from execute_call_writes [of v s ext dec lib cfg rng now call] consider
      "snd (execute_call ext dec (sql_context ext lib cfg rng now v) call s) = s"
    | op where "permitted_here v s op" and "snd (execute_call ext dec (sql_context ext lib cfg rng now v) call s) = snd (run_op ext op s)"
    by (auto simp: writes_op_def)
  then show "admin_member (vr_user v) n (snd (execute_call ext dec (sql_context ext lib cfg rng now v) call s))"
    by cases (auto simp: s intro: preservesD [OF permitted_keeps_admin])
qed

lemma run_calls_admin:
  "admin_member (vr_user v) n s \<Longrightarrow> admin_member (vr_user v) n (run_calls ext dec (sql_context ext lib cfg rng now v) cs s)"
  by (induction cs arbitrary: s) (simp_all add: preservesD [OF execute_call_admin])

lemma admin_member_permission:
  assumes "admin_member u (GroupName ''lldap_admin'') s"
  shows "\<exists>w. get_permissions_for_user ext (sql_backend ext lib cfg rng now) u s = (Ok w, s) \<and> vr_user w = u \<and> is_admin w"
proof -
  from assms obtain r where r: "find_user s u = Some r"
    by (metis admin_member_def find_user_None not_Some_eq)
  from assms obtain g where "g \<in> set (db_groups s)" "\<lparr>mem_user_id = u, mem_group_id = grp_group_id g\<rparr> \<in> set (db_memberships s)"
    and name: "grp_display_name g = GroupName ''lldap_admin''" by (auto simp: admin_member_def)
  then have "g \<in> set (groups_of_user s u)" by (simp add: groups_of_user_def)
  with name have "list_ex (\<lambda>n. GroupName_eq ext n (GroupName ''lldap_admin'')) (map gd_display_name (map GroupDetails_from (groups_of_user s u)))"
    by (force simp: list_ex_iff GroupName_eq_iff GroupDetails_from_def)
  with r show ?thesis
    by (auto simp: get_permissions_for_user_def sql_backend_def get_user_groups_def monad_simps
        get_permissions_from_groups_def is_admin_def Let_def)
qed

section \<open>Attributes as text\<close>

lemma collect_results_again:
  assumes "\<And>x y. f x = Ok y \<Longrightarrow> f (g y) = Ok y" and "collect_results f xs = Ok ys"
  shows "collect_results f (map g ys) = Ok ys"
  using assms(2) by (induction xs arbitrary: ys) (auto simp: assms(1))

lemma parse_again:
  "parse_int x = Ok i \<Longrightarrow> parse_int (i64_to_string i) = Ok i"
  "rfc3339_ok ext \<Longrightarrow> parse_date ext x = Ok d \<Longrightarrow> parse_date ext (to_rfc3339 ext d) = Ok d"
  "base64_ok ext \<Longrightarrow> parse_photo ext x = Ok p \<Longrightarrow> parse_photo ext (JpegPhoto_to_string ext p) = Ok p"
proof -
  show "parse_int x = Ok i \<Longrightarrow> parse_int (i64_to_string i) = Ok i"
    by (simp add: parse_int_def parse_i64_to_string parse_i64_range)
  show "rfc3339_ok ext \<Longrightarrow> parse_date ext x = Ok d \<Longrightarrow> parse_date ext (to_rfc3339 ext d) = Ok d"
    by (simp add: parse_date_def rfc3339_ok_def)
  show "base64_ok ext \<Longrightarrow> parse_photo ext x = Ok p \<Longrightarrow> parse_photo ext (JpegPhoto_to_string ext p) = Ok p"
    by (auto simp: parse_photo_def base64_ok_def JpegPhoto_try_from_str_def JpegPhoto_to_string_def
        JpegPhoto_try_from_bytes_def JpegPhoto_null_def bind_eq_Some_conv split: if_splits)
qed

lemma deserialize_again:
  assumes ok: "rfc3339_ok ext" "base64_ok ext" and "deserialize_attribute_value ext vs ty li = Ok s"
  shows "\<exists>v. s = Serialized_from ext v \<and> data_type v = (ty, li)
    \<and> deserialize_attribute_value ext (data_to_strings ext v) ty li = Ok s \<and> (ty = AttrString \<longrightarrow> data_to_strings ext v = vs)"
proof (cases li)
  case False
  with assms(3) obtain x where "vs = [x]" by (cases vs) (auto simp: deserialize_attribute_value_def split: if_splits)
  with False assms(3) show ?thesis
    by (cases ty) (auto simp: deserialize_attribute_value_def parse_again(1) parse_again(2) [OF ok(1)] parse_again(3) [OF ok(2)]
      intro: exI [of _ "DString x"] exI [of _ "DInteger i" for i] exI [of _ "DDateTime d" for d] exI [of _ "DJpegPhoto p" for p])
next
  case True
  note again = collect_results_again [of parse_int i64_to_string, OF parse_again(1)]
    collect_results_again [of "parse_date ext" "to_rfc3339 ext", OF parse_again(2) [OF ok(1)]]
    collect_results_again [of "parse_photo ext" "JpegPhoto_to_string ext", OF parse_again(3) [OF ok(2)]]
  from True assms(3) show ?thesis
    by (cases ty) (auto simp: deserialize_attribute_value_def again
      intro: exI [of _ "DStrings vs"] exI [of _ "DIntegers i" for i] exI [of _ "DDateTimes d" for d] exI [of _ "DJpegPhotos p" for p])
qed

section \<open>Properties\<close>

text \<open>
  C21. Who can change the database over GraphQL: a request leaves the server alone, or it carries a token that is
  valid and not logged out and has the effect of one backend operation that the owner of the token may cause
  (\<open>graphql_permitted\<close>): an update of its own entry that sets editable attributes only, or, for an administrator, any
  operation but the deletion of its own account, its removal from the group of administrators, the deletion or renaming of
  that group, and the deletion of a built-in attribute.
\<close>

theorem graphql_requests_authorised:
  fixes e :: http_env and t :: "db http_state"
  shows "snd (handle_graphql e gl (sql_app e lib cfg rng key url options) verb req t) = t
    \<or> (\<exists>req' token v op. cookie_to_header e req = Ok req' \<and> he_bearer e req' = Some token
       \<and> check_if_token_is_valid e (sql_app e lib cfg rng key url options) (ht_jwt_blacklist t) token = Ok v
       \<and> graphql_permitted v (get_schema (PublicSchema_from (db_schema (ht_backend t)))) op
       \<and> snd (handle_graphql e gl (sql_app e lib cfg rng key url options) verb req t)
           = t\<lparr>ht_backend := snd (run_op (he_externals e) op (ht_backend t))\<rparr>)"
proof -
  let ?app = "sql_app e lib cfg rng key url options"
  consider "snd (handle_graphql e gl ?app verb req t) = t"
    | req' token v call where "cookie_to_header e req = Ok req'" "he_bearer e req' = Some token"
        "check_if_token_is_valid e ?app (ht_jwt_blacklist t) token = Ok v"
        "snd (handle_graphql e gl ?app verb req t) = t\<lparr>ht_backend := snd (execute_call (he_externals e) (gl_urldecode gl)
           \<lparr>cx_handler = ap_backend_handler ?app, cx_validation_result = v\<rparr> call (ht_backend t))\<rparr>"
    using handle_graphql_state [of e gl ?app verb req t] graphql_route_state [of e gl ?app verb _ t] by metis
  then show ?thesis
  proof cases
    case (2 req' token v call)
    then have "snd (handle_graphql e gl ?app verb req t) = t\<lparr>ht_backend := snd (execute_call (he_externals e) (gl_urldecode gl)
        (sql_context (he_externals e) lib cfg rng (he_now e) v) call (ht_backend t))\<rparr>"
      by (simp add: sql_app_def sql_context_def)
    with 2(1-3) execute_call_writes [of v "ht_backend t" "he_externals e" "gl_urldecode gl" lib cfg rng "he_now e" call]
    show ?thesis by (cases t) (auto simp: writes_op_def)
  qed simp
qed

text \<open>
  C22. An administrator cannot lock itself out over GraphQL: whatever sequence of calls a member of the group
  \<open>lldap_admin\<close> (group 1) makes, it is still a member of that group under that name afterwards, and its groups still
  give it the permissions of an administrator.
\<close>

theorem graphql_admin_not_locked_out:
  assumes "admin_member (vr_user v) (GroupName ''lldap_admin'') s"
    and "t = run_calls ext dec \<lparr>cx_handler = sql_backend ext lib cfg rng now, cx_validation_result = v\<rparr> calls s"
  shows "admin_member (vr_user v) (GroupName ''lldap_admin'') t
    \<and> (\<exists>w. get_permissions_for_user ext (sql_backend ext lib cfg rng now) (vr_user v) t = (Ok w, t)
         \<and> vr_user w = vr_user v \<and> is_admin w)"
  using run_calls_admin [OF assms(1)] admin_member_permission by (metis assms(2) sql_context_def)

theorem graphql_admin_not_locked_out_witness:
  "let calls = [DeleteUser ''PATRICK'', RemoveUserFromGroup ''patrick'' 1, DeleteGroup 1,
       UpdateGroup \<lparr>ugi_id = 1, ugi_display_name = Some ''x'', ugi_remove_attributes = None, ugi_insert_attributes = None\<rparr>,
       DeleteUser ''bob''];
     v = \<lparr>vr_user = UserId ''patrick'', vr_permission = Admin\<rparr>;
     t = run_calls ascii_externals Some \<lparr>cx_handler = sql_backend ascii_externals toy_lib toy_config id 0, cx_validation_result = v\<rparr> calls demo_db
   in \<exists>w. get_permissions_for_user ascii_externals (sql_backend ascii_externals toy_lib toy_config id 0) (UserId ''patrick'') t = (Ok w, t)
        \<and> is_admin w"
proof -
  let ?v = "\<lparr>vr_user = UserId ''patrick'', vr_permission = Admin\<rparr>"
  have "admin_member (vr_user ?v) (GroupName ''lldap_admin'') demo_db" by (simp add: admin_member_def user_exists_def demo_db_def)
  from graphql_admin_not_locked_out [OF this refl] show ?thesis
    unfolding Let_def by (metis validation_results.select_convs(1))
qed

text \<open>
  C23. Attribute values survive the trip through the database: what a mutation stores for the text of an attribute is
  shown by a query as text that stores the same value again; for strings it is the text that was given.
\<close>

theorem attribute_text_roundtrip:
  assumes "bincode_ok ext" and "rfc3339_ok ext" and "base64_ok ext"
    and "deserialize_attribute ext l \<lparr>ai_name = n, ai_value = vs\<rparr> admin = Ok a"
  shows "\<exists>g ws. from_schema a l = Ok g \<and> attribute_value_value ext g = Ok ws
    \<and> deserialize_attribute ext l \<lparr>ai_name = n, ai_value = ws\<rparr> admin = Ok a
    \<and> (as_attribute_type (ga_schema g) = AttrString \<longrightarrow> ws = vs)"
proof -
  from deserialize_attribute_Ok [OF assms(4)] obtain c where c: "get_attribute_schema l (av_name a) = Some c"
    "admin \<or> as_is_editable c" "av_name a = AttributeName_from n"
    and d: "deserialize_attribute_value ext vs (as_attribute_type c) (as_is_list c) = Ok (av_value a)" by auto
  from deserialize_again [OF assms(2,3) d] obtain v where v: "av_value a = Serialized_from ext v"
    "data_type v = (as_attribute_type c, as_is_list c)"
    "deserialize_attribute_value ext (data_to_strings ext v) (as_attribute_type c) (as_is_list c) = Ok (av_value a)"
    "as_attribute_type c = AttrString \<longrightarrow> data_to_strings ext v = vs" by blast
  have "from_schema a l = Ok \<lparr>ga_attribute = a, ga_schema = c\<rparr>" using c(1) by (simp add: from_schema_def)
  moreover have "attribute_value_value ext \<lparr>ga_attribute = a, ga_schema = c\<rparr> = Ok (data_to_strings ext v)"
    by (simp add: attribute_value_value_def serialize_attribute_def v(1) Serialized_unwrap_from [OF assms(1)] flip: v(2))
  moreover have "deserialize_attribute ext l \<lparr>ai_name = n, ai_value = data_to_strings ext v\<rparr> admin = Ok a"
    using c v(3) by (cases a) (auto simp: deserialize_attribute_def Let_def)
  ultimately show ?thesis using v(4) by auto
qed

theorem attribute_text_roundtrip_witness:
  "let l = AttributeList [\<lparr>as_name = AttributeName ''uid_numbers'', as_attribute_type = AttrInteger, as_is_list = True,
         as_is_visible = True, as_is_editable = True, as_is_hardcoded = False\<rparr>];
       a = \<lparr>av_name = AttributeName ''uid_numbers'', av_value = Serialized_from text_externals (DIntegers [7, -12])\<rparr>
   in \<exists>ws. deserialize_attribute text_externals l \<lparr>ai_name = ''UID_numbers'', ai_value = ws\<rparr> False = Ok a"
proof -
  let ?l = "AttributeList [\<lparr>as_name = AttributeName ''uid_numbers'', as_attribute_type = AttrInteger, as_is_list = True,
         as_is_visible = True, as_is_editable = True, as_is_hardcoded = False\<rparr>]"
  let ?a = "\<lparr>av_name = AttributeName ''uid_numbers'', av_value = Serialized_from text_externals (DIntegers [7, -12])\<rparr>"
  have b: "base64_ok text_externals" by (simp add: base64_ok_def text_externals_def ascii_externals_def)
  have "deserialize_attribute text_externals ?l \<lparr>ai_name = ''UID_numbers'', ai_value = [''+007'', ''-12'']\<rparr> False = Ok ?a" by code_simp
  from attribute_text_roundtrip [OF text_externals_ok(1,2) b this] show ?thesis by (auto simp: Let_def)
qed

end
