(* ===== verification/No_Panic.thy ===== *)
theory No_Panic
  imports Ldap_Session
begin

text \<open>
  Actions that never panic: rules for the combinators, and that the operations of the SQL backend are such actions. The
  API and the start of the server rest on them.
\<close>

definition no_panic :: "('s, 'a, 'e) action \<Rightarrow> bool" where
  "no_panic m \<longleftrightarrow> (\<forall>s. fst (m s) \<noteq> Panic)"

named_theorems no_panic_intros \<open>rules that an action does not panic\<close>

lemma no_panic_return [no_panic_intros]: "no_panic (return x)"
  by (simp add: no_panic_def return_def)

lemma no_panic_fail [no_panic_intros]: "no_panic (fail e)"
  by (simp add: no_panic_def fail_def)

lemma no_panic_lift [no_panic_intros]: "r \<noteq> Panic \<Longrightarrow> no_panic (lift_result r)"
  by (simp add: no_panic_def lift_result_def)

lemma no_panic_bind [no_panic_intros]: "no_panic m \<Longrightarrow> (\<And>x. no_panic (f x)) \<Longrightarrow> no_panic (bind m f)"
  by (auto simp: no_panic_def bind_def split: prod.splits result.splits) (metis fst_conv)

lemma no_panic_for_each [no_panic_intros]: "(\<And>x. no_panic (f x)) \<Longrightarrow> no_panic (for_each f xs)"
  by (induction xs) (auto intro: no_panic_intros)

lemma no_panic_transaction [no_panic_intros]: "no_panic m \<Longrightarrow> no_panic (transaction m)"
  by (auto simp: no_panic_def transaction_def split: prod.splits result.splits) (metis fst_conv)

lemma no_panic_map_action [no_panic_intros]: "no_panic m \<Longrightarrow> no_panic (map_action f m)"
  by (auto simp: no_panic_def map_action_def split: prod.splits) (metis fst_conv)

lemma no_panic_split [no_panic_intros]:
  "no_panic m \<Longrightarrow> no_panic n \<Longrightarrow> no_panic (if b then m else n)"
  "(\<And>a b. no_panic (g a b)) \<Longrightarrow> no_panic (case p of (a, b) \<Rightarrow> g a b)"
  by (auto split: prod.split)

lemma row_ops_no_panic [no_panic_intros]:
  "no_panic (sql_insert_user r)" "no_panic (sql_update_user u f)" "no_panic (sql_delete_user u)"
  "no_panic (sql_insert_membership m)" "no_panic (sql_delete_membership m)"
  "no_panic (sql_insert_user_attribute a)" "no_panic (sql_upsert_user_attribute a)"
  "no_panic (sql_delete_user_attributes u ns)" "no_panic (sql_insert_group n l d w)"
  "no_panic (sql_update_group g f')" "no_panic (sql_delete_group g)"
  "no_panic (sql_insert_group_attribute b)" "no_panic (sql_upsert_group_attribute b)"
  "no_panic (sql_delete_group_attributes g ns)" "no_panic get_schema_with_transaction"
  by (simp add: no_panic_def sql_insert_user_def sql_update_user_def sql_delete_user_def sql_insert_membership_def
        sql_delete_membership_def sql_insert_user_attribute_def sql_upsert_user_attribute_def
        sql_delete_user_attributes_def sql_insert_group_def sql_update_group_def sql_delete_group_def
        sql_insert_group_attribute_def sql_upsert_group_attribute_def sql_delete_group_attributes_def
        get_schema_with_transaction_def monad_simps Let_def split: option.split)+

lemma schema_ops_no_panic [no_panic_intros]:
  "no_panic (add_user_attribute r)" "no_panic (add_group_attribute r)"
  "no_panic (delete_user_attribute n)" "no_panic (delete_group_attribute n)"
  "no_panic (add_user_object_class c)" "no_panic (add_group_object_class c)"
  "no_panic (delete_user_object_class c)" "no_panic (delete_group_object_class c)"
  by (simp add: no_panic_def add_user_attribute_def add_group_attribute_def delete_user_attribute_def
        delete_group_attribute_def add_user_object_class_def add_group_object_class_def
        delete_user_object_class_def delete_group_object_class_def monad_simps Let_def)+

lemma reads_no_panic [no_panic_intros]:
  "no_panic (get_user_details u)" "no_panic (get_user_groups u)" "no_panic (get_group_details g)" "no_panic sql_get_schema"
  "no_panic (list_groups ext f0)"
  by (auto simp: no_panic_def get_user_details_def get_user_groups_def get_group_details_def list_groups_def sql_get_schema_def
      transaction_def get_schema_with_transaction_def monad_simps Let_def split: option.splits result.splits)

lemma attribute_lists_no_panic:
  "new_user_attributes sc u as acc \<noteq> Panic" "process_inserts sc u as ch \<noteq> Panic" "process_deletes sc ns (ups, rems) \<noteq> Panic"
  "new_group_attributes sc g as acc' \<noteq> Panic" "group_inserts sc g as \<noteq> Panic" "group_deletes sc ns \<noteq> Panic"
proof -
  show "new_user_attributes sc u as acc \<noteq> Panic" by (induction "as" arbitrary: acc) auto
  show "process_inserts sc u as ch \<noteq> Panic" by (induction "as" arbitrary: ch) auto
  show "process_deletes sc ns (ups, rems) \<noteq> Panic" by (induction ns arbitrary: ups rems) auto
  show "new_group_attributes sc g as acc' \<noteq> Panic" by (induction "as" arbitrary: acc') auto
  show "group_inserts sc g as \<noteq> Panic" by (induction "as") (auto simp: bind_result_Panic_iff)
  show "group_deletes sc ns \<noteq> Panic" by (induction ns) (auto simp: bind_result_Panic_iff)
qed

lemma process_deletes_no_panic: "process_deletes sc ns ch \<noteq> Panic"
  by (cases ch) (simp add: attribute_lists_no_panic)

lemma backend_ops_no_panic [no_panic_intros]:
  "no_panic (create_user ext now creq)" "no_panic (update_user ext ureq)" "no_panic (delete_user u)"
  "no_panic (add_user_to_group u g)" "no_panic (remove_user_from_group u g)" "no_panic (create_group ext now cg)"
  "no_panic (update_group ext ug)" "no_panic (delete_group g)"
  by (simp_all add: create_user_def update_user_def update_user_with_transaction_def delete_user_def add_user_to_group_def
        remove_user_from_group_def create_group_def update_group_def update_group_with_transaction_def delete_group_def
        Let_def no_panic_intros attribute_lists_no_panic process_deletes_no_panic)

lemma list_users_no_panic:
  assumes "\<And>f. fo = Some f \<Longrightarrow> user_filter_ok f"
  shows "no_panic (list_users ext fo b)"
proof (cases fo)
  case (Some f)
  with assms obtain c where "get_user_filter_expr ext f = (Ok c :: (user_cond, domain_error) result)"
    using user_filter_expr_Ok by blast
  with Some show ?thesis by (simp add: no_panic_def list_users_def monad_simps Let_def)
qed (simp add: no_panic_def list_users_def monad_simps Let_def)

lemma registration_no_panic [no_panic_intros]:
  "no_panic (sql_registration_start ext lib cfg rng rs)" "no_panic (sql_registration_finish ext lib cfg rf)"
  "no_panic (register_password ext lib cfg rng u pw)"
proof -
  show start: "no_panic (sql_registration_start ext lib cfg rng rs)" for rng rs
    by (auto simp: sql_registration_start_def get_orion_secret_key_def Let_def intro!: no_panic_intros)
  show finish: "no_panic (sql_registration_finish ext lib cfg rf)" for rf
    by (auto simp: sql_registration_finish_def get_orion_secret_key_def Let_def intro!: no_panic_intros)
  show "no_panic (register_password ext lib cfg rng u pw)"
    by (auto simp: register_password_def intro!: no_panic_intros start finish)
qed

lemma no_panic_match [no_panic_intros]:
  "no_panic m \<Longrightarrow> (\<And>x. no_panic (f x)) \<Longrightarrow> (\<And>e. no_panic (g e)) \<Longrightarrow> no_panic (match_action m f g)"
  by (auto simp: no_panic_def match_action_def split: prod.splits result.splits) (metis fst_conv)

end
