(* ===== verification/Graphql_Reads.thy ===== *)
theory Graphql_Reads
  imports Graphql_Session No_Panic
begin

text \<open>
  What the queries of the GraphQL API return over the SQL backend: the users a filter describes, and what becomes of
  attributes a caller may not see; that no call panics.
\<close>

section \<open>The meaning of a GraphQL filter\<close>

definition equality_matches :: "externals \<Rightarrow> db \<Rightarrow> public_schema \<Rightarrow> users_row \<Rightarrow> equality_constraint \<Rightarrow> bool" where
  "equality_matches ext s schema r eq =
     (case map_user_field (AttributeName_from (eq_field eq)) schema of
        UFPrimaryField ColUserId \<Rightarrow> usr_user_id r = UserId_new (eq_value eq)
      | UFPrimaryField ColEmail \<Rightarrow> usr_lowercase_email r = str_to_lowercase ext (eq_value eq)
      | UFPrimaryField column \<Rightarrow> user_col_text ext r column = Some (eq_value eq)
      | UFAttribute name typ _ \<Rightarrow> (\<exists>a\<in>set (db_user_attributes s). uat_user_id a = usr_user_id r \<and> uat_attribute_name a = name
          \<and> deserialize_attribute_value ext [eq_value eq] typ False = Ok (uat_value a))
      | UFMemberOf \<Rightarrow> (\<exists>g\<in>set (groups_of_user s (usr_user_id r)).
          grp_lowercase_display_name g = str_to_lowercase ext (eq_value eq))
      | _ \<Rightarrow> False)"

fun request_matches :: "externals \<Rightarrow> db \<Rightarrow> public_schema \<Rightarrow> users_row \<Rightarrow> request_filter \<Rightarrow> bool" where
  "request_matches ext s schema r (RequestFilter any all neg eq member_of member_of_id) \<longleftrightarrow>
     (\<forall>fs. any = Some fs \<longrightarrow> (\<exists>f\<in>set fs. request_matches ext s schema r f))
   \<and> (\<forall>fs. all = Some fs \<longrightarrow> (\<forall>f\<in>set fs. request_matches ext s schema r f))
   \<and> (\<forall>f. neg = Some f \<longrightarrow> \<not> request_matches ext s schema r f)
   \<and> (\<forall>c. eq = Some c \<longrightarrow> equality_matches ext s schema r c)
   \<and> (\<forall>n. member_of = Some n \<longrightarrow> (\<exists>g\<in>set (groups_of_user s (usr_user_id r)).
        grp_lowercase_display_name g = str_to_lowercase ext n))
   \<and> (\<forall>i. member_of_id = Some i \<longrightarrow> (\<exists>g\<in>set (groups_of_user s (usr_user_id r)). grp_group_id g = GroupId i))"

lemma convert_equality_matches:
  assumes "convert_equality ext schema eq = Ok g"
  shows "user_matches ext s r g = equality_matches ext s schema r eq" and "user_filter_ok g"
proof -
  have "user_matches ext s r g = equality_matches ext s schema r eq \<and> user_filter_ok g"
  proof (cases "map_user_field (AttributeName_from (eq_field eq)) schema")
    case (UFPrimaryField c)
    with assms show ?thesis by (cases c) (auto simp: convert_equality_def equality_matches_def)
  next
    case (UFAttribute name ty li)
    with assms show ?thesis
      by (cases li) (auto simp: convert_equality_def equality_matches_def list_ex_iff)
  qed (use assms in \<open>auto simp: convert_equality_def equality_matches_def list_ex_iff\<close>)
  then show "user_matches ext s r g = equality_matches ext s schema r eq" and "user_filter_ok g" by auto
qed

lemma list_all2_matches:
  assumes "list_all2 (\<lambda>f g. c f = Ok g) fs gs" and PQ: "\<And>f g. f \<in> set fs \<Longrightarrow> c f = Ok g \<Longrightarrow> P g = Q f"
    and R: "\<And>f g. f \<in> set fs \<Longrightarrow> c f = Ok g \<Longrightarrow> R g"
  shows "(\<exists>g\<in>set gs. P g) \<longleftrightarrow> (\<exists>f\<in>set fs. Q f)" and "(\<forall>g\<in>set gs. P g) \<longleftrightarrow> (\<forall>f\<in>set fs. Q f)" and "\<forall>g\<in>set gs. R g"
proof -
  have fs: "\<exists>g\<in>set gs. c f = Ok g" if "f \<in> set fs" for f
    using assms(1) that by (auto simp: list_all2_conv_all_nth in_set_conv_nth)
  have gs: "\<exists>f\<in>set fs. c f = Ok g" if "g \<in> set gs" for g
  proof -
    from that obtain i where "i < length gs" "g = gs ! i" by (auto simp: in_set_conv_nth)
    with assms(1) show ?thesis by (intro bexI [of _ "fs ! i"]) (auto simp: list_all2_conv_all_nth)
  qed
  show "(\<exists>g\<in>set gs. P g) \<longleftrightarrow> (\<exists>f\<in>set fs. Q f)" using fs gs PQ by blast
  show "(\<forall>g\<in>set gs. P g) \<longleftrightarrow> (\<forall>f\<in>set fs. Q f)" using fs gs PQ by blast
  show "\<forall>g\<in>set gs. R g" using gs R by blast
qed

lemma domain_filter_Ok:
  assumes "try_into_domain_filter ext schema (RequestFilter any all neg eq mo mi) = Ok g"
  shows "(\<exists>c. (eq, any, all, neg, mo, mi) = (Some c, None, None, None, None, None) \<and> convert_equality ext schema c = Ok g)
   \<or> (\<exists>fs gs. (eq, any, all, neg, mo, mi) = (None, Some fs, None, None, None, None)
        \<and> collect_results (try_into_domain_filter ext schema) fs = Ok gs \<and> g = UOr gs)
   \<or> (\<exists>fs gs. (eq, any, all, neg, mo, mi) = (None, None, Some fs, None, None, None)
        \<and> collect_results (try_into_domain_filter ext schema) fs = Ok gs \<and> g = UAnd gs)
   \<or> (\<exists>f h. (eq, any, all, neg, mo, mi) = (None, None, None, Some f, None, None)
        \<and> try_into_domain_filter ext schema f = Ok h \<and> g = UNot h)
   \<or> (\<exists>n. (eq, any, all, neg, mo, mi) = (None, None, None, None, Some n, None) \<and> g = UMemberOf (GroupName n))
   \<or> (\<exists>i. (eq, any, all, neg, mo, mi) = (None, None, None, None, None, Some i) \<and> g = UMemberOfId (GroupId i))"
  using assms unfolding try_into_domain_filter.simps [of ext schema any]
  by (simp split: option.splits; blast)

lemma filter_matches:
  "try_into_domain_filter ext schema f = Ok g \<Longrightarrow> user_matches ext s r g = request_matches ext s schema r f \<and> user_filter_ok g"
proof (induction ext schema f arbitrary: g rule: try_into_domain_filter.induct)
  case (1 ext schema any all neg eq mo mi)
  from domain_filter_Ok [OF "1.prems"] consider
      (eq) c where "(eq, any, all, neg, mo, mi) = (Some c, None, None, None, None, None)" "convert_equality ext schema c = Ok g"
    | (any) fs gs where "(eq, any, all, neg, mo, mi) = (None, Some fs, None, None, None, None)"
        "list_all2 (\<lambda>f g. try_into_domain_filter ext schema f = Ok g) fs gs" "g = UOr gs"
    | (all) fs gs where "(eq, any, all, neg, mo, mi) = (None, None, Some fs, None, None, None)"
        "list_all2 (\<lambda>f g. try_into_domain_filter ext schema f = Ok g) fs gs" "g = UAnd gs"
    | (neg) h k where "(eq, any, all, neg, mo, mi) = (None, None, None, Some h, None, None)"
        "try_into_domain_filter ext schema h = Ok k" "g = UNot k"
    | (mo) n where "(eq, any, all, neg, mo, mi) = (None, None, None, None, Some n, None)" "g = UMemberOf (GroupName n)"
    | (mi) i where "(eq, any, all, neg, mo, mi) = (None, None, None, None, None, Some i)" "g = UMemberOfId (GroupId i)"
    unfolding collect_results_Ok_iff by blast
  then show ?case
  proof cases
    case eq
    then show ?thesis by (simp add: convert_equality_matches)
  next
    case any
    have ih: "user_matches ext s r h = request_matches ext s schema r f \<and> user_filter_ok h"
      if "f \<in> set fs" "try_into_domain_filter ext schema f = Ok h" for f h
      using "1.IH"(3) any(1) that by simp
    have "(\<exists>g\<in>set gs. user_matches ext s r g) \<longleftrightarrow> (\<exists>f\<in>set fs. request_matches ext s schema r f)" "\<forall>g\<in>set gs. user_filter_ok g"
      using list_all2_matches(1,3) [OF any(2), where Q = "request_matches ext s schema r" and P = "user_matches ext s r" and R = user_filter_ok] ih
      by blast+
    with any show ?thesis by (simp add: list_ex_iff)
  next
    case all
    have ih: "user_matches ext s r h = request_matches ext s schema r f \<and> user_filter_ok h"
      if "f \<in> set fs" "try_into_domain_filter ext schema f = Ok h" for f h
      using "1.IH"(2) all(1) that by simp
    have "(\<forall>g\<in>set gs. user_matches ext s r g) \<longleftrightarrow> (\<forall>f\<in>set fs. request_matches ext s schema r f)" "\<forall>g\<in>set gs. user_filter_ok g"
      using list_all2_matches(2,3) [OF all(2), where Q = "request_matches ext s schema r" and P = "user_matches ext s r" and R = user_filter_ok] ih
      by blast+
    with all show ?thesis by (simp add: list_all_iff)
  next
    case neg
    with "1.IH"(1) show ?thesis by simp
  qed (simp_all add: list_ex_iff)
qed

section \<open>The schema and the users shown\<close>

definition visible_schema :: "validation_results \<Rightarrow> db \<Rightarrow> schema" where
  "visible_schema v s = (if can_read_all v then db_schema s else (db_schema s)
     \<lparr>user_attributes := AttributeList (filter as_is_visible (attributes (user_attributes (db_schema s)))),
      group_attributes := AttributeList (filter as_is_visible (attributes (group_attributes (db_schema s))))\<rparr>)"

lemma query_get_schema_run:
  "query_get_schema (sql_context ext lib cfg rng now v) s = (Ok (PublicSchema_from (visible_schema v s)), s)"
  by (simp add: query_get_schema_def sql_backend_def restricted_get_schema_def restricted_user_filter_def visible_schema_def
      sql_get_schema_def transaction_def get_schema_with_transaction_def on_handler_def map_action_def monad_simps)

lemma bind_query_schema:
  "bind (query_get_schema (sql_context ext lib cfg rng now v)) f s = f (PublicSchema_from (visible_schema v s)) s"
  by (simp add: bind_def query_get_schema_run)

text \<open>Every stored attribute is declared in the full schema.\<close>

lemma stored_attribute_declared:
  assumes "db_inv s" and "a \<in> set (u_attributes (user_view s r))"
  shows "\<exists>g. from_schema a (user_attributes (get_schema (PublicSchema_from (db_schema s)))) = Ok g \<and> ga_attribute g = a"
proof -
  from assms(2) obtain row where row: "row \<in> set (db_user_attributes s)" "a = AttributeValue_from_user row"
    by (auto simp: user_view_def attributes_of_user_def)
  then have "av_name a \<in> uas_attribute_name ` set (db_user_attribute_schema s)"
    using db_inv_user_attributesD(2) [OF assms(1) row(1)] by (auto simp: user_attribute_fk_def AttributeValue_from_user_def)
  then have "av_name a \<in> as_name ` set (attributes (user_attributes (get_schema (PublicSchema_from (db_schema s)))))"
    by (auto simp: PublicSchema_from_def AttributeSchema_from_user_def image_Un image_image)
  then have "get_attribute_schema (user_attributes (get_schema (PublicSchema_from (db_schema s)))) (av_name a) \<noteq> None"
    by (auto simp: get_attribute_schema_def find_None_iff)
  then show ?thesis by (auto simp: from_schema_def split: option.split)
qed

text \<open>A user object shows a row: its columns, its attributes in order.\<close>

definition shows_row :: "db \<Rightarrow> users_row \<Rightarrow> gql_user \<Rightarrow> bool" where
  "shows_row s r u \<longleftrightarrow> gu_user u = (User_from r)\<lparr>u_attributes := []\<rparr>
     \<and> map ga_attribute (gu_attributes u) = map AttributeValue_from_user (attributes_of_user s (usr_user_id r))"

lemma collect_ga_attribute:
  "collect_results (\<lambda>a. from_schema a l) as = Ok gs \<Longrightarrow> map ga_attribute gs = as"
  by (induction as arbitrary: gs) (auto simp: from_schema_def split: option.splits)

lemma from_user_shows:
  assumes "db_inv s"
  shows "\<exists>u. from_user (user_view s r) (PublicSchema_from (db_schema s)) = Ok u \<and> shows_row s r u \<and> gu_groups u = None"
proof -
  let ?l = "user_attributes (get_schema (PublicSchema_from (db_schema s)))"
  obtain gs where gs: "collect_results (\<lambda>a. from_schema a ?l) (u_attributes (user_view s r)) = (Ok gs :: (gql_attribute_value list, field_error) result)"
    using collect_results_Ok_ex [of "u_attributes (user_view s r)" "\<lambda>a. from_schema a ?l"] stored_attribute_declared [OF assms] by blast
  then show ?thesis
    using collect_ga_attribute [OF gs] by (auto simp: from_user_def shows_row_def user_view_def)
qed

lemma from_user_and_groups_shows:
  assumes "db_inv s"
  shows "\<exists>u. from_user_and_groups (listed_user s r) (PublicSchema_from (db_schema s)) = Ok u \<and> shows_row s r u"
proof -
  obtain u where u: "from_user (user_view s r) (PublicSchema_from (db_schema s)) = Ok u" "shows_row s r u"
    using from_user_shows [OF assms] by blast
  have "from_group_details (GroupDetails_from g) sc = Ok \<lparr>gg_group_id = group_id_int (grp_group_id g),
      gg_display_name = GroupName_as_str (grp_display_name g), gg_creation_date = grp_creation_date g,
      gg_uuid = Uuid_as_str (grp_uuid g), gg_attributes = [], gg_schema = sc\<rparr>" for g sc
    by (simp add: from_group_details_def GroupDetails_from_def)
  then have "\<exists>gs. collect_results (\<lambda>g. from_group_details g sc) (map GroupDetails_from l) = (Ok gs :: (gql_group list, field_error) result)" for l sc
    by (intro collect_results_Ok_ex) auto
  then show ?thesis using u by (fastforce simp: from_user_and_groups_def listed_user_def shows_row_def)
qed

lemma list_users_regular:
  assumes "db_inv s" and "\<forall>r\<in>set (db_users s). user_filter_regular ext r g" and "user_filter_ok g"
  shows "list_users ext (Some g) b s
    = (Ok (map (listed_user s) (sort_key (\<lambda>r. UserId_as_str (usr_user_id r)) (filter (\<lambda>r. user_matches ext s r g) (db_users s)))), s)"
proof -
  obtain c where c: "get_user_filter_expr ext g = (Ok c :: (user_cond, domain_error) result)"
    using user_filter_expr_Ok [OF assms(3)] by blast
  show ?thesis
    using list_users_rows [OF assms(1), where filters = "Some g" and ext = ext and b = b] c where_users_matches [OF assms(2) c] by simp
qed

section \<open>No call panics\<close>

lemma no_panic_on_handler [no_panic_intros]: "no_panic m \<Longrightarrow> no_panic (on_handler m)"
  by (auto simp: no_panic_def on_handler_def map_err_action_def split: prod.splits) (metis fst_conv)

lemma no_panic_handler_or [no_panic_intros]: "no_panic (handler_or msg h)"
  by (simp add: handler_or_def no_panic_lift)

lemma conversions_no_panic:
  "deserialize_attribute ext l a admin \<noteq> Panic" "decode_avatar ext av \<noteq> Panic" "from_schema x l \<noteq> Panic"
  "from_user usr sc \<noteq> Panic" "from_group gr sc \<noteq> Panic" "from_group_details gd sc \<noteq> Panic" "from_user_and_groups ug sc \<noteq> Panic"
  "convert_equality ext sc eq \<noteq> Panic"
proof -
  show "deserialize_attribute ext l a admin \<noteq> Panic"
    by (auto simp: deserialize_attribute_def Let_def bind_result_Panic_iff deserialize_no_panic)
  show "decode_avatar ext av \<noteq> Panic" by (auto simp: decode_avatar_def bind_result_Panic_iff split: option.split)
  have schema: "from_schema x l \<noteq> Panic" for x l by (simp add: from_schema_def split: option.split)
  then have collect: "collect_results (\<lambda>a. from_schema a l) as \<noteq> Panic" for l "as"
    by (simp add: collect_results_no_panic)
  show "from_schema x l \<noteq> Panic" by (rule schema)
  have user: "from_user usr sc \<noteq> Panic" for usr by (simp add: from_user_def bind_result_Panic_iff collect)
  have details: "from_group_details gd sc \<noteq> Panic" for gd by (simp add: from_group_details_def bind_result_Panic_iff collect)
  show "from_user usr sc \<noteq> Panic" "from_group_details gd sc \<noteq> Panic" by (rule user, rule details)
  show "from_group gr sc \<noteq> Panic" by (simp add: from_group_def bind_result_Panic_iff collect)
  show "from_user_and_groups ug sc \<noteq> Panic"
    by (auto simp: from_user_and_groups_def bind_result_Panic_iff user collect_results_no_panic details split: option.split)
  show "convert_equality ext sc eq \<noteq> Panic"
    by (auto simp: convert_equality_def bind_result_Panic_iff deserialize_no_panic split: user_field_type.split user_column.split bool.split)
qed

lemma domain_filter_no_panic: "try_into_domain_filter ext schema f \<noteq> Panic"
proof (induction ext schema f rule: try_into_domain_filter.induct)
  case (1 ext schema any all neg eq mo mi)
  have "collect_results (try_into_domain_filter ext schema) fs \<noteq> Panic"
    if "\<forall>f\<in>set fs. try_into_domain_filter ext schema f \<noteq> Panic" for fs
    using that by (rule collect_results_no_panic)
  with 1 show ?case
    by (simp add: bind_result_Panic_iff conversions_no_panic split: option.split)
qed

lemma sql_handler_no_panic [no_panic_intros]:
  "no_panic (ur_get_schema (as_admin (sql_backend ext lib cfg rng now)))"
  "no_panic (ur_get_schema (as_user_writeable (sql_backend ext lib cfg rng now)))"
  by (simp_all add: handed_out_defs no_panic_intros)

lemma with_handler_no_panic:
  "no_panic (fa (as_admin (cx_handler cx))) \<Longrightarrow> no_panic (bind (handler_or msg (context_get_admin_handler cx)) fa)"
  "no_panic (fr (as_readonly (cx_handler cx))) \<Longrightarrow> no_panic (bind (handler_or msg (context_get_readonly_handler cx)) fr)"
  "no_panic (fw (as_user_writeable (cx_handler cx))) \<Longrightarrow> no_panic (bind (handler_or msg (context_get_writeable_handler cx u)) fw)"
  "no_panic (fu (as_user_readable (cx_handler cx))) \<Longrightarrow> no_panic (bind (handler_or msg (context_get_readable_handler cx u)) fu)"
  by (auto simp: no_panic_def bind_handler_or)

lemma collect_no_panic:
  "collect_results (\<lambda>a. deserialize_attribute ext l a admin) as \<noteq> Panic"
  "collect_results (\<lambda>u. from_user_and_groups u sc) us \<noteq> Panic" "collect_results (\<lambda>g. from_group g sc) gs \<noteq> Panic"
  by (simp_all add: collect_results_no_panic conversions_no_panic)

lemma mutations_no_panic:
  assumes cx: "cx = sql_context ext lib cfg rng now v"
  shows "no_panic (mutation_create_user ext cx ci)" and "no_panic (create_group_with_details ext cx cg)"
    and "no_panic (mutation_update_user ext cx ui)" and "no_panic (mutation_delete_user cx u)"
    and "no_panic (mutation_update_group ext cx gi)" and "no_panic (mutation_delete_group cx g)"
    and "no_panic (mutation_add_user_to_group cx u g)" and "no_panic (mutation_remove_user_from_group cx u g)"
    and "no_panic (mutation_add_user_attribute cx n ty li vi ed)" and "no_panic (mutation_add_group_attribute cx n ty li vi ed)"
    and "no_panic (mutation_delete_user_attribute cx n)" and "no_panic (mutation_delete_group_attribute cx n)"
    and "no_panic (mutation_add_user_object_class cx n)" and "no_panic (mutation_add_group_object_class cx n)"
    and "no_panic (mutation_delete_user_object_class cx n)" and "no_panic (mutation_delete_group_object_class cx n)"
  unfolding mutation_create_user_def create_group_with_details_def mutation_update_user_def mutation_delete_user_def
    mutation_update_group_def mutation_delete_group_def
    mutation_add_user_to_group_def mutation_remove_user_from_group_def
    mutation_add_user_attribute_def mutation_add_group_attribute_def mutation_delete_user_attribute_def
    mutation_delete_group_attribute_def mutation_add_user_object_class_def mutation_add_group_object_class_def
    mutation_delete_user_object_class_def mutation_delete_group_object_class_def Let_def cx
  by (intro with_handler_no_panic; simp add: handed_out_defs no_panic_intros conversions_no_panic collect_no_panic)+

lemma no_panic_query_schema [no_panic_intros]: "no_panic (query_get_schema (sql_context ext lib cfg rng now v))"
  by (simp add: no_panic_def query_get_schema_run)

lemma query_users_no_panic: "no_panic (query_users ext (sql_context ext lib cfg rng now v) fo)"
proof -
  have "fst (bind (lift_result (case fo of None \<Rightarrow> Ok None | Some f \<Rightarrow> map_ok Some (try_into_domain_filter ext schema f))) (\<lambda>d.
      bind (on_handler (list_users ext d False)) (\<lambda>users. lift_result (collect_results (\<lambda>u. from_user_and_groups u schema) users))) s) \<noteq> Panic" for schema s
  proof (cases "case fo of None \<Rightarrow> Ok None | Some f \<Rightarrow> map_ok Some (try_into_domain_filter ext schema f)")
    case (Ok d)
    then have "\<And>f. d = Some f \<Longrightarrow> user_filter_ok f" by (auto split: option.splits dest!: filter_matches)
    then have "no_panic (bind (on_handler (list_users ext d False)) (\<lambda>users. lift_result (collect_results (\<lambda>u. from_user_and_groups u schema) users)))"
      by (simp add: no_panic_intros list_users_no_panic collect_no_panic)
    with Ok show ?thesis by (simp add: bind_def [of "lift_result _"] lift_result_def no_panic_def)
  qed (auto simp: bind_def [of "lift_result _"] lift_result_def domain_filter_no_panic split: option.splits)
  then show ?thesis
    unfolding query_users_def by (intro with_handler_no_panic) (simp add: no_panic_def bind_query_schema handed_out_defs)
qed

lemma execute_call_no_panic: "no_panic (execute_call ext dec (sql_context ext lib cfg rng now v) call)"
proof -
  let ?cx = "sql_context ext lib cfg rng now v"
  have "no_panic (query_user dec ?cx u)" "no_panic (query_groups ?cx)" "no_panic (query_group ?cx g)" for u g
    unfolding query_user_def query_groups_def query_group_def Let_def
    by (rule with_handler_no_panic no_panic_bind no_panic_lift no_panic_query_schema
        | simp add: handed_out_defs no_panic_intros conversions_no_panic collect_no_panic)+
  then show ?thesis
    by (cases call) (simp_all add: no_panic_intros mutations_no_panic [OF refl] query_users_no_panic query_schema_def
      mutation_create_group_def mutation_create_group_with_details_def)
qed

lemma shown_attribute_decodes:
  assumes typed: "user_typed ext (PublicSchema_from sc) usr"
    and u: "from_user usr (PublicSchema_from sc) = Ok u" and g: "g \<in> set (gu_attributes u)"
  shows "attribute_value_value ext g \<noteq> Panic"
proof -
  let ?l = "user_attributes (get_schema (PublicSchema_from sc))"
  from u have c: "collect_results (\<lambda>a. from_schema a ?l) (u_attributes usr) = (Ok (gu_attributes u) :: (gql_attribute_value list, field_error) result)"
    by (auto simp: from_user_def)
  from g have "ga_attribute g \<in> set (map ga_attribute (gu_attributes u))" by simp
  then have a: "ga_attribute g \<in> set (u_attributes usr)" using collect_ga_attribute [OF c] by simp
  from c g obtain a where "from_schema a ?l = (Ok g :: (gql_attribute_value, field_error) result)"
    by (auto simp: collect_results_Ok_iff list_all2_conv_all_nth in_set_conv_nth)
  then have s: "get_attribute_schema ?l (av_name (ga_attribute g)) = Some (ga_schema g)"
    by (auto simp: from_schema_def split: option.splits)
  with typed a have "Serialized_convert_to ext (as_attribute_type (ga_schema g), as_is_list (ga_schema g)) (av_value (ga_attribute g)) \<noteq> None"
    by (fastforce simp: user_typed_def attrs_typed_def SchemaUserAttributeExtractor_def get_attribute_type_def)
  then show ?thesis
    by (auto simp: attribute_value_value_def serialize_attribute_def Serialized_unwrap_def split: option.split)
qed

lemma visible_subset: "set (attributes (user_attributes (visible_schema v s))) \<subseteq> set (attributes (user_attributes (db_schema s)))"
  by (auto simp: visible_schema_def)

lemma query_user_run:
  assumes "query_user dec (sql_context ext lib cfg rng now v) x s = (Ok u, t)"
  shows "\<exists>y r. dec x = Some y \<and> can_read v (UserId_new y) \<and> find_user s (UserId_new y) = Some r \<and> usr_user_id r = UserId_new y
    \<and> from_user (user_view s r) (PublicSchema_from (visible_schema v s)) = Ok u"
proof (cases "dec x")
  case (Some y)
  have "query_user dec (sql_context ext lib cfg rng now v) x s = (if can_read v (UserId_new y) then
      bind (on_handler (get_user_details (UserId_new y))) (\<lambda>d. lift_result (from_user d (PublicSchema_from (visible_schema v s)))) s
      else (Err (FieldError ''Unauthorized access to user data''), s))"
    unfolding query_user_def Let_def using Some by (simp add: bind_lift_Ok bind_handler_or bind_query_schema handed_out_defs)
  with assms have read: "can_read v (UserId_new y)"
    and run: "bind (on_handler (get_user_details (UserId_new y))) (\<lambda>d. lift_result (from_user d (PublicSchema_from (visible_schema v s)))) s = (Ok u, t)"
    by (simp_all split: if_splits)
  from run obtain d t' where d: "get_user_details (UserId_new y) s = (Ok d, t')"
    and u: "from_user d (PublicSchema_from (visible_schema v s)) = Ok u"
    by (auto simp: bind_Ok_iff on_handler_def map_err_action_def split: prod.splits)
  from d obtain r where "find_user s (UserId_new y) = Some r" "usr_user_id r = UserId_new y" "d = user_view s r"
    by (auto simp: get_user_details_def find_user_def user_view_def monad_simps split: option.splits dest!: find_SomeD)
  with Some read u show ?thesis by blast
qed (use assms in \<open>simp add: query_user_def bind_def lift_result_def\<close>)

section \<open>Properties\<close>



text \<open>
  C25. No call of the API panics; and on a database whose stored values have their declared types, resolving the
  attributes and groups of a user that a query has returned does not panic either, with the schema and the rights of
  the caller of that query.
\<close>

theorem graphql_never_panics:
  fixes ext lib cfg rng now v
  defines "cx \<equiv> \<lparr>cx_handler = sql_backend ext lib cfg rng now, cx_validation_result = v\<rparr>"
  assumes "db_inv s" and "db_typed ext s" and "schema_no_clash (db_schema s)"
  shows "fst (execute_call ext dec cx call t) \<noteq> Panic
    \<and> (fst (execute_call ext dec cx (QueryUser x) s) = Ok (AnswerUser u) \<longrightarrow>
         fst (user_groups cx u s) \<noteq> Panic \<and> (\<forall>g\<in>set (gu_attributes u). attribute_value_value ext g \<noteq> Panic)
         \<and> user_first_name ext u \<noteq> Panic \<and> user_last_name ext u \<noteq> Panic \<and> user_avatar ext u \<noteq> Panic)"
proof
  have cx: "cx = sql_context ext lib cfg rng now v" by (simp add: cx_def sql_context_def)
  show "fst (execute_call ext dec cx call t) \<noteq> Panic"
    using execute_call_no_panic [of ext dec lib cfg rng now v call] by (simp add: no_panic_def cx)
  show "fst (execute_call ext dec cx (QueryUser x) s) = Ok (AnswerUser u) \<longrightarrow> fst (user_groups cx u s) \<noteq> Panic
      \<and> (\<forall>g\<in>set (gu_attributes u). attribute_value_value ext g \<noteq> Panic)
      \<and> user_first_name ext u \<noteq> Panic \<and> user_last_name ext u \<noteq> Panic \<and> user_avatar ext u \<noteq> Panic" (is "?ok \<longrightarrow> ?safe")
  proof
    assume ?ok
    then have "query_user dec cx x s = (Ok u, snd (query_user dec cx x s))"
      by (auto simp: map_action_def split: prod.splits)
    from query_user_run [OF this [unfolded cx]] obtain y r where r: "can_read v (UserId_new y)" "usr_user_id r = UserId_new y"
      and u: "from_user (user_view s r) (PublicSchema_from (visible_schema v s)) = Ok u" by blast
    have "user_typed ext (PublicSchema_from (visible_schema v s)) (user_view s r)"
      by (rule user_view_typed [OF assms(2-4) visible_subset])
    then have attrs: "\<forall>g\<in>set (gu_attributes u). attribute_value_value ext g \<noteq> Panic"
      using shown_attribute_decodes [OF _ u] by blast
    have obj: "u_user_id (gu_user u) = UserId_new y" "gu_groups u = None" "u_attributes (gu_user u) = []"
      using u r(2) by (auto simp: from_user_def user_view_def User_from_def)
    have "no_panic (bind (on_handler (get_user_groups w)) (\<lambda>gs. bind (lift_result (collect_results (\<lambda>g. from_group_details g sc) gs))
        (\<lambda>l. return (sort_key gg_display_name l))))" for w sc
      by (simp add: no_panic_intros collect_results_no_panic conversions_no_panic)
    then have "fst (user_groups cx u s) \<noteq> Panic"
      using r(1) by (simp add: user_groups_def cx obj context_handler_defs handed_out_defs no_panic_def)
    with attrs obj(3) show ?safe by (simp add: user_first_name_def user_last_name_def user_avatar_def find_attribute_data_def)
  qed
qed

theorem graphql_never_panics_witness:
  "let cx = \<lparr>cx_handler = sql_backend ascii_externals toy_lib toy_config id 0,
        cx_validation_result = \<lparr>vr_user = UserId ''bob'', vr_permission = Regular\<rparr>\<rparr>
   in \<exists>u. fst (query_user Some cx ''BOB'' demo_db) = Ok u \<and> fst (user_groups cx u demo_db) \<noteq> Panic"
proof -
  let ?cx = "\<lparr>cx_handler = sql_backend ascii_externals toy_lib toy_config id 0,
      cx_validation_result = \<lparr>vr_user = UserId ''bob'', vr_permission = Regular\<rparr>\<rparr>"
  have t: "db_typed ascii_externals demo_db"
    by (simp add: db_typed_def demo_db_def ascii_externals_def Serialized_convert_to_def)
  have c: "schema_no_clash (db_schema demo_db)" by code_simp
  have "(case fst (query_user Some ?cx ''BOB'' demo_db) of Ok u \<Rightarrow> True | _ \<Rightarrow> False)" by code_simp
  then obtain u where u: "fst (query_user Some ?cx ''BOB'' demo_db) = Ok u" by (auto split: result.splits)
  then have "fst (execute_call ascii_externals Some ?cx (QueryUser ''BOB'') demo_db) = Ok (AnswerUser u)"
    by (auto simp: map_action_def split: prod.splits)
  with graphql_never_panics [OF demo_db_inv t c] u show ?thesis unfolding Let_def by blast
qed

section \<open>Attributes a caller may not see or edit\<close>

text \<open>The resolvers of the names and the avatar read the attributes that \<open>from_user\<close> has moved away.\<close>

lemma names_never_resolved:
  "from_user usr schema = Ok u \<Longrightarrow> user_first_name ext u = Ok [] \<and> user_last_name ext u = Ok [] \<and> user_avatar ext u = Ok None"
  by (auto simp: from_user_def user_first_name_def user_last_name_def user_avatar_def find_attribute_data_def)

lemma unknown_attribute:
  assumes "a \<in> set as" and "get_attribute_schema l (av_name a) = None"
  shows "\<exists>n. collect_results (\<lambda>a. from_schema a l) as = Err (FieldError (''Unknown attribute '' @ n))"
  using assms
proof (induction "as")
  case (Cons b bs)
  show ?case
  proof (cases "get_attribute_schema l (av_name b)")
    case None
    then show ?thesis by (auto simp: from_schema_def)
  next
    case (Some c)
    with Cons.prems have "a \<in> set bs" by auto
    with Cons.IH Cons.prems(2) obtain n where "collect_results (\<lambda>a. from_schema a l) bs = Err (FieldError (''Unknown attribute '' @ n))" by blast
    with Some show ?thesis by (auto simp: from_schema_def)
  qed
qed simp

lemma hidden_not_visible:
  assumes "schema_no_clash (db_schema s)" and "\<not> can_read_all v" and "c \<in> set (db_user_attribute_schema s)"
    and "\<not> uas_is_user_visible c"
  shows "get_attribute_schema (user_attributes (get_schema (PublicSchema_from (visible_schema v s)))) (uas_attribute_name c) = None"
proof -
  let ?c = "AttributeSchema_from_user c"
  have d: "distinct (map as_name (attributes (user_attributes (db_schema s)) @ hardcoded_user_attributes))"
    using assms(1) by (simp add: schema_no_clash_def)
  have c: "?c \<in> set (attributes (user_attributes (db_schema s)))" "as_name ?c = uas_attribute_name c" "\<not> as_is_visible ?c"
    using assms(3,4) by (simp_all add: AttributeSchema_from_user_def)
  have "as_name x \<noteq> uas_attribute_name c" if "x \<in> set (attributes (user_attributes (db_schema s)) @ hardcoded_user_attributes)" "x \<noteq> ?c" for x
    using d that c(1,2) by (metis (no_types, lifting) Un_iff distinct_map inj_onD set_append)
  moreover have "?c \<notin> set hardcoded_user_attributes"
    using d c(1) by auto
  ultimately show ?thesis
    using c(3) assms(2)
    by (auto simp: get_attribute_schema_def find_None_iff PublicSchema_from_def visible_schema_def simp flip: db_schema_sel)
qed

text \<open>
  A regular user who has a value for an attribute that is not visible to users cannot query its own entry: the
  query fails with an unknown attribute, because the schema shown to the user does not declare it while the entry still
  has it.
\<close>

theorem own_query_fails_on_hidden_attribute:
  fixes ext lib cfg rng now v
  defines "cx \<equiv> \<lparr>cx_handler = sql_backend ext lib cfg rng now, cx_validation_result = v\<rparr>"
  assumes "db_inv s" and "schema_no_clash (db_schema s)" and "\<not> can_read_all v"
    and "dec x = Some y" and "UserId_new y = vr_user v"
    and "a \<in> set (db_user_attributes s)" and "uat_user_id a = vr_user v"
    and "c \<in> set (db_user_attribute_schema s)" and "uas_attribute_name c = uat_attribute_name a" and "\<not> uas_is_user_visible c"
  shows "\<exists>n. query_user dec cx x s = (Err (FieldError (''Unknown attribute '' @ n)), s)"
proof -
  have cx: "cx = sql_context ext lib cfg rng now v" by (simp add: cx_def sql_context_def)
  let ?l = "user_attributes (get_schema (PublicSchema_from (visible_schema v s)))"
  obtain r where r: "r \<in> set (db_users s)" "usr_user_id r = vr_user v"
    using db_inv_user_attributesD(2) [OF assms(2,7)] assms(8) by (auto simp: user_attribute_fk_def user_exists_def)
  have "AttributeValue_from_user a \<in> set (u_attributes (user_view s r))"
    using assms(7,8) r(2) by (simp add: user_view_def attributes_of_user_def)
  moreover have "get_attribute_schema ?l (av_name (AttributeValue_from_user a)) = None"
    using hidden_not_visible [OF assms(3,4,9,11)] assms(10) by (simp add: AttributeValue_from_user_def)
  ultimately obtain n where n: "collect_results (\<lambda>a. from_schema a ?l) (u_attributes (user_view s r)) = Err (FieldError (''Unknown attribute '' @ n))"
    using unknown_attribute by blast
  have "query_user dec cx x s = bind (on_handler (get_user_details (vr_user v)))
      (\<lambda>d. lift_result (from_user d (PublicSchema_from (visible_schema v s)))) s"
    unfolding query_user_def Let_def cx
    using assms(5,6) by (simp add: bind_handler_or bind_query_schema handed_out_defs can_read_def)
  also have "\<dots> = (from_user (user_view s r) (PublicSchema_from (visible_schema v s)), s)"
    using get_user_details_view [OF assms(2) r(1)] r(2) by (simp add: on_handler_def monad_simps)
  also have "\<dots> = (Err (FieldError (''Unknown attribute '' @ n)), s)"
    using n by (simp add: from_user_def)
  finally show ?thesis by blast
qed

definition demo_hidden_db :: db where
  "demo_hidden_db = demo_db\<lparr>
     db_user_attributes := db_user_attributes demo_db @
       [\<lparr>uat_user_id = UserId ''bob'', uat_attribute_name = AttributeName ''note'', uat_value = Serialized ''x''\<rparr>],
     db_user_attribute_schema := db_user_attribute_schema demo_db @
       [\<lparr>uas_attribute_name = AttributeName ''note'', uas_attribute_type = AttrString, uas_is_list = False,
         uas_is_user_visible = False, uas_is_user_editable = False, uas_is_hardcoded = False\<rparr>]\<rparr>"

lemma demo_hidden_ok: "db_inv demo_hidden_db" "schema_no_clash (db_schema demo_hidden_db)"
  by (simp add: demo_hidden_db_def demo_db_def db_inv_def db_ok_defs db_fk_defs, code_simp)

theorem own_query_fails_on_hidden_attribute_witness:
  "\<exists>n. query_user Some \<lparr>cx_handler = sql_backend ascii_externals toy_lib toy_config id 0,
       cx_validation_result = \<lparr>vr_user = UserId ''bob'', vr_permission = Regular\<rparr>\<rparr> ''bob'' demo_hidden_db
     = (Err (FieldError (''Unknown attribute '' @ n)), demo_hidden_db)"
proof -
  let ?v = "\<lparr>vr_user = UserId ''bob'', vr_permission = Regular\<rparr>"
  let ?a = "\<lparr>uat_user_id = UserId ''bob'', uat_attribute_name = AttributeName ''note'', uat_value = Serialized ''x''\<rparr>"
  let ?c = "\<lparr>uas_attribute_name = AttributeName ''note'', uas_attribute_type = AttrString, uas_is_list = False,
         uas_is_user_visible = False, uas_is_user_editable = False, uas_is_hardcoded = False\<rparr>"
  have "\<not> can_read_all ?v" "UserId_new ''bob'' = vr_user ?v" by code_simp+
  moreover have "?a \<in> set (db_user_attributes demo_hidden_db)" "?c \<in> set (db_user_attribute_schema demo_hidden_db)"
    by (simp_all add: demo_hidden_db_def)
  ultimately show ?thesis
    by (intro own_query_fails_on_hidden_attribute [OF demo_hidden_ok, where a = ?a and c = ?c and y = "''bob''"]) simp_all
qed

lemma declared_lookup:
  assumes "schema_no_clash (db_schema s)" and "c \<in> set (db_user_attribute_schema s)"
  shows "get_attribute_schema (user_attributes (get_schema (PublicSchema_from (db_schema s)))) (uas_attribute_name c) = Some (AttributeSchema_from_user c)"
proof -
  have "distinct (map as_name (sort_by_name (attributes (user_attributes (db_schema s)) @ hardcoded_user_attributes)))"
    unfolding distinct_map_sort_by_name using assms(1) by (simp add: schema_no_clash_def)
  moreover have "AttributeSchema_from_user c \<in> set (sort_by_name (attributes (user_attributes (db_schema s)) @ hardcoded_user_attributes))"
    using assms(2) by simp
  moreover have "as_name (AttributeSchema_from_user c) = uas_attribute_name c" by (simp add: AttributeSchema_from_user_def)
  ultimately have "find (\<lambda>y. as_name y = uas_attribute_name c) (sort_by_name (attributes (user_attributes (db_schema s)) @ hardcoded_user_attributes))
      = Some (AttributeSchema_from_user c)" using find_distinct_key by metis
  then show ?thesis by (simp add: get_attribute_schema_def PublicSchema_from_def)
qed

lemma remove_attribute_run:
  assumes "db_inv s" and "r \<in> set (db_users s)" and "n \<in> as_name ` set (attributes (user_attributes (db_schema s)))"
  defines "u \<equiv> usr_user_id r"
  shows "update_user ext \<lparr>uu_user_id = u, uu_email = None, uu_display_name = None, uu_first_name = None, uu_last_name = None,
      uu_avatar = None, uu_delete_attributes = [n], uu_insert_attributes = []\<rparr> s
    = (Ok (), snd (sql_delete_user_attributes u [n] s))"
proof -
  let ?q = "\<lparr>uu_user_id = u, uu_email = None, uu_display_name = None, uu_first_name = None, uu_last_name = None,
      uu_avatar = None, uu_delete_attributes = [n], uu_insert_attributes = []\<rparr>"
  have same: "update_user_row ext \<lparr>uu_user_id = i, uu_email = None, uu_display_name = None, uu_first_name = None, uu_last_name = None,
      uu_avatar = None, uu_delete_attributes = [n], uu_insert_attributes = []\<rparr> q = q" for i and q :: users_row
    by (simp add: update_user_row_def to_value_def)
  have "users_conflict r q \<Longrightarrow> q \<in> set (db_users s) \<Longrightarrow> q = r" for q
    using assms(1,2) by (auto simp: users_conflict_def db_inv_def users_ok_def distinct_map inj_on_def)
  then have "sql_update_user u (update_user_row ext ?q) s = (Ok (), s)"
    using find_user_row [OF assms(1,2)]
    by (auto simp: sql_update_user_def find_user_def u_def same list_ex_iff monad_simps cong: if_cong)
  moreover have "process_deletes (db_schema s) [n] ([], []) = Ok ([], [n])"
    using assms(3) by (auto simp: get_attribute_type_None_iff)
  ultimately show ?thesis
    by (simp add: update_user_def update_user_with_transaction_def process_option_def to_serialized_value_def
        transaction_def get_schema_with_transaction_def monad_simps sql_delete_user_attributes_def)
qed

text \<open>
  The check that an attribute is editable guards insertions only: setting an attribute that regular users may not
  edit is refused, but the same user can remove the value an administrator has given it.
\<close>

theorem regular_user_removes_readonly_attribute:
  fixes ext lib cfg rng now v u n
  defines "cx \<equiv> \<lparr>cx_handler = sql_backend ext lib cfg rng now, cx_validation_result = v\<rparr>"
    and "update \<equiv> \<lparr>uui_id = u, uui_email = None, uui_display_name = None, uui_first_name = None, uui_last_name = None,
       uui_avatar = None, uui_remove_attributes = None, uui_insert_attributes = None\<rparr>"
  assumes "db_inv s" and "schema_no_clash (db_schema s)" and "r \<in> set (db_users s)" and "usr_user_id r = vr_user v"
    and "UserId_new u = vr_user v" and "\<not> is_admin v"
    and "c \<in> set (db_user_attribute_schema s)" and "uas_attribute_name c = AttributeName_from n" and "\<not> uas_is_user_editable c"
  shows "(\<exists>e. mutation_update_user ext cx (update\<lparr>uui_insert_attributes := Some [\<lparr>ai_name = n, ai_value = vs\<rparr>]\<rparr>) s = (Err e, s))
    \<and> (\<exists>t. mutation_update_user ext cx (update\<lparr>uui_remove_attributes := Some [n]\<rparr>) s = (Ok Success, t)
         \<and> user_attribute t (vr_user v) (uas_attribute_name c) = None)"
proof
  have cx: "cx = sql_context ext lib cfg rng now v" by (simp add: cx_def sql_context_def)
  note run = mutation_update_user_def Let_def cx bind_handler_or
  have wr: "can_write v (vr_user v)" by (simp add: can_write_def)
  have "deserialize_attribute ext (user_attributes (get_schema (PublicSchema_from (db_schema s)))) \<lparr>ai_name = n, ai_value = vs\<rparr> False
      = Err (FieldError (''Permission denied: Attribute '' @ n @ '' is not editable by regular users''))"
    using declared_lookup [OF assms(4,9)] assms(10,11) by (simp add: deserialize_attribute_def AttributeSchema_from_user_def)
  then show "\<exists>e. mutation_update_user ext cx (update\<lparr>uui_insert_attributes := Some [\<lparr>ai_name = n, ai_value = vs\<rparr>]\<rparr>) s = (Err e, s)"
    unfolding run using assms(7,8) wr
    by (auto simp: update_def handed_out_defs bind_sql_schema decode_avatar_def unwrap_or_default_def)
       (simp add: monad_simps)
  have "AttributeName_from n \<in> as_name ` set (attributes (user_attributes (db_schema s)))"
    using assms(9,10) by (force simp: AttributeSchema_from_user_def image_image)
  note removed = remove_attribute_run [OF assms(3,5) this, of ext, unfolded assms(6)]
  show "\<exists>t. mutation_update_user ext cx (update\<lparr>uui_remove_attributes := Some [n]\<rparr>) s = (Ok Success, t)
         \<and> user_attribute t (vr_user v) (uas_attribute_name c) = None"
    unfolding run using assms(7,8) wr removed
    by (auto simp: update_def handed_out_defs bind_sql_schema decode_avatar_def unwrap_or_default_def)
       (simp add: monad_simps on_handler_def sql_delete_user_attributes_def user_attribute_def find_None_iff assms(10))
qed

theorem regular_user_removes_readonly_attribute_witness:
  "\<exists>t. mutation_update_user ascii_externals \<lparr>cx_handler = sql_backend ascii_externals toy_lib toy_config id 0,
         cx_validation_result = \<lparr>vr_user = UserId ''bob'', vr_permission = Regular\<rparr>\<rparr>
       \<lparr>uui_id = ''Bob'', uui_email = None, uui_display_name = None, uui_first_name = None, uui_last_name = None,
        uui_avatar = None, uui_remove_attributes = Some [''Note''], uui_insert_attributes = None\<rparr> demo_hidden_db = (Ok Success, t)
     \<and> user_attribute t (UserId ''bob'') (AttributeName ''note'') = None"
proof -
  let ?v = "\<lparr>vr_user = UserId ''bob'', vr_permission = Regular\<rparr>"
  let ?c = "\<lparr>uas_attribute_name = AttributeName ''note'', uas_attribute_type = AttrString, uas_is_list = False,
         uas_is_user_visible = False, uas_is_user_editable = False, uas_is_hardcoded = False\<rparr>"
  have "\<not> is_admin ?v" "UserId_new ''Bob'' = vr_user ?v" "AttributeName_from ''Note'' = uas_attribute_name ?c" by code_simp+
  moreover have "db_users demo_hidden_db ! 1 \<in> set (db_users demo_hidden_db)" "usr_user_id (db_users demo_hidden_db ! 1) = vr_user ?v"
    "?c \<in> set (db_user_attribute_schema demo_hidden_db)" by (simp_all add: demo_hidden_db_def demo_db_def)
  ultimately show ?thesis
    using regular_user_removes_readonly_attribute [OF demo_hidden_ok, where v = ?v and c = ?c and n = "''Note''" and u = "''Bob''"
      and r = "db_users demo_hidden_db ! 1" and ext = ascii_externals and lib = toy_lib and cfg = toy_config and rng = id and now = 0]
    by simp
qed

end
