(* ===== verification/Sql_Migrations.thy ===== *)
theory Sql_Migrations
  imports Sql_Invariant
begin

text \<open>
  \<open>server/src/domain/sql_migrations.rs\<close> and \<open>init_table\<close> of \<open>server/src/domain/sql_tables.rs\<close>: bringing a database from
  any earlier schema version to version 10. One record holds the tables of all versions; a column or table that a
  version does not have is unset (an empty string or list, \<open>None\<close>), and \<open>md_version\<close> is the row of the metadata table.
  The unique indexes that a migration creates are checked when it creates them; from version 10 on they are those of
  the database model. Whether the database accepts \<open>LIMIT\<close> in a \<open>DELETE\<close>, and its function \<open>lower\<close>, depend on the
  database: they are arguments.
\<close>

section \<open>The tables of the earlier versions\<close>

record mig_user =
  mu_user_id :: user_id
  mu_email :: email
  mu_lowercase_email :: string
  mu_display_name :: "string option"
  mu_first_name :: "string option"
  mu_last_name :: "string option"
  mu_avatar :: "jpeg_photo option"
  mu_creation_date :: naive_date_time
  mu_password_hash :: "bytes option"
  mu_totp_secret :: "string option"
  mu_mfa_type :: "string option"
  mu_uuid :: uuid

record mig_db =
  md_version :: "int option"
  md_has_group_date :: bool
  md_has_group_uuid :: bool
  md_has_user_uuid :: bool
  md_users :: "mig_user list"
  md_groups :: "groups_row list"
  md_next_group_id :: int
  md_memberships :: "memberships_row list"
  md_user_attribute_schema :: "user_attribute_schema_row list"
  md_group_attribute_schema :: "group_attribute_schema_row list"
  md_user_attributes :: "user_attributes_row list"
  md_group_attributes :: "group_attributes_row list"
  md_user_object_classes :: "object_class_row list"
  md_group_object_classes :: "object_class_row list"

datatype database_backend = Sqlite | MySql | Postgres

record mig_env =
  me_externals :: externals
  me_now :: naive_date_time
  me_backend :: database_backend
  me_delete_limit :: bool
    \<comment> \<open>whether the database accepts \<open>LIMIT\<close> in a \<open>DELETE\<close>\<close>
  me_sql_lower :: "string \<Rightarrow> string"

datatype migration_error =
    UniqueConstraint string
  | SyntaxError
  | NoLimitInDelete "(user_id \<times> group_id) list"
  | DowngradeUnsupported

type_synonym migration = "mig_db \<Rightarrow> (mig_db, migration_error) result"

section \<open>The migrations\<close>

text \<open>\<open>CREATE UNIQUE INDEX\<close>, which fails when two rows have the same key.\<close>

definition create_unique_index :: "string \<Rightarrow> 'k list \<Rightarrow> (unit, migration_error) result" where
  "create_unique_index name keys = (if distinct keys then Ok () else Err (UniqueConstraint name))"

definition empty_to_null :: "string option \<Rightarrow> string option" where
  "empty_to_null v = (if v = Some [] then None else v)"

text \<open>
  Without the metadata table: the columns a table of an older release lacks are added, with a date or a UUID for each
  row, and the group \<open>lldap_readonly\<close> takes its new name, an update that fails when the new name is taken.
\<close>

definition upgrade_to_v1 :: "mig_env \<Rightarrow> (mig_db, unit, migration_error) action" where
  "upgrade_to_v1 env d0 =
     (let d1 = (if md_has_group_date d0 then d0
            else d0\<lparr>md_has_group_date := True, md_groups := map (\<lambda>g. g\<lparr>grp_creation_date := me_now env\<rparr>) (md_groups d0)\<rparr>);
          d2 = (if md_has_group_uuid d1 then d1
            else d1\<lparr>md_has_group_uuid := True, md_groups := map (\<lambda>g. g\<lparr>grp_uuid := Uuid_from_name_and_date (me_externals env)
                (GroupName_as_str (grp_display_name g)) (grp_creation_date g)\<rparr>) (md_groups d1)\<rparr>);
          d3 = (if md_has_user_uuid d2 then d2
            else d2\<lparr>md_has_user_uuid := True, md_users := map (\<lambda>u. u\<lparr>mu_uuid := Uuid_from_name_and_date (me_externals env)
                (UserId_as_str (mu_user_id u)) (mu_creation_date u)\<rparr>) (md_users d2)\<rparr>);
          renamed = map (\<lambda>g. if grp_display_name g = GroupName ''lldap_readonly''
              then g\<lparr>grp_display_name := GroupName ''lldap_password_manager''\<rparr> else g) (md_groups d3)
      in if distinct (map grp_display_name renamed)
         then return () (d3\<lparr>md_groups := renamed, md_version := Some 1\<rparr>)
         else fail (UniqueConstraint ''display_name'') d3)"

text \<open>\<open>replace_column\<close>: the copied values, followed by the updates.\<close>

definition replace_column :: "(mig_user \<Rightarrow> mig_user) \<Rightarrow> mig_db \<Rightarrow> mig_db" where
  "replace_column update d = d\<lparr>md_users := map update (md_users d)\<rparr>"

definition migrate_to_v2 :: migration where
  "migrate_to_v2 d = Ok (replace_column (\<lambda>u. u\<lparr>mu_display_name := empty_to_null (mu_display_name u)\<rparr>) d)"

definition migrate_to_v3 :: migration where
  "migrate_to_v3 d = Ok
     (replace_column (\<lambda>u. u\<lparr>mu_avatar := mu_avatar u\<rparr>)
     (replace_column (\<lambda>u. u\<lparr>mu_last_name := empty_to_null (mu_last_name u)\<rparr>)
     (replace_column (\<lambda>u. u\<lparr>mu_first_name := empty_to_null (mu_first_name u)\<rparr>) d)))"

definition migrate_to_v4 :: migration where
  "migrate_to_v4 d =
     bind_result (create_unique_index ''unique-user-email'' (map mu_email (md_users d))) (\<lambda>_.
     bind_result (create_unique_index ''unique-user-uuid'' (map mu_uuid (md_users d))) (\<lambda>_.
     bind_result (create_unique_index ''unique-group-uuid'' (map grp_uuid (md_groups d))) (\<lambda>_.
     Ok d)))"

definition v5_schema :: "user_attribute_schema_row list" where
  "v5_schema =
     [\<lparr>uas_attribute_name = AttributeName ''first_name'', uas_attribute_type = AttrString, uas_is_list = False,
       uas_is_user_visible = True, uas_is_user_editable = True, uas_is_hardcoded = True\<rparr>,
      \<lparr>uas_attribute_name = AttributeName ''last_name'', uas_attribute_type = AttrString, uas_is_list = False,
       uas_is_user_visible = True, uas_is_user_editable = True, uas_is_hardcoded = True\<rparr>,
      \<lparr>uas_attribute_name = AttributeName ''avatar'', uas_attribute_type = AttrJpegPhoto, uas_is_list = False,
       uas_is_user_visible = True, uas_is_user_editable = True, uas_is_hardcoded = True\<rparr>]"

definition v5_attributes :: "externals \<Rightarrow> mig_user \<Rightarrow> user_attributes_row list" where
  "v5_attributes ext u =
     (case mu_first_name u of None \<Rightarrow> [] | Some n \<Rightarrow> [\<lparr>uat_user_id = mu_user_id u,
        uat_attribute_name = AttributeName ''first_name'', uat_value = Serialized_from ext (DString n)\<rparr>])
   @ (case mu_last_name u of None \<Rightarrow> [] | Some n \<Rightarrow> [\<lparr>uat_user_id = mu_user_id u,
        uat_attribute_name = AttributeName ''last_name'', uat_value = Serialized_from ext (DString n)\<rparr>])
   @ (case mu_avatar u of None \<Rightarrow> [] | Some p \<Rightarrow> [\<lparr>uat_user_id = mu_user_id u,
        uat_attribute_name = AttributeName ''avatar'', uat_value = Serialized_from ext (DJpegPhoto p)\<rparr>])"

definition migrate_to_v5 :: "mig_env \<Rightarrow> migration" where
  "migrate_to_v5 env d =
     (let rows = concat (map (v5_attributes (me_externals env)) (md_users d)) in
      bind_result (create_unique_index ''user_attributes'' (map (\<lambda>a. (uat_user_id a, uat_attribute_name a)) rows)) (\<lambda>_.
      Ok (d\<lparr>md_user_attribute_schema := v5_schema, md_group_attribute_schema := [],
            md_user_attributes := rows, md_group_attributes := [],
            md_users := map (\<lambda>u. u\<lparr>mu_first_name := None, mu_last_name := None, mu_avatar := None\<rparr>) (md_users d)\<rparr>)))"

definition migrate_to_v6 :: "mig_env \<Rightarrow> migration" where
  "migrate_to_v6 env d = Ok (d\<lparr>
     md_groups := map (\<lambda>g. g\<lparr>grp_lowercase_display_name := me_sql_lower env (GroupName_as_str (grp_display_name g))\<rparr>) (md_groups d),
     md_users := map (\<lambda>u. u\<lparr>mu_lowercase_email := me_sql_lower env (Email_as_str (mu_email u))\<rparr>) (md_users d)\<rparr>)"

text \<open>The two columns of the private key, which start as \<open>NULL\<close>; the metadata row with the key is part of the server's state.\<close>

definition migrate_to_v7 :: migration where
  "migrate_to_v7 d = Ok d"

text \<open>\<open>DELETE ... LIMIT n\<close>: of the rows that satisfy the condition the first \<open>n\<close> go.\<close>

fun delete_limit :: "('a \<Rightarrow> bool) \<Rightarrow> nat \<Rightarrow> 'a list \<Rightarrow> 'a list" where
  "delete_limit P n [] = []"
| "delete_limit P n (x # xs) = (if P x \<and> n \<noteq> 0 then delete_limit P (n - 1) xs else x # delete_limit P n xs)"

definition duplicate_memberships :: "mig_db \<Rightarrow> memberships_row list" where
  "duplicate_memberships d = filter (\<lambda>m. 1 < count_list (md_memberships d) m) (remdups (md_memberships d))"

definition migrate_to_v8 :: "mig_env \<Rightarrow> migration" where
  "migrate_to_v8 env d =
     (let dups = duplicate_memberships d in
      bind_result
        (if dups = [] then Ok d
         else if me_backend env = Sqlite
         then Err (NoLimitInDelete (map (\<lambda>m. (mem_user_id m, mem_group_id m)) dups))
         else if \<not> me_delete_limit env then Err SyntaxError
         else Ok (d\<lparr>md_memberships := fold (\<lambda>m ms. delete_limit ((=) m) (count_list (md_memberships d) m - 1) ms) dups
                (md_memberships d)\<rparr>)) (\<lambda>d1.
      bind_result (create_unique_index ''unique-memberships'' (md_memberships d1)) (\<lambda>_. Ok d1)))"

definition migrate_to_v9 :: migration where
  "migrate_to_v9 d = Ok (d\<lparr>md_user_object_classes := [], md_group_object_classes := []\<rparr>)"

definition migrate_to_v10 :: migration where
  "migrate_to_v10 d =
     bind_result (create_unique_index ''unique-group-id'' (map grp_lowercase_display_name (md_groups d))) (\<lambda>_.
     bind_result (create_unique_index ''unique-user-lower-email'' (map mu_lowercase_email (md_users d))) (\<lambda>_.
     Ok d))"

definition migrations :: "mig_env \<Rightarrow> migration list" where
  "migrations env = [migrate_to_v2, migrate_to_v3, migrate_to_v4, migrate_to_v5 env, migrate_to_v6 env, migrate_to_v7,
     migrate_to_v8 env, migrate_to_v9, migrate_to_v10]"

definition LAST_SCHEMA_VERSION :: int where
  "LAST_SCHEMA_VERSION = 10"

section \<open>Running them\<close>

text \<open>One migration and the new version number, in one transaction.\<close>

definition migration_step :: "mig_env \<Rightarrow> int \<Rightarrow> (mig_db, unit, migration_error) action" where
  "migration_step env k d =
     (case (migrations env ! nat (k - 2)) d of
        Ok t \<Rightarrow> (Ok (), t\<lparr>md_version := Some k\<rparr>)
      | Err e \<Rightarrow> (Err e, d)
      | Panic \<Rightarrow> (Panic, d))"

definition migrate_from_version :: "mig_env \<Rightarrow> int \<Rightarrow> int \<Rightarrow> (mig_db, unit, migration_error) action" where
  "migrate_from_version env version last_version =
     (if version = last_version then return ()
      else if version > last_version then fail DowngradeUnsupported
      else for_each (\<lambda>k. if version < k \<and> k \<le> last_version then migration_step env k else return ()) [2..last_version])"

definition init_table :: "mig_env \<Rightarrow> (mig_db, unit, migration_error) action" where
  "init_table env d =
     (case md_version d of
        Some version \<Rightarrow> migrate_from_version env version LAST_SCHEMA_VERSION d
      | None \<Rightarrow> bind (upgrade_to_v1 env) (\<lambda>_. migrate_from_version env 1 LAST_SCHEMA_VERSION) d)"

section \<open>The migrated database\<close>

definition migrated_user :: "mig_user \<Rightarrow> users_row" where
  "migrated_user u = \<lparr>usr_user_id = mu_user_id u, usr_email = mu_email u, usr_lowercase_email = mu_lowercase_email u,
     usr_display_name = mu_display_name u, usr_creation_date = mu_creation_date u, usr_password_hash = mu_password_hash u,
     usr_totp_secret = mu_totp_secret u, usr_mfa_type = mu_mfa_type u, usr_uuid = mu_uuid u\<rparr>"

text \<open>The tables of version 10, with the tables of the web sessions new.\<close>

definition migrated_db :: "mig_db \<Rightarrow> db" where
  "migrated_db d =
     \<lparr>db_users = map migrated_user (md_users d), db_groups = md_groups d, db_memberships = md_memberships d,
      db_user_attributes = md_user_attributes d, db_group_attributes = md_group_attributes d,
      db_user_attribute_schema = md_user_attribute_schema d, db_group_attribute_schema = md_group_attribute_schema d,
      db_user_object_classes = md_user_object_classes d, db_group_object_classes = md_group_object_classes d,
      db_jwt_refresh_storage = [], db_jwt_storage = [], db_password_reset_tokens = [],
      db_next_group_id = md_next_group_id d\<rparr>"

section \<open>What each version guarantees\<close>

text \<open>The constraints of the tables at a version.\<close>

definition mig_inv :: "int \<Rightarrow> mig_db \<Rightarrow> bool" where
  "mig_inv k d \<longleftrightarrow> distinct (map mu_user_id (md_users d)) \<and> distinct (map grp_group_id (md_groups d))
     \<and> distinct (map grp_display_name (md_groups d))
     \<and> (\<forall>g\<in>set (md_groups d). group_id_int (grp_group_id g) < md_next_group_id d)
     \<and> (\<forall>m\<in>set (md_memberships d). mem_user_id m \<in> mu_user_id ` set (md_users d) \<and> mem_group_id m \<in> grp_group_id ` set (md_groups d))
     \<and> (4 \<le> k \<longrightarrow> distinct (map mu_email (md_users d)) \<and> distinct (map mu_uuid (md_users d)) \<and> distinct (map grp_uuid (md_groups d)))
     \<and> (5 \<le> k \<longrightarrow> user_attributes_ok (migrated_db d) \<and> group_attributes_ok (migrated_db d))
     \<and> (8 \<le> k \<longrightarrow> distinct (md_memberships d))
     \<and> (9 \<le> k \<longrightarrow> object_classes_ok (migrated_db d))
     \<and> (10 \<le> k \<longrightarrow> distinct (map grp_lowercase_display_name (md_groups d)) \<and> distinct (map mu_lowercase_email (md_users d)))"

text \<open>What the database says about its users and groups, whatever its version.\<close>

definition column_attribute :: "externals \<Rightarrow> mig_user \<Rightarrow> attribute_name \<Rightarrow> serialized option" where
  "column_attribute ext u n =
     (if n = AttributeName ''first_name'' then map_option (\<lambda>v. Serialized_from ext (DString v)) (mu_first_name u)
      else if n = AttributeName ''last_name'' then map_option (\<lambda>v. Serialized_from ext (DString v)) (mu_last_name u)
      else if n = AttributeName ''avatar'' then map_option (\<lambda>p. Serialized_from ext (DJpegPhoto p)) (mu_avatar u)
      else None)"

definition attribute_content :: "externals \<Rightarrow> int \<Rightarrow> mig_db \<Rightarrow> user_id \<Rightarrow> attribute_name \<Rightarrow> serialized option" where
  "attribute_content ext k d u n =
     (if 5 \<le> k then map_option uat_value (find (\<lambda>a. uat_user_id a = u \<and> uat_attribute_name a = n) (md_user_attributes d))
      else Option.bind (find (\<lambda>r. mu_user_id r = u) (md_users d)) (\<lambda>r.
        column_attribute ext (if k < 3 then r\<lparr>mu_first_name := empty_to_null (mu_first_name r),
          mu_last_name := empty_to_null (mu_last_name r)\<rparr> else r) n))"

definition user_content :: "int \<Rightarrow> mig_user \<Rightarrow> mig_user" where
  "user_content k u = u\<lparr>mu_display_name := (if k < 2 then empty_to_null (mu_display_name u) else mu_display_name u),
     mu_lowercase_email := [], mu_first_name := None, mu_last_name := None, mu_avatar := None\<rparr>"

definition same_content :: "externals \<Rightarrow> int \<Rightarrow> mig_db \<Rightarrow> int \<Rightarrow> mig_db \<Rightarrow> bool" where
  "same_content ext k d l e \<longleftrightarrow> map (user_content k) (md_users d) = map (user_content l) (md_users e)
     \<and> attribute_content ext k d = attribute_content ext l e
     \<and> map (\<lambda>g. g\<lparr>grp_lowercase_display_name := []\<rparr>) (md_groups d) = map (\<lambda>g. g\<lparr>grp_lowercase_display_name := []\<rparr>) (md_groups e)
     \<and> set (md_memberships d) = set (md_memberships e)"

lemma create_unique_index_Ok [simp]: "create_unique_index name keys = Ok () \<longleftrightarrow> distinct keys"
  by (simp add: create_unique_index_def)

lemma migrated_db_sel [simp]:
  "db_users (migrated_db d) = map migrated_user (md_users d)" "db_groups (migrated_db d) = md_groups d"
  "db_memberships (migrated_db d) = md_memberships d" "db_user_attributes (migrated_db d) = md_user_attributes d"
  "db_group_attributes (migrated_db d) = md_group_attributes d"
  "db_user_attribute_schema (migrated_db d) = md_user_attribute_schema d"
  "db_group_attribute_schema (migrated_db d) = md_group_attribute_schema d"
  "db_user_object_classes (migrated_db d) = md_user_object_classes d"
  "db_group_object_classes (migrated_db d) = md_group_object_classes d"
  "db_jwt_refresh_storage (migrated_db d) = []" "db_jwt_storage (migrated_db d) = []" "db_password_reset_tokens (migrated_db d) = []"
  "db_next_group_id (migrated_db d) = md_next_group_id d"
  by (simp_all add: migrated_db_def)

lemma migrated_user_sel [simp]:
  "usr_user_id (migrated_user u) = mu_user_id u" "usr_email (migrated_user u) = mu_email u"
  "usr_lowercase_email (migrated_user u) = mu_lowercase_email u" "usr_uuid (migrated_user u) = mu_uuid u"
  by (simp_all add: migrated_user_def)

lemma mig_inv_db_inv: "mig_inv 10 d \<Longrightarrow> db_inv (migrated_db d)"
  by (simp add: mig_inv_def db_inv_def users_ok_def groups_ok_def memberships_ok_def tokens_ok_def user_exists_def group_exists_def
      comp_def image_image)

text \<open>The attribute rows of the columns, in user order.\<close>

lemma v5_attributes_user: "a \<in> set (v5_attributes ext u) \<Longrightarrow> uat_user_id a = mu_user_id u"
  by (auto simp: v5_attributes_def split: option.splits)

lemma v5_attributes_names:
  "distinct (map uat_attribute_name (v5_attributes ext u))"
  "a \<in> set (v5_attributes ext u) \<Longrightarrow> uat_attribute_name a \<in> uas_attribute_name ` set v5_schema"
  by (auto simp: v5_attributes_def v5_schema_def split: option.splits)

lemma find_v5_attributes:
  "find (\<lambda>a. uat_user_id a = w \<and> uat_attribute_name a = n) (v5_attributes ext u)
     = (if mu_user_id u = w then map_option (\<lambda>v. \<lparr>uat_user_id = w, uat_attribute_name = n, uat_value = v\<rparr>) (column_attribute ext u n) else None)"
  by (auto simp: v5_attributes_def column_attribute_def split: option.splits)

lemma find_append_option: "find P (xs @ ys) = (case find P xs of None \<Rightarrow> find P ys | Some x \<Rightarrow> Some x)"
  by (induction xs) auto

lemma find_v5_rows:
  assumes "distinct (map mu_user_id us)"
  shows "map_option uat_value (find (\<lambda>a. uat_user_id a = w \<and> uat_attribute_name a = n) (concat (map (v5_attributes ext) us)))
    = Option.bind (find (\<lambda>r. mu_user_id r = w) us) (\<lambda>r. column_attribute ext r n)"
  using assms
proof (induction us)
  case (Cons u us)
  have "find (\<lambda>r. mu_user_id r = w) us = None" if "mu_user_id u = w"
    unfolding find_None_iff using Cons.prems that by (metis distinct.simps(2) image_eqI list.set_map list.simps(9))
  with Cons show ?case
    by (auto simp: find_append_option find_v5_attributes split: option.split)
qed simp

lemma v5_rows_ok:
  assumes "distinct (map mu_user_id (md_users d))" and "migrate_to_v5 env d = Ok t"
  shows "user_attributes_ok (migrated_db t) \<and> group_attributes_ok (migrated_db t)"
proof -
  let ?rows = "concat (map (v5_attributes (me_externals env)) (md_users d))"
  from assms(2) have rows: "distinct (map (\<lambda>a. (uat_user_id a, uat_attribute_name a)) ?rows)"
    and t: "md_user_attributes t = ?rows" "md_user_attribute_schema t = v5_schema" "md_group_attributes t = []"
      "md_group_attribute_schema t = []" "map mu_user_id (md_users t) = map mu_user_id (md_users d)"
    by (auto simp: migrate_to_v5_def create_unique_index_def Let_def comp_def split: if_splits)
  have "user_attribute_fk (migrated_db t) a" if "a \<in> set ?rows" for a
  proof -
    from that obtain u where u: "u \<in> set (md_users d)" "a \<in> set (v5_attributes (me_externals env) u)" by auto
    then have "uat_user_id a \<in> set (map mu_user_id (md_users t))" unfolding t(5) by (simp add: v5_attributes_user)
    with u(2) show ?thesis using v5_attributes_names(2) [of a]
      by (simp add: user_attribute_fk_def user_exists_def t(2) image_image)
  qed
  with rows t show ?thesis
    by (simp add: user_attributes_ok_def group_attributes_ok_def v5_schema_def)
qed

text \<open>Deleting all but one of equal memberships.\<close>

lemma set_delete_limit: "n < count_list xs m \<Longrightarrow> set (delete_limit ((=) m) n xs) = set xs"
proof (induction xs arbitrary: n)
  case (Cons x xs)
  show ?case
  proof (cases "m = x \<and> n \<noteq> 0")
    case True
    with Cons.prems have "n - 1 < count_list xs m" by auto
    moreover from this have "m \<in> set xs" by (metis count_notin less_nat_zero_code)
    ultimately show ?thesis using Cons.IH [of "n - 1"] True by auto
  next
    case False
    show ?thesis
    proof (cases "m = x")
      case True
      with False show ?thesis by (auto; induction xs) auto
    qed (use False Cons in auto)
  qed
qed simp


section \<open>Each migration\<close>

text \<open>What the migration to version \<open>k\<close> has to do: establish the constraints of its version and keep the content.\<close>

definition migrates_to :: "externals \<Rightarrow> int \<Rightarrow> migration \<Rightarrow> bool" where
  "migrates_to ext k m \<longleftrightarrow>
     (\<forall>d t. mig_inv (k - 1) d \<longrightarrow> m d = Ok t \<longrightarrow> mig_inv k t \<and> same_content ext (k - 1) d k t)"

lemma empty_to_null_idem [simp]: "empty_to_null (empty_to_null v) = empty_to_null v"
  by (simp add: empty_to_null_def)

lemma find_map_key: "(\<And>x. p (f x) = p x) \<Longrightarrow> find p (map f xs) = map_option f (find p xs)"
  by (induction xs) auto

lemma replace_column_sel [simp]:
  "md_groups (replace_column f d) = md_groups d" "md_memberships (replace_column f d) = md_memberships d"
  "md_next_group_id (replace_column f d) = md_next_group_id d" "md_users (replace_column f d) = map f (md_users d)"
  by (simp_all add: replace_column_def)

lemma v2_ok: "migrates_to ext 2 migrate_to_v2"
  by (auto simp: migrates_to_def migrate_to_v2_def mig_inv_def same_content_def comp_def image_image user_content_def
      attribute_content_def find_map_key Option.bind_map_option column_attribute_def fun_eq_iff cong: if_cong)

lemma v3_ok: "migrates_to ext 3 migrate_to_v3"
  by (auto simp: migrates_to_def migrate_to_v3_def mig_inv_def same_content_def comp_def image_image user_content_def
      attribute_content_def find_map_key Option.bind_map_option column_attribute_def fun_eq_iff cong: if_cong)

lemma v4_ok: "migrates_to ext 4 migrate_to_v4"
  by (auto simp: migrates_to_def migrate_to_v4_def mig_inv_def same_content_def user_content_def attribute_content_def fun_eq_iff)

lemma v5_ok: "migrates_to (me_externals env) 5 (migrate_to_v5 env)"
  unfolding migrates_to_def
proof (intro allI impI conjI)
  fix d t assume d: "mig_inv (5 - 1) d" and t: "migrate_to_v5 env d = Ok t"
  then have ids: "distinct (map mu_user_id (md_users d))" by (simp add: mig_inv_def)
  from d t v5_rows_ok [OF ids t] show "mig_inv 5 t"
    by (auto simp: mig_inv_def migrate_to_v5_def Let_def comp_def image_image)
  from t find_v5_rows [OF ids] show "same_content (me_externals env) (5 - 1) d 5 t"
    by (auto simp: same_content_def migrate_to_v5_def Let_def comp_def user_content_def attribute_content_def fun_eq_iff)
qed

lemma v6_ok: "migrates_to ext 6 (migrate_to_v6 env)"
  by (auto simp: migrates_to_def migrate_to_v6_def mig_inv_def same_content_def comp_def image_image user_content_def
      attribute_content_def fun_eq_iff user_attributes_ok_def group_attributes_ok_def db_fk_defs)

lemma v7_ok: "migrates_to ext 7 migrate_to_v7"
  by (auto simp: migrates_to_def migrate_to_v7_def mig_inv_def same_content_def user_content_def attribute_content_def fun_eq_iff)

text \<open>The deletions of version 8 remove repetitions only.\<close>

lemma count_delete_limit: "m' \<noteq> m \<Longrightarrow> count_list (delete_limit ((=) m) n xs) m' = count_list xs m'"
  by (induction xs arbitrary: n) auto

lemma set_delete_duplicates:
  assumes "distinct dups" and "\<forall>m\<in>set dups. count m = count_list xs m \<and> m \<in> set xs"
  shows "set (fold (\<lambda>m ms. delete_limit ((=) m) (count m - 1) ms) dups xs) = set xs"
  using assms
proof (induction dups arbitrary: xs)
  case (Cons m dups)
  let ?ys = "delete_limit ((=) m) (count m - 1) xs"
  from Cons.prems have "0 < count_list xs m" "count m = count_list xs m" using count_list_0_iff [of xs m] by auto
  then have "count m - 1 < count_list xs m" by simp
  then have ys: "set ?ys = set xs" by (rule set_delete_limit)
  with Cons.prems have "\<forall>m'\<in>set dups. count m' = count_list ?ys m' \<and> m' \<in> set ?ys"
    by (metis count_delete_limit distinct.simps(2) list.set_intros(2))
  then have "set (fold (\<lambda>m ms. delete_limit ((=) m) (count m - 1) ms) dups ?ys) = set ?ys"
    using Cons.prems(1) by (intro Cons.IH) simp_all
  with ys show ?case by simp
qed simp

lemma v8_ok: "migrates_to ext 8 (migrate_to_v8 env)"
  unfolding migrates_to_def
proof (intro allI impI)
  fix d t assume d: "mig_inv (8 - 1) d" and t: "migrate_to_v8 env d = Ok t"
  let ?deleted = "fold (\<lambda>m ms. delete_limit ((=) m) (count_list (md_memberships d) m - 1) ms) (duplicate_memberships d)
    (md_memberships d)"
  have "set ?deleted = set (md_memberships d)"
    by (rule set_delete_duplicates) (simp_all add: duplicate_memberships_def)
  moreover from t have "t = d \<or> t = d\<lparr>md_memberships := ?deleted\<rparr>"
    by (auto simp: migrate_to_v8_def Let_def split: if_splits)
  moreover from t have "distinct (md_memberships t)"
    by (auto simp: migrate_to_v8_def Let_def)
  ultimately obtain ms where t': "t = d\<lparr>md_memberships := ms\<rparr>" and "distinct ms" and "set ms = set (md_memberships d)"
    by (elim disjE) (erule meta_allE [of _ "md_memberships d"], simp, erule meta_allE [of _ ?deleted], simp)
  with d show "mig_inv 8 t \<and> same_content ext (8 - 1) d 8 t"
    by (auto simp: t' mig_inv_def same_content_def user_content_def attribute_content_def fun_eq_iff
        user_attributes_ok_def group_attributes_ok_def db_fk_defs)
qed

lemma v9_ok: "migrates_to ext 9 migrate_to_v9"
  by (auto simp: migrates_to_def migrate_to_v9_def mig_inv_def same_content_def user_content_def attribute_content_def fun_eq_iff
      user_attributes_ok_def group_attributes_ok_def object_classes_ok_def db_fk_defs)

lemma v10_ok: "migrates_to ext 10 migrate_to_v10"
  by (auto simp: migrates_to_def migrate_to_v10_def mig_inv_def same_content_def user_content_def attribute_content_def fun_eq_iff)


lemma migrations_ok:
  assumes "2 \<le> k" and "k \<le> LAST_SCHEMA_VERSION"
  shows "migrates_to (me_externals env) k (migrations env ! nat (k - 2))"
proof -
  from assms consider "k = 2" | "k = 3" | "k = 4" | "k = 5" | "k = 6" | "k = 7" | "k = 8" | "k = 9" | "k = 10"
    unfolding LAST_SCHEMA_VERSION_def by linarith
  then show ?thesis
    by cases (simp_all add: migrations_def numeral_nat v2_ok v3_ok v4_ok v5_ok v6_ok v7_ok v8_ok v9_ok v10_ok)
qed

section \<open>A chain of versioned steps\<close>

text \<open>
  The contract of the migrations: each step leads from the states of one version to those of the next, related by a
  preorder that tells what is kept, and changes nothing when it fails. A run of the chain then ends at the last version,
  or stops at one of the versions between, from which it can be resumed.
\<close>

locale migration_chain =
  fixes at_version :: "int \<Rightarrow> 'd \<Rightarrow> bool"
    and same :: "int \<Rightarrow> 'd \<Rightarrow> int \<Rightarrow> 'd \<Rightarrow> bool"
    and step :: "int \<Rightarrow> ('d, unit, 'e) action"
    and first_version last_version :: int
  assumes same_refl: "same k d k d"
    and same_trans: "same k d l e \<Longrightarrow> same l e m f \<Longrightarrow> same k d m f"
    and step_Ok: "first_version < k \<Longrightarrow> k \<le> last_version \<Longrightarrow> at_version (k - 1) d \<Longrightarrow> step k d = (Ok u, t)
      \<Longrightarrow> at_version k t \<and> same (k - 1) d k t"
    and step_fails: "first_version < k \<Longrightarrow> k \<le> last_version \<Longrightarrow> step k d = (r, t) \<Longrightarrow> r = Ok () \<or> (\<exists>e. r = Err e) \<and> t = d"
begin

definition selected :: "int \<Rightarrow> int \<Rightarrow> ('d, unit, 'e) action" where
  "selected version k = (if version < k \<and> k \<le> last_version then step k else return ())"

lemma skipped:
  assumes "\<forall>k\<in>set ks. k \<le> version"
  shows "for_each (selected version) (ks @ ls) = for_each (selected version) ls"
  using assms by (induction ks) (simp_all add: selected_def bind_def return_def fun_eq_iff)

lemma run_from:
  assumes "for_each (selected version) [a..last_version] d = (r, d')" and "at_version (a - 1) d"
    and "version < a" and "first_version < a" and "a \<le> last_version + 1"
  shows "\<exists>k. a - 1 \<le> k \<and> k \<le> last_version \<and> at_version k d' \<and> same (a - 1) d k d'
    \<and> (r = Ok () \<longrightarrow> k = last_version) \<and> r \<noteq> Panic"
  using assms
proof (induction "nat (last_version + 1 - a)" arbitrary: a d)
  case 0
  then show ?case by (auto simp: return_def same_refl intro: exI [of _ last_version])
next
  case (Suc n)
  then have a: "a \<le> last_version" by simp
  then have "[a..last_version] = a # [a + 1..last_version]" by (simp add: upto_rec1)
  with a Suc.prems obtain r1 t where s: "step a d = (r1, t)"
    and rest: "(case r1 of Ok _ \<Rightarrow> for_each (selected version) [a + 1..last_version] t | Err e \<Rightarrow> (Err e, t) | Panic \<Rightarrow> (Panic, t)) = (r, d')"
    by (auto simp: bind_def selected_def split: prod.splits result.splits)
  show ?case
  proof (cases "r1 = Ok ()")
    case True
    then have t: "at_version a t" "same (a - 1) d a t" using step_Ok [of a d "()" t] s Suc.prems Suc.hyps(2) by auto
    from Suc.hyps(2) have "n = nat (last_version + 1 - (a + 1))" by simp
    from Suc.hyps(1) [OF this] a Suc.prems rest True t(1)
    obtain k where "a \<le> k" "k \<le> last_version" "at_version k d'" "same a t k d'" "r = Ok () \<longrightarrow> k = last_version" "r \<noteq> Panic"
      by auto
    with same_trans [OF t(2)] show ?thesis by (intro exI [of _ k]) auto
  next
    case False
    with step_fails [OF _ a s] Suc.prems obtain e where "r1 = Err e" "t = d" by auto
    with rest Suc.prems Suc.hyps(2) show ?thesis by (intro exI [of _ "a - 1"]) (auto simp: same_refl)
  qed
qed

theorem run:
  assumes "for_each (selected version) [first_version + 1..last_version] d = (r, d')" and "at_version version d"
    and "first_version \<le> version" and "version \<le> last_version"
  shows "\<exists>k. version \<le> k \<and> k \<le> last_version \<and> at_version k d' \<and> same version d k d'
    \<and> (r = Ok () \<longrightarrow> k = last_version) \<and> r \<noteq> Panic"
proof -
  have "[first_version + 1..last_version] = [first_version + 1..version] @ [version + 1..last_version]"
    using assms upto_split2 [of "first_version + 1" version last_version] by (cases "first_version = version") auto
  with assms(1) skipped [of "[first_version + 1..version]" version]
  have "for_each (selected version) [version + 1..last_version] d = (r, d')" by simp
  from run_from [OF this] assms show ?thesis by simp
qed

end

definition at_schema_version :: "int \<Rightarrow> mig_db \<Rightarrow> bool" where
  "at_schema_version k d \<longleftrightarrow> md_version d = Some k \<and> mig_inv k d"

lemma mig_inv_version [simp]: "mig_inv k (d\<lparr>md_version := v\<rparr>) = mig_inv k d"
  by (simp add: mig_inv_def user_attributes_ok_def group_attributes_ok_def object_classes_ok_def db_fk_defs)

lemma same_content_version [simp]: "same_content ext k d l (e\<lparr>md_version := v\<rparr>) = same_content ext k d l e"
  by (simp add: same_content_def attribute_content_def fun_eq_iff)

lemma length_migrations [simp]: "length (migrations env) = 9"
  by (simp add: migrations_def)

lemma create_unique_index_never_panics [simp]: "create_unique_index name keys \<noteq> Panic"
  by (simp add: create_unique_index_def)

lemma migrations_never_panic: "m \<in> set (migrations env) \<Longrightarrow> m d \<noteq> Panic"
  by (auto simp: migrations_def migrate_to_v2_def migrate_to_v3_def migrate_to_v4_def migrate_to_v5_def migrate_to_v6_def
      migrate_to_v7_def migrate_to_v8_def migrate_to_v9_def migrate_to_v10_def bind_result_Panic_iff Let_def split: if_splits)

lemma migration_step_never_panics: "2 \<le> k \<Longrightarrow> k \<le> LAST_SCHEMA_VERSION \<Longrightarrow> fst (migration_step env k d) \<noteq> Panic"
  using migrations_never_panic [OF nth_mem, of "nat (k - 2)" env d]
  by (auto simp: migration_step_def LAST_SCHEMA_VERSION_def split: result.splits)

interpretation mc: migration_chain at_schema_version "same_content (me_externals env)" "migration_step env" 1 LAST_SCHEMA_VERSION
  for env
proof
  show "same_content (me_externals env) k d k d" for k d by (simp add: same_content_def)
  show "same_content (me_externals env) k d m f"
    if "same_content (me_externals env) k d l e" "same_content (me_externals env) l e m f" for k d l e m f
    using that by (simp add: same_content_def)
  show "at_schema_version k t \<and> same_content (me_externals env) (k - 1) d k t"
    if "1 < k" "k \<le> LAST_SCHEMA_VERSION" "at_schema_version (k - 1) d" "migration_step env k d = (Ok u, t)" for k d u t
    using that migrations_ok [of k env] by (auto simp: migrates_to_def at_schema_version_def migration_step_def split: result.splits)
  show "r = Ok () \<or> (\<exists>e. r = Err e) \<and> t = d"
    if "1 < k" "k \<le> LAST_SCHEMA_VERSION" "migration_step env k d = (r, t)" for k d r t
    using that migration_step_never_panics [of k env d] by (auto simp: migration_step_def split: result.splits)
qed

lemma migrate_from_version_chain:
  "version < LAST_SCHEMA_VERSION \<Longrightarrow> migrate_from_version env version LAST_SCHEMA_VERSION
     = for_each (mc.selected env version) [1 + 1..LAST_SCHEMA_VERSION]"
  by (simp add: migrate_from_version_def mc.selected_def [abs_def])

lemma init_table_chain:
  assumes "at_schema_version v d" and "1 \<le> v" and "v \<le> LAST_SCHEMA_VERSION"
    and "migrate_from_version env v LAST_SCHEMA_VERSION d = (r, d')"
  shows "\<exists>k. v \<le> k \<and> k \<le> LAST_SCHEMA_VERSION \<and> at_schema_version k d' \<and> same_content (me_externals env) v d k d'
    \<and> (r = Ok () \<longrightarrow> k = LAST_SCHEMA_VERSION) \<and> r \<noteq> Panic"
proof (cases "v = LAST_SCHEMA_VERSION")
  case True
  with assms show ?thesis by (auto simp: migrate_from_version_def return_def mc.same_refl)
next
  case False
  with assms have "for_each (mc.selected env v) [1 + 1..LAST_SCHEMA_VERSION] d = (r, d')"
    by (simp add: migrate_from_version_chain)
  from mc.run [OF this assms(1-3)] show ?thesis .
qed

text \<open>A database without a version, from the first releases.\<close>

lemma mig_inv_1:
  "mig_inv 1 d \<longleftrightarrow> distinct (map mu_user_id (md_users d)) \<and> distinct (map grp_group_id (md_groups d))
     \<and> distinct (map grp_display_name (md_groups d)) \<and> (\<forall>i\<in>set (map grp_group_id (md_groups d)). group_id_int i < md_next_group_id d)
     \<and> (\<forall>m\<in>set (md_memberships d). mem_user_id m \<in> set (map mu_user_id (md_users d)) \<and> mem_group_id m \<in> set (map grp_group_id (md_groups d)))"
  by (simp add: mig_inv_def)

lemma upgrade_to_v1_keeps:
  assumes "upgrade_to_v1 env d = (r, e)"
  shows "map mu_user_id (md_users e) = map mu_user_id (md_users d)" "map grp_group_id (md_groups e) = map grp_group_id (md_groups d)"
    "md_next_group_id e = md_next_group_id d" "md_memberships e = md_memberships d" "r \<noteq> Panic"
    "r = Ok () \<Longrightarrow> md_version e = Some 1 \<and> distinct (map grp_display_name (md_groups e))"
  using assms unfolding upgrade_to_v1_def Let_def
  by (simp_all add: return_def fail_def comp_def if_distrib [of grp_group_id] cong: if_cong split: if_splits) (auto simp: comp_def)

lemma upgrade_to_v1_ok:
  assumes "mig_inv 1 d" and "upgrade_to_v1 env d = (r, e)"
  shows "r \<noteq> Panic \<and> map mu_user_id (md_users e) = map mu_user_id (md_users d) \<and> (r = Ok () \<longrightarrow> at_schema_version 1 e)"
  using assms(1) upgrade_to_v1_keeps [OF assms(2)] unfolding at_schema_version_def mig_inv_1 by simp

definition upgradable :: "mig_db \<Rightarrow> bool" where
  "upgradable d \<longleftrightarrow> (case md_version d of None \<Rightarrow> mig_inv 1 d | Some v \<Rightarrow> 1 \<le> v \<and> v \<le> LAST_SCHEMA_VERSION \<and> mig_inv v d)"

lemma same_content_ids: "same_content ext k d l e \<Longrightarrow> map mu_user_id (md_users e) = map mu_user_id (md_users d)"
proof -
  assume "same_content ext k d l e"
  then have "map mu_user_id (map (user_content k) (md_users d)) = map mu_user_id (map (user_content l) (md_users e))"
    by (simp only: same_content_def)
  then show ?thesis by (simp add: comp_def user_content_def)
qed

lemma init_table_upgrades:
  assumes "upgradable d" and "init_table env d = (r, d')"
  shows "r \<noteq> Panic \<and> map mu_user_id (md_users d') = map mu_user_id (md_users d)
    \<and> (r = Ok () \<longrightarrow> md_version d' = Some LAST_SCHEMA_VERSION \<and> mig_inv LAST_SCHEMA_VERSION d')"
proof (cases "md_version d")
  case (Some v)
  with assms have "at_schema_version v d" "1 \<le> v" "v \<le> LAST_SCHEMA_VERSION" "migrate_from_version env v LAST_SCHEMA_VERSION d = (r, d')"
    by (auto simp: upgradable_def at_schema_version_def init_table_def)
  from init_table_chain [OF this] show ?thesis by (auto simp: at_schema_version_def dest: same_content_ids)
next
  case None
  obtain q e where up: "upgrade_to_v1 env d = (q, e)" by fastforce
  have e: "q \<noteq> Panic" "map mu_user_id (md_users e) = map mu_user_id (md_users d)" "q = Ok () \<Longrightarrow> at_schema_version 1 e"
    using upgrade_to_v1_ok [OF _ up] None assms(1) by (simp_all add: upgradable_def)
  show ?thesis
  proof (cases "q = Ok ()")
    case True
    with None up assms(2) have "migrate_from_version env 1 LAST_SCHEMA_VERSION e = (r, d')"
      by (simp add: init_table_def bind_def)
    from init_table_chain [OF e(3) [OF True] _ _ this] e(2) show ?thesis
      by (auto simp: at_schema_version_def LAST_SCHEMA_VERSION_def dest: same_content_ids)
  next
    case False
    with None up e assms(2) show ?thesis by (cases q) (auto simp: init_table_def bind_def)
  qed
qed

section \<open>Properties\<close>


text \<open>Running all the migrations from version 1, as one expression.\<close>

lemma distinct_concat_keys:
  assumes "distinct (map f us)" and "\<And>u. distinct (map g (rows u))" and "\<And>u a. a \<in> set (rows u) \<Longrightarrow> fst (g a) = f u"
  shows "distinct (map g (concat (map rows us)))"
  using assms(1)
proof (induction us)
  case (Cons u us)
  then have "fst (g a) \<noteq> fst (g b)" if "a \<in> set (rows u)" "b \<in> set (concat (map rows us))" for a b
    using that assms(3) by (auto dest!: assms(3))
  with Cons assms(2) [of u] show ?case by (fastforce simp: distinct_append)
qed simp

lemma v5_index: "distinct (map mu_user_id us)
    \<Longrightarrow> distinct (map (\<lambda>a. (uat_user_id a, uat_attribute_name a)) (concat (map (v5_attributes ext) us)))"
proof (erule distinct_concat_keys)
  show "distinct (map (\<lambda>a. (uat_user_id a, uat_attribute_name a)) (v5_attributes ext u))" for u
    by (auto simp: v5_attributes_def split: option.splits)
qed (simp add: v5_attributes_user)


lemma fst_bind_Ok: "fst (bind m f s) = Ok x \<longleftrightarrow> (\<exists>y t. m s = (Ok y, t) \<and> fst (f y t) = Ok x)"
  by (auto simp: bind_def split: prod.splits result.splits)

lemma migration_step_Ok_iff:
  "migration_step env k d = (Ok u, t) \<longleftrightarrow> (\<exists>e. (migrations env ! nat (k - 2)) d = Ok e \<and> t = e\<lparr>md_version := Some k\<rparr>)"
  by (auto simp: migration_step_def split: result.splits)

lemma distinct_count: "distinct xs \<longleftrightarrow> (\<forall>x\<in>set xs. \<not> 1 < count_list xs x)"
proof (induction xs)
  case (Cons y xs)
  have "0 < count_list xs y \<longleftrightarrow> y \<in> set xs" using count_list_0_iff [of xs y] by auto
  with Cons show ?case by (auto split: if_splits)
qed simp

lemma no_duplicates: "duplicate_memberships d = [] \<longleftrightarrow> distinct (md_memberships d)"
  by (simp add: duplicate_memberships_def filter_empty_conv distinct_count)

lemma v4_Ok_iff: "migrate_to_v4 d = Ok t \<longleftrightarrow> distinct (map mu_email (md_users d)) \<and> distinct (map mu_uuid (md_users d))
    \<and> distinct (map grp_uuid (md_groups d)) \<and> t = d"
  by (auto simp: migrate_to_v4_def)

lemma v8_Ok_iff: "me_backend env = Sqlite \<Longrightarrow> migrate_to_v8 env d = Ok t \<longleftrightarrow> distinct (md_memberships d) \<and> t = d"
  by (auto simp: migrate_to_v8_def Let_def no_duplicates split: if_splits)

lemma v10_Ok_iff: "migrate_to_v10 d = Ok t \<longleftrightarrow> distinct (map grp_lowercase_display_name (md_groups d))
    \<and> distinct (map mu_lowercase_email (md_users d)) \<and> t = d"
  by (auto simp: migrate_to_v10_def)

lemma v5_Ok_iff: "distinct (map mu_user_id (md_users d)) \<Longrightarrow> migrate_to_v5 env d = Ok t \<longleftrightarrow>
    t = d\<lparr>md_user_attribute_schema := v5_schema, md_group_attribute_schema := [],
      md_user_attributes := concat (map (v5_attributes (me_externals env)) (md_users d)), md_group_attributes := [],
      md_users := map (\<lambda>u. u\<lparr>mu_first_name := None, mu_last_name := None, mu_avatar := None\<rparr>) (md_users d)\<rparr>"
  by (auto simp: migrate_to_v5_def Let_def v5_index)

lemmas always_migrates = migrate_to_v2_def migrate_to_v3_def migrate_to_v6_def migrate_to_v7_def migrate_to_v9_def

text \<open>
  C27. When the migrations of a SQLite database succeed: from version 1 they do exactly when no two users share their email,
  its lower-case form (by the database's \<open>lower\<close>) or their UUID, no two groups share the lower-case form of their name or
  their UUID, and no membership is stored twice.
\<close>

theorem init_table_succeeds:
  assumes "md_version d = Some 1" and "mig_inv 1 d" and "me_backend env = Sqlite"
  shows "fst (init_table env d) = Ok () \<longleftrightarrow>
     distinct (map mu_email (md_users d)) \<and> distinct (map mu_uuid (md_users d)) \<and> distinct (map grp_uuid (md_groups d))
     \<and> distinct (md_memberships d)
     \<and> distinct (map (\<lambda>g. me_sql_lower env (GroupName_as_str (grp_display_name g))) (md_groups d))
     \<and> distinct (map (\<lambda>u. me_sql_lower env (Email_as_str (mu_email u))) (md_users d))"
proof -
  from assms(2) have "distinct (map mu_user_id (md_users d))" by (simp add: mig_inv_def)
  with assms(1,3) show ?thesis
    by (simp add: init_table_def migrate_from_version_def LAST_SCHEMA_VERSION_def fst_bind_Ok migration_step_Ok_iff
        migrations_def numeral_nat always_migrates v4_Ok_iff v5_Ok_iff v8_Ok_iff v10_Ok_iff comp_def return_def)
qed


text \<open>
  Restarting: after a successful start the metadata row says version 10 and starting again, with any
  configuration, changes nothing; a database written by a later release is refused and left as it is.
\<close>

theorem init_table_restart:
  "(init_table env d = (Ok (), d') \<longrightarrow> md_version d' = Some LAST_SCHEMA_VERSION \<and> init_table env' d' = (Ok (), d'))
   \<and> (md_version d = Some v \<and> LAST_SCHEMA_VERSION < v \<longrightarrow> init_table env d = (Err DowngradeUnsupported, d))"
proof (intro conjI impI; (elim conjE)?)
  have run: "md_version t = Some LAST_SCHEMA_VERSION"
    if "migrate_from_version env v LAST_SCHEMA_VERSION e = (Ok (), t)" "v < LAST_SCHEMA_VERSION" for v e t
    using that by (auto simp: migrate_from_version_def LAST_SCHEMA_VERSION_def bind_Ok_iff migration_step_Ok_iff return_def)
  assume init: "init_table env d = (Ok (), d')"
  show version: "md_version d' = Some LAST_SCHEMA_VERSION"
  proof (cases "md_version d")
    case None
    with init obtain e where "migrate_from_version env 1 LAST_SCHEMA_VERSION e = (Ok (), d')"
      by (auto simp: init_table_def bind_Ok_iff)
    then show ?thesis by (rule run) (simp add: LAST_SCHEMA_VERSION_def)
  next
    case (Some v)
    with init run [of v d d'] show ?thesis
      by (cases v LAST_SCHEMA_VERSION rule: linorder_cases) (auto simp: init_table_def migrate_from_version_def return_def fail_def)
  qed
  show "init_table env' d' = (Ok (), d')"
    by (simp add: version init_table_def migrate_from_version_def return_def)
next
  assume "md_version d = Some v" "LAST_SCHEMA_VERSION < v"
  then show "init_table env d = (Err DowngradeUnsupported, d)"
    by (simp add: init_table_def migrate_from_version_def fail_def)
qed

text \<open>A database of the first version: two users, one without names, the other with empty ones, and one group.\<close>

definition old_user :: "string \<Rightarrow> string option \<Rightarrow> mig_user" where
  "old_user name first = \<lparr>mu_user_id = UserId name, mu_email = Email (name @ ''@Example.com''), mu_lowercase_email = [],
     mu_display_name = Some [], mu_first_name = first, mu_last_name = Some ''Smith'', mu_avatar = None, mu_creation_date = 0,
     mu_password_hash = None, mu_totp_secret = None, mu_mfa_type = None, mu_uuid = Uuid name\<rparr>"

definition old_database :: mig_db where
  "old_database = \<lparr>md_version = Some 1, md_has_group_date = True, md_has_group_uuid = True, md_has_user_uuid = True,
     md_users = [old_user ''alice'' None, old_user ''bob'' (Some [])],
     md_groups = [\<lparr>grp_group_id = GroupId 1, grp_display_name = GroupName ''Staff'', grp_lowercase_display_name = [],
       grp_creation_date = 0, grp_uuid = Uuid ''g''\<rparr>],
     md_next_group_id = 2, md_memberships = [\<lparr>mem_user_id = UserId ''bob'', mem_group_id = GroupId 1\<rparr>],
     md_user_attribute_schema = [], md_group_attribute_schema = [], md_user_attributes = [], md_group_attributes = [],
     md_user_object_classes = [], md_group_object_classes = []\<rparr>"

definition sqlite_env :: mig_env where
  "sqlite_env = \<lparr>me_externals = ascii_externals, me_now = 0, me_backend = Sqlite, me_delete_limit = False,
     me_sql_lower = to_ascii_lowercase\<rparr>"

lemma old_database_ok: "md_version old_database = Some 1" "mig_inv 1 old_database" "me_backend sqlite_env = Sqlite"
  by (simp_all add: old_database_def sqlite_env_def mig_inv_def old_user_def)


theorem init_table_succeeds_witness: "fst (init_table sqlite_env old_database) = Ok ()"
  using init_table_succeeds [OF old_database_ok] by (simp add: old_database_def old_user_def sqlite_env_def to_ascii_lowercase_def)

theorem init_table_restart_witness:
  "(let t = snd (init_table sqlite_env old_database) in init_table sqlite_env t = (Ok (), t))
   \<and> init_table sqlite_env (old_database\<lparr>md_version := Some 11\<rparr>) = (Err DowngradeUnsupported, old_database\<lparr>md_version := Some 11\<rparr>)"
proof
  have "fst (init_table sqlite_env old_database) = Ok ()" by code_simp
  then have "init_table sqlite_env old_database = (Ok (), snd (init_table sqlite_env old_database))" by (metis prod.collapse)
  with init_table_restart show "let t = snd (init_table sqlite_env old_database) in init_table sqlite_env t = (Ok (), t)"
    unfolding Let_def by blast
  have "LAST_SCHEMA_VERSION < 11" by (simp add: LAST_SCHEMA_VERSION_def)
  with init_table_restart [of sqlite_env "old_database\<lparr>md_version := Some 11\<rparr>" _ sqlite_env 11]
  show "init_table sqlite_env (old_database\<lparr>md_version := Some 11\<rparr>) = (Err DowngradeUnsupported, old_database\<lparr>md_version := Some 11\<rparr>)"
    by simp
qed

end
