(* ===== verification/Configuration.thy ===== *)
theory Configuration
  imports Mail
begin

text \<open>
  \<open>server/src/infra/configuration.rs\<close> with the options of \<open>server/src/infra/cli.rs\<close> and the description of the private key in
  \<open>server/src/domain/sql_tables.rs\<close>: the configuration, the command-line options that override it, and the server's
  key, read from a file, generated into a new file or derived from a seed. Merging the defaults, the configuration
  file and the environment (\<open>figment\<close>) is third-party code: its result and where it found a key are arguments. So are
  the OPAQUE key functions and SHA-256, the fields of \<open>key_lib\<close>; a random key is an argument. URLs and mailboxes are
  their text. Of the file system the model has the files and whether a path can be created or read.
\<close>

section \<open>The configuration\<close>

datatype config_location = ConfigFile string | EnvironmentVariable string | CommandLine

datatype private_key_location =
    KeySeed config_location
  | KeyFile config_location string
  | DefaultLocation

record private_key_info =
  pk_hash :: bytes
  pk_location :: private_key_location

record ldaps_options =
  lo_enabled :: bool
  lo_port :: nat
  lo_cert_file :: string
  lo_key_file :: string

record server_setup_config =
  ssc_server_setup :: bytes
  ssc_private_key_location :: private_key_location

record configuration =
  cf_ldap_host :: string
  cf_ldap_port :: nat
  cf_http_host :: string
  cf_http_port :: nat
  cf_jwt_secret :: string
  cf_ldap_base_dn :: string
  cf_ldap_user_dn :: user_id
  cf_ldap_user_email :: string
  cf_ldap_user_pass :: string
  cf_force_ldap_user_pass_reset :: bool
  cf_force_update_private_key :: bool
  cf_database_url :: string
  cf_ignored_user_attributes :: "attribute_name list"
  cf_ignored_group_attributes :: "attribute_name list"
  cf_verbose :: bool
  cf_key_file :: string
  cf_key_seed :: "string option"
  cf_smtp_options :: mail_options
  cf_ldaps_options :: ldaps_options
  cf_http_url :: string
  cf_server_setup :: "server_setup_config option"

definition default_mail_options :: mail_options where
  "default_mail_options = \<lparr>mo_enable_password_reset = False, mo_from = None, mo_reply_to = None, mo_server = ''localhost'',
     mo_port = 587, mo_user = [], mo_password = [], mo_smtp_encryption = SmtpTls, mo_tls_required = None\<rparr>"

definition default_ldaps_options :: ldaps_options where
  "default_ldaps_options = \<lparr>lo_enabled = False, lo_port = 6360, lo_cert_file = ''cert.pem'', lo_key_file = ''key.pem''\<rparr>"

text \<open>\<open>ConfigurationBuilder::default().private_build()\<close>.\<close>

definition default_configuration :: configuration where
  "default_configuration = \<lparr>cf_ldap_host = ''0.0.0.0'', cf_ldap_port = 3890, cf_http_host = ''0.0.0.0'', cf_http_port = 17170,
     cf_jwt_secret = ''secretjwtsecret'', cf_ldap_base_dn = ''dc=example,dc=com'', cf_ldap_user_dn = UserId ''admin'',
     cf_ldap_user_email = [], cf_ldap_user_pass = ''password'', cf_force_ldap_user_pass_reset = False,
     cf_force_update_private_key = False, cf_database_url = ''sqlite://users.db?mode=rwc'', cf_ignored_user_attributes = [],
     cf_ignored_group_attributes = [], cf_verbose = False, cf_key_file = ''server_key'', cf_key_seed = None,
     cf_smtp_options = default_mail_options, cf_ldaps_options = default_ldaps_options, cf_http_url = ''http://localhost/'',
     cf_server_setup = None\<rparr>"

section \<open>The command line\<close>

record general_config_opts =
  go_config_file :: string
  go_verbose :: bool

record smtp_opts =
  so_enable_password_reset :: "bool option"
  so_from :: "string option"
  so_reply_to :: "string option"
  so_server :: "string option"
  so_port :: "nat option"
  so_user :: "string option"
  so_password :: "string option"
  so_tls_required :: "bool option"
  so_encryption :: "smtp_encryption option"

record ldaps_opts =
  ldo_enabled :: "bool option"
  ldo_port :: "nat option"
  ldo_cert_file :: "string option"
  ldo_key_file :: "string option"

record run_opts =
  ro_general_config :: general_config_opts
  ro_server_key_file :: "string option"
  ro_server_key_seed :: "string option"
  ro_ldap_host :: "string option"
  ro_ldap_port :: "nat option"
  ro_http_host :: "string option"
  ro_http_port :: "nat option"
  ro_http_url :: "string option"
  ro_database_url :: "string option"
  ro_force_ldap_user_pass_reset :: "bool option"
  ro_force_update_private_key :: "bool option"
  ro_smtp_opts :: smtp_opts
  ro_ldaps_opts :: ldaps_opts

record test_email_opts =
  te_general_config :: general_config_opts
  te_to :: string
  te_smtp_opts :: smtp_opts

text \<open>\<open>if let Some(v) = v { *field = v }\<close>.\<close>

fun set_if :: "('a \<Rightarrow> 'c \<Rightarrow> 'c) \<Rightarrow> 'a option \<Rightarrow> 'c \<Rightarrow> 'c" where
  "set_if upd None c = c"
| "set_if upd (Some v) c = upd v c"

definition override_general :: "general_config_opts \<Rightarrow> configuration \<Rightarrow> configuration" where
  "override_general opts c = (if go_verbose opts then c\<lparr>cf_verbose := True\<rparr> else c)"

definition override_ldaps_options :: "ldaps_opts \<Rightarrow> ldaps_options \<Rightarrow> ldaps_options" where
  "override_ldaps_options opts o0 =
     (let o1 = set_if (\<lambda>v o'. o'\<lparr>lo_enabled := v\<rparr>) (ldo_enabled opts) o0;
          o2 = set_if (\<lambda>v o'. o'\<lparr>lo_port := v\<rparr>) (ldo_port opts) o1;
          o3 = set_if (\<lambda>v o'. o'\<lparr>lo_cert_file := v\<rparr>) (ldo_cert_file opts) o2
      in set_if (\<lambda>v o'. o'\<lparr>lo_key_file := v\<rparr>) (ldo_key_file opts) o3)"

definition override_ldaps :: "ldaps_opts \<Rightarrow> configuration \<Rightarrow> configuration" where
  "override_ldaps opts c = c\<lparr>cf_ldaps_options := override_ldaps_options opts (cf_ldaps_options c)\<rparr>"

definition override_mail_options :: "smtp_opts \<Rightarrow> mail_options \<Rightarrow> mail_options" where
  "override_mail_options opts m0 =
     (let m1 = set_if (\<lambda>v m. m\<lparr>mo_from := Some v\<rparr>) (so_from opts) m0;
          m2 = set_if (\<lambda>v m. m\<lparr>mo_reply_to := Some v\<rparr>) (so_reply_to opts) m1;
          m3 = set_if (\<lambda>v m. m\<lparr>mo_server := v\<rparr>) (so_server opts) m2;
          m4 = set_if (\<lambda>v m. m\<lparr>mo_port := v\<rparr>) (so_port opts) m3;
          m5 = set_if (\<lambda>v m. m\<lparr>mo_user := v\<rparr>) (so_user opts) m4;
          m6 = set_if (\<lambda>v m. m\<lparr>mo_password := v\<rparr>) (so_password opts) m5;
          m7 = set_if (\<lambda>v m. m\<lparr>mo_smtp_encryption := v\<rparr>) (so_encryption opts) m6;
          m8 = set_if (\<lambda>v m. m\<lparr>mo_tls_required := Some v\<rparr>) (so_tls_required opts) m7
      in set_if (\<lambda>v m. m\<lparr>mo_enable_password_reset := v\<rparr>) (so_enable_password_reset opts) m8)"

definition override_smtp :: "smtp_opts \<Rightarrow> configuration \<Rightarrow> configuration" where
  "override_smtp opts c = c\<lparr>cf_smtp_options := override_mail_options opts (cf_smtp_options c)\<rparr>"

text \<open>\<open>RunOpts::override_config\<close>; of the options, \<open>ro_ldap_host\<close> and \<open>ro_http_host\<close> are not used.\<close>

definition override_run :: "run_opts \<Rightarrow> configuration \<Rightarrow> configuration" where
  "override_run opts c0 =
     (let c1 = override_general (ro_general_config opts) c0;
          c2 = set_if (\<lambda>v c. c\<lparr>cf_key_file := v\<rparr>) (ro_server_key_file opts) c1;
          c3 = set_if (\<lambda>v c. c\<lparr>cf_key_seed := Some v\<rparr>) (ro_server_key_seed opts) c2;
          c4 = set_if (\<lambda>v c. c\<lparr>cf_ldap_port := v\<rparr>) (ro_ldap_port opts) c3;
          c5 = set_if (\<lambda>v c. c\<lparr>cf_http_port := v\<rparr>) (ro_http_port opts) c4;
          c6 = set_if (\<lambda>v c. c\<lparr>cf_http_url := v\<rparr>) (ro_http_url opts) c5;
          c7 = set_if (\<lambda>v c. c\<lparr>cf_database_url := v\<rparr>) (ro_database_url opts) c6;
          c8 = set_if (\<lambda>v c. c\<lparr>cf_force_ldap_user_pass_reset := v\<rparr>) (ro_force_ldap_user_pass_reset opts) c7;
          c9 = set_if (\<lambda>v c. c\<lparr>cf_force_update_private_key := v\<rparr>) (ro_force_update_private_key opts) c8
      in override_ldaps (ro_ldaps_opts opts) (override_smtp (ro_smtp_opts opts) c9))"

definition override_test_email :: "test_email_opts \<Rightarrow> configuration \<Rightarrow> configuration" where
  "override_test_email opts c = override_smtp (te_smtp_opts opts) (override_general (te_general_config opts) c)"

section \<open>The server's key\<close>

record key_lib =
  kl_sha256 :: "bytes \<Rightarrow> bytes"
  kl_setup_from_seed :: "bytes \<Rightarrow> bytes"
    \<comment> \<open>\<open>ServerSetup::new\<close> with the random numbers of \<open>ChaCha20Rng::from_seed\<close>\<close>
  kl_setup_serialize :: "bytes \<Rightarrow> bytes"
  kl_setup_deserialize :: "bytes \<Rightarrow> bytes option"
  kl_private_key :: "bytes \<Rightarrow> bytes"

text \<open>A file as the process sees it; \<open>fs_creatable\<close> tells where a file can be created.\<close>

record file_entry =
  fe_contents :: bytes
  fe_mode :: nat
  fe_readable :: bool

record file_system =
  fs_files :: "string \<Rightarrow> file_entry option"
  fs_creatable :: "string \<Rightarrow> bool"

datatype figment_source = SourceFile string | SourceCode | SourceOther

record figment_metadata =
  fm_name :: string
  fm_source :: "figment_source option"

type_synonym figment = "string \<Rightarrow> figment_metadata option"

datatype private_key_location_or_figment = Figment figment | PrivateKeyLocation private_key_location

datatype config_error =
    FigmentError string
  | KeySeedAndFile string
  | KeyFileUnreadable string
  | KeyFileInvalid string
  | KeyFileNotWritten string

definition stable_hash :: "key_lib \<Rightarrow> bytes \<Rightarrow> bytes" where
  "stable_hash lib val = kl_sha256 lib val"

text \<open>The mode 0o400 is 256.\<close>

definition write_to_readonly_file :: "string \<Rightarrow> bytes \<Rightarrow> (file_system, unit, config_error) action" where
  "write_to_readonly_file path buffer fs =
     (if fs_files fs path \<noteq> None then (Panic, fs)
      else if \<not> fs_creatable fs path then (Err (KeyFileNotWritten path), fs)
      else (Ok (), fs\<lparr>fs_files := (fs_files fs)(path \<mapsto> \<lparr>fe_contents = buffer, fe_mode = 256, fe_readable = True\<rparr>)\<rparr>))"

fun for_key_seed :: "private_key_location_or_figment \<Rightarrow> (private_key_location, config_error) result" where
  "for_key_seed (Figment config) = (case config ''key_seed'' of
       None \<Rightarrow> Ok DefaultLocation
     | Some m \<Rightarrow> (case fm_source m of
           Some (SourceFile path) \<Rightarrow> Ok (KeySeed (ConfigFile path))
         | None \<Rightarrow> Ok (KeySeed (EnvironmentVariable (fm_name m)))
         | Some SourceCode \<Rightarrow> Ok DefaultLocation
         | Some SourceOther \<Rightarrow> Panic))"
| "for_key_seed (PrivateKeyLocation (KeyFile _ _)) = Panic"
| "for_key_seed (PrivateKeyLocation location) = Ok location"

fun for_key_file :: "string \<Rightarrow> private_key_location_or_figment \<Rightarrow> (private_key_location, config_error) result" where
  "for_key_file server_key_file (Figment config) = (case config ''key_file'' of
       None \<Rightarrow> Ok DefaultLocation
     | Some m \<Rightarrow> (case fm_source m of
           Some (SourceFile path) \<Rightarrow> Ok (KeyFile (ConfigFile path) server_key_file)
         | None \<Rightarrow> Ok (KeyFile (EnvironmentVariable (fm_name m)) server_key_file)
         | Some SourceCode \<Rightarrow> Ok DefaultLocation
         | Some SourceOther \<Rightarrow> Panic))"
| "for_key_file server_key_file (PrivateKeyLocation (KeySeed _)) = Panic"
| "for_key_file server_key_file (PrivateKeyLocation location) = Ok location"

definition get_server_setup ::
  "key_lib \<Rightarrow> bytes \<Rightarrow> string \<Rightarrow> string \<Rightarrow> private_key_location_or_figment
   \<Rightarrow> (file_system, server_setup_config, config_error) action" where
  "get_server_setup lib random file_path key_seed location fs =
     (if key_seed \<noteq> []
      then if fs_files fs file_path \<noteq> None then (Err (KeySeedAndFile file_path), fs)
        else lift_result (bind_result (for_key_seed location) (\<lambda>l.
          Ok \<lparr>ssc_server_setup = kl_setup_from_seed lib (stable_hash lib key_seed), ssc_private_key_location = l\<rparr>)) fs
      else (case fs_files fs file_path of
          Some f \<Rightarrow> lift_result
            (if \<not> fe_readable f then Err (KeyFileUnreadable file_path)
             else case kl_setup_deserialize lib (fe_contents f) of
               None \<Rightarrow> Err (KeyFileInvalid file_path)
             | Some setup \<Rightarrow> bind_result (for_key_file file_path location) (\<lambda>l.
                 Ok \<lparr>ssc_server_setup = setup, ssc_private_key_location = l\<rparr>)) fs
        | None \<Rightarrow> bind (write_to_readonly_file file_path (kl_setup_serialize lib random)) (\<lambda>_.
            lift_result (bind_result (for_key_file file_path location) (\<lambda>l.
              Ok \<lparr>ssc_server_setup = random, ssc_private_key_location = l\<rparr>))) fs))"

definition get_private_key_info :: "key_lib \<Rightarrow> configuration \<Rightarrow> (private_key_info, 'e) result" where
  "get_private_key_info lib config = (case cf_server_setup config of
       None \<Rightarrow> Panic
     | Some s \<Rightarrow> Ok \<lparr>pk_hash = stable_hash lib (kl_private_key lib (ssc_server_setup s)), pk_location = ssc_private_key_location s\<rparr>)"

datatype key_error =
    FileToSeed config_location string config_location
  | DefaultToSeed config_location
  | KeyFileChanged string
  | KeyFileMoved config_location string config_location string
  | KeyChanged private_key_location private_key_location

fun key_change_error :: "private_key_location \<Rightarrow> private_key_location \<Rightarrow> key_error" where
  "key_change_error (KeyFile old_location file_path) (KeySeed new_location) = FileToSeed old_location file_path new_location"
| "key_change_error DefaultLocation (KeySeed new_location) = DefaultToSeed new_location"
| "key_change_error (KeyFile old_location old_path) (KeyFile new_location new_path) =
     (if old_path = new_path then KeyFileChanged old_path else KeyFileMoved old_location old_path new_location new_path)"
| "key_change_error old_location new_location = KeyChanged old_location new_location"

definition compare_private_key_hashes ::
  "private_key_info option \<Rightarrow> private_key_info \<Rightarrow> (bool, key_error) result" where
  "compare_private_key_hashes previous_info info = (case previous_info of
       None \<Rightarrow> Ok True
     | Some previous \<Rightarrow>
         if pk_hash previous = pk_hash info then Ok False
         else Err (key_change_error (pk_location previous) (pk_location info)))"

section \<open>Loading\<close>

datatype config_warning = DefaultJwtSecret | DefaultAdminPassword | DeprecatedTlsRequired

definition config_warnings :: "configuration \<Rightarrow> config_warning list" where
  "config_warnings c =
     (if cf_jwt_secret c = ''secretjwtsecret'' then [DefaultJwtSecret] else [])
   @ (if cf_ldap_user_pass c = ''password'' then [DefaultAdminPassword] else [])
   @ (if mo_tls_required (cf_smtp_options c) \<noteq> None then [DeprecatedTlsRequired] else [])"

text \<open>\<open>init\<close>: \<open>extracted\<close> is the result of \<open>figment_config.extract()\<close>, \<open>overrides\<close> that of the command line.\<close>

definition config_init ::
  "key_lib \<Rightarrow> bytes \<Rightarrow> figment \<Rightarrow> (configuration, config_error) result \<Rightarrow> (configuration \<Rightarrow> configuration)
   \<Rightarrow> (file_system, configuration \<times> config_warning list, config_error) action" where
  "config_init lib random figment extracted overrides =
     bind (lift_result extracted) (\<lambda>extracted_config.
     let config = overrides extracted_config in
     bind (get_server_setup lib random (cf_key_file config) (case cf_key_seed config of None \<Rightarrow> [] | Some s \<Rightarrow> s) (Figment figment))
       (\<lambda>setup. let config' = config\<lparr>cf_server_setup := Some setup\<rparr> in return (config', config_warnings config')))"


section \<open>Properties\<close>

lemma override_run_ignores_hosts:
  "override_run (opts\<lparr>ro_ldap_host := h, ro_http_host := h'\<rparr>) c = override_run opts c"
  by (simp add: override_run_def)

lemma get_server_setup_again:
  assumes "\<And>s. kl_setup_deserialize lib (kl_setup_serialize lib s) = Some s"
    and "get_server_setup lib random path seed location fs = (Ok setup, fs')"
  shows "get_server_setup lib random' path seed location fs' = (Ok setup, fs')"
    and "fs_files fs p = Some f \<Longrightarrow> fs_files fs' p = Some f"
  using assms
  by (auto simp: get_server_setup_def write_to_readonly_file_def bind_def lift_result_def split: if_splits option.splits
      prod.splits result.splits)

text \<open>
  The server's key survives a restart: after a successful start of the program, loading the same configuration
  again gives the same configuration with the same key, whatever new random key would be drawn, and leaves the files
  as they are; no file that existed is changed, and the key that the first run recorded is accepted by the second.
\<close>

theorem restart_keeps_key:
  assumes "\<forall>s. kl_setup_deserialize lib (kl_setup_serialize lib s) = Some s"
    and "config_init lib random figment extracted overrides fs = (Ok (c, w), fs')"
  shows "config_init lib random' figment extracted overrides fs' = (Ok (c, w), fs')
    \<and> (\<forall>p f. fs_files fs p = Some f \<longrightarrow> fs_files fs' p = Some f)
    \<and> (\<exists>info. get_private_key_info lib c = Ok info \<and> compare_private_key_hashes (Some info) info = Ok False)"
proof -
  from assms(2) obtain c0 s where c0: "extracted = Ok c0"
    and got: "get_server_setup lib random (cf_key_file (overrides c0))
      (case cf_key_seed (overrides c0) of None \<Rightarrow> [] | Some s \<Rightarrow> s) (Figment figment) fs = (Ok s, fs')"
    and c: "c = (overrides c0)\<lparr>cf_server_setup := Some s\<rparr>" "w = config_warnings c"
    by (auto simp: config_init_def bind_Ok_iff Let_def return_def)
  note again = get_server_setup_again [OF assms(1) [rule_format] got]
  have "config_init lib random' figment extracted overrides fs' = (Ok (c, w), fs')"
    using again(1) [of random'] by (simp add: config_init_def c0 c bind_def lift_result_def return_def Let_def)
  with again(2) show ?thesis by (simp add: get_private_key_info_def compare_private_key_hashes_def c)
qed

text \<open>An example: the first start creates the key file.\<close>

definition plain_keys :: key_lib where
  "plain_keys = \<lparr>kl_sha256 = id, kl_setup_from_seed = id, kl_setup_serialize = id, kl_setup_deserialize = Some, kl_private_key = id\<rparr>"

definition empty_files :: file_system where
  "empty_files = \<lparr>fs_files = (\<lambda>_. None), fs_creatable = (\<lambda>_. True)\<rparr>"

theorem restart_keeps_key_witness:
  "let c = default_configuration\<lparr>cf_server_setup := Some \<lparr>ssc_server_setup = ''k1'', ssc_private_key_location = DefaultLocation\<rparr>\<rparr>;
       fs = snd (config_init plain_keys ''k1'' (\<lambda>_. None) (Ok default_configuration) id empty_files)
   in fst (config_init plain_keys ''k2'' (\<lambda>_. None) (Ok default_configuration) id fs) = Ok (c, [DefaultJwtSecret, DefaultAdminPassword])"
proof -
  let ?c = "default_configuration\<lparr>cf_server_setup := Some \<lparr>ssc_server_setup = ''k1'', ssc_private_key_location = DefaultLocation\<rparr>\<rparr>"
  let ?fs = "snd (config_init plain_keys ''k1'' (\<lambda>_. None) (Ok default_configuration) id empty_files)"
  have ok: "\<forall>s. kl_setup_deserialize plain_keys (kl_setup_serialize plain_keys s) = Some s" by (simp add: plain_keys_def)
  have "config_init plain_keys ''k1'' (\<lambda>_. None) (Ok default_configuration) id empty_files = (Ok (?c, [DefaultJwtSecret, DefaultAdminPassword]), ?fs)"
    by (simp add: config_init_def get_server_setup_def plain_keys_def empty_files_def default_configuration_def default_mail_options_def
        write_to_readonly_file_def config_warnings_def bind_def lift_result_def return_def Let_def)
  note again = restart_keeps_key [OF ok this, of "''k2''", THEN conjunct1]
  show ?thesis unfolding Let_def by (subst again) (rule fst_conv)
qed

end
