(* ===== verification/Ldap_Server.thy ===== *)
theory Ldap_Server
  imports Ldap_Session Configuration
begin

text \<open>
  \<open>server/src/infra/ldap_server.rs\<close> and \<open>server/src/infra/healthcheck.rs\<close>: an LDAP connection, as a loop over the messages
  received, the listeners the server opens, and the health check, which is a client of them. Sockets, the LDAP codec
  and TLS (\<open>rustls\<close>) are third-party code: what arrives is a list of messages or receive errors, \<open>fails n\<close> tells whether
  the connection breaks when the \<open>n\<close>-th message is sent, and the PEM parsers are the fields of \<open>tls_lib\<close>. The
  environment and the backend (clock and random numbers) of the \<open>n\<close>-th request are \<open>envs n\<close> and \<open>backends n\<close>.
\<close>

section \<open>Connections\<close>

datatype ldap_control = SimplePagedResults int bytes | OtherControl string

record ldap_msg =
  msg_msgid :: int
  msg_op :: ldap_op
  msg_ctrl :: "ldap_control list"

datatype ldap_server_error =
    ReceiveError string
  | SendError
  | NoBindAddress string nat
  | CertificateError

text \<open>The backend and what was sent on the connection.\<close>

record 's connection =
  cn_backend :: 's
  cn_sent :: "ldap_msg list"

definition response_controls :: "nat \<Rightarrow> ldap_op \<Rightarrow> ldap_control list" where
  "response_controls results response =
     (case response of SearchResultDone _ \<Rightarrow> [SimplePagedResults (int results - 1) []] | _ \<Rightarrow> [])"

definition send_message :: "(nat \<Rightarrow> bool) \<Rightarrow> ldap_msg \<Rightarrow> ('s connection, unit, ldap_server_error) action" where
  "send_message fails m c =
     (if fails (length (cn_sent c)) then (Err SendError, c) else (Ok (), c\<lparr>cn_sent := cn_sent c @ [m]\<rparr>))"

text \<open>The handler of the session has no error result; whether to go on, and the session afterwards.\<close>

definition handle_connection_message ::
  "ldap_env \<Rightarrow> 's backend_handler \<Rightarrow> (nat \<Rightarrow> bool) \<Rightarrow> (ldap_msg, string) result \<Rightarrow> ldap_handler
   \<Rightarrow> ('s connection, bool \<times> ldap_handler, ldap_server_error) action" where
  "handle_connection_message env h fails received session c =
     (case received of
        Err e \<Rightarrow> (Err (ReceiveError e), c)
      | Panic \<Rightarrow> (Panic, c)
      | Ok m \<Rightarrow>
          (case handle_ldap_message env h session (msg_op m) (cn_backend c) of
             (Ok (None, session'), s) \<Rightarrow> (Ok (False, session'), c\<lparr>cn_backend := s\<rparr>)
           | (Ok (Some result, session'), s) \<Rightarrow>
               bind (for_each (\<lambda>response. send_message fails \<lparr>msg_msgid = msg_msgid m, msg_op = response,
                   msg_ctrl = response_controls (length result) response\<rparr>) result) (\<lambda>_. return (True, session'))
                 (c\<lparr>cn_backend := s\<rparr>)
           | (_, s) \<Rightarrow> (Panic, c\<lparr>cn_backend := s\<rparr>)))"

text \<open>\<open>while let Some(msg) = requests.next().await\<close>, from the \<open>n\<close>-th message on.\<close>

fun connection_loop ::
  "(nat \<Rightarrow> ldap_env) \<Rightarrow> (nat \<Rightarrow> 's backend_handler) \<Rightarrow> (nat \<Rightarrow> bool) \<Rightarrow> nat \<Rightarrow> (ldap_msg, string) result list \<Rightarrow> ldap_handler
   \<Rightarrow> ('s connection, unit, ldap_server_error) action" where
  "connection_loop envs backends fails n [] session = return ()"
| "connection_loop envs backends fails n (m # ms) session =
     bind (handle_connection_message (envs n) (backends n) fails m session) (\<lambda>(continue, session').
       if continue then connection_loop envs backends fails (n + 1) ms session' else return ())"

definition handle_ldap_stream ::
  "(nat \<Rightarrow> ldap_env) \<Rightarrow> (nat \<Rightarrow> 's backend_handler) \<Rightarrow> (nat \<Rightarrow> bool) \<Rightarrow> string \<Rightarrow> attribute_name list \<Rightarrow> attribute_name list
   \<Rightarrow> (ldap_msg, string) result list \<Rightarrow> ('s connection, unit, ldap_server_error) action" where
  "handle_ldap_stream envs backends fails ldap_base_dn ignored_user_attributes ignored_group_attributes requests =
     bind (lift_result (LdapHandler_new ldap_base_dn ignored_user_attributes ignored_group_attributes)) (\<lambda>session.
       connection_loop envs backends fails 0 requests session)"

section \<open>Listeners\<close>

record tls_lib =
  tl_certs :: "bytes \<Rightarrow> bytes list option"
  tl_pkcs8_private_keys :: "bytes \<Rightarrow> bytes list option"
  tl_rsa_private_keys :: "bytes \<Rightarrow> bytes list option"
  tl_ec_private_keys :: "bytes \<Rightarrow> bytes list option"
  tl_with_single_cert :: "bytes list \<Rightarrow> bytes \<Rightarrow> bool"

definition open_file :: "file_system \<Rightarrow> string \<Rightarrow> bytes option" where
  "open_file fs path = (case fs_files fs path of Some f \<Rightarrow> if fe_readable f then Some (fe_contents f) else None | None \<Rightarrow> None)"

definition first_key :: "bytes list option \<Rightarrow> bytes option" where
  "first_key keys = (case keys of Some (k # _) \<Rightarrow> Some k | _ \<Rightarrow> None)"

definition or_else :: "'a option \<Rightarrow> 'a option \<Rightarrow> 'a option" where
  "or_else a b = (case a of Some x \<Rightarrow> Some x | None \<Rightarrow> b)"

definition read_private_key :: "tls_lib \<Rightarrow> file_system \<Rightarrow> string \<Rightarrow> bytes option" where
  "read_private_key lib fs key_file =
     (let parse = (\<lambda>parser. Option.bind (open_file fs key_file) (\<lambda>b. first_key (parser b))) in
      or_else (or_else (parse (tl_pkcs8_private_keys lib)) (parse (tl_rsa_private_keys lib))) (parse (tl_ec_private_keys lib)))"

definition read_certificates :: "tls_lib \<Rightarrow> file_system \<Rightarrow> ldaps_options \<Rightarrow> (bytes list \<times> bytes) option" where
  "read_certificates lib fs options =
     Option.bind (open_file fs (lo_cert_file options)) (\<lambda>b. Option.bind (tl_certs lib b) (\<lambda>certs.
     Option.bind (read_private_key lib fs (lo_key_file options)) (\<lambda>key. Some (certs, key))))"

definition get_tls_acceptor :: "tls_lib \<Rightarrow> file_system \<Rightarrow> ldaps_options \<Rightarrow> (bytes list \<times> bytes) option" where
  "get_tls_acceptor lib fs options = (case read_certificates lib fs options of
       Some (certs, key) \<Rightarrow> if tl_with_single_cert lib certs key then Some (certs, key) else None
     | None \<Rightarrow> None)"

text \<open>A listener is its name with host and port; \<open>can_bind\<close> tells which addresses are free.\<close>

type_synonym server_builder = "(string \<times> string \<times> nat) list"

definition bind_listener :: "(string \<Rightarrow> nat \<Rightarrow> bool) \<Rightarrow> string \<Rightarrow> string \<Rightarrow> nat \<Rightarrow> server_builder \<Rightarrow> (server_builder, ldap_server_error) result" where
  "bind_listener can_bind name host port builder =
     (if can_bind host port then Ok (builder @ [(name, host, port)]) else Err (NoBindAddress host port))"

definition build_ldap_server ::
  "tls_lib \<Rightarrow> file_system \<Rightarrow> (string \<Rightarrow> nat \<Rightarrow> bool) \<Rightarrow> configuration \<Rightarrow> server_builder \<Rightarrow> (server_builder, ldap_server_error) result" where
  "build_ldap_server lib fs can_bind config builder =
     (let server_builder = bind_listener can_bind ''ldap'' (cf_ldap_host config) (cf_ldap_port config) builder in
      if lo_enabled (cf_ldaps_options config)
      then case get_tls_acceptor lib fs (cf_ldaps_options config) of
          None \<Rightarrow> Err CertificateError
        | Some _ \<Rightarrow> bind_result server_builder (\<lambda>s.
            bind_listener can_bind ''ldaps'' (cf_ldap_host config) (lo_port (cf_ldaps_options config)) s)
      else server_builder)"

section \<open>The health check\<close>

datatype health_error = NoAnswer | InvalidAnswer | ConnectionError | HealthcheckFailed

definition health_request :: ldap_msg where
  "health_request = \<lparr>msg_msgid = 0, msg_op = SearchRequest \<lparr>sr_base = [], sr_scope = ScopeBase, sr_aliases = DerefNever,
     sr_sizelimit = 0, sr_timelimit = 0, sr_typesonly = False, sr_filter = FPresent ''objectClass'',
     sr_attrs = [''supportedExtension'']\<rparr>, msg_ctrl = []\<rparr>"

text \<open>The check of what the server answers to that request.\<close>

definition check_ldap_endpoint :: "(ldap_msg, string) result list \<Rightarrow> (unit, health_error) result" where
  "check_ldap_endpoint answers = (case answers of
       [] \<Rightarrow> Err NoAnswer
     | Ok m # rest \<Rightarrow>
         (case msg_op m of
            SearchResultEntry e \<Rightarrow>
              if sre_dn e = [] \<and> list_ex (\<lambda>a. pa_atype a = ''objectClass'' \<and> pa_vals a = [''top'']) (sre_attributes e)
              then (case rest of
                  [] \<Rightarrow> Err NoAnswer
                | Ok m' # _ \<Rightarrow> (case msg_op m' of SearchResultDone _ \<Rightarrow> Ok () | _ \<Rightarrow> Err InvalidAnswer)
                | _ \<Rightarrow> Err ConnectionError)
              else Err InvalidAnswer
          | _ \<Rightarrow> Err InvalidAnswer)
     | _ \<Rightarrow> Err InvalidAnswer)"

text \<open>\<open>connect port\<close> is what the server on a local port answers, if it can be reached.\<close>

definition check_ldap :: "(nat \<Rightarrow> (ldap_msg, string) result list option) \<Rightarrow> nat \<Rightarrow> (unit, health_error) result" where
  "check_ldap connect port = (case connect port of None \<Rightarrow> Err ConnectionError | Some answers \<Rightarrow> check_ldap_endpoint answers)"

text \<open>
  The check over TLS pins the server's certificate to the first of the certificate file; an empty file panics.
  \<open>connect_tls port\<close> gives the certificate the server presents with its answers.
\<close>

definition check_ldaps ::
  "tls_lib \<Rightarrow> file_system \<Rightarrow> (nat \<Rightarrow> (bytes \<times> (ldap_msg, string) result list) option) \<Rightarrow> ldaps_options \<Rightarrow> (unit, health_error) result" where
  "check_ldaps lib fs connect_tls options =
     (if \<not> lo_enabled options then Ok ()
      else case read_certificates lib fs options of
        None \<Rightarrow> Err ConnectionError
      | Some ([], _) \<Rightarrow> Panic
      | Some (certificate # _, _) \<Rightarrow> (case connect_tls (lo_port options) of
            None \<Rightarrow> Err ConnectionError
          | Some (end_entity, answers) \<Rightarrow>
              if end_entity \<noteq> certificate then Err ConnectionError else check_ldap_endpoint answers))"

text \<open>\<open>get port\<close> is the status the API answers to \<open>/health\<close>.\<close>

definition check_api :: "(nat \<Rightarrow> nat option) \<Rightarrow> nat \<Rightarrow> (unit, health_error) result" where
  "check_api get port = (case get port of None \<Rightarrow> Err ConnectionError | Some status \<Rightarrow> if 400 \<le> status then Err ConnectionError else Ok ())"

text \<open>
  \<open>run_healthcheck\<close> of \<open>main.rs\<close>: the three results, \<open>None\<close> for a check that did not end in time. \<open>flat_map\<close> drops
  these.
\<close>

definition run_healthcheck :: "(unit, health_error) result option list \<Rightarrow> (unit, health_error) result" where
  "run_healthcheck checks =
     (if Panic \<in> set (List.map_filter id checks) then Panic
      else if list_ex (\<lambda>r. case r of Err _ \<Rightarrow> True | _ \<Rightarrow> False) (List.map_filter id checks) then Err HealthcheckFailed
      else Ok ())"


section \<open>What a connection sends\<close>

lemma for_each_send:
  "for_each (\<lambda>x. send_message fails (f x)) xs c = (Ok u, c') \<Longrightarrow>
     c' = c\<lparr>cn_sent := cn_sent c @ map f xs\<rparr>"
  by (induction xs arbitrary: c) (fastforce simp: bind_Ok_iff return_def send_message_def split: if_splits)+

lemma message_without_answer:
  "handle_ldap_message env h lh op s = (Ok (None, lh'), t) \<longleftrightarrow> op = UnbindRequest \<and> lh' = lh\<lparr>lh_user_info := None\<rparr> \<and> t = s"
  by (cases op) (auto simp: handle_ldap_message_def answer_def bind_Ok_iff return_def)

text \<open>The messages that answer a request: its identifier on each, and after a search the number of entries.\<close>

definition answers_to :: "ldap_msg \<Rightarrow> ldap_msg list \<Rightarrow> bool" where
  "answers_to m ans \<longleftrightarrow> msg_op m \<noteq> UnbindRequest \<and> (\<forall>a\<in>set ans. msg_msgid a = msg_msgid m)
     \<and> (\<forall>request. msg_op m = SearchRequest request \<longrightarrow>
         (\<exists>es d. map msg_op ans = map SearchResultEntry es @ [SearchResultDone d]
            \<and> map msg_ctrl ans = replicate (length es) [] @ [[SimplePagedResults (int (length es)) []]]))"

lemma message_answers:
  assumes "handle_connection_message env (session_backend env cfg rng now) fails (Ok m) lh c = (Ok (cont, lh'), c')"
  shows "if cont then \<exists>ans. cn_sent c' = cn_sent c @ ans \<and> answers_to m ans else cn_sent c' = cn_sent c \<and> msg_op m = UnbindRequest"
proof -
  obtain r s where h: "handle_ldap_message env (session_backend env cfg rng now) lh (msg_op m) (cn_backend c) = (r, s)"
    by fastforce
  show ?thesis
  proof (cases r)
    case (Ok x)
    obtain a l where x: "x = (a, l)" by fastforce
    show ?thesis
    proof (cases a)
      case None
      with assms h Ok x show ?thesis by (auto simp: handle_connection_message_def message_without_answer)
    next
      case (Some result)
      let ?f = "\<lambda>response. \<lparr>msg_msgid = msg_msgid m, msg_op = response, msg_ctrl = response_controls (length result) response\<rparr>"
      from assms h Ok x Some have "cont" and sent: "cn_sent c' = cn_sent c @ map ?f result"
        by (auto simp: handle_connection_message_def bind_Ok_iff return_def dest!: for_each_send)
      have "msg_op m \<noteq> UnbindRequest"
        using h Ok x Some by (auto simp: handle_ldap_message_def return_def)
      moreover have "\<exists>es d. map msg_op (map ?f result) = map SearchResultEntry es @ [SearchResultDone d]
          \<and> map msg_ctrl (map ?f result) = replicate (length es) [] @ [[SimplePagedResults (int (length es)) []]]"
        if "msg_op m = SearchRequest request" for request
      proof -
        from search_answer_well_formed [of env cfg rng now lh request "cn_backend c"] h Ok x Some that
        obtain es d where "result = map SearchResultEntry es @ [SearchResultDone d]" by auto
        then show ?thesis by (intro exI [of _ es] exI [of _ d]) (simp add: comp_def response_controls_def map_replicate_const)
      qed
      ultimately have "answers_to m (map ?f result)" by (auto simp: answers_to_def)
      with sent \<open>cont\<close> show ?thesis by auto
    qed
  qed (use assms h in \<open>auto simp: handle_connection_message_def\<close>)
qed

lemma change_password_inv [preserves_intros]:
  "preserves db_inv (change_password env (sql_backend ext lib cfg rng now) u pw)"
  by (auto simp: change_password_def Let_def intro!: preserves_intros)

lemma target_is_admin_inv [preserves_intros]:
  "preserves db_inv (target_is_admin env (sql_backend ext lib cfg rng now) v u)"
  by (auto simp: target_is_admin_def get_readable_handler_def as_user_readable_def intro!: preserves_intros)

lemma modify_change_inv [preserves_intros]:
  "preserves db_inv (handle_modify_change env (sql_backend ext lib cfg rng now) u v b change)"
  by (auto simp: handle_modify_change_def Let_def intro!: preserves_intros split: list.split)

lemma session_ops_inv [preserves_intros]:
  "preserves db_inv (do_bind env (sql_backend ext lib cfg rng now) lh bind_request)"
  "preserves db_inv (do_search_or_dse env (sql_backend ext lib cfg rng now) lh search_request)"
  "preserves db_inv (do_modify_request env (sql_backend ext lib cfg rng now) lh modify_request)"
  "preserves db_inv (do_compare env (sql_backend ext lib cfg rng now) lh compare_request)"
  "preserves db_inv (do_extended_request env (sql_backend ext lib cfg rng now) lh extended_request)"
  by (auto simp: do_bind_def do_search_or_dse_def do_modify_request_def handle_modify_request_def do_compare_def
      do_extended_request_def do_password_modification_def get_permissions_for_user_def
      intro!: preserves_intros split: option.split ldap_bind_cred.split list.split ldap_op.split)

lemma ldap_create_user_inv [preserves_intros]:
  "preserves db_inv (do_create_user env (sql_backend ext lib cfg rng now) lh add_request)"
proof (cases "Option.bind (lh_user_info lh) (get_admin_handler (sql_backend ext lib cfg rng now))")
  case None
  then show ?thesis by (simp add: do_create_user_def preserves_def monad_simps)
next
  case (Some h)
  then have "h = as_admin (sql_backend ext lib cfg rng now)"
    by (auto simp: get_admin_handler_def bind_eq_Some_conv split: if_splits)
  with Some show ?thesis by (auto simp: do_create_user_def as_admin_def intro!: preserves_intros)
qed

lemma message_keeps_database [preserves_intros]:
  "preserves db_inv (handle_ldap_message env (sql_backend ext lib cfg rng now) lh op)"
  unfolding handle_ldap_message_def answer_def
  by (cases op) (auto intro!: preserves_intros)

section \<open>Properties\<close>

lemma connection_answers:
  assumes "connection_loop envs (\<lambda>n. session_backend (envs n) cfg (rngs n) (clock n)) fails n (map Ok ms) lh c = (Ok (), c')"
  shows "\<exists>blocks. cn_sent c' = cn_sent c @ concat blocks \<and> list_all2 answers_to (take (length blocks) ms) blocks
    \<and> (length blocks < length ms \<longrightarrow> msg_op (ms ! length blocks) = UnbindRequest)"
  using assms
proof (induction ms arbitrary: n lh c)
  case Nil
  then show ?case by (intro exI [of _ "[]"]) (simp add: return_def)
next
  case (Cons m ms)
  then obtain continue lh' c1 where step: "handle_connection_message (envs n) (session_backend (envs n) cfg (rngs n) (clock n)) fails
      (Ok m) lh c = (Ok (continue, lh'), c1)"
    and rest: "(if continue then connection_loop envs (\<lambda>n. session_backend (envs n) cfg (rngs n) (clock n)) fails (n + 1) (map Ok ms) lh'
      else return ()) c1 = (Ok (), c')"
    by (auto simp: bind_Ok_iff split: prod.splits)
  show ?case
  proof (cases continue)
    case True
    with message_answers [OF step] obtain ans where ans: "cn_sent c1 = cn_sent c @ ans" "answers_to m ans" by auto
    from True rest Cons.IH [of "n + 1" lh' c1] obtain blocks where
      "cn_sent c' = cn_sent c1 @ concat blocks" "list_all2 answers_to (take (length blocks) ms) blocks"
      "length blocks < length ms \<longrightarrow> msg_op (ms ! length blocks) = UnbindRequest" by auto
    with ans show ?thesis by (intro exI [of _ "ans # blocks"]) simp
  next
    case False
    with message_answers [OF step] rest show ?thesis by (intro exI [of _ "[]"]) (auto simp: return_def)
  qed
qed

abbreviation conn_inv :: "db connection \<Rightarrow> bool" where
  "conn_inv c \<equiv> db_inv (cn_backend c)"

lemma send_message_inv [preserves_intros]: "preserves conn_inv (send_message fails m)"
  by (simp add: preserves_def send_message_def)

lemma connection_message_inv [preserves_intros]:
  "preserves conn_inv (handle_connection_message env (sql_backend ext lib cfg rng now) fails m lh)"
proof (rule preservesI)
  fix c assume inv: "conn_inv c"
  have send: "conn_inv (snd (bind (for_each (\<lambda>x. send_message fails (f x)) xs) (\<lambda>_. return y) (c\<lparr>cn_backend := s\<rparr>)))"
    if "db_inv s" for f xs and y :: "bool \<times> ldap_handler" and s
    using that by (intro preservesD [of conn_inv] preserves_intros) simp
  show "conn_inv (snd (handle_connection_message env (sql_backend ext lib cfg rng now) fails m lh c))"
  proof (cases m)
    case (Ok q)
    obtain r s where h: "handle_ldap_message env (sql_backend ext lib cfg rng now) lh (msg_op q) (cn_backend c) = (r, s)"
      by fastforce
    have s: "db_inv s"
      using preservesD [OF message_keeps_database inv, of env ext lib cfg rng now lh "msg_op q"] h by simp
    show ?thesis
    proof (cases r)
      case (Ok x)
      then show ?thesis
        by (cases x; cases "fst x") (use h s send [OF s] \<open>m = Ok q\<close> in \<open>simp_all add: handle_connection_message_def\<close>)
    qed (use h s \<open>m = Ok q\<close> in \<open>simp_all add: handle_connection_message_def\<close>)
  qed (use inv in \<open>simp_all add: handle_connection_message_def\<close>)
qed

lemma connection_loop_inv [preserves_intros]:
  "preserves conn_inv (connection_loop envs (\<lambda>n. session_backend (envs n) cfg (rngs n) (clock n)) fails n ms lh)"
  by (induction ms arbitrary: n lh) (auto intro!: preserves_intros split: prod.split)



text \<open>
  The health check: on the answers of this server, whatever its database and whoever uses it, the check of an LDAP
  connection succeeds. The command as a whole succeeds exactly when no check that ended in time has failed, so that
  checks that time out count as successful.
\<close>

theorem healthcheck:
  assumes "LdapHandler_new base_dn iu ig = (Ok lh :: (ldap_handler, ldap_server_error) result)"
  shows "(\<exists>c. handle_ldap_stream envs backends (\<lambda>_. False) base_dn iu ig [Ok health_request] \<lparr>cn_backend = s, cn_sent = []\<rparr> = (Ok (), c)
      \<and> cn_backend c = s \<and> check_ldap_endpoint (map Ok (cn_sent c)) = Ok ())
    \<and> (run_healthcheck checks = Ok () \<longleftrightarrow> (\<forall>r. Some r \<in> set checks \<longrightarrow> r = Ok ()))"
proof
  show "\<exists>c. handle_ldap_stream envs backends (\<lambda>_. False) base_dn iu ig [Ok health_request] \<lparr>cn_backend = s, cn_sent = []\<rparr> = (Ok (), c)
      \<and> cn_backend c = s \<and> check_ldap_endpoint (map Ok (cn_sent c)) = Ok ()"
    by (simp add: handle_ldap_stream_def assms handle_connection_message_def health_request_def handle_ldap_message_def
        do_search_or_dse_def answer_def monad_simps send_message_def check_ldap_endpoint_def root_dse_response_def
        make_search_success_def make_search_error_def to_ascii_lowercase_def)
  have mem: "r \<in> set (List.map_filter id checks) \<longleftrightarrow> Some r \<in> set checks" for r
    by (force simp: map_filter_def image_iff)
  show "run_healthcheck checks = Ok () \<longleftrightarrow> (\<forall>r. Some r \<in> set checks \<longrightarrow> r = Ok ())" (is "?l \<longleftrightarrow> ?r")
  proof
    assume ?l
    then have "r \<noteq> Panic \<and> (\<forall>e. r \<noteq> Err e)" if "Some r \<in> set checks" for r
      using that mem [of r] by (auto simp: run_healthcheck_def list_ex_iff split: if_splits result.splits)
    then show ?r by (metis old.unit.exhaust result.exhaust)
  next
    assume ?r
    then show ?l by (auto simp: run_healthcheck_def list_ex_iff mem split: result.split)
  qed
qed

theorem healthcheck_witness:
  "check_ldap_endpoint (map Ok (cn_sent (snd (handle_ldap_stream (\<lambda>_. demo_env) (\<lambda>_. session_backend demo_env toy_config id 0) (\<lambda>_. False)
     ''dc=x'' [] [] [Ok health_request] \<lparr>cn_backend = demo_db, cn_sent = []\<rparr>)))) = Ok ()
   \<and> run_healthcheck [None, Some (Ok ()), None] = Ok ()"
proof -
  have "LdapHandler_new ''dc=x'' [] [] = (Ok (demo_session None) :: (ldap_handler, ldap_server_error) result)" by code_simp
  note ok = healthcheck [OF this, of "\<lambda>_. demo_env" "\<lambda>_. session_backend demo_env toy_config id 0" demo_db "[None, Some (Ok ()), None]"]
  from ok [THEN conjunct1] show ?thesis using ok [THEN conjunct2] by (elim exE conjE) simp
qed

end
