(* ===== verification/Startup.thy ===== *)
theory Startup
  imports Ldap_Server Sql_Migrations Tcp_Backend No_Panic
begin

text \<open>
  \<open>server/src/main.rs\<close>: starting the server. The store is the database file: the tables of \<^verbatim>\<open>Sql_Migrations\<close> with those of
  the web sessions and the description of the private key in the metadata row. The contexts that \<open>anyhow\<close> adds to
  errors are left out. The command line, logging and the main loop of the server are not modelled.
\<close>

section \<open>The database file\<close>

record server_store =
  sv_tables :: mig_db
  sv_refresh :: "jwt_refresh_row list"
  sv_jwt :: "jwt_storage_row list"
  sv_reset :: "password_reset_row list"
  sv_key_info :: "private_key_info option"

definition sv_db :: "server_store \<Rightarrow> db" where
  "sv_db s = (migrated_db (sv_tables s))\<lparr>db_jwt_refresh_storage := sv_refresh s, db_jwt_storage := sv_jwt s,
     db_password_reset_tokens := sv_reset s\<rparr>"

definition stored_user :: "users_row \<Rightarrow> mig_user" where
  "stored_user r = \<lparr>mu_user_id = usr_user_id r, mu_email = usr_email r, mu_lowercase_email = usr_lowercase_email r,
     mu_display_name = usr_display_name r, mu_first_name = None, mu_last_name = None, mu_avatar = None,
     mu_creation_date = usr_creation_date r, mu_password_hash = usr_password_hash r, mu_totp_secret = usr_totp_secret r,
     mu_mfa_type = usr_mfa_type r, mu_uuid = usr_uuid r\<rparr>"

definition sv_put :: "db \<Rightarrow> server_store \<Rightarrow> server_store" where
  "sv_put t s = s\<lparr>sv_tables := (sv_tables s)\<lparr>md_users := map stored_user (db_users t), md_groups := db_groups t,
       md_next_group_id := db_next_group_id t, md_memberships := db_memberships t,
       md_user_attribute_schema := db_user_attribute_schema t, md_group_attribute_schema := db_group_attribute_schema t,
       md_user_attributes := db_user_attributes t, md_group_attributes := db_group_attributes t,
       md_user_object_classes := db_user_object_classes t, md_group_object_classes := db_group_object_classes t\<rparr>,
     sv_refresh := db_jwt_refresh_storage t, sv_jwt := db_jwt_storage t, sv_reset := db_password_reset_tokens t\<rparr>"

datatype startup_error =
    MigrationFailed migration_error
  | BackendFailed domain_error
  | KeyUnchanged
  | KeyRefused key_error
  | RestartWithoutForce
  | ServerFailed ldap_server_error

text \<open>An operation of the backend on the file.\<close>

definition on_db :: "(db, 'a) backend_action \<Rightarrow> (server_store, 'a, startup_error) action" where
  "on_db m s = (case m (sv_db s) of (r, t) \<Rightarrow> (map_err BackendFailed r, sv_put t s))"

definition load_private_key_info :: "(server_store, private_key_info option, startup_error) action" where
  "load_private_key_info s = (Ok (sv_key_info s), s)"

definition set_private_key_info :: "private_key_info \<Rightarrow> (server_store, unit, startup_error) action" where
  "set_private_key_info info s = (Ok (), s\<lparr>sv_key_info := Some info\<rparr>)"

text \<open>The tables of the web sessions are created unless they exist, which leaves them as they are.\<close>

definition setup_sql_tables :: "mig_env \<Rightarrow> (server_store, unit, startup_error) action" where
  "setup_sql_tables menv s = (case init_table menv (sv_tables s) of (r, d) \<Rightarrow> (map_err MigrationFailed r, s\<lparr>sv_tables := d\<rparr>))"

section \<open>Starting\<close>

text \<open>The libraries, and the clock and the random numbers, of one start.\<close>

record startup_env =
  se_externals :: externals
  se_opaque :: opaque_lib
  se_keys :: key_lib
  se_tls :: tls_lib
  se_migration :: mig_env
  se_now :: naive_date_time
  se_rng :: "nat \<Rightarrow> nat"
  se_files :: file_system
  se_can_bind :: "string \<Rightarrow> nat \<Rightarrow> bool"

text \<open>What \<open>SqlBackendHandler\<close> uses of the configuration: \<open>get_server_setup\<close> and the private key of its pair.\<close>

definition backend_config :: "key_lib \<Rightarrow> configuration \<Rightarrow> sql_config" where
  "backend_config lib config = (case cf_server_setup config of
       None \<Rightarrow> \<lparr>server_setup = [], server_private_key = []\<rparr>
     | Some s \<Rightarrow> \<lparr>server_setup = ssc_server_setup s, server_private_key = kl_private_key lib (ssc_server_setup s)\<rparr>)"

definition admin_request :: "configuration \<Rightarrow> create_user_request" where
  "admin_request config = \<lparr>cu_user_id = cf_ldap_user_dn config, cu_email = Email (cf_ldap_user_email config),
     cu_display_name = Some ''Administrator'', cu_first_name = None, cu_last_name = None, cu_avatar = None, cu_attributes = []\<rparr>"

definition create_admin_user :: "startup_env \<Rightarrow> configuration \<Rightarrow> (db, unit) backend_action" where
  "create_admin_user env config =
     (if length (cf_ldap_user_pass config) < 8 then lift_result Panic
      else bind (create_user (se_externals env) (se_now env) (admin_request config)) (\<lambda>_.
        bind (register_password (se_externals env) (se_opaque env) (backend_config (se_keys env) config) (se_rng env)
            (cf_ldap_user_dn config) (cf_ldap_user_pass config)) (\<lambda>_.
        bind (list_groups (se_externals env) (Some (GDisplayName (GroupName ''lldap_admin'')))) (\<lambda>groups.
        case groups of
          [g] \<Rightarrow> add_user_to_group (cf_ldap_user_dn config) (g_id g)
        | _ \<Rightarrow> lift_result Panic))))"

definition ensure_group_exists :: "startup_env \<Rightarrow> string \<Rightarrow> (db, unit) backend_action" where
  "ensure_group_exists env group_name =
     bind (list_groups (se_externals env) (Some (GDisplayName (GroupName group_name)))) (\<lambda>groups.
       if groups = []
       then bind (create_group (se_externals env) (se_now env) \<lparr>cg_display_name = GroupName group_name, cg_attributes = []\<rparr>) (\<lambda>_. return ())
       else return ())"

definition check_private_key :: "startup_env \<Rightarrow> configuration \<Rightarrow> (server_store, unit, startup_error) action" where
  "check_private_key env config =
     bind (lift_result (get_private_key_info (se_keys env) config)) (\<lambda>info.
     bind load_private_key_info (\<lambda>previous.
     case (compare_private_key_hashes previous info, cf_force_update_private_key config) of
       (Ok False, True) \<Rightarrow> fail KeyUnchanged
     | (Ok True, _) \<Rightarrow> set_private_key_info info
     | (Err _, True) \<Rightarrow> set_private_key_info info
     | (Ok False, False) \<Rightarrow> return ()
     | (Err e, False) \<Rightarrow> fail (KeyRefused e)
     | (Panic, _) \<Rightarrow> lift_result Panic))"

definition admin_present :: "startup_env \<Rightarrow> (db, bool) backend_action" where
  "admin_present env =
     match_action (list_users (se_externals env) (Some (UMemberOf (GroupName ''lldap_admin''))) False)
       (\<lambda>admins. return (admins \<noteq> [])) (\<lambda>_. return False)"

definition set_up_accounts :: "startup_env \<Rightarrow> configuration \<Rightarrow> (db, unit) backend_action" where
  "set_up_accounts env config =
     bind (ensure_group_exists env ''lldap_admin'') (\<lambda>_.
     bind (ensure_group_exists env ''lldap_password_manager'') (\<lambda>_.
     bind (ensure_group_exists env ''lldap_strict_readonly'') (\<lambda>_.
     bind (admin_present env) (\<lambda>present.
     if \<not> present then create_admin_user env config
     else if cf_force_ldap_user_pass_reset config
     then register_password (se_externals env) (se_opaque env) (backend_config (se_keys env) config) (se_rng env)
         (cf_ldap_user_dn config) (cf_ldap_user_pass config)
     else return ()))))"

text \<open>\<open>build_tcp_server\<close>: the HTTP listener, with the tokens that were logged out.\<close>

definition build_tcp_server ::
  "startup_env \<Rightarrow> configuration \<Rightarrow> server_builder \<Rightarrow> (server_store, server_builder \<times> u64 set, startup_error) action" where
  "build_tcp_server env config builder =
     bind (on_db sql_get_jwt_blacklist) (\<lambda>blacklist.
     bind (lift_result (map_err ServerFailed (bind_listener (se_can_bind env) ''http'' (cf_http_host config) (cf_http_port config) builder)))
       (\<lambda>b. return (b, blacklist)))"

definition set_up_server ::
  "startup_env \<Rightarrow> configuration \<Rightarrow> (server_store, server_builder \<times> u64 set, startup_error) action" where
  "set_up_server env config =
     bind (setup_sql_tables (se_migration env)) (\<lambda>_.
     bind (check_private_key env config) (\<lambda>_.
     bind (on_db (set_up_accounts env config)) (\<lambda>_.
     if cf_force_update_private_key config \<or> cf_force_ldap_user_pass_reset config then fail RestartWithoutForce
     else bind (lift_result (map_err ServerFailed (build_ldap_server (se_tls env) (se_files env) (se_can_bind env) config []))) (\<lambda>builder.
       build_tcp_server env config builder))))"

section \<open>Commands\<close>

text \<open>
  The commands of the program; \<open>extracted\<close> and \<open>figment\<close> are the merged configuration sources (\<open>config_init\<close>), \<open>random\<close> a
  new key. The files that the server reads are those after the configuration was loaded.
\<close>

record machine =
  mc_files :: file_system
  mc_store :: server_store
  mc_outbox :: "email_message list"

datatype command_error = ConfigFailed config_error | StartFailed startup_error | InvalidAddress | MailFailed string

definition configured ::
  "key_lib \<Rightarrow> bytes \<Rightarrow> figment \<Rightarrow> (configuration, config_error) result \<Rightarrow> (configuration \<Rightarrow> configuration)
   \<Rightarrow> (machine, configuration \<times> config_warning list, command_error) action" where
  "configured lib random figment extracted overrides m = (case config_init lib random figment extracted overrides (mc_files m) of
       (r, fs) \<Rightarrow> (map_err ConfigFailed r, m\<lparr>mc_files := fs\<rparr>))"

definition on_store :: "(server_store, 'a, startup_error) action \<Rightarrow> (machine, 'a, command_error) action" where
  "on_store f m = (case f (mc_store m) of (r, s) \<Rightarrow> (map_err StartFailed r, m\<lparr>mc_store := s\<rparr>))"

definition run_server_command ::
  "startup_env \<Rightarrow> bytes \<Rightarrow> figment \<Rightarrow> (configuration, config_error) result \<Rightarrow> run_opts
   \<Rightarrow> (machine, server_builder \<times> u64 set, command_error) action" where
  "run_server_command env random figment extracted opts =
     bind (configured (se_keys env) random figment extracted (override_run opts)) (\<lambda>(config, _) m.
       on_store (set_up_server (env\<lparr>se_files := mc_files m\<rparr>) config) m)"

definition create_schema_command ::
  "startup_env \<Rightarrow> bytes \<Rightarrow> figment \<Rightarrow> (configuration, config_error) result \<Rightarrow> run_opts \<Rightarrow> (machine, unit, command_error) action" where
  "create_schema_command env random figment extracted opts =
     bind (configured (se_keys env) random figment extracted (override_run opts)) (\<lambda>_. on_store (setup_sql_tables (se_migration env)))"

definition send_test_email_command ::
  "startup_env \<Rightarrow> mail_lib \<Rightarrow> bytes \<Rightarrow> figment \<Rightarrow> (configuration, config_error) result \<Rightarrow> test_email_opts
   \<Rightarrow> (machine, unit, command_error) action" where
  "send_test_email_command env mail random figment extracted opts =
     bind (lift_result (ok_or InvalidAddress (ml_parse_mailbox mail (te_to opts)))) (\<lambda>to.
     bind (configured (se_keys env) random figment extracted (override_test_email opts)) (\<lambda>(config, _) m.
       case send_test_email mail to (cf_smtp_options config) (mc_outbox m) of
         (r, outbox) \<Rightarrow> (map_err MailFailed r, m\<lparr>mc_outbox := outbox\<rparr>)))"


section \<open>The groups and the administrator\<close>

lemma migrated_stored_user [simp]: "migrated_user (stored_user r) = r"
  by (cases r) (simp add: migrated_user_def stored_user_def)

lemma sv_db_put [simp]: "sv_db (sv_put t s) = t"
  by (cases t) (simp add: sv_db_def sv_put_def migrated_db_def comp_def)

definition group_named :: "externals \<Rightarrow> string \<Rightarrow> db \<Rightarrow> bool" where
  "group_named ext n s \<longleftrightarrow> (\<exists>g\<in>set (db_groups s). grp_lowercase_display_name g = str_to_lowercase ext n)"

definition admin_exists :: "externals \<Rightarrow> db \<Rightarrow> bool" where
  "admin_exists ext s \<longleftrightarrow> (\<exists>r\<in>set (db_users s). user_matches ext s r (UMemberOf (GroupName ''lldap_admin'')))"

lemma length_filter_key: "distinct (map k xs) \<Longrightarrow> length (filter (\<lambda>x. k x = v) xs) \<le> 1"
proof (induction xs)
  case (Cons x xs)
  have "filter (\<lambda>y. k y = v) xs = []" if "k x = v" using Cons.prems that by (auto simp: filter_empty_conv image_iff)
  with Cons show ?case by auto
qed simp

lemma sort_key_Nil [simp]: "sort_key k xs = [] \<longleftrightarrow> xs = []"
  by (metis length_0_conv length_sort)

lemma list_groups_named:
  assumes inv: "db_inv s"
  obtains gs where "list_groups ext (Some (GDisplayName (GroupName n))) s = (Ok gs, s)" "gs = [] \<longleftrightarrow> \<not> group_named ext n s"
    "length gs \<le> 1" "\<And>g. g \<in> set gs \<Longrightarrow> \<exists>r\<in>set (db_groups s). grp_lowercase_display_name r = str_to_lowercase ext n \<and> g_id g = grp_group_id r"
proof -
  let ?f = "GDisplayName (GroupName n)"
  let ?rows = "filter (\<lambda>r. grp_lowercase_display_name r = str_to_lowercase ext n) (db_groups s)"
  have "eval_group_cond s r (get_group_filter_expr ext ?f) = Some (grp_lowercase_display_name r = str_to_lowercase ext n)" for r
    by (subst group_filter_compiles) simp_all
  then have "where_groups s (get_group_filter_expr ext ?f) = ?rows" by (simp add: where_groups_def)
  then have run: "list_groups ext (Some ?f) s = (Ok (sort_groups ext (map (listed_group s)
      (sort_key (\<lambda>r. group_id_int (grp_group_id r)) ?rows))), s)"
    by (subst list_groups_rows [OF inv refl]) simp
  have "length ?rows \<le> 1" using inv by (intro length_filter_key) (simp add: db_inv_def groups_ok_def)
  with run show thesis
    by (intro that) (auto simp: sort_groups_def group_named_def filter_empty_conv listed_group_def Group_from_def, blast)
qed


lemma create_plain_group:
  obtains (created) r i where "create_group ext now \<lparr>cg_display_name = GroupName n, cg_attributes = []\<rparr> s
      = (Ok i, s\<lparr>db_groups := db_groups s @ [r], db_next_group_id := db_next_group_id s + 1\<rparr>)"
      "grp_lowercase_display_name r = str_to_lowercase ext n" "grp_group_id r = GroupId (db_next_group_id s)"
  | (conflict) e where "create_group ext now \<lparr>cg_display_name = GroupName n, cg_attributes = []\<rparr> s = (Err e, s)"
proof -
  let ?r = "\<lparr>grp_group_id = GroupId (db_next_group_id s), grp_display_name = GroupName n,
    grp_lowercase_display_name = str_to_lowercase ext n, grp_creation_date = now, grp_uuid = Uuid_from_name_and_date ext n now\<rparr>"
  have "create_group ext now \<lparr>cg_display_name = GroupName n, cg_attributes = []\<rparr> s =
    (if list_ex (groups_conflict ?r) (db_groups s) then (Err (DatabaseError ''UNIQUE constraint failed''), s)
     else (Ok (grp_group_id ?r), s\<lparr>db_groups := db_groups s @ [?r], db_next_group_id := db_next_group_id s + 1\<rparr>))"
    by (simp add: create_group_def Let_def transaction_def get_schema_with_transaction_def sql_insert_group_def monad_simps)
  then show thesis using created [of "grp_group_id ?r" ?r] conflict by (auto split: if_splits)
qed

text \<open>What setting up the accounts keeps: users, their memberships and the groups.\<close>

definition accounts_kept :: "db \<Rightarrow> db \<Rightarrow> bool" where
  "accounts_kept s t \<longleftrightarrow> set (db_groups s) \<subseteq> set (db_groups t) \<and> set (db_memberships s) \<subseteq> set (db_memberships t)
     \<and> usr_user_id ` set (db_users s) \<subseteq> usr_user_id ` set (db_users t)"

lemma accounts_kept_refl [simp]: "accounts_kept s s"
  by (simp add: accounts_kept_def)

lemma accounts_kept_trans: "accounts_kept s t \<Longrightarrow> accounts_kept t w \<Longrightarrow> accounts_kept s w"
  unfolding accounts_kept_def by (meson subset_trans)

lemma group_named_kept: "group_named ext n s \<Longrightarrow> accounts_kept s t \<Longrightarrow> group_named ext n t"
  by (auto simp: group_named_def accounts_kept_def)

lemma admin_exists_iff:
  "admin_exists ext s \<longleftrightarrow> (\<exists>u g. u \<in> usr_user_id ` set (db_users s) \<and> g \<in> set (db_groups s)
     \<and> grp_lowercase_display_name g = str_to_lowercase ext ''lldap_admin''
     \<and> \<lparr>mem_user_id = u, mem_group_id = grp_group_id g\<rparr> \<in> set (db_memberships s))"
  by (auto simp: admin_exists_def groups_of_user_def list_ex_iff)

lemma admin_exists_kept: "admin_exists ext s \<Longrightarrow> accounts_kept s t \<Longrightarrow> admin_exists ext t"
  by (fastforce simp: admin_exists_iff accounts_kept_def)

lemma ensure_group_exists_ok:
  assumes inv: "db_inv s" and run: "ensure_group_exists env n s = (r, t)"
  shows "db_inv t \<and> accounts_kept s t \<and> (admin_exists (se_externals env) t \<longrightarrow> admin_exists (se_externals env) s)
    \<and> r \<noteq> Panic \<and> (r = Ok () \<longrightarrow> group_named (se_externals env) n t)"
proof -
  have "preserves db_inv (ensure_group_exists env n)" unfolding ensure_group_exists_def by (intro preserves_intros)
  with inv run have inv': "db_inv t" by (metis preservesD snd_conv)
  from list_groups_named [OF inv, of "se_externals env" n] obtain gs where
    gs: "list_groups (se_externals env) (Some (GDisplayName (GroupName n))) s = (Ok gs, s)" "gs = [] \<longleftrightarrow> \<not> group_named (se_externals env) n s"
    by blast
  show ?thesis
  proof (cases "gs = []")
    case False
    with run gs inv' show ?thesis by (auto simp: ensure_group_exists_def monad_simps)
  next
    case True
    show ?thesis
    proof (cases rule: create_plain_group [where s = s and n = n and ext = "se_externals env" and now = "se_now env"])
      case (created q i)
      have "\<not> group_exists s (grp_group_id q)"
        using inv created(3) by (auto simp: db_inv_def groups_ok_def group_exists_def) (metis group_id.sel order_less_irrefl)
      then have "\<lparr>mem_user_id = u, mem_group_id = grp_group_id q\<rparr> \<notin> set (db_memberships s)" for u
        using inv by (auto simp: db_inv_def memberships_ok_def)
      with created run gs True inv' show ?thesis
        by (auto simp: ensure_group_exists_def monad_simps group_named_def accounts_kept_def admin_exists_iff, blast)
    next
      case (conflict e)
      with run gs True inv' show ?thesis by (auto simp: ensure_group_exists_def monad_simps)
    qed
  qed
qed

lemma admin_present_iff:
  assumes "db_inv s"
  shows "admin_present env s = (Ok (admin_exists (se_externals env) s), s)"
proof -
  let ?f = "UMemberOf (GroupName ''lldap_admin'')"
  obtain c where c: "get_user_filter_expr (se_externals env) ?f = (Ok c :: (user_cond, domain_error) result)" by simp
  have "where_users (se_externals env) s c = filter (\<lambda>r. user_matches (se_externals env) s r ?f) (db_users s)"
    by (rule where_users_matches [OF _ c]) simp
  with list_users_rows [OF assms, where filters = "Some ?f" and ext = "se_externals env" and b = False] c show ?thesis
    by (auto simp: admin_present_def monad_simps admin_exists_def filter_empty_conv)
qed


lemma create_plain_user:
  obtains (created) "create_user ext now (admin_request config) s
      = (Ok (), s\<lparr>db_users := db_users s @ [new_user_row ext now (admin_request config)]\<rparr>)"
  | (conflict) e where "create_user ext now (admin_request config) s = (Err e, s)"
proof -
  have "create_user ext now (admin_request config) s =
    (if list_ex (users_conflict (new_user_row ext now (admin_request config))) (db_users s)
     then (Err (DatabaseError ''UNIQUE constraint failed''), s)
     else (Ok (), s\<lparr>db_users := db_users s @ [new_user_row ext now (admin_request config)]\<rparr>))"
    by (simp add: create_user_def admin_request_def Let_def fixed_attribute_def transaction_def get_schema_with_transaction_def
        sql_insert_user_def monad_simps)
  then show thesis using created conflict by (metis (full_types))
qed

text \<open>The laws of the libraries for the key of a configuration.\<close>

definition startup_laws :: "startup_env \<Rightarrow> configuration \<Rightarrow> bool" where
  "startup_laws env config \<longleftrightarrow> base64_ok (se_externals env) \<and> sealing_ok (se_opaque env) (backend_config (se_keys env) config)
     \<and> opaque_ok (se_opaque env) (server_setup (backend_config (se_keys env) config))"

lemma startup_lawsD:
  assumes "startup_laws env config"
  shows "base64_ok (se_externals env)" "sealing_ok (se_opaque env) (backend_config (se_keys env) config)"
    "opaque_ok (se_opaque env) (server_setup (backend_config (se_keys env) config))"
  using assms by (simp_all add: startup_laws_def)

text \<open>The administrator of the configuration can bind with the password of the configuration.\<close>

definition admin_can_bind :: "startup_env \<Rightarrow> configuration \<Rightarrow> db \<Rightarrow> bool" where
  "admin_can_bind env config s \<longleftrightarrow> (\<forall>rng. fst (sql_bind (se_opaque env) (backend_config (se_keys env) config) rng
     \<lparr>br_name = cf_ldap_user_dn config, br_password = cf_ldap_user_pass config\<rparr> s) = Ok ())"

lemma reset_admin_password:
  assumes inv: "db_inv s" and laws: "startup_laws env config" and user: "user_exists s (cf_ldap_user_dn config)"
  obtains h where "register_password (se_externals env) (se_opaque env) (backend_config (se_keys env) config) (se_rng env)
      (cf_ldap_user_dn config) (cf_ldap_user_pass config) s
      = (Ok (), s\<lparr>db_users := map (\<lambda>q. if usr_user_id q = cf_ldap_user_dn config then q\<lparr>usr_password_hash := h\<rparr> else q) (db_users s)\<rparr>)"
    and "\<And>t r. find_user t (cf_ldap_user_dn config) = Some r \<Longrightarrow> usr_password_hash r = h \<Longrightarrow> admin_can_bind env config t"
proof -
  let ?lib = "se_opaque env" and ?cfg = "backend_config (se_keys env) config" and ?u = "cf_ldap_user_dn config"
  note ok = startup_lawsD [OF laws]
  obtain st msg resp up where run: "client_registration_start ?lib (se_rng env 0) (cf_ldap_user_pass config) = Some (st, msg)"
      "server_registration_start ?lib (server_setup ?cfg) msg (UserId_as_str ?u) = Some resp"
      "client_registration_finish ?lib st resp (se_rng env 2) = Some up"
    and reg: "register_password (se_externals env) ?lib ?cfg (se_rng env) ?u (cf_ldap_user_pass config) s = sql_update_user ?u
      (\<lambda>r. r\<lparr>usr_password_hash := Some (server_registration_serialize ?lib (server_registration_finish ?lib up))\<rparr>) s"
    using register_password_runs [OF ok] by blast
  show thesis
  proof (rule that)
    show "register_password (se_externals env) ?lib ?cfg (se_rng env) ?u (cf_ldap_user_pass config) s =
      (Ok (), s\<lparr>db_users := map (\<lambda>q. if usr_user_id q = ?u then q\<lparr>usr_password_hash :=
         Some (server_registration_serialize ?lib (server_registration_finish ?lib up))\<rparr> else q) (db_users s)\<rparr>)"
      by (simp add: reg password_update_ok [OF inv user])
    show "admin_can_bind env config t" if "find_user t ?u = Some r"
      "usr_password_hash r = Some (server_registration_serialize ?lib (server_registration_finish ?lib up))" for t r
      by (simp add: admin_can_bind_def registered_bind [OF ok(2,3) run that])
  qed
qed

lemma password_ids:
  "usr_user_id ` set (map (\<lambda>q. if usr_user_id q = u then q\<lparr>usr_password_hash := h\<rparr> else q) l) = usr_user_id ` set l"
  by (induction l) auto

lemma create_admin_user_ok:
  assumes inv: "db_inv s" and laws: "startup_laws env config" and pass: "8 \<le> length (cf_ldap_user_pass config)"
    and named: "group_named (se_externals env) ''lldap_admin'' s" and run: "create_admin_user env config s = (r, t)"
  shows "db_inv t \<and> accounts_kept s t \<and> r \<noteq> Panic
    \<and> (r = Ok () \<longrightarrow> admin_exists (se_externals env) t \<and> admin_can_bind env config t)"
proof -
  let ?ext = "se_externals env" and ?u = "cf_ldap_user_dn config"
  have "preserves db_inv (create_admin_user env config)"
    unfolding create_admin_user_def by (intro preserves_intros) (auto intro!: preserves_intros split: list.split)
  with inv run have inv': "db_inv t" by (metis preservesD snd_conv)
  show ?thesis
  proof (cases rule: create_plain_user [where ext = ?ext and now = "se_now env" and config = config and s = s])
    case (conflict e)
    with run pass inv' show ?thesis by (auto simp: create_admin_user_def monad_simps)
  next
    case created
    define s1 where "s1 = s\<lparr>db_users := db_users s @ [new_user_row ?ext (se_now env) (admin_request config)]\<rparr>"
    have "db_inv s1" using preservesD [OF user_ops_inv(1) inv] created unfolding s1_def by (metis snd_conv)
    moreover have "user_exists s1 ?u" by (simp add: s1_def user_exists_def new_user_row_def admin_request_def)
    ultimately obtain h where reg: "register_password ?ext (se_opaque env) (backend_config (se_keys env) config) (se_rng env)
        ?u (cf_ldap_user_pass config) s1
        = (Ok (), s1\<lparr>db_users := map (\<lambda>q. if usr_user_id q = ?u then q\<lparr>usr_password_hash := h\<rparr> else q) (db_users s1)\<rparr>)"
      and can: "\<And>t r. find_user t ?u = Some r \<Longrightarrow> usr_password_hash r = h \<Longrightarrow> admin_can_bind env config t"
      by (rule reset_admin_password [OF _ laws]) (rule that; blast)
    define s2 where "s2 = s1\<lparr>db_users := map (\<lambda>q. if usr_user_id q = ?u then q\<lparr>usr_password_hash := h\<rparr> else q) (db_users s1)\<rparr>"
    have inv2: "db_inv s2"
      using preservesD [OF register_password_inv \<open>db_inv s1\<close>, of ?ext "se_opaque env" "backend_config (se_keys env) config"
        "se_rng env" ?u "cf_ldap_user_pass config"] by (simp add: reg s2_def)
    have "usr_user_id ` set (db_users s2) = usr_user_id ` set (db_users s1)"
      by (simp add: s2_def password_ids del: set_map)
    then have kept: "accounts_kept s s2" by (auto simp: accounts_kept_def s2_def s1_def)
    have named2: "group_named ?ext ''lldap_admin'' s2" by (rule group_named_kept [OF named kept])
    obtain q where q: "find_user s2 ?u = Some q" "usr_password_hash q = h"
      using \<open>user_exists s1 ?u\<close> find_user_None [of s1 ?u] unfolding s2_def find_user_password by auto
    obtain gs where gs: "list_groups ?ext (Some (GDisplayName (GroupName ''lldap_admin''))) s2 = (Ok gs, s2)"
      "gs \<noteq> []" "length gs \<le> 1" "\<And>g. g \<in> set gs \<Longrightarrow> \<exists>r\<in>set (db_groups s2).
        grp_lowercase_display_name r = str_to_lowercase ?ext ''lldap_admin'' \<and> g_id g = grp_group_id r"
      using list_groups_named [OF inv2, of ?ext "''lldap_admin''"] named2 by metis
    then obtain g where g: "gs = [g]" by (cases gs) auto
    have step: "create_admin_user env config s = add_user_to_group ?u (g_id g) s2"
      using pass created reg gs(1) g by (simp add: create_admin_user_def monad_simps flip: s1_def s2_def)
    let ?m = "\<lparr>mem_user_id = ?u, mem_group_id = g_id g\<rparr>"
    have "(r, t) = (Ok (), s2\<lparr>db_memberships := db_memberships s2 @ [?m]\<rparr>) \<or> (\<exists>e. (r, t) = (Err e, s2))"
      using run unfolding step by (auto simp: add_user_to_group_def sql_insert_membership_def monad_simps split: if_splits)
    then show ?thesis
    proof
      assume "\<exists>e. (r, t) = (Err e, s2)"
      with inv' kept show ?thesis by auto
    next
      assume rt: "(r, t) = (Ok (), s2\<lparr>db_memberships := db_memberships s2 @ [?m]\<rparr>)"
      then have "accounts_kept s t" using kept by (auto simp: accounts_kept_def)
      moreover have "find_user t ?u = Some q" using rt q(1) by (simp add: find_user_def)
      moreover have "admin_exists ?ext t"
        using gs(4) [of g] g rt q(1) find_user_None [of s2 ?u] by (fastforce simp: admin_exists_iff user_exists_def)
      ultimately show ?thesis using inv' rt can q(2) by auto
    qed
  qed
qed


definition builtin_groups :: "string list" where
  "builtin_groups = [''lldap_admin'', ''lldap_password_manager'', ''lldap_strict_readonly'']"

lemma reset_password_ok:
  assumes inv: "db_inv s" and laws: "startup_laws env config"
    and run: "register_password (se_externals env) (se_opaque env) (backend_config (se_keys env) config) (se_rng env)
      (cf_ldap_user_dn config) (cf_ldap_user_pass config) s = (r, t)"
  shows "db_inv t \<and> accounts_kept s t \<and> r \<noteq> Panic"
proof (cases "user_exists s (cf_ldap_user_dn config)")
  case True
  have inv': "db_inv t"
    using preservesD [OF register_password_inv inv, of "se_externals env" "se_opaque env" "backend_config (se_keys env) config"
      "se_rng env" "cf_ldap_user_dn config" "cf_ldap_user_pass config"] run by simp
  show ?thesis
    by (rule reset_admin_password [OF inv laws True])
       (use run inv' in \<open>auto simp: accounts_kept_def password_ids simp del: set_map\<close>)
next
  case False
  obtain f where "register_password (se_externals env) (se_opaque env) (backend_config (se_keys env) config) (se_rng env)
      (cf_ldap_user_dn config) (cf_ldap_user_pass config) s = sql_update_user (cf_ldap_user_dn config) f s"
    using register_password_runs [OF startup_lawsD [OF laws]] by blast
  with run sql_update_missing [OF False] inv show ?thesis by auto
qed

lemma set_up_accounts_ok:
  assumes inv: "db_inv s" and laws: "startup_laws env config" and pass: "8 \<le> length (cf_ldap_user_pass config)"
    and run: "set_up_accounts env config s = (r, t)"
  shows "db_inv t \<and> accounts_kept s t \<and> r \<noteq> Panic
    \<and> (r = Ok () \<longrightarrow> (\<forall>n\<in>set builtin_groups. group_named (se_externals env) n t) \<and> admin_exists (se_externals env) t
       \<and> (\<not> admin_exists (se_externals env) s \<longrightarrow> admin_can_bind env config t))"
proof -
  let ?ext = "se_externals env"
  obtain r1 s1 where 1: "ensure_group_exists env ''lldap_admin'' s = (r1, s1)" by fastforce
  obtain r2 s2 where 2: "ensure_group_exists env ''lldap_password_manager'' s1 = (r2, s2)" by fastforce
  obtain r3 s3 where 3: "ensure_group_exists env ''lldap_strict_readonly'' s2 = (r3, s3)" by fastforce
  note e1 = ensure_group_exists_ok [OF inv 1]
  note e2 = ensure_group_exists_ok [OF conjunct1 [OF e1] 2]
  note e3 = ensure_group_exists_ok [OF conjunct1 [OF e2] 3]
  show ?thesis
  proof (cases "r1 = Ok () \<and> r2 = Ok () \<and> r3 = Ok ()")
    case False
    with e1 e2 e3 run 1 2 3 show ?thesis
      by (cases r1; cases r2; cases r3) (auto simp: set_up_accounts_def monad_simps intro: accounts_kept_trans)
  next
    case True
    have kept: "accounts_kept s s3" "accounts_kept s1 s3" "accounts_kept s2 s3"
      using e1 e2 e3 by (blast intro: accounts_kept_trans)+
    have named: "\<forall>n\<in>set builtin_groups. group_named ?ext n s3"
      using e1 e2 e3 True kept by (auto simp: builtin_groups_def intro: group_named_kept)
    have rest: "set_up_accounts env config s = (if \<not> admin_exists ?ext s3 then create_admin_user env config
       else if cf_force_ldap_user_pass_reset config
       then register_password ?ext (se_opaque env) (backend_config (se_keys env) config) (se_rng env)
         (cf_ldap_user_dn config) (cf_ldap_user_pass config) else return ()) s3"
      using 1 2 3 True e3 by (simp add: set_up_accounts_def bind_def admin_present_iff split del: if_split)
    have "db_inv t \<and> accounts_kept s3 t \<and> r \<noteq> Panic
        \<and> (r = Ok () \<longrightarrow> admin_exists ?ext t \<and> (\<not> admin_exists ?ext s3 \<longrightarrow> admin_can_bind env config t))"
      using create_admin_user_ok [OF _ laws pass, of s3 r t] reset_password_ok [OF _ laws, of s3 r t] e3 named run
        admin_exists_kept [of ?ext s3 t]
      unfolding rest by (auto simp: builtin_groups_def return_def split: if_splits)
    with kept(1) named e1 e2 e3 show ?thesis by (metis accounts_kept_trans group_named_kept)
  qed
qed


section \<open>Properties\<close>

lemma check_private_key_ok:
  assumes "cf_server_setup config \<noteq> None" and "check_private_key env config s = (r, t)"
  obtains info where "get_private_key_info (se_keys env) config = (Ok info :: (private_key_info, startup_error) result)"
    "t = s \<or> t = s\<lparr>sv_key_info := Some info\<rparr>" "r \<noteq> Panic"
    "r = Ok () \<Longrightarrow> map_option pk_hash (sv_key_info t) = Some (pk_hash info)"
proof -
  obtain info where info: "get_private_key_info (se_keys env) config = (Ok info :: (private_key_info, startup_error) result)"
    using assms(1) by (auto simp: get_private_key_info_def)
  with assms(2) show thesis
    by (intro that [OF info])
       (auto simp: check_private_key_def load_private_key_info_def set_private_key_info_def compare_private_key_hashes_def monad_simps
         split: option.splits if_splits bool.splits)
qed

lemma sv_db_simps [simp]: "sv_db (s\<lparr>sv_key_info := k\<rparr>) = sv_db s" "sv_key_info (sv_put t s) = sv_key_info s"
  "md_version (sv_tables (sv_put t s)) = md_version (sv_tables s)"
  by (simp_all add: sv_db_def sv_put_def)

lemma listeners_no_panic: "build_ldap_server lib fs can_bind config b \<noteq> Panic" "bind_listener can_bind n h p b \<noteq> Panic"
  by (auto simp: build_ldap_server_def bind_listener_def Let_def split: option.split)

text \<open>The listeners, which read the database only.\<close>

abbreviation start_listeners ::
  "startup_env \<Rightarrow> configuration \<Rightarrow> (server_store, server_builder \<times> u64 set, startup_error) action" where
  "start_listeners env config \<equiv>
     bind (lift_result (map_err ServerFailed (build_ldap_server (se_tls env) (se_files env) (se_can_bind env) config [])))
       (build_tcp_server env config)"

lemma start_listeners_state: "start_listeners env config s = (r, t) \<Longrightarrow> r \<noteq> Panic \<and> (t = s \<or> t = sv_put (sv_db s) s)"
  using listeners_no_panic
  by (auto simp: build_tcp_server_def on_db_def sql_get_jwt_blacklist_def bind_def lift_result_def return_def split: result.splits)

text \<open>A store that a start of the server leaves as it is.\<close>

definition settled :: "startup_env \<Rightarrow> configuration \<Rightarrow> server_store \<Rightarrow> bool" where
  "settled env config t \<longleftrightarrow> md_version (sv_tables t) = Some LAST_SCHEMA_VERSION \<and> db_inv (sv_db t)
    \<and> (\<forall>n\<in>set builtin_groups. group_named (se_externals env) n (sv_db t)) \<and> admin_exists (se_externals env) (sv_db t)
    \<and> (\<exists>info. get_private_key_info (se_keys env) config = (Ok info :: (private_key_info, startup_error) result)
         \<and> map_option pk_hash (sv_key_info t) = Some (pk_hash info))"

lemma ensure_group_again:
  assumes "db_inv s" and "group_named (se_externals env) n s"
  shows "ensure_group_exists env n s = (Ok (), s)"
proof -
  obtain gs where "list_groups (se_externals env) (Some (GDisplayName (GroupName n))) s = (Ok gs, s)" "gs \<noteq> []"
    by (rule list_groups_named [OF assms(1), of "se_externals env" n]) (use assms(2) that in blast)
  then show ?thesis by (simp add: ensure_group_exists_def monad_simps)
qed

lemma settled_restart:
  assumes "settled env config t" and "sv_put (sv_db t) t = t"
    and "\<not> cf_force_update_private_key config" and "\<not> cf_force_ldap_user_pass_reset config"
  shows "set_up_server env config t = start_listeners env config t"
proof -
  have 1: "setup_sql_tables (se_migration env) t = (Ok (), t)"
    using assms(1) by (simp add: settled_def setup_sql_tables_def init_table_def migrate_from_version_def return_def)
  have 2: "check_private_key env config t = (Ok (), t)"
    using assms(1,3) by (auto simp: settled_def check_private_key_def load_private_key_info_def compare_private_key_hashes_def monad_simps)
  have "set_up_accounts env config (sv_db t) = (Ok (), sv_db t)"
    using assms(1,4)
    by (simp add: settled_def builtin_groups_def set_up_accounts_def bind_def ensure_group_again admin_present_iff return_def)
  with assms(2) have 3: "on_db (set_up_accounts env config) t = (Ok (), t)" by (simp add: on_db_def)
  show ?thesis by (simp add: set_up_server_def bind_def 1 2 3 assms(3,4))
qed

lemma sv_put_put [simp]: "sv_put d (sv_put d s) = sv_put d s"
  by (simp add: sv_put_def)

lemma migrated_store_inv:
  assumes "tokens_ok (sv_db s)" and "map mu_user_id (md_users d) = map mu_user_id (md_users (sv_tables s))"
    and "mig_inv LAST_SCHEMA_VERSION d"
  shows "db_inv (sv_db (s\<lparr>sv_tables := d\<rparr>))"
proof -
  have "db_inv (migrated_db d)" using assms(3) by (simp add: mig_inv_db_inv LAST_SCHEMA_VERSION_def)
  moreover have "mu_user_id ` set (md_users d) = mu_user_id ` set (md_users (sv_tables s))"
    using assms(2) by (metis set_map)
  ultimately show ?thesis using assms(1)
    by (simp add: db_inv_def db_ok_defs db_fk_defs sv_db_def image_image)
qed

lemma set_up_server_ok:
  assumes "upgradable (sv_tables s)" and "tokens_ok (sv_db s)" and laws: "startup_laws env config"
    and key: "cf_server_setup config \<noteq> None" and pass: "8 \<le> length (cf_ldap_user_pass config)"
    and run: "set_up_server env config s = (r, t)"
  shows "r \<noteq> Panic \<and> (\<forall>x. r = Ok x \<longrightarrow> settled env config t \<and> sv_put (sv_db t) t = t \<and> start_listeners env config t = (Ok x, t)
    \<and> \<not> cf_force_update_private_key config \<and> \<not> cf_force_ldap_user_pass_reset config
    \<and> (\<not> admin_exists (se_externals env) (sv_db (s\<lparr>sv_tables := snd (init_table (se_migration env) (sv_tables s))\<rparr>))
         \<longrightarrow> admin_can_bind env config (sv_db t)))"
proof -
  obtain q d where init: "init_table (se_migration env) (sv_tables s) = (q, d)" by fastforce
  note up = init_table_upgrades [OF assms(1) init]
  show ?thesis
  proof (cases "q = Ok ()")
    case False
    with run init up show ?thesis by (cases q) (auto simp: set_up_server_def setup_sql_tables_def bind_def)
  next
    case True
    let ?s1 = "s\<lparr>sv_tables := d\<rparr>"
    have inv1: "db_inv (sv_db ?s1)" using migrated_store_inv [OF assms(2)] up True by simp
    obtain r2 s2 where key2: "check_private_key env config ?s1 = (r2, s2)" by fastforce
    obtain info where info: "get_private_key_info (se_keys env) config = (Ok info :: (private_key_info, startup_error) result)"
      and s2: "s2 = ?s1 \<or> s2 = ?s1\<lparr>sv_key_info := Some info\<rparr>" "r2 \<noteq> Panic"
        "r2 = Ok () \<Longrightarrow> map_option pk_hash (sv_key_info s2) = Some (pk_hash info)"
      by (rule check_private_key_ok [OF key key2]) (rule that; blast)
    have db2: "sv_db s2 = sv_db ?s1" "md_version (sv_tables s2) = Some LAST_SCHEMA_VERSION"
      using s2(1) up True by auto
    obtain r3 t3 where acc: "set_up_accounts env config (sv_db s2) = (r3, t3)" by fastforce
    note ok3 = set_up_accounts_ok [OF inv1 laws pass acc [unfolded db2]]
    have rest: "set_up_server env config s =
      (case r2 of Ok _ \<Rightarrow> (case r3 of Ok _ \<Rightarrow>
          (if cf_force_update_private_key config \<or> cf_force_ldap_user_pass_reset config then fail RestartWithoutForce
           else start_listeners env config) (sv_put t3 s2)
        | Err e \<Rightarrow> (Err (BackendFailed e), sv_put t3 s2) | Panic \<Rightarrow> (Panic, sv_put t3 s2))
      | Err e \<Rightarrow> (Err e, s2) | Panic \<Rightarrow> (Panic, s2))"
      using init True key2 acc
      by (cases r2; cases r3) (simp_all add: set_up_server_def setup_sql_tables_def bind_def on_db_def)
    show ?thesis
    proof (cases "r2 = Ok () \<and> r3 = Ok () \<and> \<not> (cf_force_update_private_key config \<or> cf_force_ldap_user_pass_reset config)")
      case False
      with run rest ok3 s2(2) show ?thesis by (cases r2; cases r3) (auto simp: fail_def)
    next
      case True
      then have run4: "start_listeners env config (sv_put t3 s2) = (r, t)" using run rest by simp
      from start_listeners_state [OF this] have t: "t = sv_put t3 s2" "r \<noteq> Panic" by auto
      have "settled env config t" using True ok3 db2 s2(3) info by (auto simp: settled_def t)
      then show ?thesis using True ok3 run4 init by (simp add: t)
    qed
  qed
qed


text \<open>A new installation.\<close>

definition new_store :: server_store where
  "new_store = \<lparr>sv_tables = \<lparr>md_version = None, md_has_group_date = True, md_has_group_uuid = True, md_has_user_uuid = True,
       md_users = [], md_groups = [], md_next_group_id = 1, md_memberships = [], md_user_attribute_schema = [],
       md_group_attribute_schema = [], md_user_attributes = [], md_group_attributes = [], md_user_object_classes = [],
       md_group_object_classes = []\<rparr>,
     sv_refresh = [], sv_jwt = [], sv_reset = [], sv_key_info = None\<rparr>"

definition first_start :: startup_env where
  "first_start = \<lparr>se_externals = ascii_externals, se_opaque = toy_lib, se_keys = plain_keys,
     se_tls = \<lparr>tl_certs = (\<lambda>_. None), tl_pkcs8_private_keys = (\<lambda>_. None), tl_rsa_private_keys = (\<lambda>_. None),
       tl_ec_private_keys = (\<lambda>_. None), tl_with_single_cert = (\<lambda>_ _. False)\<rparr>,
     se_migration = sqlite_env, se_now = 0, se_rng = id, se_files = empty_files, se_can_bind = (\<lambda>_ _. True)\<rparr>"

definition keyed_configuration :: "string \<Rightarrow> configuration" where
  "keyed_configuration k = default_configuration\<lparr>cf_server_setup := Some \<lparr>ssc_server_setup = k, ssc_private_key_location = DefaultLocation\<rparr>\<rparr>"

lemma first_start_ok:
  "upgradable (sv_tables new_store)" "tokens_ok (sv_db new_store)" "startup_laws first_start (keyed_configuration k)"
  "cf_server_setup (keyed_configuration k) \<noteq> None" "8 \<le> length (cf_ldap_user_pass (keyed_configuration k))"
  by (simp_all add: upgradable_def mig_inv_def new_store_def sv_db_def tokens_ok_def startup_laws_def first_start_def
      keyed_configuration_def default_configuration_def base64_ok_def ascii_externals_def sealing_ok_def opaque_ok_def toy_lib_def)

definition fresh_db :: db where
  "fresh_db = \<lparr>db_users = [], db_groups = [], db_memberships = [], db_user_attributes = [], db_group_attributes = [],
     db_user_attribute_schema = v5_schema, db_group_attribute_schema = [], db_user_object_classes = [], db_group_object_classes = [],
     db_jwt_refresh_storage = [], db_jwt_storage = [], db_password_reset_tokens = [], db_next_group_id = 1\<rparr>"

definition migrated_store :: server_store where
  "migrated_store = snd (setup_sql_tables (se_migration first_start) new_store)"

definition keyed_store :: server_store where
  "keyed_store = snd (check_private_key first_start (keyed_configuration ''key'') migrated_store)"

lemma first_start_store:
  "fst (setup_sql_tables (se_migration first_start) new_store) = Ok ()"
  "fst (check_private_key first_start (keyed_configuration ''key'') migrated_store) = Ok ()"
  by code_simp+

lemma first_start_db: "sv_db keyed_store = fresh_db" "sv_db migrated_store = fresh_db"
  by code_simp+

lemma first_start_accounts: "fst (set_up_accounts first_start (keyed_configuration ''key'') fresh_db) = Ok ()"
  by code_simp

lemma first_start_no_admin: "\<not> admin_exists (se_externals first_start) fresh_db"
  by (simp add: admin_exists_def fresh_db_def)

lemma first_start_options:
  "\<not> cf_force_update_private_key (keyed_configuration k)" "\<not> cf_force_ldap_user_pass_reset (keyed_configuration k)"
  by (simp_all add: keyed_configuration_def default_configuration_def)

lemma first_start_listens:
  "build_ldap_server (se_tls first_start) (se_files first_start) (se_can_bind first_start) (keyed_configuration ''key'') []
     = Ok [(''ldap'', ''0.0.0.0'', 3890)]"
  by code_simp

lemma first_start_http: "\<exists>x. fst (build_tcp_server first_start (keyed_configuration ''key'') b s) = Ok x"
  by (simp add: build_tcp_server_def bind_listener_def first_start_def on_db_def sql_get_jwt_blacklist_def monad_simps)

lemma first_start_runs: "\<exists>x. fst (set_up_server first_start (keyed_configuration ''key'') new_store) = Ok x"
proof -
  have 1: "setup_sql_tables (se_migration first_start) new_store = (Ok (), migrated_store)"
    "check_private_key first_start (keyed_configuration ''key'') migrated_store = (Ok (), keyed_store)"
    by (metis first_start_store(1) migrated_store_def prod.collapse, metis first_start_store(2) keyed_store_def prod.collapse)
  obtain t where "set_up_accounts first_start (keyed_configuration ''key'') fresh_db = (Ok (), t)"
    by (metis first_start_accounts prod.collapse)
  then have 2: "on_db (set_up_accounts first_start (keyed_configuration ''key'')) keyed_store = (Ok (), sv_put t keyed_store)"
    by (simp add: on_db_def first_start_db)
  have "set_up_server first_start (keyed_configuration ''key'') new_store
      = build_tcp_server first_start (keyed_configuration ''key'') [(''ldap'', ''0.0.0.0'', 3890)] (sv_put t keyed_store)"
    by (simp add: set_up_server_def bind_def 1 2 first_start_options first_start_listens lift_result_def)
  then show ?thesis using first_start_http by presburger
qed




section \<open>Restarts\<close>

lemma set_if_keeps_pass:
  "(\<And>x d. cf_ldap_user_pass (upd x d) = cf_ldap_user_pass d) \<Longrightarrow> cf_ldap_user_pass (set_if upd v c) = cf_ldap_user_pass c"
  by (cases v) simp_all

lemma override_run_user_pass [simp]: "cf_ldap_user_pass (override_run opts c) = cf_ldap_user_pass c"
  by (simp add: override_run_def override_general_def override_ldaps_def override_smtp_def Let_def set_if_keeps_pass)

lemma config_init_Ok:
  assumes "config_init lib random figment extracted overrides fs = (Ok (c, w), fs')"
  shows "\<exists>c0 s. extracted = Ok c0 \<and> c = (overrides c0)\<lparr>cf_server_setup := Some s\<rparr>"
  using assms by (auto simp: config_init_def bind_Ok_iff Let_def return_def)

lemma run_server_command_Ok:
  assumes "run_server_command env random figment extracted opts m = (Ok x, m')"
  obtains c w fs s where "config_init (se_keys env) random figment extracted (override_run opts) (mc_files m) = (Ok (c, w), fs)"
    "set_up_server (env\<lparr>se_files := fs\<rparr>) c (mc_store m) = (Ok x, s)" "m' = m\<lparr>mc_files := fs, mc_store := s\<rparr>"
proof -
  obtain r fs where init: "config_init (se_keys env) random figment extracted (override_run opts) (mc_files m) = (r, fs)" by fastforce
  with assms obtain c w where r: "r = Ok (c, w)"
    by (cases r) (auto simp: run_server_command_def bind_def configured_def)
  obtain q s where "set_up_server (env\<lparr>se_files := fs\<rparr>) c (mc_store m) = (q, s)" by fastforce
  with assms init r that show thesis
    by (cases q) (auto simp: run_server_command_def bind_def configured_def on_store_def)
qed

text \<open>
  C29. Restarts: when the program has started with a configuration, starting it again with the same configuration, at any
  later time and with any other random numbers, succeeds with the same listeners and the same revoked tokens and changes
  neither the key file nor any row of the database.
\<close>

theorem restart_changes_nothing:
  assumes law: "\<forall>s. kl_setup_deserialize (se_keys env) (kl_setup_serialize (se_keys env) s) = Some s"
    and store: "upgradable (sv_tables (mc_store m))" "tokens_ok (sv_db (mc_store m))" and laws: "\<forall>config. startup_laws env config"
    and pass: "\<forall>c. extracted = Ok c \<longrightarrow> 8 \<le> length (cf_ldap_user_pass c)"
    and run: "run_server_command env random figment extracted opts m = (Ok x, m')"
  shows "run_server_command (env\<lparr>se_now := now', se_rng := rng'\<rparr>) random' figment extracted opts m' = (Ok x, m')"
proof -
  from run obtain c w fs s where
    init: "config_init (se_keys env) random figment extracted (override_run opts) (mc_files m) = (Ok (c, w), fs)"
    and start: "set_up_server (env\<lparr>se_files := fs\<rparr>) c (mc_store m) = (Ok x, s)" and m': "m' = m\<lparr>mc_files := fs, mc_store := s\<rparr>"
    by (rule run_server_command_Ok)
  from restart_keeps_key [OF law init]
  have again: "config_init (se_keys env) random' figment extracted (override_run opts) fs = (Ok (c, w), fs)" by blast
  have "startup_laws (env\<lparr>se_files := fs\<rparr>) c" using laws by (simp add: startup_laws_def)
  moreover have "cf_server_setup c \<noteq> None" "8 \<le> length (cf_ldap_user_pass c)" using config_init_Ok [OF init] pass by auto
  ultimately have ok: "settled (env\<lparr>se_files := fs\<rparr>) c s" "sv_put (sv_db s) s = s"
      "start_listeners (env\<lparr>se_files := fs\<rparr>) c s = (Ok x, s)"
      "\<not> cf_force_update_private_key c" "\<not> cf_force_ldap_user_pass_reset c"
    using set_up_server_ok [OF store _ _ _ start] by blast+
  let ?env = "env\<lparr>se_now := now', se_rng := rng', se_files := fs\<rparr>"
  have "settled ?env c s" using ok(1) by (simp add: settled_def)
  then have "set_up_server ?env c s = start_listeners ?env c s" by (rule settled_restart [OF _ ok(2,4,5)])
  also have "build_tcp_server ?env c = build_tcp_server (env\<lparr>se_files := fs\<rparr>) c" by (intro ext) (simp add: build_tcp_server_def)
  then have "start_listeners ?env c s = (Ok x, s)" using ok(3) by simp
  finally show ?thesis
    using again by (simp add: run_server_command_def configured_def on_store_def bind_def m')
qed

lemma files_only_for_tls:
  assumes "\<not> lo_enabled (cf_ldaps_options config)"
  shows "set_up_server (env\<lparr>se_files := fs\<rparr>) config = set_up_server env config"
proof -
  have steps: "ensure_group_exists (env\<lparr>se_files := fs\<rparr>) = ensure_group_exists env"
    "admin_present (env\<lparr>se_files := fs\<rparr>) = admin_present env" "create_admin_user (env\<lparr>se_files := fs\<rparr>) = create_admin_user env"
    "check_private_key (env\<lparr>se_files := fs\<rparr>) = check_private_key env" "build_tcp_server (env\<lparr>se_files := fs\<rparr>) = build_tcp_server env"
    by (intro ext, simp add: ensure_group_exists_def admin_present_def create_admin_user_def check_private_key_def
          build_tcp_server_def cong: if_cong list.case_cong)+
  then have "set_up_accounts (env\<lparr>se_files := fs\<rparr>) = set_up_accounts env" 
    by (intro ext) (simp add: set_up_accounts_def steps cong: if_cong)
  with steps assms show ?thesis by (simp add: set_up_server_def build_ldap_server_def Let_def)
qed

definition no_options :: run_opts where
  "no_options = \<lparr>ro_general_config = \<lparr>go_config_file = ''lldap_config.toml'', go_verbose = False\<rparr>, ro_server_key_file = None,
     ro_server_key_seed = None, ro_ldap_host = None, ro_ldap_port = None, ro_http_host = None, ro_http_port = None, ro_http_url = None,
     ro_database_url = None, ro_force_ldap_user_pass_reset = None, ro_force_update_private_key = None,
     ro_smtp_opts = \<lparr>so_enable_password_reset = None, so_from = None, so_reply_to = None, so_server = None, so_port = None,
       so_user = None, so_password = None, so_tls_required = None, so_encryption = None\<rparr>,
     ro_ldaps_opts = \<lparr>ldo_enabled = None, ldo_port = None, ldo_cert_file = None, ldo_key_file = None\<rparr>\<rparr>"

definition new_machine :: machine where
  "new_machine = \<lparr>mc_files = empty_files, mc_store = new_store, mc_outbox = []\<rparr>"

lemma override_no_options [simp]: "override_run no_options c = c"
  by (simp add: override_run_def no_options_def override_general_def override_ldaps_def override_ldaps_options_def
      override_smtp_def override_mail_options_def Let_def)

lemma first_start_libraries: "startup_laws first_start config"
  "kl_setup_deserialize (se_keys first_start) (kl_setup_serialize (se_keys first_start) s) = Some s"
  by (simp_all add: startup_laws_def first_start_def base64_ok_def ascii_externals_def sealing_ok_def opaque_ok_def toy_lib_def
      plain_keys_def)

lemma first_config:
  obtains w fs where "config_init plain_keys ''key'' (\<lambda>_. None) (Ok default_configuration) (override_run no_options) empty_files
    = (Ok (keyed_configuration ''key'', w), fs)"
  by (rule that) (simp add: config_init_def get_server_setup_def plain_keys_def empty_files_def keyed_configuration_def
      write_to_readonly_file_def bind_def lift_result_def return_def Let_def default_configuration_def)

theorem restart_changes_nothing_witness:
  "\<exists>x m'. run_server_command first_start ''key'' (\<lambda>_. None) (Ok default_configuration) no_options new_machine = (Ok x, m')
     \<and> run_server_command (first_start\<lparr>se_now := 5, se_rng := Suc\<rparr>) ''other'' (\<lambda>_. None) (Ok default_configuration) no_options m' = (Ok x, m')"
proof -
  obtain w fs where init: "config_init plain_keys ''key'' (\<lambda>_. None) (Ok default_configuration) (override_run no_options) empty_files
    = (Ok (keyed_configuration ''key'', w), fs)" by (rule first_config)
  obtain x where "fst (set_up_server first_start (keyed_configuration ''key'') new_store) = Ok x" using first_start_runs by blast
  then obtain s where "set_up_server first_start (keyed_configuration ''key'') new_store = (Ok x, s)" by (metis prod.collapse)
  moreover have "\<not> lo_enabled (cf_ldaps_options (keyed_configuration ''key''))"
    by (simp add: keyed_configuration_def default_configuration_def default_ldaps_options_def)
  moreover have "se_keys first_start = plain_keys" by (simp add: first_start_def)
  ultimately have run: "run_server_command first_start ''key'' (\<lambda>_. None) (Ok default_configuration) no_options new_machine
      = (Ok x, \<lparr>mc_files = fs, mc_store = s, mc_outbox = []\<rparr>)"
    using init by (simp add: run_server_command_def configured_def on_store_def bind_def new_machine_def files_only_for_tls)
  have "8 \<le> length (cf_ldap_user_pass default_configuration)" by (simp add: default_configuration_def)
  then show ?thesis
    using restart_changes_nothing [OF _ _ _ _ _ run] first_start_libraries first_start_ok(1,2) run by (simp add: new_machine_def)
qed

end
