(* ===== verification/Http_Clients.thy ===== *)
theory Http_Clients
  imports Web_Session
begin

text \<open>
  The programs that talk to the HTTP API: \<open>set-password/src/main.rs\<close>, which sets the password of a user with the OPAQUE
  registration, and the login of \<open>migration-tool/src/lldap.rs\<close>, with the client functions of \<open>auth/src/opaque.rs\<close>. The
  server is an argument that answers the \<open>i\<close>-th request; a request whose handler panics is a lost connection. Requests
  and answers are not turned into JSON, except the body of the start of a registration, which the server reads as bytes:
  \<open>encode\<close>. The scheme of a URL is its text before the colon.
\<close>

section \<open>Requests\<close>

datatype client_error =
    PasswordTooShort
  | WrongScheme
  | NoCredentials
  | OpaqueFailure
  | RequestFailed http_status
  | ConnectionLost
  | UnexpectedAnswer
  | PromptFailed

type_synonym 's auth_server = "nat \<Rightarrow> auth_call \<Rightarrow> http_request \<Rightarrow> ('s, http_response, tcp_error) action"

text \<open>\<open>send()?.error_for_status()?\<close>.\<close>

definition answered :: "('s, http_response, tcp_error) action \<Rightarrow> ('s, http_body, client_error) action" where
  "answered m s = (case m s of
       (Ok resp, t) \<Rightarrow> (if hr_status resp = StatusOk then Ok (hr_body resp) else Err (RequestFailed (hr_status resp)), t)
     | (_, t) \<Rightarrow> (Err ConnectionLost, t))"

definition json_request :: "string option \<Rightarrow> bytes \<Rightarrow> http_request" where
  "json_request token body = \<lparr>rq_cookies = [], rq_headers = (''content-type'', ''application/json'')
     # (case token of None \<Rightarrow> [] | Some t \<Rightarrow> [(''authorization'', ''Bearer '' @ t)]), rq_match_info = [], rq_payload = body\<rparr>"

definition login_token :: "http_body \<Rightarrow> (string, client_error) result" where
  "login_token body = (case body of LoginBody token _ \<Rightarrow> Ok token | _ \<Rightarrow> Err UnexpectedAnswer)"

section \<open>The set-password tool\<close>

record cli_opts =
  op_base_url :: string
  op_admin_username :: string
  op_admin_password :: "string option"
  op_token :: "string option"
  op_username :: string
  op_password :: string
  op_bypass_password_policy :: bool

definition url_scheme :: "string \<Rightarrow> string" where
  "url_scheme url = takeWhile (\<lambda>c. c \<noteq> CHR '':'') url"

definition get_token :: "'s auth_server \<Rightarrow> string \<Rightarrow> string \<Rightarrow> ('s, string, client_error) action" where
  "get_token server username password =
     bind (answered (server 0 (SimpleLogin \<lparr>cs_username = UserId_new username, cs_password = password\<rparr>) (json_request None [])))
       (\<lambda>body. lift_result (login_token body))"

definition register_start ::
  "'s auth_server \<Rightarrow> (registration_start_request \<Rightarrow> bytes) \<Rightarrow> string \<Rightarrow> registration_start_request
   \<Rightarrow> ('s, registration_start_response, client_error) action" where
  "register_start server encode token request =
     bind (answered (server 1 RegisterStart (json_request (Some token) (encode request)))) (\<lambda>body.
       lift_result (case body of RegisterStartBody r \<Rightarrow> Ok r | _ \<Rightarrow> Err UnexpectedAnswer))"

definition register_finish :: "'s auth_server \<Rightarrow> string \<Rightarrow> registration_finish_request \<Rightarrow> ('s, unit, client_error) action" where
  "register_finish server token request =
     bind (answered (server 2 (RegisterFinish request) (json_request (Some token) []))) (\<lambda>_. return ())"

definition tool_token :: "'s auth_server \<Rightarrow> cli_opts \<Rightarrow> ('s, string, client_error) action" where
  "tool_token server opts = (case (op_token opts, op_admin_password opts) of
       (Some token, _) \<Rightarrow> return token
     | (None, Some password) \<Rightarrow> get_token server (op_admin_username opts) password
     | (None, None) \<Rightarrow> fail NoCredentials)"

definition set_password_main ::
  "opaque_lib \<Rightarrow> (nat \<Rightarrow> nat) \<Rightarrow> (registration_start_request \<Rightarrow> bytes) \<Rightarrow> 's auth_server \<Rightarrow> cli_opts \<Rightarrow> ('s, unit, client_error) action" where
  "set_password_main lib rng encode server opts =
     (if \<not> (op_bypass_password_policy opts \<or> 8 \<le> length (op_password opts)) then fail PasswordTooShort
      else if url_scheme (op_base_url opts) \<noteq> ''http'' \<and> url_scheme (op_base_url opts) \<noteq> ''https'' then fail WrongScheme
      else bind (tool_token server opts) (\<lambda>token.
        bind (lift_result (ok_or OpaqueFailure (client_registration_start lib (rng 0) (op_password opts)))) (\<lambda>(state, message).
        bind (register_start server encode token
            \<lparr>rs_username = UserId_new (op_username opts), rs_registration_start_request = message\<rparr>) (\<lambda>res.
        bind (lift_result (ok_or OpaqueFailure (client_registration_finish lib state (rr_registration_response res) (rng 1)))) (\<lambda>upload.
        register_finish server token \<lparr>rf_server_data = rr_server_data res, rf_registration_upload = upload\<rparr>)))))"

section \<open>The login of the migration tool\<close>

definition try_login ::
  "opaque_lib \<Rightarrow> (nat \<Rightarrow> nat) \<Rightarrow> 's auth_server \<Rightarrow> string \<Rightarrow> string \<Rightarrow> ('s, string, client_error) action" where
  "try_login lib rng server username password =
     bind (lift_result (ok_or OpaqueFailure (client_login_start lib (rng 0) password))) (\<lambda>(state, message).
     bind (answered (server 0 (OpaqueLoginStart \<lparr>ls_username = UserId_new username, ls_login_start_request = message\<rparr>) (json_request None [])))
       (\<lambda>body. bind (lift_result (case body of LoginStartBody r \<Rightarrow> Ok r | _ \<Rightarrow> Err UnexpectedAnswer)) (\<lambda>response.
     bind (lift_result (ok_or OpaqueFailure (client_login_finish lib state (lr_credential_response response)))) (\<lambda>finalization.
     bind (answered (server 1 (OpaqueLoginFinish \<lparr>lf_server_data = lr_server_data response, lf_credential_finalization = finalization\<rparr>)
         (json_request None []))) (\<lambda>body. lift_result (login_token body))))))"

text \<open>
  \<open>get_lldap_user_and_password\<close>: asks for a name and a password until a login succeeds; the answers are a list, the
  \<open>k\<close>-th attempt has the server and random numbers \<open>servers k\<close> and \<open>rngs k\<close>.
\<close>

fun get_lldap_user_and_password ::
  "opaque_lib \<Rightarrow> (nat \<Rightarrow> nat \<Rightarrow> nat) \<Rightarrow> (nat \<Rightarrow> 's auth_server) \<Rightarrow> nat \<Rightarrow> (string \<times> string) list \<Rightarrow> ('s, string, client_error) action" where
  "get_lldap_user_and_password lib rngs servers k [] = fail PromptFailed"
| "get_lldap_user_and_password lib rngs servers k ((username, password) # rest) =
     match_action (try_login lib (rngs k) (servers k) username password) return
       (\<lambda>_. get_lldap_user_and_password lib rngs servers (k + 1) rest)"

section \<open>Against the server\<close>

definition sql_server ::
  "(nat \<Rightarrow> http_env) \<Rightarrow> opaque_lib \<Rightarrow> sql_config \<Rightarrow> (nat \<Rightarrow> nat \<Rightarrow> nat) \<Rightarrow> bytes \<Rightarrow> string \<Rightarrow> mail_options \<Rightarrow> db http_state auth_server" where
  "sql_server envs lib cfg rngs key url options i = handle_auth (envs i) (sql_app (envs i) lib cfg (rngs i) key url options)"

text \<open>The token in the header of a request is the one the server extracts; the body decodes to what was encoded.\<close>

definition bearer_ok :: "http_env \<Rightarrow> string \<Rightarrow> bool" where
  "bearer_ok env token \<longleftrightarrow> (\<forall>req. map_of (rq_headers req) ''authorization'' = Some (''Bearer '' @ token) \<longrightarrow> he_bearer env req = Some token)"

definition encoding_ok :: "http_env \<Rightarrow> (registration_start_request \<Rightarrow> bytes) \<Rightarrow> bool" where
  "encoding_ok env encode \<longleftrightarrow> (\<forall>r. he_registration_json env (encode r) = Some r)"

text \<open>A token with which the password of a user can be set.\<close>

definition may_set_password :: "http_env \<Rightarrow> 's app_state \<Rightarrow> db http_state \<Rightarrow> string \<Rightarrow> user_id \<Rightarrow> bool" where
  "may_set_password e app t token u \<longleftrightarrow> user_exists (ht_backend t) u
     \<and> (case check_if_token_is_valid e app (ht_jwt_blacklist t) token of
          Ok v \<Rightarrow> can_change_password v u (is_admin_in (he_externals e) (ht_backend t) u) | _ \<Rightarrow> False)"

lemma error_status_not_ok: "error_status e \<noteq> StatusOk"
  by (cases e rule: error_status.cases) auto

lemma answered_Ok:
  "auth_handler e app call req t = (Ok resp, t') \<Longrightarrow> hr_status resp = StatusOk
     \<Longrightarrow> answered (handle_auth e app call req) t = (Ok (hr_body resp), t')"
  by (simp add: answered_def handle_auth_def unwrap_or_else_def match_action_def return_def)

lemma answered_Err:
  "auth_handler e app call req t = (Err x, t') \<Longrightarrow> \<exists>y. answered (handle_auth e app call req) t = (Err y, t')"
  by (simp add: answered_def handle_auth_def unwrap_or_else_def match_action_def return_def error_to_http_response_def error_status_not_ok)

lemma json_request_sel [simp]:
  "cookie_to_header e (json_request tok b) = Ok (json_request tok b)" "rq_payload (json_request tok b) = b"
  "map_of (rq_headers (json_request (Some token) b)) ''authorization'' = Some (''Bearer '' @ token)"
  by (simp_all add: cookie_to_header_def json_request_def)

text \<open>The state that the start of a registration hands out, and what its end does with it.\<close>

lemma registration_start_runs:
  assumes "base64_ok ext" and "sealing_ok lib cfg" and "server_registration_start lib (server_setup cfg) m (UserId_as_str u) = Some resp"
  obtains data where "\<And>s. sql_registration_start ext lib cfg rng \<lparr>rs_username = u, rs_registration_start_request = m\<rparr> s
      = (Ok \<lparr>rr_server_data = data, rr_registration_response = resp\<rparr>, s)"
    and "\<And>up s. sql_registration_finish ext lib cfg \<lparr>rf_server_data = data, rf_registration_upload = up\<rparr> s
      = sql_update_user u (\<lambda>r. r\<lparr>usr_password_hash := Some (server_registration_serialize lib (server_registration_finish lib up))\<rparr>) s"
proof -
  obtain k where k: "secret_key_from_slice lib (server_private_key cfg) = Some k"
    "\<forall>n m. \<exists>c. aead_seal lib n k m = Some c \<and> aead_open lib k c = Some m"
    using assms(2) by (auto simp: sealing_ok_def)
  obtain d where d: "registration_data_serialize lib u = Some d" "registration_data_deserialize lib d = Some u"
    using assms(2) unfolding sealing_ok_def by metis
  obtain c where c: "aead_seal lib (rng 0) k d = Some c" "aead_open lib k c = Some d" using k(2) by blast
  have "base64_decode ext (base64_encode ext c) = Some c" using assms(1) by (simp add: base64_ok_def)
  with k(1) d c assms(3) show thesis
    by (intro that [of "base64_encode ext c"])
       (simp_all add: sql_registration_start_def sql_registration_finish_def get_orion_secret_key_def monad_simps Let_def)
qed

lemma register_start_allowed:
  assumes "may_set_password e (sql_app e lib cfg rng key url options) t token u" and "he_bearer e req = Some token"
    and "he_registration_json e (rq_payload req) = Some \<lparr>rs_username = u, rs_registration_start_request = m\<rparr>"
    and "\<And>s. sql_registration_start (he_externals e) lib cfg rng \<lparr>rs_username = u, rs_registration_start_request = m\<rparr> s = (Ok r, s)"
  shows "opaque_register_start e (sql_app e lib cfg rng key url options) req t = (Ok (http_ok [] (RegisterStartBody r)), t)"
proof -
  obtain q where "find_user (ht_backend t) u = Some q"
    using assms(1) find_user_None [of "ht_backend t" u] by (auto simp: may_set_password_def)
  then have "get_user_groups u (ht_backend t) = (Ok (map GroupDetails_from (groups_of_user (ht_backend t) u)), ht_backend t)"
    by (simp add: get_user_groups_def return_def)
  then have "on_backend (get_user_groups u) t = (Ok (map GroupDetails_from (groups_of_user (ht_backend t) u)), t)"
    by (simp add: on_backend_def)
  moreover have "on_backend (sql_registration_start (he_externals e) lib cfg rng \<lparr>rs_username = u, rs_registration_start_request = m\<rparr>) t = (Ok r, t)"
    using assms(4) by (simp add: on_backend_def)
  ultimately show ?thesis
    using assms(1-3)
    by (auto simp: may_set_password_def is_admin_in_def opaque_register_start_def sql_backend_def bind_def lift_result_def return_def
        list_ex_iff GroupDetails_from_def split: result.splits)
qed

lemma register_start_refused:
  assumes "\<not> may_set_password e (sql_app e lib cfg rng key url options) t token u" and "he_bearer e req = Some token"
    and "he_registration_json e (rq_payload req) = Some \<lparr>rs_username = u, rs_registration_start_request = m\<rparr>"
  shows "\<exists>x. opaque_register_start e (sql_app e lib cfg rng key url options) req t = (Err x, t)"
proof (cases "find_user (ht_backend t) u")
  case None
  then have "on_backend (get_user_groups u) t = (Err (TcpDomainError (EntityNotFound (UserId_as_str u))), t)"
    by (simp add: on_backend_def get_user_groups_def fail_def)
  with assms(2,3) show ?thesis
    by (auto simp: opaque_register_start_def sql_backend_def bind_def lift_result_def check_if_token_is_valid_def split: option.split)
next
  case (Some q)
  then have "user_exists (ht_backend t) u" using find_user_None [of "ht_backend t" u] by auto
  moreover have "on_backend (get_user_groups u) t = (Ok (map GroupDetails_from (groups_of_user (ht_backend t) u)), t)"
    using Some by (simp add: on_backend_def get_user_groups_def return_def)
  ultimately show ?thesis
    using assms
    by (auto simp: may_set_password_def is_admin_in_def opaque_register_start_def sql_backend_def bind_def lift_result_def fail_def
        check_if_token_is_valid_def list_ex_iff GroupDetails_from_def split: option.split if_splits)
qed

lemma register_finish_answered:
  assumes "db_inv (ht_backend t)" and exists: "user_exists (ht_backend t) u"
    and fin: "sql_registration_finish (he_externals e) lib cfg r (ht_backend t) = sql_update_user u (\<lambda>r. r\<lparr>usr_password_hash := h\<rparr>) (ht_backend t)"
  obtains s q where "answered (handle_auth e (sql_app e lib cfg rng key url options) (RegisterFinish r) (json_request tok b)) t
      = (Ok NoBody, t\<lparr>ht_backend := s\<rparr>)" and "find_user s u = Some q" "usr_password_hash q = h"
proof -
  let ?s = "(ht_backend t)\<lparr>db_users := map (\<lambda>q. if usr_user_id q = u then q\<lparr>usr_password_hash := h\<rparr> else q) (db_users (ht_backend t))\<rparr>"
  have "sql_registration_finish (he_externals e) lib cfg r (ht_backend t) = (Ok (), ?s)"
    by (simp only: fin password_update_ok [OF assms(1) exists])
  then have run: "auth_handler e (sql_app e lib cfg rng key url options) (RegisterFinish r) (json_request tok b) t = (Ok (http_ok [] NoBody), t\<lparr>ht_backend := ?s\<rparr>)"
    by (simp add: opaque_register_finish_def sql_backend_def on_backend_def bind_def lift_result_def return_def)
  obtain q where q: "find_user ?s u = Some q" "usr_password_hash q = h"
    using exists find_user_None [of "ht_backend t" u] unfolding find_user_password by auto
  show thesis
    by (rule that [OF _ q]) (use answered_Ok [OF run] in \<open>simp add: http_ok_def\<close>)
qed

section \<open>Properties\<close>

text \<open>
  C31. The set-password tool against the server: once it has a token, given or from a login, it succeeds exactly when the
  user exists and the token is valid for someone who may change that password; then the user can bind with the new
  password and no other. Otherwise it reports an error and leaves the server as it is.
\<close>

theorem set_password_tool:
  fixes envs :: "nat \<Rightarrow> http_env" and lib cfg rngs key url options
  defines "server \<equiv> sql_server envs lib cfg rngs key url options" and "app \<equiv> sql_app (envs 1) lib cfg (rngs 1) key url options"
  assumes ext: "he_externals (envs 2) = he_externals (envs 1)"
    and laws: "base64_ok (he_externals (envs 1))" "sealing_ok lib cfg" "opaque_ok lib (server_setup cfg)" "encoding_ok (envs 1) encode"
    and policy: "op_bypass_password_policy opts \<or> 8 \<le> length (op_password opts)"
    and scheme: "url_scheme (op_base_url opts) = ''http'' \<or> url_scheme (op_base_url opts) = ''https''"
    and token: "tool_token server opts t = (Ok token, t')" and bearer: "bearer_ok (envs 1) token" and inv: "db_inv (ht_backend t')"
  shows "if may_set_password (envs 1) app t' token (UserId_new (op_username opts))
    then \<exists>t2. set_password_main lib rng encode server opts t = (Ok (), t2)
      \<and> (\<forall>rng' pw. fst (sql_bind lib cfg rng' \<lparr>br_name = UserId_new (op_username opts), br_password = pw\<rparr> (ht_backend t2)) = Ok ()
           \<longleftrightarrow> pw = op_password opts)
    else \<exists>e. set_password_main lib rng encode server opts t = (Err e, t')"
proof -
  let ?u = "UserId_new (op_username opts)" and ?ext = "he_externals (envs 1)"
  obtain st m where start: "client_registration_start lib (rng 0) (op_password opts) = Some (st, m)"
    using laws(3) unfolding opaque_ok_def by (metis not_None_eq surj_pair)
  obtain resp up where resp: "server_registration_start lib (server_setup cfg) m (UserId_as_str ?u) = Some resp"
    and up: "client_registration_finish lib st resp (rng 1) = Some up"
    using laws(3) start unfolding opaque_ok_def by (metis not_None_eq)
  let ?request = "\<lparr>rs_username = ?u, rs_registration_start_request = m\<rparr>"
  let ?req = "json_request (Some token) (encode ?request)"
  obtain data where reg: "\<And>s. sql_registration_start ?ext lib cfg (rngs 1) ?request s = (Ok \<lparr>rr_server_data = data, rr_registration_response = resp\<rparr>, s)"
    and fin: "\<And>up s. sql_registration_finish ?ext lib cfg \<lparr>rf_server_data = data, rf_registration_upload = up\<rparr> s
      = sql_update_user ?u (\<lambda>r. r\<lparr>usr_password_hash := Some (server_registration_serialize lib (server_registration_finish lib up))\<rparr>) s"
    by (rule registration_start_runs [OF laws(1,2) resp]) (rule that; blast)
  have he: "he_bearer (envs 1) ?req = Some token" "he_registration_json (envs 1) (rq_payload ?req) = Some ?request"
    using bearer laws(4) by (auto simp: bearer_ok_def encoding_ok_def)
  have rest: "set_password_main lib rng encode server opts t =
      bind (register_start server encode token ?request) (\<lambda>res.
        bind (lift_result (ok_or OpaqueFailure (client_registration_finish lib st (rr_registration_response res) (rng 1)))) (\<lambda>upload.
        register_finish server token \<lparr>rf_server_data = rr_server_data res, rf_registration_upload = upload\<rparr>)) t'"
    using policy scheme token start by (auto simp: set_password_main_def bind_def lift_result_def)
  show ?thesis
  proof (cases "may_set_password (envs 1) app t' token ?u")
    case False
    from register_start_refused [OF this [unfolded app_def] he] obtain x where
      "auth_handler (envs 1) app RegisterStart ?req t' = (Err x, t')" by (auto simp: app_def bind_def lift_result_def)
    from answered_Err [OF this] obtain y where "answered (server 1 RegisterStart ?req) t' = (Err y, t')"
      by (auto simp: server_def sql_server_def app_def)
    with False show ?thesis by (simp add: rest register_start_def bind_def)
  next
    case True
    let ?r = "\<lparr>rr_server_data = data, rr_registration_response = resp\<rparr>"
    from register_start_allowed [OF True [unfolded app_def] he reg]
    have "auth_handler (envs 1) app RegisterStart ?req t' = (Ok (http_ok [] (RegisterStartBody ?r)), t')"
      by (simp add: app_def bind_def lift_result_def)
    from answered_Ok [OF this] have 1: "answered (server 1 RegisterStart ?req) t' = (Ok (RegisterStartBody ?r), t')"
      by (simp add: server_def sql_server_def app_def http_ok_def)
    let ?fin = "\<lparr>rf_server_data = data, rf_registration_upload = up\<rparr>"
    have exists: "user_exists (ht_backend t') ?u" using True by (simp add: may_set_password_def)
    obtain s2 q where 2: "answered (server 2 (RegisterFinish ?fin) (json_request (Some token) [])) t' = (Ok NoBody, t'\<lparr>ht_backend := s2\<rparr>)"
      and "find_user s2 ?u = Some q"
      "usr_password_hash q = Some (server_registration_serialize lib (server_registration_finish lib up))"
      unfolding server_def sql_server_def
      by (rule register_finish_answered [OF inv exists fin [folded ext, of up], where rng = "rngs 2" and key = key and url = url
            and options = options and tok = "Some token" and b = "[]"]) blast
    with registered_bind [OF laws(2,3) start resp up this(2,3)] True 1 2 up show ?thesis
      by (simp add: rest register_start_def register_finish_def bind_def lift_result_def return_def)
  qed
qed

text \<open>A user sets its own password with its token.\<close>

definition encode_start :: "registration_start_request \<Rightarrow> bytes" where
  "encode_start r = length_prefixed (UserId_as_str (rs_username r)) @ rs_registration_start_request r"

definition decode_start :: "bytes \<Rightarrow> registration_start_request" where
  "decode_start b = \<lparr>rs_username = UserId (read_prefixed b), rs_registration_start_request = drop (2 * length (read_prefixed b) + 1) b\<rparr>"

definition tool_env :: http_env where
  "tool_env = demo_http_env\<lparr>he_registration_json := (\<lambda>b. Some (decode_start b))\<rparr>"

definition tool_opts :: cli_opts where
  "tool_opts = \<lparr>op_base_url = ''http://x'', op_admin_username = ''admin'', op_admin_password = None, op_token = Some ''jwt'',
     op_username = ''Bob'', op_password = ''new password'', op_bypass_password_policy = False\<rparr>"

lemma tool_env_ok: "encoding_ok tool_env encode_start" "bearer_ok tool_env token"
proof -
  have "decode_start (encode_start r) = r" for r
    by (cases r) (simp add: encode_start_def decode_start_def read_prefixed_append, simp add: length_prefixed_def)
  then show "encoding_ok tool_env encode_start" by (simp add: encoding_ok_def tool_env_def)
qed (auto simp: bearer_ok_def tool_env_def demo_http_env_def)

theorem set_password_tool_witness:
  "\<exists>t. set_password_main toy_lib id encode_start (sql_server (\<lambda>_. tool_env) toy_lib toy_config (\<lambda>_. id) ''key'' ''/'' demo_mail_options) tool_opts demo_server = (Ok (), t)
     \<and> fst (sql_bind toy_lib toy_config id \<lparr>br_name = UserId ''bob'', br_password = ''new password''\<rparr> (ht_backend t)) = Ok ()
     \<and> fst (sql_bind toy_lib toy_config id \<lparr>br_name = UserId ''bob'', br_password = ''secret''\<rparr> (ht_backend t)) \<noteq> Ok ()"
proof -
  let ?server = "sql_server (\<lambda>_. tool_env) toy_lib toy_config (\<lambda>_. id) ''key'' ''/'' demo_mail_options"
  have ext: "he_externals tool_env = ascii_externals" by (simp add: tool_env_def demo_http_env_def)
  have u: "UserId_new (op_username tool_opts) = UserId ''bob''" by code_simp
  have "tool_token ?server tool_opts demo_server = (Ok ''jwt'', demo_server)" by (simp add: tool_token_def tool_opts_def return_def)
  moreover have "db_inv (ht_backend demo_server)" using demo_server_ok by (simp add: sessions_ok_def)
  moreover have "may_set_password tool_env (sql_app tool_env toy_lib toy_config id ''key'' ''/'' demo_mail_options) demo_server ''jwt'' (UserId ''bob'')"
    by code_simp
  moreover have "url_scheme (op_base_url tool_opts) = ''http''" "8 \<le> length (op_password tool_opts)" "op_password tool_opts = ''new password''"
    by code_simp+
  ultimately obtain t where "set_password_main toy_lib id encode_start ?server tool_opts demo_server = (Ok (), t)"
    "\<forall>rng' pw. fst (sql_bind toy_lib toy_config rng' \<lparr>br_name = UserId ''bob'', br_password = pw\<rparr> (ht_backend t)) = Ok () \<longleftrightarrow> pw = ''new password''"
    using set_password_tool [where envs = "\<lambda>_. tool_env" and lib = toy_lib and cfg = toy_config and rngs = "\<lambda>_. id" and key = "''key''"
        and url = "''/''" and options = demo_mail_options and encode = encode_start and opts = tool_opts and rng = id
        and t = demo_server and t' = demo_server and token = "''jwt''"] toy_ok tool_env_ok
    by (auto simp: ext u)
  then show ?thesis by simp
qed

end
