(* ===== verification/Migration_Tool.thy ===== *)
theory Migration_Tool
  imports Graphql_Reads
begin

text \<open>
  \<open>migration-tool/src\<close>: the program that copies users, groups and memberships of another LDAP server into LLDAP over its
  GraphQL API. The source server (\<open>ldap3\<close>), name resolution, and HTTP with the generated GraphQL queries are third-party
  code: the fields of \<open>ldap_source\<close> and of \<open>lldap_target\<close>. The operator's answers are part of the state, one list per kind
  of question, already validated by the prompt; a prompt fails when its list is empty. What is printed is
  left out; the prompts for URLs are in \<open>Migration_Prompts\<close>.
\<close>

section \<open>The other LDAP server\<close>

text \<open>An entry with its text and binary attributes; the keys are distinct.\<close>

record search_entry =
  en_dn :: string
  en_attrs :: "(string \<times> string list) list"
  en_bin_attrs :: "(string \<times> bytes list) list"

record ldap_source =
  ls_resolves :: "string \<Rightarrow> bool"
    \<comment> \<open>\<open>to_socket_addrs\<close> succeeds\<close>
  ls_simple_bind :: "string \<Rightarrow> string \<Rightarrow> bool"
  ls_search :: "string \<Rightarrow> string \<Rightarrow> string list \<Rightarrow> search_entry list option"
    \<comment> \<open>base, filter and requested attributes\<close>

datatype tool_error =
    PromptClosed
  | UnresolvedHost string
  | SearchFailed
  | MissingAttribute string
  | TooMany string
  | TargetError string

function trim_start_matches :: "string \<Rightarrow> string \<Rightarrow> string" where
  "trim_start_matches pat s =
     (if pat \<noteq> [] \<and> prefix pat s then trim_start_matches pat (drop (length pat) s) else s)"
  by pat_completeness auto

termination
  by (relation "measure (\<lambda>(pat, s). length s)") (auto simp: prefix_def)

fun check_host_exists :: "(string \<Rightarrow> bool) \<Rightarrow> string \<Rightarrow> (string \<times> string) list \<Rightarrow> (string option, tool_error) result" where
  "check_host_exists resolves url [] = Ok None"
| "check_host_exists resolves url ((protocol, port) # rest) =
     (if prefix protocol url
      then let trimmed_url = trim_start_matches protocol url; new_url = trimmed_url @ '':'' @ port in
        if resolves trimmed_url then Ok (Some url)
        else if resolves new_url then Ok (Some (protocol @ new_url))
        else Err (UnresolvedHost trimmed_url)
      else check_host_exists resolves url rest)"

text \<open>The users of the other server, as \<open>User\<close>.\<close>

record imported_user =
  iu_user_input :: create_user_input
  iu_password :: "string option"
  iu_dn :: string

definition required_first :: "search_entry \<Rightarrow> string \<Rightarrow> (string, tool_error) result" where
  "required_first e attr = (case map_of (en_attrs e) attr of
       None \<Rightarrow> Err (MissingAttribute attr)
     | Some [] \<Rightarrow> Err (TooMany attr)
     | Some (v # _) \<Rightarrow> Ok v)"

definition optional_attribute :: "search_entry \<Rightarrow> string \<Rightarrow> string option" where
  "optional_attribute e attr = (case map_of (en_attrs e) attr of Some (v # _) \<Rightarrow> if v \<noteq> [] then Some v else None | _ \<Rightarrow> None)"

fun first_Some :: "'a option list \<Rightarrow> 'a option" where
  "first_Some [] = None"
| "first_Some (Some x # _) = Some x"
| "first_Some (None # l) = first_Some l"

text \<open>\<open>r.or_else(|_| f())\<close>.\<close>

fun result_or_else :: "('a, 'e) result \<Rightarrow> ('a, 'e) result \<Rightarrow> ('a, 'e) result" where
  "result_or_else (Err _) r = r"
| "result_or_else r _ = r"

definition imported_avatar :: "search_entry \<Rightarrow> bytes option" where
  "imported_avatar e =
     (case (case map_of (en_attrs e) ''jpegPhoto'' of Some v \<Rightarrow> Some v | None \<Rightarrow> map_of (en_bin_attrs e) ''jpegPhoto'') of
        Some (v # _) \<Rightarrow> if v \<noteq> [] then Some v else None
      | _ \<Rightarrow> None)"

definition User_try_from :: "externals \<Rightarrow> search_entry \<Rightarrow> (imported_user, tool_error) result" where
  "User_try_from ext e =
     bind_result (result_or_else (result_or_else (required_first e ''uid'') (required_first e ''sAMAccountName''))
       (required_first e ''userPrincipalName'')) (\<lambda>uid.
     bind_result (result_or_else (required_first e ''mail'') (required_first e ''rfc822mailbox'')) (\<lambda>email.
     Ok \<lparr>iu_user_input = \<lparr>cui_id = uid, cui_email = email,
           cui_display_name = first_Some (map (optional_attribute e) [''cn'', ''commonName'', ''name'', ''displayName'']),
           cui_first_name = optional_attribute e ''givenName'',
           cui_last_name = first_Some (map (optional_attribute e) [''sn'', ''surname'']),
           cui_avatar = map_option (base64_encode ext) (imported_avatar e), cui_attributes = None\<rparr>,
         iu_password = first_Some (map (optional_attribute e) [''userPassword'', ''password'']), iu_dn = en_dn e\<rparr>))"

record imported_group =
  ig_name :: string
  ig_members :: "string list"

definition required_single :: "search_entry \<Rightarrow> string \<Rightarrow> (string, tool_error) result" where
  "required_single e attr = (case map_of (en_attrs e) attr of
       None \<Rightarrow> Err (MissingAttribute attr)
     | Some vs \<Rightarrow> if 1 < length vs then Err (TooMany attr) else case vs of [] \<Rightarrow> Panic | v # _ \<Rightarrow> Ok v)"

definition LdapGroup_try_from :: "search_entry \<Rightarrow> (imported_group, tool_error) result" where
  "LdapGroup_try_from e =
     bind_result (result_or_else (result_or_else (result_or_else (required_single e ''cn'') (required_single e ''commonName''))
       (required_single e ''displayName'')) (required_single e ''name'')) (\<lambda>name.
     Ok \<lparr>ig_name = name,
         ig_members = (case first_Some (map (map_of (en_attrs e)) [''member'', ''uniqueMember'']) of None \<Rightarrow> [] | Some ms \<Rightarrow> ms)\<rparr>)"

section \<open>The operator\<close>

datatype choice = Skip | Retry | SkipGroup | SkipAll | Abort

record 's tool_state =
  ts_target :: 's
  ts_confirms :: "bool list"
  ts_texts :: "string list"
  ts_choices :: "choice list"

type_synonym ('s, 'a) tool_action = "('s tool_state, 'a, tool_error) action"

definition ask_generic_confirmation :: "('s, bool) tool_action" where
  "ask_generic_confirmation s = (case ts_confirms s of
       [] \<Rightarrow> (Err PromptClosed, s)
     | b # bs \<Rightarrow> (Ok b, s\<lparr>ts_confirms := bs\<rparr>))"

definition ask_text :: "('s, string) tool_action" where
  "ask_text s = (case ts_texts s of
       [] \<Rightarrow> (Err PromptClosed, s)
     | t # ts \<Rightarrow> (Ok t, s\<lparr>ts_texts := ts\<rparr>))"

text \<open>\<open>bind_ldap\<close>: asks for a DN and a password until the bind succeeds.\<close>

fun bind_ldap :: "ldap_source \<Rightarrow> string list \<Rightarrow> (string, tool_error) result \<times> string list" where
  "bind_ldap src (binddn # password # texts) =
     (if ls_simple_bind src binddn password then (Ok binddn, texts) else bind_ldap src texts)"
| "bind_ldap src texts = (Err PromptClosed, [])"

text \<open>The index of the first occurrence of a pattern.\<close>

fun find_substring :: "string \<Rightarrow> string \<Rightarrow> nat option" where
  "find_substring pat [] = (if pat = [] then Some 0 else None)"
| "find_substring pat (c # cs) = (if prefix pat (c # cs) then Some 0 else map_option Suc (find_substring pat cs))"

text \<open>\<open>get_ldap_connection\<close>, after the URL: the domain of the bind DN.\<close>

definition get_ldap_connection :: "ldap_source \<Rightarrow> ('s, string) tool_action" where
  "get_ldap_connection src s =
     (case bind_ldap src (ts_texts s) of
        (Ok bind_dn, texts) \<Rightarrow> (case find_substring '',dc='' bind_dn of
            None \<Rightarrow> (Panic, s\<lparr>ts_texts := texts\<rparr>)
          | Some i \<Rightarrow> (Ok (drop (i + 1) bind_dn), s\<lparr>ts_texts := texts\<rparr>))
      | (Err e, texts) \<Rightarrow> (Err e, s\<lparr>ts_texts := texts\<rparr>)
      | (Panic, texts) \<Rightarrow> (Panic, s\<lparr>ts_texts := texts\<rparr>))"

text \<open>The base of a search: the reply below the domain.\<close>

definition full_ou :: "string \<Rightarrow> string \<Rightarrow> string" where
  "full_ou domain reply = (if suffix domain reply then reply else if reply \<noteq> [] then reply @ '','' @ domain else domain)"

datatype ou_type = OuUser | OuGroup

text \<open>\<open>detect_ou\<close>: the last organizational unit whose DN looks right, which is the default answer, and all of them.\<close>

definition detect_ou :: "ldap_source \<Rightarrow> string \<Rightarrow> ou_type \<Rightarrow> (string option \<times> string list, tool_error) result" where
  "detect_ou src domain for_type =
     (case ls_search src domain ''(objectClass=organizationalUnit)'' [''dn''] of
        None \<Rightarrow> Err SearchFailed
      | Some ous \<Rightarrow>
          let dns = map en_dn ous;
              fits = (\<lambda>dn. case for_type of
                  OuUser \<Rightarrow> contains dn ''user'' \<or> contains dn ''people'' \<or> contains dn ''person''
                | OuGroup \<Rightarrow> contains dn ''group'')
          in Ok (case rev (filter fits dns) of [] \<Rightarrow> None | dn # _ \<Rightarrow> Some dn, dns))"

definition user_search_filter :: string where
  "user_search_filter = ''(|(objectClass=inetOrgPerson)(objectClass=person)(objectClass=mailAccount)'' @
     ''(objectClass=posixAccount)(objectClass=user)(objectClass=organizationalPerson))''"

definition user_search_attributes :: "string list" where
  "user_search_attributes = [''uid'', ''sAMAccountName'', ''userPrincipalName'', ''mail'', ''rfc822mailbox'', ''givenName'', ''sn'',
     ''surname'', ''cn'', ''commonName'', ''displayName'', ''name'', ''userPassword'']"

definition get_users :: "externals \<Rightarrow> ldap_source \<Rightarrow> string \<Rightarrow> ('s, imported_user list) tool_action" where
  "get_users ext src domain =
     bind (lift_result (detect_ou src domain OuUser)) (\<lambda>_.
     bind ask_text (\<lambda>reply.
     lift_result (case ls_search src (full_ou domain reply) user_search_filter user_search_attributes of
         None \<Rightarrow> Err SearchFailed
       | Some users \<Rightarrow> collect_results (User_try_from ext) users)))"

definition group_search_filter :: string where
  "group_search_filter = ''(|(objectClass=group)(objectClass=groupOfNames)(objectClass=groupOfUniqueNames))''"

definition get_groups :: "ldap_source \<Rightarrow> string \<Rightarrow> ('s, imported_group list) tool_action" where
  "get_groups src domain =
     bind (lift_result (detect_ou src domain OuGroup)) (\<lambda>_.
     bind ask_text (\<lambda>reply.
     lift_result (case ls_search src (full_ou domain reply) group_search_filter
           [''cn'', ''commonName'', ''displayName'', ''name'', ''member'', ''uniqueMember''] of
         None \<Rightarrow> Err SearchFailed
       | Some entries \<Rightarrow> collect_results LdapGroup_try_from entries)))"

section \<open>The LLDAP server\<close>

record lldap_group =
  lg_id :: int
  lg_display_name :: string
  lg_users :: "string list"

record 's lldap_target =
  lt_list_users :: "('s, string list, string) action"
  lt_list_groups :: "('s, lldap_group list, string) action"
  lt_create_user :: "create_user_input \<Rightarrow> ('s, string, string) action"
  lt_create_group :: "string \<Rightarrow> ('s, int, string) action"
  lt_add_user_to_group :: "string \<Rightarrow> int \<Rightarrow> ('s, unit, string) action"

definition on_target :: "('s, 'a, string) action \<Rightarrow> ('s, 'a) tool_action" where
  "on_target m s = (case m (ts_target s) of (r, t) \<Rightarrow> (map_err TargetError r, s\<lparr>ts_target := t\<rparr>))"

text \<open>
  The loop around a request: after an error the operator skips, tries again or aborts, unless everything is skipped.
  Each round uses up an answer.
\<close>

datatype 'a attempt_outcome = Added 'a | SkipOne | SkipThisGroup | SkipEvery

fun attempt_loop ::
  "('s, 'a, string) action \<Rightarrow> bool \<Rightarrow> choice list \<Rightarrow> 's \<Rightarrow> ('a attempt_outcome, tool_error) result \<times> choice list \<times> 's" where
  "attempt_loop post skip choices s =
     (case post s of
        (Ok x, t) \<Rightarrow> (Ok (Added x), choices, t)
      | (Panic, t) \<Rightarrow> (Panic, choices, t)
      | (Err e, t) \<Rightarrow>
          if skip then (Ok SkipOne, choices, t)
          else (case choices of
              [] \<Rightarrow> (Err PromptClosed, [], t)
            | Skip # cs \<Rightarrow> (Ok SkipOne, cs, t)
            | Retry # cs \<Rightarrow> attempt_loop post skip cs t
            | SkipGroup # cs \<Rightarrow> (Ok SkipThisGroup, cs, t)
            | SkipAll # cs \<Rightarrow> (Ok SkipEvery, cs, t)
            | Abort # cs \<Rightarrow> (Err (TargetError e), cs, t)))"

declare attempt_loop.simps [simp del]

definition attempt :: "('s, 'a, string) action \<Rightarrow> bool \<Rightarrow> ('s, 'a attempt_outcome) tool_action" where
  "attempt post skip s = (case attempt_loop post skip (ts_choices s) (ts_target s) of
       (r, cs, t) \<Rightarrow> (r, s\<lparr>ts_choices := cs, ts_target := t\<rparr>))"

text \<open>The users that were added extend the list of known ones; \<open>SkipGroup\<close> is not offered here.\<close>

fun insert_users_into_lldap ::
  "'s lldap_target \<Rightarrow> bool \<Rightarrow> imported_user list \<Rightarrow> string list \<Rightarrow> ('s, string list) tool_action" where
  "insert_users_into_lldap target skip_all [] existing = return existing"
| "insert_users_into_lldap target skip_all (u # us) existing =
     bind (attempt (lt_create_user target (iu_user_input u)) skip_all) (\<lambda>r. case r of
         Added uid \<Rightarrow> insert_users_into_lldap target skip_all us (existing @ [uid])
       | SkipOne \<Rightarrow> insert_users_into_lldap target skip_all us existing
       | SkipEvery \<Rightarrow> insert_users_into_lldap target True us existing
       | SkipThisGroup \<Rightarrow> lift_result Panic)"

fun insert_new_groups ::
  "'s lldap_target \<Rightarrow> bool \<Rightarrow> imported_group list \<Rightarrow> lldap_group list \<Rightarrow> ('s, lldap_group list) tool_action" where
  "insert_new_groups target skip_all [] existing = return existing"
| "insert_new_groups target skip_all (g # gs) existing =
     bind (attempt (lt_create_group target (ig_name g)) skip_all) (\<lambda>r. case r of
         Added i \<Rightarrow> insert_new_groups target skip_all gs (existing @ [\<lparr>lg_id = i, lg_display_name = ig_name g, lg_users = []\<rparr>])
       | SkipOne \<Rightarrow> insert_new_groups target skip_all gs existing
       | SkipEvery \<Rightarrow> insert_new_groups target True gs existing
       | SkipThisGroup \<Rightarrow> lift_result Panic)"

definition new_groups :: "imported_group list \<Rightarrow> lldap_group list \<Rightarrow> imported_group list" where
  "new_groups gs existing = filter (\<lambda>g. ig_name g \<notin> set (map lg_display_name existing)) gs"

definition insert_groups_into_lldap ::
  "'s lldap_target \<Rightarrow> imported_group list \<Rightarrow> lldap_group list \<Rightarrow> ('s, lldap_group list) tool_action" where
  "insert_groups_into_lldap target gs existing = insert_new_groups target False (new_groups gs existing) existing"

text \<open>The members of one group; the result tells whether everything is skipped from now on.\<close>

fun insert_members ::
  "'s lldap_target \<Rightarrow> (string \<Rightarrow> string option) \<Rightarrow> string list \<Rightarrow> lldap_group \<Rightarrow> bool \<Rightarrow> bool \<Rightarrow> string list \<Rightarrow> ('s, bool) tool_action" where
  "insert_members target dn_resolver existing_users g skip_all skip_group [] = return skip_all"
| "insert_members target dn_resolver existing_users g skip_all skip_group (dn # dns) =
     (case dn_resolver dn of
        None \<Rightarrow> insert_members target dn_resolver existing_users g skip_all skip_group dns
      | Some user \<Rightarrow>
          if user \<in> set (lg_users g) \<or> user \<notin> set existing_users
          then insert_members target dn_resolver existing_users g skip_all skip_group dns
          else bind (attempt (lt_add_user_to_group target user (lg_id g)) (skip_all \<or> skip_group)) (\<lambda>r. case r of
              SkipThisGroup \<Rightarrow> insert_members target dn_resolver existing_users g skip_all True dns
            | SkipEvery \<Rightarrow> insert_members target dn_resolver existing_users g True skip_group dns
            | _ \<Rightarrow> insert_members target dn_resolver existing_users g skip_all skip_group dns))"

text \<open>Later entries of a hash map built from a list win, hence \<open>rev\<close>.\<close>

fun insert_memberships ::
  "'s lldap_target \<Rightarrow> (string \<Rightarrow> string option) \<Rightarrow> string list \<Rightarrow> (string \<Rightarrow> lldap_group option) \<Rightarrow> bool \<Rightarrow> imported_group list
   \<Rightarrow> ('s, unit) tool_action" where
  "insert_memberships target dn_resolver existing_users existing_groups skip_all [] = return ()"
| "insert_memberships target dn_resolver existing_users existing_groups skip_all (g # gs) =
     (case existing_groups (ig_name g) of
        None \<Rightarrow> insert_memberships target dn_resolver existing_users existing_groups skip_all gs
      | Some l \<Rightarrow> bind (insert_members target dn_resolver existing_users l skip_all False (ig_members g)) (\<lambda>skip_all'.
          insert_memberships target dn_resolver existing_users existing_groups skip_all' gs))"

definition insert_group_memberships_into_lldap ::
  "'s lldap_target \<Rightarrow> imported_user list \<Rightarrow> imported_group list \<Rightarrow> string list \<Rightarrow> lldap_group list \<Rightarrow> ('s, unit) tool_action" where
  "insert_group_memberships_into_lldap target ldap_users ldap_groups existing_users existing_groups =
     insert_memberships target (map_of (rev (map (\<lambda>u. (iu_dn u, cui_id (iu_user_input u))) ldap_users))) existing_users
       (map_of (rev (map (\<lambda>g. (lg_display_name g, g)) existing_groups))) False ldap_groups"

section \<open>The program\<close>

definition get_users_to_add :: "imported_user list \<Rightarrow> string list \<Rightarrow> ('s, imported_user list option) tool_action" where
  "get_users_to_add users existing_users =
     (let input_users = filter (\<lambda>u. cui_id (iu_user_input u) \<notin> set existing_users) users in
      if input_users = [] then return None
      else bind ask_generic_confirmation (\<lambda>b. return (if b then Some input_users else None)))"

definition should_insert_groups :: "imported_group list \<Rightarrow> lldap_group list \<Rightarrow> ('s, bool) tool_action" where
  "should_insert_groups input_groups existing_groups =
     (if new_groups input_groups existing_groups = [] then return False else ask_generic_confirmation)"

definition migrate_groups ::
  "'s lldap_target \<Rightarrow> ldap_source \<Rightarrow> string \<Rightarrow> ('s, (imported_group list \<times> lldap_group list) option) tool_action" where
  "migrate_groups target src domain =
     bind ask_generic_confirmation (\<lambda>b.
     if \<not> b then return None
     else bind (on_target (lt_list_groups target)) (\<lambda>existing.
       bind (get_groups src domain) (\<lambda>ldap_groups.
       bind (should_insert_groups ldap_groups existing) (\<lambda>insert.
       bind (if insert then insert_groups_into_lldap target ldap_groups existing else return existing) (\<lambda>existing'.
       return (Some (ldap_groups, existing')))))))"

definition migrate_users ::
  "externals \<Rightarrow> 's lldap_target \<Rightarrow> ldap_source \<Rightarrow> string \<Rightarrow> ('s, (imported_user list \<times> string list) option) tool_action" where
  "migrate_users ext target src domain =
     bind ask_generic_confirmation (\<lambda>b.
     if \<not> b then return None
     else bind (on_target (lt_list_users target)) (\<lambda>existing.
       bind (get_users ext src domain) (\<lambda>users.
       bind (get_users_to_add users existing) (\<lambda>to_add.
       bind (case to_add of Some us \<Rightarrow> insert_users_into_lldap target False us existing | None \<Rightarrow> return existing) (\<lambda>existing'.
       return (Some (users, existing')))))))"

definition migrate_memberships ::
  "externals \<Rightarrow> 's lldap_target \<Rightarrow> ldap_source \<Rightarrow> string \<Rightarrow> (imported_user list \<times> string list) option
   \<Rightarrow> (imported_group list \<times> lldap_group list) option \<Rightarrow> ('s, unit) tool_action" where
  "migrate_memberships ext target src domain user_list group_list =
     bind (case user_list of Some (us, _) \<Rightarrow> return us | None \<Rightarrow> get_users ext src domain) (\<lambda>ldap_users.
     bind (case group_list of Some (gs, _) \<Rightarrow> return gs | None \<Rightarrow> get_groups src domain) (\<lambda>ldap_groups.
     bind (case group_list of Some (_, gs) \<Rightarrow> return gs | None \<Rightarrow> on_target (lt_list_groups target)) (\<lambda>existing_groups.
     bind (case user_list of Some (_, us) \<Rightarrow> return us | None \<Rightarrow> on_target (lt_list_users target)) (\<lambda>existing_users.
     insert_group_memberships_into_lldap target ldap_users ldap_groups existing_users existing_groups))))"

definition migration_main :: "externals \<Rightarrow> 's lldap_target \<Rightarrow> ldap_source \<Rightarrow> ('s, unit) tool_action" where
  "migration_main ext target src =
     bind ask_generic_confirmation (\<lambda>ready.
     if \<not> ready then return ()
     else bind (get_ldap_connection src) (\<lambda>domain.
       bind (migrate_users ext target src domain) (\<lambda>user_list.
       bind (migrate_groups target src domain) (\<lambda>group_list.
       bind ask_generic_confirmation (\<lambda>memberships.
       if memberships then migrate_memberships ext target src domain user_list group_list else return ())))))"

end
