(* ===== verification/Migration_Run.thy ===== *)
theory Migration_Run
  imports Migration_Tool
begin

text \<open>
  What a run of the migration tool does to the LLDAP server it writes to. The client's reasoning is the locale
  \<open>import_run\<close>, over any target that keeps a state predicate; it is interpreted on the GraphQL API over the SQL backend.
\<close>

section \<open>Actions with a predicate on their result\<close>

definition gives :: "('s \<Rightarrow> bool) \<Rightarrow> ('a \<Rightarrow> bool) \<Rightarrow> ('s, 'a, 'e) action \<Rightarrow> bool" where
  "gives P R m \<longleftrightarrow> (\<forall>s. P s \<longrightarrow> P (snd (m s)) \<and> (\<forall>x. fst (m s) = Ok x \<longrightarrow> R x))"

named_theorems gives_intros \<open>rules for the results of actions\<close>

lemma givesI: "(\<And>s r t. P s \<Longrightarrow> m s = (r, t) \<Longrightarrow> P t \<and> (\<forall>x. r = Ok x \<longrightarrow> R x)) \<Longrightarrow> gives P R m"
  by (auto simp: gives_def intro: prod.collapse [symmetric])

lemma givesD: "gives P R m \<Longrightarrow> P s \<Longrightarrow> m s = (r, t) \<Longrightarrow> P t \<and> (\<forall>x. r = Ok x \<longrightarrow> R x)"
  by (metis gives_def fst_conv snd_conv)

lemma gives_return [gives_intros]: "R x \<Longrightarrow> gives P R (return x)"
  by (simp add: gives_def return_def)

lemma gives_lift [gives_intros]: "(\<And>x. r = Ok x \<Longrightarrow> R x) \<Longrightarrow> gives P R (lift_result r)"
  by (simp add: gives_def lift_result_def)

lemma gives_bind:
  assumes "gives P R m" and "\<And>x. R x \<Longrightarrow> gives P Q (f x)"
  shows "gives P Q (bind m f)"
proof (rule givesI)
  fix s r t assume "P s" and run: "bind m f s = (r, t)"
  obtain r1 s1 where m: "m s = (r1, s1)" by fastforce
  note keep = givesD [OF assms(1) \<open>P s\<close> m]
  show "P t \<and> (\<forall>x. r = Ok x \<longrightarrow> Q x)"
  proof (cases r1)
    case (Ok x)
    with keep run m givesD [OF assms(2), of x s1 r t] show ?thesis by (simp add: bind_def)
  qed (use run m keep in \<open>auto simp: bind_def\<close>)
qed

lemma gives_if [gives_intros]: "(b \<Longrightarrow> gives P R m) \<Longrightarrow> (\<not> b \<Longrightarrow> gives P R n) \<Longrightarrow> gives P R (if b then m else n)"
  by simp

lemma gives_preserves: "preserves P m \<Longrightarrow> gives P (\<lambda>_. True) m"
  by (simp add: gives_def preserves_def)

lemma gives_preservesD: "gives P R m \<Longrightarrow> preserves P m"
  by (simp add: gives_def preserves_def)

lemma gives_any: "gives P R m \<Longrightarrow> gives P (\<lambda>_. True) m"
  by (simp add: gives_def)

lemma collect_results_set: "collect_results f xs = Ok ys \<Longrightarrow> y \<in> set ys \<Longrightarrow> \<exists>x\<in>set xs. f x = Ok y"
  unfolding collect_results_Ok_iff by (induction rule: list_all2_induct) auto

text \<open>The identifiers of the users that the other server can return.\<close>

definition sourced_from :: "externals \<Rightarrow> ldap_source \<Rightarrow> string \<Rightarrow> bool" where
  "sourced_from ext src uid \<longleftrightarrow> (\<exists>base entries e u. ls_search src base user_search_filter user_search_attributes = Some entries
     \<and> e \<in> set entries \<and> User_try_from ext e = Ok u \<and> cui_id (iu_user_input u) = uid)"

section \<open>The client\<close>

text \<open>
  A target that keeps \<open>P\<close>: the identifiers it returns are \<open>shown\<close>, and it keeps \<open>P\<close> for a membership only when the
  identifier is one of these and comes from the other server.
\<close>

locale import_run =
  fixes target :: "'s lldap_target" and P :: "'s \<Rightarrow> bool" and shown :: "string \<Rightarrow> bool" and sourced :: "string \<Rightarrow> bool"
  assumes list_users_gives: "gives P (\<lambda>us. \<forall>u\<in>set us. shown u) (lt_list_users target)"
    and list_groups_keeps: "preserves P (lt_list_groups target)"
    and create_user_gives: "gives P shown (lt_create_user target ui)"
    and create_group_keeps: "preserves P (lt_create_group target n)"
    and add_user_keeps: "shown u \<Longrightarrow> sourced u \<Longrightarrow> preserves P (lt_add_user_to_group target u g)"
begin

abbreviation held :: "'s tool_state \<Rightarrow> bool" where
  "held s \<equiv> P (ts_target s)"

lemma on_target_gives: "gives P R m \<Longrightarrow> gives held R (on_target m)"
  by (auto simp: gives_def on_target_def split: prod.splits)

lemma ask_gives: "gives held (\<lambda>_. True) ask_generic_confirmation" "gives held (\<lambda>_. True) ask_text"
  by (auto simp: gives_def ask_generic_confirmation_def ask_text_def split: list.split)

lemma attempt_loop_gives:
  "gives P R post \<Longrightarrow> P s \<Longrightarrow> attempt_loop post skip cs s = (r, cs', t) \<Longrightarrow> P t \<and> (\<forall>x. r = Ok (Added x) \<longrightarrow> R x)"
proof (induction post skip cs s arbitrary: r cs' t rule: attempt_loop.induct)
  case (1 post skip choices s)
  obtain q w where post: "post s = (q, w)" by fastforce
  note keep = givesD [OF 1(2,3) post]
  show ?case
  proof (cases q)
    case (Err e)
    show ?thesis
    proof (cases "\<not> skip \<and> (\<exists>cs. choices = Retry # cs)")
      case True
      then obtain cs where cs: "\<not> skip" "choices = Retry # cs" by blast
      have "attempt_loop post skip cs w = (r, cs', t)"
        using 1(4) post Err cs by (subst (asm) attempt_loop.simps) simp
      with 1(1) [OF post [symmetric] Err cs(1) cs(2)] 1(2) keep show ?thesis by simp
    next
      case False
      with 1(4) post Err keep show ?thesis
        by (subst (asm) attempt_loop.simps) (auto split: if_splits list.splits choice.splits)
    qed
  qed (use 1(4) post keep in \<open>auto simp: attempt_loop.simps\<close>)
qed

lemma attempt_gives: "gives P R post \<Longrightarrow> gives held (\<lambda>r. \<forall>x. r = Added x \<longrightarrow> R x) (attempt post skip)"
  by (rule givesI) (auto simp: attempt_def split: prod.splits dest!: attempt_loop_gives)

lemma insert_users_gives:
  "\<forall>u\<in>set existing. shown u
     \<Longrightarrow> gives held (\<lambda>us. \<forall>u\<in>set us. shown u) (insert_users_into_lldap target skip us existing)"
proof (induction us arbitrary: skip existing)
  case (Cons u us)
  show ?case unfolding insert_users_into_lldap.simps
    by (rule gives_bind [OF attempt_gives [OF create_user_gives]])
       (auto split: attempt_outcome.split intro!: Cons.IH gives_lift simp: Cons.prems)
qed (simp add: gives_intros)

lemma insert_new_groups_gives: "gives held (\<lambda>_. True) (insert_new_groups target skip gs existing)"
proof (induction gs arbitrary: skip existing)
  case (Cons g gs)
  show ?case unfolding insert_new_groups.simps
    by (rule gives_bind [OF attempt_gives [OF gives_preserves [OF create_group_keeps]]])
       (auto split: attempt_outcome.split intro!: Cons.IH gives_lift)
qed (simp add: gives_intros)

lemma insert_members_gives:
  assumes "\<forall>u\<in>set existing. shown u" and "\<And>dn u. resolver dn = Some u \<Longrightarrow> sourced u"
  shows "gives held (\<lambda>_. True) (insert_members target resolver existing g skip_all skip_group dns)"
proof (induction dns arbitrary: skip_all skip_group)
  case (Cons dn dns)
  have add: "gives held (\<lambda>r. \<forall>x. r = Added x \<longrightarrow> True) (attempt (lt_add_user_to_group target u (lg_id g)) skip)"
    if "resolver dn = Some u" "u \<in> set existing" for u skip
    by (rule attempt_gives [OF gives_preserves [OF add_user_keeps]]) (use assms that in auto)
  show ?case unfolding insert_members.simps
    by (auto split: option.split attempt_outcome.split intro!: Cons.IH gives_bind [OF add])
qed (simp add: gives_intros)

lemma insert_memberships_gives:
  assumes "\<forall>u\<in>set existing. shown u" and "\<And>dn u. resolver dn = Some u \<Longrightarrow> sourced u"
  shows "gives held (\<lambda>_. True) (insert_memberships target resolver existing groups skip_all gs)"
proof (induction gs arbitrary: skip_all)
  case (Cons g gs)
  show ?case unfolding insert_memberships.simps
    by (auto split: option.split intro!: Cons.IH gives_bind [OF insert_members_gives [OF assms]])
qed (simp add: gives_intros)

lemma get_users_gives:
  assumes "\<And>u. sourced_from ext src u \<Longrightarrow> sourced u"
  shows "gives held (\<lambda>us. \<forall>u\<in>set us. sourced (cui_id (iu_user_input u))) (get_users ext src domain)"
  unfolding get_users_def
proof (rule gives_bind [where R = "\<lambda>_. True"], rule gives_lift, simp, rule gives_bind [OF ask_gives(2)], rule gives_lift, intro ballI)
  fix reply us u
  assume "(case ls_search src (full_ou domain reply) user_search_filter user_search_attributes of None \<Rightarrow> Err SearchFailed
    | Some users \<Rightarrow> collect_results (User_try_from ext) users) = Ok us" and "u \<in> set us"
  then obtain es e where "ls_search src (full_ou domain reply) user_search_filter user_search_attributes = Some es"
    "e \<in> set es" "User_try_from ext e = Ok u"
    by (auto split: option.splits dest: collect_results_set)
  then show "sourced (cui_id (iu_user_input u))" by (intro assms) (auto simp: sourced_from_def)
qed

lemma get_groups_gives: "gives held (\<lambda>_. True) (get_groups src domain)"
  unfolding get_groups_def
  by (rule gives_bind [where R = "\<lambda>_. True"] gives_lift ask_gives | simp)+

abbreviation users_fit :: "(imported_user list \<times> string list) option \<Rightarrow> bool" where
  "users_fit l \<equiv> \<forall>us existing. l = Some (us, existing) \<longrightarrow>
     (\<forall>u\<in>set us. sourced (cui_id (iu_user_input u))) \<and> (\<forall>u\<in>set existing. shown u)"

lemma migrate_users_gives:
  assumes "\<And>u. sourced_from ext src u \<Longrightarrow> sourced u"
  shows "gives held users_fit (migrate_users ext target src domain)"
proof -
  have to_add: "gives held (\<lambda>_. True) (get_users_to_add us existing)" for us existing
    unfolding get_users_to_add_def Let_def by (auto intro!: gives_intros gives_bind [OF ask_gives(1)])
  have insert: "gives held (\<lambda>us. \<forall>u\<in>set us. shown u)
      (case x of Some us \<Rightarrow> insert_users_into_lldap target False us existing | None \<Rightarrow> return existing)"
    if "\<forall>u\<in>set existing. shown u" for x existing
    using that by (cases x) (auto intro: insert_users_gives gives_return)
  show ?thesis unfolding migrate_users_def
    by (rule gives_bind [OF ask_gives(1)] gives_if gives_bind [OF on_target_gives [OF list_users_gives]]
          gives_bind [OF get_users_gives [OF assms]] gives_bind [OF to_add] gives_bind [OF insert] gives_return
        | assumption | simp)+
qed

lemma migrate_groups_gives: "gives held (\<lambda>_. True) (migrate_groups target src domain)"
proof -
  have should: "gives held (\<lambda>_. True) (should_insert_groups gs existing)" for gs existing
    unfolding should_insert_groups_def by (auto intro!: gives_intros ask_gives)
  have insert: "gives held (\<lambda>_. True) (if b then insert_groups_into_lldap target gs existing else return existing)" for b gs existing
    by (auto simp: insert_groups_into_lldap_def intro: insert_new_groups_gives gives_return)
  show ?thesis unfolding migrate_groups_def
    by (rule gives_bind [OF ask_gives(1)] gives_if gives_bind [OF on_target_gives [OF gives_preserves [OF list_groups_keeps]]]
          gives_bind [OF get_groups_gives] gives_bind [OF should] gives_bind [OF insert] gives_return | simp)+
qed

lemma migrate_memberships_gives:
  assumes sourced: "\<And>u. sourced_from ext src u \<Longrightarrow> sourced u" and fit: "users_fit user_list"
  shows "gives held (\<lambda>_. True) (migrate_memberships ext target src domain user_list group_list)"
proof -
  have users: "gives held (\<lambda>us. \<forall>u\<in>set us. sourced (cui_id (iu_user_input u)))
      (case user_list of Some (us, _) \<Rightarrow> return us | None \<Rightarrow> get_users ext src domain)"
    using fit by (auto split: option.split prod.split intro: gives_return get_users_gives [OF sourced])
  have existing: "gives held (\<lambda>us. \<forall>u\<in>set us. shown u)
      (case user_list of Some (_, us) \<Rightarrow> return us | None \<Rightarrow> on_target (lt_list_users target))"
    using fit by (auto split: option.split prod.split intro: gives_return on_target_gives [OF list_users_gives])
  have groups: "gives held (\<lambda>_. True) (case group_list of Some (gs, _) \<Rightarrow> return gs | None \<Rightarrow> get_groups src domain)"
    "gives held (\<lambda>_. True) (case group_list of Some (_, gs) \<Rightarrow> return gs | None \<Rightarrow> on_target (lt_list_groups target))"
    by (auto split: option.split prod.split intro: gives_return get_groups_gives on_target_gives [OF gives_preserves [OF list_groups_keeps]])
  have resolved: "sourced u" if "\<forall>u\<in>set us. sourced (cui_id (iu_user_input u))"
    "map_of (rev (map (\<lambda>u. (iu_dn u, cui_id (iu_user_input u))) us)) dn = Some u" for us dn u
    using that by (auto dest!: map_of_SomeD)
  show ?thesis unfolding migrate_memberships_def insert_group_memberships_into_lldap_def
    by (rule gives_bind [OF users] gives_bind [OF groups(1)] gives_bind [OF groups(2)] gives_bind [OF existing]
          insert_memberships_gives resolved | assumption)+
qed

lemma get_ldap_connection_gives: "gives held (\<lambda>_. True) (get_ldap_connection src)"
  by (rule givesI) (auto simp: get_ldap_connection_def split: prod.splits result.splits option.splits)

lemma migration_main_gives:
  assumes "\<And>u. sourced_from ext src u \<Longrightarrow> sourced u"
  shows "gives held (\<lambda>_. True) (migration_main ext target src)"
  unfolding migration_main_def
  by (rule gives_bind [OF ask_gives(1)] gives_if gives_return TrueI gives_bind [OF get_ldap_connection_gives]
      gives_bind [OF migrate_users_gives [OF assms]] gives_bind [OF migrate_groups_gives]
      migrate_memberships_gives assms | assumption)+

end

section \<open>The LLDAP server\<close>

text \<open>
  The requests as calls of the GraphQL API, with the fields that the queries of the tool select; the text of an error is
  rendered by \<open>render\<close>. The session of the tool is that of the user who logged in.
\<close>

fun with_members :: "'s graphql_context \<Rightarrow> gql_group list \<Rightarrow> ('s, lldap_group list) field_action" where
  "with_members cx [] = return []"
| "with_members cx (g # gs) = bind (group_users cx g) (\<lambda>us. bind (with_members cx gs) (\<lambda>rest.
     return (\<lparr>lg_id = gg_group_id g, lg_display_name = gg_display_name g,
       lg_users = map (\<lambda>u. UserId_as_str (u_user_id (gu_user u))) us\<rparr> # rest)))"

definition graphql_target :: "(field_error \<Rightarrow> string) \<Rightarrow> externals \<Rightarrow> 's graphql_context \<Rightarrow> 's lldap_target" where
  "graphql_target render ext cx = \<lparr>
     lt_list_users = map_err_action render (bind (query_users ext cx None) (\<lambda>us.
       return (map (\<lambda>u. UserId_as_str (u_user_id (gu_user u))) us))),
     lt_list_groups = map_err_action render (bind (query_groups cx) (with_members cx)),
     lt_create_user = (\<lambda>user. map_err_action render (bind (mutation_create_user ext cx user) (\<lambda>u.
       return (UserId_as_str (u_user_id (gu_user u)))))),
     lt_create_group = (\<lambda>name. map_err_action render (bind (mutation_create_group ext cx name) (\<lambda>g. return (gg_group_id g)))),
     lt_add_user_to_group = (\<lambda>user g. map_err_action render (bind (mutation_add_user_to_group cx user g) (\<lambda>_. return ())))\<rparr>"

text \<open>Every row is kept as it is.\<close>

definition extends :: "db \<Rightarrow> db \<Rightarrow> bool" where
  "extends s t \<longleftrightarrow> set (db_users s) \<subseteq> set (db_users t) \<and> set (db_groups s) \<subseteq> set (db_groups t)
     \<and> set (db_memberships s) \<subseteq> set (db_memberships t) \<and> set (db_user_attributes s) \<subseteq> set (db_user_attributes t)
     \<and> set (db_group_attributes s) \<subseteq> set (db_group_attributes t) \<and> db_user_attribute_schema t = db_user_attribute_schema s
     \<and> db_group_attribute_schema t = db_group_attribute_schema s \<and> db_user_object_classes t = db_user_object_classes s
     \<and> db_group_object_classes t = db_group_object_classes s \<and> db_jwt_refresh_storage t = db_jwt_refresh_storage s
     \<and> db_jwt_storage t = db_jwt_storage s \<and> db_password_reset_tokens t = db_password_reset_tokens s"

definition users_wf :: "db \<Rightarrow> bool" where
  "users_wf s \<longleftrightarrow> list_all (\<lambda>r. wf_user_id (usr_user_id r)) (db_users s)"

text \<open>What holds of the server during an import that started from \<open>s0\<close>.\<close>

definition imported_onto :: "db \<Rightarrow> (string \<Rightarrow> bool) \<Rightarrow> db \<Rightarrow> bool" where
  "imported_onto s0 sourced t \<longleftrightarrow> db_inv t \<and> users_wf t \<and> extends s0 t
     \<and> (\<forall>m\<in>set (db_memberships t). m \<in> set (db_memberships s0)
          \<or> wf_user_id (mem_user_id m) \<and> sourced (UserId_as_str (mem_user_id m)))"

lemma row_ops_import:
  "wf_user_id (usr_user_id r) \<Longrightarrow> preserves (imported_onto s0 src) (sql_insert_user r)"
  "preserves (imported_onto s0 src) (sql_insert_user_attribute a)"
  "preserves (imported_onto s0 src) (sql_insert_group gn l d i)"
  "preserves (imported_onto s0 src) (sql_insert_group_attribute b)"
  "wf_user_id (mem_user_id m) \<Longrightarrow> src (UserId_as_str (mem_user_id m)) \<Longrightarrow> preserves (imported_onto s0 src) (sql_insert_membership m)"
  using preservesD [OF sql_insert_user_inv] preservesD [OF sql_insert_user_attribute_inv] preservesD [OF sql_insert_group_inv]
    preservesD [OF sql_insert_group_attribute_inv] preservesD [OF sql_insert_membership_inv]
  by (auto intro!: preservesI simp: imported_onto_def users_wf_def extends_def sql_insert_user_def sql_insert_user_attribute_def
      sql_insert_group_def sql_insert_group_attribute_def sql_insert_membership_def monad_simps Let_def)

lemma sql_ops_import:
  "wf_user_id (cu_user_id r) \<Longrightarrow> preserves (imported_onto s0 src) (create_user ext now r)"
  "preserves (imported_onto s0 src) (create_group ext now q)"
  by (auto simp: create_user_def create_group_def new_user_row_def Let_def intro!: preserves_intros row_ops_import)

lemma on_handler_keeps [preserves_intros]: "preserves P m \<Longrightarrow> preserves P (on_handler m)"
  by (simp add: on_handler_def preserves_intros)

lemma pure_keeps: "(\<And>s. snd (m s) = s) \<Longrightarrow> preserves P m"
  by (simp add: preserves_def)

lemma admin_keeps:
  "(\<And>s. P s \<Longrightarrow> P (snd (f (as_admin (cx_handler cx)) s))) \<Longrightarrow> preserves P (bind (handler_or msg (context_get_admin_handler cx)) f)"
  by (simp add: preserves_def bind_handler_or)

lemma schema_keeps: "preserves P (map_action f sql_get_schema)"
  by (rule pure_keeps) (simp add: sql_get_schema_def transaction_def get_schema_with_transaction_def return_def)

lemma gives_map_err: "gives P R m \<Longrightarrow> gives P R (map_err_action f m)"
  by (auto simp: gives_def map_err_action_def split: prod.splits)

lemma from_user_id: "from_user u sc = Ok g \<Longrightarrow> u_user_id (gu_user g) = u_user_id u"
  "from_user_and_groups ug sc = Ok g \<Longrightarrow> u_user_id (gu_user g) = u_user_id (ug_user ug)"
  by (auto simp: from_user_def from_user_and_groups_def split: option.splits)

lemma get_user_details_id: "fst (get_user_details u s) = Ok x \<Longrightarrow> u_user_id x = u"
  by (auto simp: get_user_details_def find_user_def User_from_def monad_simps split: option.splits dest: find_SomeD)

lemma create_user_call_gives:
  "gives (imported_onto s0 src) (\<lambda>g. wf_user_id (u_user_id (gu_user g))) (mutation_create_user ext (sql_context ext lib cfg rng now v) ui)"
proof -
  have keep: "preserves (imported_onto s0 src) (on_handler (create_user ext now \<lparr>cu_user_id = UserId_new (cui_id ui), cu_email = em, cu_display_name = d,
     cu_first_name = fn, cu_last_name = ln, cu_avatar = av, cu_attributes = as\<rparr>))" for em d fn ln av as
    by (intro preserves_intros sql_ops_import) simp
  have read: "gives (imported_onto s0 src) (\<lambda>x. u_user_id x = UserId_new (cui_id ui)) (on_handler (get_user_details (UserId_new (cui_id ui))))"
    unfolding on_handler_def
    by (rule gives_map_err) (use preservesD [OF reads_inv(3)] get_user_details_id in \<open>auto simp: gives_def\<close>)
  have "gives (imported_onto s0 src) (\<lambda>g. wf_user_id (u_user_id (gu_user g)))
      (bind (lift_result a) (\<lambda>avatar. bind (on_handler (map_action PublicSchema_from sql_get_schema)) (\<lambda>schema.
       bind (lift_result (b schema)) (\<lambda>attributes. bind (on_handler (create_user ext now \<lparr>cu_user_id = UserId_new (cui_id ui), cu_email = em,
         cu_display_name = d, cu_first_name = fn, cu_last_name = ln, cu_avatar = avatar, cu_attributes = attributes\<rparr>)) (\<lambda>_.
       bind (on_handler (get_user_details (UserId_new (cui_id ui)))) (\<lambda>user_details. lift_result (from_user user_details schema)))))))"
    for a b em d fn ln
    by (rule gives_bind [where R = "\<lambda>_. True", OF gives_lift] gives_bind [OF gives_preserves [OF on_handler_keeps [OF schema_keeps]]]
        gives_bind [OF gives_preserves [OF keep]] gives_bind [OF read] gives_lift | simp add: from_user_id)+
  then show ?thesis
    by (auto simp: mutation_create_user_def gives_def bind_handler_or handed_out_defs Let_def)
qed

lemma list_users_call_gives:
  "gives (imported_onto s0 src) (\<lambda>us. \<forall>u\<in>set us. wf_user_id (u_user_id (gu_user u))) (query_users ext (sql_context ext lib cfg rng now v) None)"
proof (rule givesI)
  fix s r t assume P: "imported_onto s0 src s" and run: "query_users ext (sql_context ext lib cfg rng now v) None s = (r, t)"
  have "t = s" using queries_pure(3) [OF refl] run by (metis snd_conv)
  moreover have "wf_user_id (u_user_id (gu_user u))" if Ok: "r = Ok us" and u: "u \<in> set us" for us u
  proof -
    let ?rows = "sort_key (\<lambda>r. UserId_as_str (usr_user_id r)) (where_users ext s (UcValue True))"
    have "db_inv s" using P by (simp add: imported_onto_def)
    then have "list_users ext None False s = (Ok (map (listed_user s) ?rows), s)" by (rule list_users_rows) simp
    then have "collect_results (\<lambda>u. from_user_and_groups u (PublicSchema_from (visible_schema v s))) (map (listed_user s) ?rows) = Ok us"
      using run Ok unfolding query_users_def bind_handler_or bind_query_schema
      by (auto simp: handed_out_defs monad_simps on_handler_def split: if_splits)
    from collect_results_set [OF this u] obtain q where "q \<in> set (db_users s)"
      "from_user_and_groups (listed_user s q) (PublicSchema_from (visible_schema v s)) = Ok u"
      by (auto simp: where_users_def)
    with P from_user_id(2) [OF this(2)] show ?thesis
      by (auto simp: imported_onto_def users_wf_def list_all_iff listed_user_def user_view_def User_from_def)
  qed
  ultimately show "imported_onto s0 src t \<and> (\<forall>us. r = Ok us \<longrightarrow> (\<forall>u\<in>set us. wf_user_id (u_user_id (gu_user u))))"
    using P by blast
qed

lemma with_members_pure: "snd (with_members (sql_context ext lib cfg rng now v) gs s) = s"
proof (induction gs arbitrary: s)
  case (Cons g gs)
  show ?case unfolding with_members.simps
    by (intro bind_pure) (simp_all add: Cons.IH queries_pure(7) return_def)
qed (simp add: return_def)

lemma groups_call_keeps:
  "preserves (imported_onto s0 src) (query_groups (sql_context ext lib cfg rng now v))"
  "preserves (imported_onto s0 src) (with_members (sql_context ext lib cfg rng now v) gs)"
  by (simp_all add: pure_keeps queries_pure(4) with_members_pure)

lemma create_group_call_keeps:
  "preserves (imported_onto s0 src) (mutation_create_group ext (sql_context ext lib cfg rng now v) n)"
  unfolding mutation_create_group_def create_group_with_details_def
  by (rule admin_keeps, erule preservesD [rotated])
     (simp add: handed_out_defs preserves_intros schema_keeps sql_ops_import)

lemma add_user_call_keeps:
  assumes "is_lower u" and "src u"
  shows "preserves (imported_onto s0 src) (mutation_add_user_to_group (sql_context ext lib cfg rng now v) u g)"
  unfolding mutation_add_user_to_group_def
  by (rule admin_keeps, erule preservesD [rotated])
     (use assms in \<open>auto simp: handed_out_defs add_user_to_group_def intro!: preserves_intros row_ops_import\<close>)

interpretation lldap_import: import_run "graphql_target render ext (sql_context ext lib cfg rng now v)"
  "imported_onto s0 src" is_lower src for render ext lib cfg rng now v s0 src
proof
  show "gives (imported_onto s0 src) (\<lambda>us. \<forall>u\<in>set us. is_lower u)
      (lt_list_users (graphql_target render ext (sql_context ext lib cfg rng now v)))"
    by (auto simp: graphql_target_def wf_user_id_def intro!: gives_map_err gives_bind [OF list_users_call_gives] gives_return)
  show "gives (imported_onto s0 src) is_lower (lt_create_user (graphql_target render ext (sql_context ext lib cfg rng now v)) ui)" for ui
    by (auto simp: graphql_target_def wf_user_id_def intro!: gives_map_err gives_bind [OF create_user_call_gives] gives_return)
qed (auto simp: graphql_target_def intro!: preserves_intros groups_call_keeps create_group_call_keeps add_user_call_keeps)

section \<open>Properties\<close>

text \<open>
  C32. Whatever the other server returns, whatever the operator answers and however the run ends, an import into LLDAP
  keeps the integrity invariant and every existing row, and adds a membership only for a user that the other server
  returned and whose identifier has no upper-case letter. LLDAP stores identifiers in lower case, and the tool looks for
  the identifier of the other server among them as it is, so a user imported as \<open>Ann\<close> becomes the user \<open>ann\<close> and
  loses its groups.
\<close>

theorem import_adds_only:
  assumes "db_inv (ts_target s)" and "users_wf (ts_target s)"
    and run: "migration_main ext (graphql_target render ext (sql_context ext lib cfg rng now v)) src s = (r, t)"
  shows "db_inv (ts_target t) \<and> extends (ts_target s) (ts_target t)
    \<and> (\<forall>m\<in>set (db_memberships (ts_target t)). m \<in> set (db_memberships (ts_target s))
         \<or> is_lower (UserId_as_str (mem_user_id m)) \<and> sourced_from ext src (UserId_as_str (mem_user_id m)))"
proof -
  have "imported_onto (ts_target s) (sourced_from ext src) (ts_target s)"
    using assms(1,2) by (simp add: imported_onto_def extends_def)
  with givesD [OF lldap_import.migration_main_gives _ run] have "imported_onto (ts_target s) (sourced_from ext src) (ts_target t)"
    by blast
  then show ?thesis by (auto simp: imported_onto_def wf_user_id_def)
qed

text \<open>A server with one user and one group of it.\<close>

definition demo_source :: ldap_source where
  "demo_source = \<lparr>ls_resolves = (\<lambda>_. True), ls_simple_bind = (\<lambda>_ _. True),
     ls_search = (\<lambda>base f attrs.
       if f = user_search_filter then Some [\<lparr>en_dn = ''u'', en_attrs = [(''uid'', [''Ann'']), (''mail'', [''a@b''])], en_bin_attrs = []\<rparr>]
       else if f = group_search_filter then Some [\<lparr>en_dn = ''g'', en_attrs = [(''cn'', [''team'']), (''member'', [''u''])], en_bin_attrs = []\<rparr>]
       else Some [])\<rparr>"

definition demo_import :: "db tool_state" where
  "demo_import = \<lparr>ts_target = demo_db, ts_confirms = [True, True, True, True, True, True],
     ts_texts = [''cn=a,dc=b'', ''p'', ''ou=p'', ''ou=g''], ts_choices = []\<rparr>"

definition demo_imported :: "(unit, tool_error) result \<times> db tool_state" where
  "demo_imported = migration_main ascii_externals (graphql_target (\<lambda>_. []) ascii_externals
     (sql_context ascii_externals toy_lib toy_config id 0 \<lparr>vr_user = UserId ''patrick'', vr_permission = Admin\<rparr>)) demo_source demo_import"

lemma demo_imported_runs:
  "case demo_imported of (r, t) \<Rightarrow> r = Ok ()
     \<and> map usr_user_id (db_users (ts_target t)) = map UserId [''patrick'', ''bob'', ''ann'']
     \<and> map grp_display_name (db_groups (ts_target t)) = map grp_display_name (db_groups demo_db) @ [GroupName ''team'']"
  by code_simp

lemma demo_sources: "sourced_from ascii_externals demo_source u \<Longrightarrow> u = ''Ann''"
  by (auto simp: sourced_from_def demo_source_def User_try_from_def required_first_def split: if_splits)

theorem import_adds_only_witness:
  "fst demo_imported = Ok () \<and> UserId ''ann'' \<in> usr_user_id ` set (db_users (ts_target (snd demo_imported)))
     \<and> set (db_memberships (ts_target (snd demo_imported))) = set (db_memberships demo_db)"
proof -
  have wf: "users_wf (ts_target demo_import)" by (simp add: demo_import_def) code_simp
  have inv: "db_inv (ts_target demo_import)" by (simp add: demo_import_def demo_db_inv)
  have "\<not> is_lower ''Ann''" by code_simp
  with import_adds_only [OF inv wf prod.collapse [symmetric]] demo_sources
  have "set (db_memberships (ts_target (snd demo_imported))) = set (db_memberships demo_db)"
    unfolding demo_imported_def by (fastforce simp: extends_def demo_import_def)
  moreover obtain r t where d: "demo_imported = (r, t)" by fastforce
  have "UserId ''ann'' \<in> set (map usr_user_id (db_users (ts_target t)))" and "r = Ok ()"
    using demo_imported_runs by (simp_all add: d del: set_map)
  ultimately show ?thesis by (simp add: d)
qed

end
