(* ===== verification/Ui_Common.thy ===== *)
theory Ui_Common
  imports Sql_Opaque
begin

text \<open>
  What the components of the web front end share (\<open>app/src\<close>): the routes, \<open>CommonComponentParts\<close>
  (\<open>infra/common_component.rs\<close>) with its task flag, its error and its two update functions, and a component as it lives
  in a page. A component is a state, the function that handles a message, and what its view offers: which messages the
  buttons of the page that was last rendered can send. A page shows the state of its last rendering, which is older
  than the state when an update returned \<open>false\<close>. The server answers a request at any later time; the fields of a form
  are edited at any time. The locale \<open>guarded_component\<close> is the contract under which no such run panics.

  The state of a component extends \<open>common_parts\<close>. Besides the fields of the source it holds the futures that have
  been handed to the browser and not completed, and the effects on the outside (callbacks of the parent, entries of the
  browser's history, dialogs). An error is its message, where \<open>context\<close> replaces the message.
\<close>

section \<open>Routes\<close>

datatype app_route =
    Route_Login
  | Route_StartResetPassword
  | Route_FinishResetPassword string
  | Route_CreateUser
  | Route_ListUsers
  | Route_ChangePassword string
  | Route_UserDetails string
  | Route_CreateGroup
  | Route_ListGroups
  | Route_GroupDetails int
  | Route_ListUserSchema
  | Route_CreateUserAttribute
  | Route_ListGroupSchema
  | Route_CreateGroupAttribute
  | Route_Index

section \<open>Effects and common parts\<close>

datatype ui_effect =
    PushRoute app_route
  | EmitLoggedIn string bool
  | EmitLoggedOut
  | EmitError string
  | EmitGroupAdded int string
  | EmitMemberAdded string string
  | EmitRemovedFromGroup string int
  | EmitUserDeleted string
  | EmitGroupDeleted int
  | EmitAttributeDeleted string
  | ShowModal
  | HideModal

record 'task common_parts =
  cc_error :: "string option"
  cc_is_task_running :: bool
  cc_spawned :: "'task list"
  cc_effects :: "ui_effect list"

type_synonym ('t, 'z, 'a) ui_action = "(('t, 'z) common_parts_scheme, 'a, string) action"

text \<open>A \<open>Result\<close> as a message carries it, with \<open>?\<close> and \<open>context\<close>.\<close>

type_synonym 'a response = "string + 'a"

definition try_response :: "'a response \<Rightarrow> ('s, 'a, string) action" where
  "try_response r = (case r of Inl e \<Rightarrow> fail e | Inr x \<Rightarrow> return x)"

definition context_response :: "string \<Rightarrow> 'a response \<Rightarrow> 'a response" where
  "context_response msg r = (case r of Inl _ \<Rightarrow> Inl msg | Inr x \<Rightarrow> Inr x)"

definition panic :: "('s, 'a, 'e) action" where
  "panic s = (Panic, s)"

definition emit :: "ui_effect \<Rightarrow> ('t, 'z, unit) ui_action" where
  "emit e c = (Ok (), c\<lparr>cc_effects := cc_effects c @ [e]\<rparr>)"

definition modify :: "('s \<Rightarrow> 's) \<Rightarrow> ('s, unit, 'e) action" where
  "modify f c = (Ok (), f c)"

text \<open>\<open>self\<close> read in the middle of a function.\<close>

definition with_self :: "('s \<Rightarrow> ('s, 'a, 'e) action) \<Rightarrow> ('s, 'a, 'e) action" where
  "with_self f c = f c c"

text \<open>
  \<open>call_backend\<close> hands a future to the browser; a task names the request and what its callback has captured. It panics
  when a task is running. The future clears the flag before it sends the message of its callback.
\<close>

definition call_backend :: "'t \<Rightarrow> ('t, 'z, unit) ui_action" where
  "call_backend task c = (if cc_is_task_running c then (Panic, c)
     else (Ok (), c\<lparr>cc_is_task_running := True, cc_spawned := cc_spawned c @ [task]\<rparr>))"

definition finish_task :: "'t \<Rightarrow> ('t, 'z) common_parts_scheme \<Rightarrow> ('t, 'z) common_parts_scheme" where
  "finish_task task c = c\<lparr>cc_is_task_running := False, cc_spawned := remove1 task (cc_spawned c)\<rparr>"

definition ccp_update :: "('msg \<Rightarrow> ('t, 'z, bool) ui_action) \<Rightarrow> 'msg \<Rightarrow> ('t, 'z, bool) ui_action" where
  "ccp_update handle_msg msg com = (case handle_msg msg (com\<lparr>cc_error := None\<rparr>) of
       (Err e, c) \<Rightarrow> if cc_is_task_running c then (Panic, c\<lparr>cc_error := Some e\<rparr>) else (Ok True, c\<lparr>cc_error := Some e\<rparr>)
     | (r, c) \<Rightarrow> (r, c))"

definition ccp_update_and_report_error ::
  "('msg \<Rightarrow> ('t, 'z, bool) ui_action) \<Rightarrow> 'msg \<Rightarrow> ('t, 'z, bool) ui_action" where
  "ccp_update_and_report_error handle_msg msg =
     bind (ccp_update handle_msg msg) (\<lambda>should_render. with_self (\<lambda>com. case cc_error com of
         None \<Rightarrow> return should_render
       | Some e \<Rightarrow> bind (modify (\<lambda>c. c\<lparr>cc_error := None\<rparr>)) (\<lambda>_. bind (emit (EmitError e)) (\<lambda>_. return True))))"

declare try_response_def [monad_simps] context_response_def [monad_simps] panic_def [monad_simps] emit_def [monad_simps]
  modify_def [monad_simps] with_self_def [monad_simps] call_backend_def [monad_simps]

section \<open>A component in a page\<close>

text \<open>
  \<open>co_update\<close> has the random numbers of the call as its first argument. \<open>co_clickable\<close> reads the state that was last
  rendered: the messages that the buttons and the child components of the view can send. \<open>co_edit\<close> are the changes of the
  fields, which the view's form elements make without the component, \<open>co_answers\<close> the messages of a completed task, and
  \<open>co_background\<close> the messages of other browser tasks.
\<close>

record ('s, 't, 'msg) ui_component =
  co_update :: "nat \<Rightarrow> 'msg \<Rightarrow> ('s, bool, string) action"
  co_clickable :: "'s \<Rightarrow> 'msg \<Rightarrow> bool"
  co_edit :: "'s \<Rightarrow> 's \<Rightarrow> bool"
  co_answers :: "'t \<Rightarrow> 'msg \<Rightarrow> bool"
  co_background :: "'s \<Rightarrow> 'msg \<Rightarrow> bool"

text \<open>An update and the rendering it asks for; \<open>None\<close> is a panic, which ends the application.\<close>

definition deliver :: "('s, 't, 'msg) ui_component \<Rightarrow> nat \<Rightarrow> 'msg \<Rightarrow> 's \<Rightarrow> 's \<Rightarrow> ('s \<times> 's) option" where
  "deliver co r msg c shown = (case co_update co r msg c of
       (Ok b, c') \<Rightarrow> Some (c', if b then c' else shown)
     | _ \<Rightarrow> None)"

inductive ui_step ::
  "(('t, 'z) common_parts_scheme, 't, 'msg) ui_component \<Rightarrow> ('t, 'z) common_parts_scheme \<times> ('t, 'z) common_parts_scheme
   \<Rightarrow> (('t, 'z) common_parts_scheme \<times> ('t, 'z) common_parts_scheme) option \<Rightarrow> bool" for co where
  clicked: "co_clickable co shown msg \<Longrightarrow> ui_step co (c, shown) (deliver co r msg c shown)"
| edited: "co_edit co c c' \<Longrightarrow> ui_step co (c, shown) (Some (c', shown))"
| answered: "t \<in> set (cc_spawned c) \<Longrightarrow> co_answers co t msg \<Longrightarrow> ui_step co (c, shown) (deliver co r msg (finish_task t c) shown)"
| background: "co_background co c msg \<Longrightarrow> ui_step co (c, shown) (deliver co r msg c shown)"

inductive ui_reaches ::
  "(('t, 'z) common_parts_scheme, 't, 'msg) ui_component \<Rightarrow> ('t, 'z) common_parts_scheme
   \<Rightarrow> (('t, 'z) common_parts_scheme \<times> ('t, 'z) common_parts_scheme) option \<Rightarrow> bool" for co start where
  created: "ui_reaches co start (Some (start, start))"
| stepped: "ui_reaches co start (Some x) \<Longrightarrow> ui_step co x y \<Longrightarrow> ui_reaches co start y"

text \<open>A run given by its events, with the random number 0; the outer \<open>None\<close> is an event that is not possible.\<close>

datatype ('s, 't, 'msg) ui_event = Click 'msg | Edit 's | Answer 't 'msg | Background 'msg

fun ui_play ::
  "(('t, 'z) common_parts_scheme, 't, 'msg) ui_component \<Rightarrow> (('t, 'z) common_parts_scheme, 't, 'msg) ui_event list
   \<Rightarrow> (('t, 'z) common_parts_scheme \<times> ('t, 'z) common_parts_scheme) option
   \<Rightarrow> (('t, 'z) common_parts_scheme \<times> ('t, 'z) common_parts_scheme) option option" where
  "ui_play co [] y = Some y"
| "ui_play co (e # es) None = None"
| "ui_play co (Click msg # es) (Some (c, v)) =
     (if co_clickable co v msg then ui_play co es (deliver co 0 msg c v) else None)"
| "ui_play co (Edit c' # es) (Some (c, v)) = (if co_edit co c c' then ui_play co es (Some (c', v)) else None)"
| "ui_play co (Answer t msg # es) (Some (c, v)) =
     (if t \<in> set (cc_spawned c) \<and> co_answers co t msg then ui_play co es (deliver co 0 msg (finish_task t c) v) else None)"
| "ui_play co (Background msg # es) (Some (c, v)) =
     (if co_background co c msg then ui_play co es (deliver co 0 msg c v) else None)"

lemma ui_play_reaches: "ui_play co es x = Some y \<Longrightarrow> ui_reaches co start x \<Longrightarrow> ui_reaches co start y"
  by (induction co es x rule: ui_play.induct)
     (auto split: if_splits intro: ui_reaches.stepped ui_step.intros)

lemma ui_played: "ui_play co es (Some (start, start)) = Some y \<Longrightarrow> ui_reaches co start y"
  using ui_play_reaches ui_reaches.created by blast

section \<open>The contract of a component\<close>

text \<open>The flag says whether a future is pending, and at most one is.\<close>

definition one_task :: "('t, 'z) common_parts_scheme \<Rightarrow> bool" where
  "one_task c \<longleftrightarrow> (if cc_is_task_running c then length (cc_spawned c) = 1 else cc_spawned c = [])"

definition same_task :: "('t, 'z) common_parts_scheme \<Rightarrow> ('t, 'z) common_parts_scheme \<Rightarrow> bool" where
  "same_task c c' \<longleftrightarrow> cc_is_task_running c' = cc_is_task_running c \<and> cc_spawned c' = cc_spawned c"

definition settles :: "('s, 'a, 'e) action \<Rightarrow> 's \<Rightarrow> ('a \<Rightarrow> 's \<Rightarrow> bool) \<Rightarrow> bool" where
  "settles m c P \<longleftrightarrow> (case m c of (Ok x, c') \<Rightarrow> P x c' | _ \<Rightarrow> False)"

lemma deliver_settles:
  "settles (co_update co r msg) c P \<Longrightarrow> \<exists>b c'. deliver co r msg c v = Some (c', if b then c' else v) \<and> P b c'"
proof (cases "co_update co r msg c")
  case (Pair x c')
  assume "settles (co_update co r msg) c P"
  with Pair show ?thesis
    by (cases x; intro exI [of _ "case x of Ok b \<Rightarrow> b"] exI [of _ c']) (simp_all add: settles_def deliver_def split: bool.split)
qed

subsection \<open>Weakest preconditions\<close>

text \<open>\<open>runs m c P E\<close>: the action does not panic, \<open>P\<close> holds after a value and \<open>E\<close> after an error.\<close>

definition runs :: "('s, 'a, 'e) action \<Rightarrow> 's \<Rightarrow> ('a \<Rightarrow> 's \<Rightarrow> bool) \<Rightarrow> ('e \<Rightarrow> 's \<Rightarrow> bool) \<Rightarrow> bool" where
  "runs m c P E \<longleftrightarrow> (case m c of (Ok x, c') \<Rightarrow> P x c' | (Err e, c') \<Rightarrow> E e c' | (Panic, _) \<Rightarrow> False)"

named_theorems runs_simps \<open>weakest preconditions of the actions of a component\<close>

lemma runs_basic [runs_simps]:
  "runs (return x) c P E = P x c" "runs (fail e) c P E = E e c" "runs panic c P E = False"
  "runs (modify f) c R E = R () (f c)" "runs (emit eff) d Q F = Q () (d\<lparr>cc_effects := cc_effects d @ [eff]\<rparr>)"
  "runs (with_self g) c P E = runs (g c) c P E"
  "runs (call_backend t) d Q F = (\<not> cc_is_task_running d \<and> Q () (d\<lparr>cc_is_task_running := True, cc_spawned := cc_spawned d @ [t]\<rparr>))"
  by (simp_all add: runs_def monad_simps)

lemma runs_bind [runs_simps]: "runs (bind m f) c P E = runs m c (\<lambda>x c'. runs (f x) c' P E) E"
  by (auto simp: runs_def bind_def split: prod.splits result.splits)

lemma runs_lifted [runs_simps]:
  "runs (lift_result (ok_or e v)) c P E = (case v of None \<Rightarrow> E e c | Some x \<Rightarrow> P x c)"
  "runs (try_response r) c P E = (case r of Inl d \<Rightarrow> E d c | Inr y \<Rightarrow> P y c)"
  "runs (try_response (context_response msg r)) c P E = (case r of Inl d \<Rightarrow> E msg c | Inr y \<Rightarrow> P y c)"
  by (auto simp: runs_def monad_simps split: option.splits sum.splits)

lemma settles_ccp_update [runs_simps]:
  "settles (ccp_update h msg) c P
     = runs (h msg) (c\<lparr>cc_error := None\<rparr>) P (\<lambda>e c'. \<not> cc_is_task_running c' \<and> P True (c'\<lparr>cc_error := Some e\<rparr>))"
  by (auto simp: settles_def runs_def ccp_update_def split: prod.splits result.splits)

lemma settles_report_error [runs_simps]:
  "settles (ccp_update_and_report_error h msg) c P = settles (ccp_update h msg) c (\<lambda>b c'. case cc_error c' of
       None \<Rightarrow> P b c' | Some e \<Rightarrow> P True (c'\<lparr>cc_error := None, cc_effects := cc_effects c' @ [EmitError e]\<rparr>))"
proof (cases "ccp_update h msg c")
  case (Pair x c')
  then show ?thesis
    by (cases x; cases "cc_error c'")
       (simp_all add: settles_def ccp_update_and_report_error_def bind_def with_self_def modify_def emit_def return_def)
qed

subsection \<open>Components that never panic\<close>

lemma finish_task_sel [simp]:
  "cc_is_task_running (finish_task t c) = False" "cc_error (finish_task t c) = cc_error c"
  "cc_effects (finish_task t c) = cc_effects c" "cc_spawned (finish_task t c) = remove1 t (cc_spawned c)"
  "common_parts.more (finish_task t c) = common_parts.more c"
  by (simp_all add: finish_task_def)

lemma one_task_finish [simp]: "one_task c \<Longrightarrow> t \<in> set (cc_spawned c) \<Longrightarrow> one_task (finish_task t c)"
  by (cases "cc_spawned c") (auto simp: one_task_def split: if_splits)

locale guarded_component =
  fixes co :: "(('t, 'z) common_parts_scheme, 't, 'msg) ui_component"
    and start :: "('t, 'z) common_parts_scheme"
    and harmless :: "'msg \<Rightarrow> bool"
    and rel :: "('t, 'z) common_parts_scheme \<Rightarrow> ('t, 'z) common_parts_scheme \<Rightarrow> bool"
  assumes start_ok: "one_task start" "rel start start"
    and disabled: "co_clickable co v msg \<Longrightarrow> cc_is_task_running v \<Longrightarrow> rel c v \<Longrightarrow> harmless msg"
    and harmless_keeps: "co_clickable co v msg \<or> co_background co c msg \<Longrightarrow> harmless msg \<Longrightarrow> one_task c \<Longrightarrow> rel c v
      \<Longrightarrow> settles (co_update co r msg) c (\<lambda>b c'. same_task c c' \<and> rel c' (if b then c' else v))"
    and background_harmless: "co_background co c msg \<Longrightarrow> harmless msg"
    and click_keeps: "co_clickable co v msg \<Longrightarrow> \<not> cc_is_task_running c \<Longrightarrow> one_task c \<Longrightarrow> rel c v
      \<Longrightarrow> settles (co_update co r msg) c (\<lambda>b c'. one_task c' \<and> (cc_is_task_running c' \<longrightarrow> b) \<and> rel c' (if b then c' else v))"
    and answer_keeps: "co_answers co t msg \<Longrightarrow> cc_spawned c = [t] \<Longrightarrow> one_task c \<Longrightarrow> rel c v
      \<Longrightarrow> settles (co_update co r msg) (finish_task t c) (\<lambda>b c'. one_task c' \<and> rel c' (if b then c' else v))"
    and edit_keeps: "co_edit co c c' \<Longrightarrow> rel c v \<Longrightarrow> same_task c c' \<and> rel c' v"
begin

definition linked :: "('t, 'z) common_parts_scheme \<times> ('t, 'z) common_parts_scheme \<Rightarrow> bool" where
  "linked = (\<lambda>(c, v). one_task c \<and> rel c v \<and> (cc_is_task_running c \<longrightarrow> cc_is_task_running v))"

lemma harmless_linked:
  assumes "linked (c, v)" and "harmless msg" and "co_clickable co v msg \<or> co_background co c msg"
  shows "\<exists>y. deliver co r msg c v = Some y \<and> linked y"
proof -
  have "settles (co_update co r msg) c (\<lambda>b c'. same_task c c' \<and> rel c' (if b then c' else v))"
    using assms harmless_keeps by (simp add: linked_def)
  from deliver_settles [OF this, of v] show ?thesis
    using assms(1) by (fastforce simp: linked_def same_task_def one_task_def)
qed

lemma click_linked:
  assumes "linked (c, v)" and "co_clickable co v msg"
  shows "\<exists>y. deliver co r msg c v = Some y \<and> linked y"
proof (cases "harmless msg")
  case True
  then show ?thesis using assms harmless_linked by blast
next
  case False
  then have "\<not> cc_is_task_running c" using assms disabled by (auto simp: linked_def)
  then have "settles (co_update co r msg) c (\<lambda>b c'. one_task c' \<and> (cc_is_task_running c' \<longrightarrow> b) \<and> rel c' (if b then c' else v))"
    using assms click_keeps by (simp add: linked_def)
  from deliver_settles [OF this, of v] show ?thesis by (fastforce simp: linked_def)
qed

lemma answer_linked:
  assumes "linked (c, v)" and "t \<in> set (cc_spawned c)" and "co_answers co t msg"
  shows "\<exists>y. deliver co r msg (finish_task t c) v = Some y \<and> linked y"
proof -
  have t: "cc_spawned c = [t]" "cc_is_task_running c"
    using assms by (auto simp: linked_def one_task_def length_Suc_conv split: if_splits)
  then have "settles (co_update co r msg) (finish_task t c) (\<lambda>b c'. one_task c' \<and> rel c' (if b then c' else v))"
    using assms answer_keeps by (simp add: linked_def)
  from deliver_settles [OF this, of v] show ?thesis
    using assms(1) t by (fastforce simp: linked_def)
qed

lemma step_linked: "ui_step co x y \<Longrightarrow> linked x \<Longrightarrow> \<exists>z. y = Some z \<and> linked z"
proof (induction rule: ui_step.induct)
  case (clicked shown msg c r)
  then show ?case using click_linked by metis
next
  case (edited c c' shown)
  then show ?case using edit_keeps by (fastforce simp: linked_def same_task_def one_task_def)
next
  case (answered t c msg shown r)
  then show ?case using answer_linked by metis
next
  case (background c msg shown r)
  then show ?case using harmless_linked background_harmless by metis
qed

lemma reaches_linked: "ui_reaches co start y \<Longrightarrow> \<exists>z. y = Some z \<and> linked z"
proof (induction rule: ui_reaches.induct)
  case created
  then show ?case using start_ok by (simp add: linked_def)
next
  case (stepped x y)
  then show ?case using step_linked by blast
qed

lemma no_panic_reached: "\<not> ui_reaches co start None"
  using reaches_linked by blast

lemma never_panics:
  assumes "ui_reaches co start y"
  obtains c v where "y = Some (c, v)" and "one_task c" and "rel c v" and "cc_is_task_running c \<Longrightarrow> cc_is_task_running v"
  using reaches_linked [OF assms] by (auto simp: linked_def)

end

text \<open>
  A form: while a task runs, its view can only send messages that redraw it, and nothing else of its state matters for
  the contract.
\<close>

lemma form_component:
  assumes "one_task start"
    and disabled: "\<And>v msg. co_clickable co v msg \<Longrightarrow> cc_is_task_running v \<Longrightarrow> redraw msg"
    and redraw: "\<And>c r msg. redraw msg \<Longrightarrow> settles (co_update co r msg) c (\<lambda>_. same_task c)"
    and click: "\<And>v c msg r. co_clickable co v msg \<Longrightarrow> \<not> cc_is_task_running c \<Longrightarrow> cc_spawned c = []
      \<Longrightarrow> settles (co_update co r msg) c (\<lambda>b c'. one_task c' \<and> (cc_is_task_running c' \<longrightarrow> b))"
    and answer: "\<And>c t msg r. co_answers co t msg \<Longrightarrow> cc_spawned c = [t]
      \<Longrightarrow> settles (co_update co r msg) (finish_task t c) (\<lambda>_. one_task)"
    and "\<And>c c'. co_edit co c c' \<Longrightarrow> same_task c c'" and "\<And>c msg. \<not> co_background co c msg"
  shows "guarded_component co start redraw (\<lambda>_ _. True)"
proof
  show "co_clickable co v msg \<or> co_background co c msg \<Longrightarrow> redraw msg
      \<Longrightarrow> settles (co_update co r msg) c (\<lambda>b c'. same_task c c' \<and> True)" for v msg c r
    using redraw by simp
  show "co_answers co t msg \<Longrightarrow> cc_spawned c = [t]
      \<Longrightarrow> settles (co_update co r msg) (finish_task t c) (\<lambda>b c'. one_task c' \<and> True)" for t msg c r
    using answer by simp
qed (use assms in \<open>auto simp: one_task_def\<close>)

text \<open>
  A page that loads its data once: until the data is there its view sends nothing, and afterwards it starts no task.
\<close>

definition loaded_rel :: "(('t, 'z) common_parts_scheme \<Rightarrow> bool) \<Rightarrow> ('t, 'z) common_parts_scheme \<Rightarrow> ('t, 'z) common_parts_scheme \<Rightarrow> bool" where
  "loaded_rel loaded c v \<longleftrightarrow> (loaded v \<longrightarrow> loaded c) \<and> \<not> (cc_is_task_running v \<and> loaded v) \<and> \<not> (cc_is_task_running c \<and> loaded c)"

definition at_rest :: "('t, 'z) common_parts_scheme \<Rightarrow> bool" where
  "at_rest c \<longleftrightarrow> \<not> cc_is_task_running c \<and> cc_spawned c = []"

lemma loading_component:
  assumes start: "one_task start" "\<not> loaded start"
    and click_loaded: "\<And>v msg. co_clickable co v msg \<Longrightarrow> loaded v"
    and click: "\<And>v c msg r. co_clickable co v msg \<Longrightarrow> at_rest c \<Longrightarrow> loaded c
      \<Longrightarrow> settles (co_update co r msg) c (\<lambda>b c'. at_rest c' \<and> loaded c')"
    and answer: "\<And>c t msg r. co_answers co t msg \<Longrightarrow> cc_spawned c = [t]
      \<Longrightarrow> settles (co_update co r msg) (finish_task t c) (\<lambda>_. at_rest)"
    and none: "\<And>c c'. \<not> co_edit co c c'" "\<And>c msg. \<not> co_background co c msg"
  shows "guarded_component co start (\<lambda>_. False) (loaded_rel loaded)"
proof
  show "settles (co_update co r msg) c (\<lambda>b c'. one_task c' \<and> (cc_is_task_running c' \<longrightarrow> b) \<and> loaded_rel loaded c' (if b then c' else v))"
    if "co_clickable co v msg" "\<not> cc_is_task_running c" "one_task c" "loaded_rel loaded c v" for v msg c r
  proof -
    have "settles (co_update co r msg) c (\<lambda>b c'. at_rest c' \<and> loaded c')"
      using that click click_loaded by (fastforce simp: loaded_rel_def one_task_def at_rest_def)
    then show ?thesis
      using that by (auto simp: settles_def at_rest_def loaded_rel_def one_task_def split: result.splits)
  qed
  show "settles (co_update co r msg) (finish_task t c) (\<lambda>b c'. one_task c' \<and> loaded_rel loaded c' (if b then c' else v))"
    if "co_answers co t msg" "cc_spawned c = [t]" "one_task c" "loaded_rel loaded c v" for t msg c v r
    using answer [OF that(1,2), of r] that
    by (auto simp: settles_def at_rest_def loaded_rel_def one_task_def split: result.splits if_splits)
qed (use start click_loaded none in \<open>auto simp: loaded_rel_def\<close>)

end
