(* ===== verification/Ui_Browser.thy ===== *)
theory Ui_Browser
  imports Ui_Common Graphql_Api Text_Externals "HOL-Library.AList"
begin

text \<open>
  What the front end does with the browser and with the answers of the server: the cookies of the page
  (\<open>app/src/infra/cookies.rs\<close>) and the requests (\<open>app/src/infra/api.rs\<close>). The document with its cookie jar and the parsing
  of tokens are parameters, the record \<open>browser\<close>; \<open>jar_ok\<close> is the documented behaviour of the jar: setting a cookie adds
  or replaces it, a date in the past removes it, and reading gives all pairs, separated by a semicolon and a space.
\<close>

section \<open>Cookies\<close>

record 'j browser =
  br_document :: "unit response"
  br_set_cookie :: "string \<Rightarrow> 'j \<Rightarrow> 'j option"
  br_cookie :: "'j \<Rightarrow> string option"
  br_base_url :: "string option"
  br_to_rfc2822 :: "naive_date_time \<Rightarrow> string"
  br_parse_unverified :: "string \<Rightarrow> jwt_claims option"

definition base_url :: "'j browser \<Rightarrow> string" where
  "base_url br = (case br_base_url br of Some u \<Rightarrow> u | None \<Rightarrow> [])"

definition get_document :: "'j browser \<Rightarrow> unit response" where
  "get_document br = br_document br"

definition cookie_string :: "'j browser \<Rightarrow> string \<Rightarrow> string \<Rightarrow> naive_date_time \<Rightarrow> string" where
  "cookie_string br cookie_name value expiration = cookie_name @ ''='' @ value @ ''; expires='' @ br_to_rfc2822 br expiration
     @ ''; sameSite=Strict; path='' @ base_url br @ ''/''"

definition set_cookie :: "'j browser \<Rightarrow> string \<Rightarrow> string \<Rightarrow> naive_date_time \<Rightarrow> ('j, unit, string) action" where
  "set_cookie br cookie_name value expiration =
     bind (try_response (br_document br)) (\<lambda>_ jar.
       case br_set_cookie br (cookie_string br cookie_name value expiration) jar of
         None \<Rightarrow> (Err ''Could not set cookie'', jar) | Some jar' \<Rightarrow> (Ok (), jar'))"

text \<open>\<open>Iterator::find_map\<close>.\<close>

fun find_map :: "('a \<Rightarrow> 'b option) \<Rightarrow> 'a list \<Rightarrow> 'b option" where
  "find_map f [] = None"
| "find_map f (x # xs) = (case f x of None \<Rightarrow> find_map f xs | Some y \<Rightarrow> Some y)"

definition cookie_value :: "string \<Rightarrow> string \<Rightarrow> string option" where
  "cookie_value cookie_name cookies = find_map (\<lambda>(name, value). if trim name = cookie_name \<and> value \<noteq> [] then Some value else None)
     (List.map_filter (split_once (CHR ''='')) (split_on (CHR '';'') cookies))"

definition get_cookie :: "'j browser \<Rightarrow> string \<Rightarrow> 'j \<Rightarrow> string option response" where
  "get_cookie br cookie_name jar = (case get_document br of Inl e \<Rightarrow> Inl e
     | Inr _ \<Rightarrow> (case br_cookie br jar of None \<Rightarrow> Inl ''Could not access cookies''
         | Some cookies \<Rightarrow> Inr (cookie_value cookie_name cookies)))"

definition delete_cookie :: "'j browser \<Rightarrow> string \<Rightarrow> ('j, unit, string) action" where
  "delete_cookie br cookie_name = with_self (\<lambda>jar.
     bind (try_response (get_cookie br cookie_name jar)) (\<lambda>c.
     if c \<noteq> None then set_cookie br cookie_name [] 0 else return ()))"

section \<open>Requests\<close>

text \<open>
  What \<open>gloo_net\<close> is given to send, and the answer of the server: status, its text, and the body, whose reading can fail.
  Sending a request is the argument \<open>send\<close>, which gives the answer or the error of the connection; \<open>to_json\<close> and \<open>from_json\<close>
  are \<open>serde_json::to_string\<close> and \<open>from_str\<close>.
\<close>

datatype 'b request_type = RequestGet | RequestPost 'b

record fetch_request =
  fr_url :: string
  fr_headers :: "(string \<times> string) list"
  fr_same_origin :: bool
  fr_method :: http_method
  fr_body :: "string option"

record server_answer =
  sv_status :: nat
  sv_status_text :: string
  sv_text :: "string response"

definition fetch_new :: "string \<Rightarrow> fetch_request" where
  "fetch_new url = \<lparr>fr_url = url, fr_headers = [(''Content-Type'', ''application/json'')], fr_same_origin = True,
     fr_method = MethodGet, fr_body = None\<rparr>"

text \<open>The text of an answer with a status in the range 200 to 299, and otherwise an error with its message.\<close>

definition answer_text :: "string \<Rightarrow> server_answer response \<Rightarrow> string response" where
  "answer_text error_message answer = (case answer of Inl e \<Rightarrow> Inl e
     | Inr r \<Rightarrow> if 200 \<le> sv_status r \<and> sv_status r < 300 then sv_text r
         else (case sv_text r of Inl e \<Rightarrow> Inl e
           | Inr t \<Rightarrow> Inl (error_message @ ''['' @ nat_to_string (sv_status r) @ '' '' @ sv_status_text r @ '']: '' @ t)))"

definition call_server ::
  "('b \<Rightarrow> string response) \<Rightarrow> (fetch_request \<Rightarrow> server_answer response) \<Rightarrow> string \<Rightarrow> 'b request_type \<Rightarrow> string \<Rightarrow> string response" where
  "call_server to_json send url body error_message = (case body of
       RequestGet \<Rightarrow> answer_text error_message (send (fetch_new url))
     | RequestPost b \<Rightarrow> (case to_json b of Inl e \<Rightarrow> Inl e
         | Inr t \<Rightarrow> answer_text error_message (send ((fetch_new url)\<lparr>fr_body := Some t, fr_method := MethodPost\<rparr>))))"

definition parse_answer :: "(string \<Rightarrow> 'a option) \<Rightarrow> string response \<Rightarrow> 'a response" where
  "parse_answer from_json data = (case data of Inl e \<Rightarrow> Inl e
     | Inr d \<Rightarrow> (case from_json d of None \<Rightarrow> Inl ''Could not parse response'' | Some x \<Rightarrow> Inr x))"

definition call_server_json_with_error_message ::
  "('b \<Rightarrow> string response) \<Rightarrow> (string \<Rightarrow> 'a option) \<Rightarrow> (fetch_request \<Rightarrow> server_answer response) \<Rightarrow> string \<Rightarrow> 'b request_type \<Rightarrow> string
   \<Rightarrow> 'a response" where
  "call_server_json_with_error_message to_json from_json send url request error_message =
     parse_answer from_json (call_server to_json send url request error_message)"

definition call_server_empty_response_with_error_message ::
  "('b \<Rightarrow> string response) \<Rightarrow> (fetch_request \<Rightarrow> server_answer response) \<Rightarrow> string \<Rightarrow> 'b request_type \<Rightarrow> string \<Rightarrow> unit response" where
  "call_server_empty_response_with_error_message to_json send url request error_message =
     map_sum id (\<lambda>_. ()) (call_server to_json send url request error_message)"

fun join_strings :: "string \<Rightarrow> string list \<Rightarrow> string" where
  "join_strings sep [] = []"
| "join_strings sep [x] = x"
| "join_strings sep (x # xs) = x @ sep @ join_strings sep xs"

text \<open>The data of a GraphQL response, with the errors it may have instead.\<close>

definition unwrap_graphql_response :: "'a option \<times> string list option \<Rightarrow> 'a response" where
  "unwrap_graphql_response r = (case fst r of Some d \<Rightarrow> Inr d
     | None \<Rightarrow> Inl (''Errors: ['' @ join_strings '', '' (case snd r of Some es \<Rightarrow> es | None \<Rightarrow> []) @ '']''))"

definition graphql_query ::
  "'j browser \<Rightarrow> ('b \<Rightarrow> string response) \<Rightarrow> (string \<Rightarrow> ('a option \<times> string list option) option)
   \<Rightarrow> (fetch_request \<Rightarrow> server_answer response) \<Rightarrow> 'b \<Rightarrow> string \<Rightarrow> 'a response" where
  "graphql_query br to_json from_json send request_body error_message =
     (case call_server_json_with_error_message to_json from_json send (base_url br @ ''/api/graphql'') (RequestPost request_body) error_message of
        Inl e \<Rightarrow> Inl e | Inr r \<Rightarrow> unwrap_graphql_response r)"

definition host_login_start ::
  "'j browser \<Rightarrow> (login_start_request \<Rightarrow> string response) \<Rightarrow> (string \<Rightarrow> login_start_response option)
   \<Rightarrow> (fetch_request \<Rightarrow> server_answer response) \<Rightarrow> login_start_request \<Rightarrow> login_start_response response" where
  "host_login_start br to_json from_json send request = call_server_json_with_error_message to_json from_json send
     (base_url br @ ''/auth/opaque/login/start'') (RequestPost request) ''Could not start authentication: ''"

definition host_register_start ::
  "'j browser \<Rightarrow> (registration_start_request \<Rightarrow> string response) \<Rightarrow> (string \<Rightarrow> registration_start_response option)
   \<Rightarrow> (fetch_request \<Rightarrow> server_answer response) \<Rightarrow> registration_start_request \<Rightarrow> registration_start_response response" where
  "host_register_start br to_json from_json send request = call_server_json_with_error_message to_json from_json send
     (base_url br @ ''/auth/opaque/register/start'') (RequestPost request) ''Could not start registration: ''"

definition host_register_finish ::
  "'j browser \<Rightarrow> (registration_finish_request \<Rightarrow> string response) \<Rightarrow> (fetch_request \<Rightarrow> server_answer response)
   \<Rightarrow> registration_finish_request \<Rightarrow> unit response" where
  "host_register_finish br to_json send request = call_server_empty_response_with_error_message to_json send
     (base_url br @ ''/auth/opaque/register/finish'') (RequestPost request) ''Could not finish registration''"

definition host_logout :: "'j browser \<Rightarrow> (fetch_request \<Rightarrow> server_answer response) \<Rightarrow> unit response" where
  "host_logout br send = call_server_empty_response_with_error_message (\<lambda>_ :: unit. Inr []) send
     (base_url br @ ''/auth/logout'') RequestGet ''Could not logout''"

text \<open>\<open>encode_query\<close> is the function of \<open>url_escape\<close>; the body of the request is the empty string, in JSON.\<close>

definition host_reset_password_step1 ::
  "'j browser \<Rightarrow> (string \<Rightarrow> string) \<Rightarrow> (string \<Rightarrow> string response) \<Rightarrow> (fetch_request \<Rightarrow> server_answer response) \<Rightarrow> string \<Rightarrow> unit response" where
  "host_reset_password_step1 br encode_query to_json send username = call_server_empty_response_with_error_message to_json send
     (base_url br @ ''/auth/reset/step1/'' @ encode_query username) (RequestPost []) ''Could not initiate password reset''"

text \<open>The answer is the user and a token.\<close>

definition host_reset_password_step2 ::
  "'j browser \<Rightarrow> (string \<Rightarrow> (string \<times> string) option) \<Rightarrow> (fetch_request \<Rightarrow> server_answer response) \<Rightarrow> string \<Rightarrow> (string \<times> string) response" where
  "host_reset_password_step2 br from_json send token = call_server_json_with_error_message (\<lambda>_ :: unit. Inr []) from_json send
     (base_url br @ ''/auth/reset/step2/'' @ token) RequestGet ''Could not validate token''"

text \<open>This request is built without \<open>call_server\<close>; it has no credentials mode, which the browser takes as \<open>same-origin\<close>.\<close>

definition probe_password_reset :: "'j browser \<Rightarrow> (fetch_request \<Rightarrow> server_answer response) \<Rightarrow> bool response" where
  "probe_password_reset br send =
     map_sum id (\<lambda>r. sv_status r \<noteq> 404) (send (fetch_new (base_url br @ ''/auth/reset/step1/lldap_unlikely_very_long_user_name'')))"

definition bool_to_string :: "bool \<Rightarrow> string" where
  "bool_to_string b = (if b then ''true'' else ''false'')"

text \<open>The outcome of the second cookie is not looked at.\<close>

definition set_cookies_from_jwt :: "'j browser \<Rightarrow> string \<Rightarrow> ('j, string \<times> bool, string) action" where
  "set_cookies_from_jwt br token =
     bind (lift_result (ok_or ''Could not parse JWT'' (br_parse_unverified br token))) (\<lambda>jwt_claims.
     let admin = ''lldap_admin'' \<in> set (jc_groups jwt_claims) in
     bind (map_err_action (\<lambda>_. ''Error setting cookie'') (set_cookie br ''user_id'' (jc_user jwt_claims) (jc_exp jwt_claims))) (\<lambda>_.
     bind (match_action (set_cookie br ''is_admin'' (bool_to_string admin) (jc_exp jwt_claims)) return (\<lambda>_. return ())) (\<lambda>_.
     return (jc_user jwt_claims, admin))))"

text \<open>The answer to a login is a token and, except for a refresh, a refresh token; the token becomes cookies of the page.\<close>

definition host_login_finish ::
  "'j browser \<Rightarrow> (login_finish_request \<Rightarrow> string response) \<Rightarrow> (string \<Rightarrow> (string \<times> string option) option)
   \<Rightarrow> (fetch_request \<Rightarrow> server_answer response) \<Rightarrow> login_finish_request \<Rightarrow> ('j, string \<times> bool, string) action" where
  "host_login_finish br to_json from_json send request =
     bind (try_response (call_server_json_with_error_message to_json from_json send
       (base_url br @ ''/auth/opaque/login/finish'') (RequestPost request) ''Could not finish authentication''))
     (\<lambda>response. set_cookies_from_jwt br (fst response))"

definition host_refresh ::
  "'j browser \<Rightarrow> (string \<Rightarrow> (string \<times> string option) option) \<Rightarrow> (fetch_request \<Rightarrow> server_answer response)
   \<Rightarrow> ('j, string \<times> bool, string) action" where
  "host_refresh br from_json send =
     bind (try_response (call_server_json_with_error_message (\<lambda>_ :: unit. Inr []) from_json send
       (base_url br @ ''/auth/refresh'') RequestGet ''Could not start authentication: ''))
     (\<lambda>response. set_cookies_from_jwt br (fst response))"

section \<open>The cookie jar\<close>

definition safe_name :: "string \<Rightarrow> bool" where
  "safe_name n \<longleftrightarrow> trimmed n \<and> CHR ''='' \<notin> set n \<and> CHR '';'' \<notin> set n"

definition pair_text :: "string \<times> string \<Rightarrow> string" where
  "pair_text p = fst p @ ''='' @ snd p"

definition cookies_text :: "(string \<times> string) list \<Rightarrow> string" where
  "cookies_text ps = join_strings ''; '' (map pair_text ps)"

definition safe_pairs :: "(string \<times> string) list \<Rightarrow> bool" where
  "safe_pairs ps \<longleftrightarrow> (\<forall>(n, v)\<in>set ps. safe_name n \<and> CHR '';'' \<notin> set v)"

definition jar_ok :: "'j browser \<Rightarrow> naive_date_time \<Rightarrow> ('j \<Rightarrow> (string \<times> string) list) \<Rightarrow> bool" where
  "jar_ok br now pairs \<longleftrightarrow> br_document br = Inr () \<and> (\<forall>jar. br_cookie br jar = Some (cookies_text (pairs jar)))
     \<and> (\<forall>jar n v exp. safe_name n \<longrightarrow> CHR '';'' \<notin> set v \<longrightarrow> (\<exists>jar'. br_set_cookie br (cookie_string br n v exp) jar = Some jar'
          \<and> pairs jar' = (if now < exp then AList.update n v (pairs jar) else AList.delete n (pairs jar))))"

lemma trim_space: "trimmed n \<Longrightarrow> trim (CHR '' '' # n) = n"
proof -
  assume n: "trimmed n"
  have "trim_start (CHR '' '' # n) = trim_start n"
    by (subst trim_start.simps) (simp add: white_space_def)
  with trim_trimmed [OF n] show ?thesis by (simp add: trim_def)
qed

lemma split_pairs:
  assumes "safe_pairs (p # ps)"
  shows "List.map_filter (split_once (CHR ''='')) (split_on (CHR '';'') (cookies_text (p # ps)))
    = p # map (\<lambda>(n, v). (CHR '' '' # n, v)) ps"
  using assms
proof (induction ps arbitrary: p)
  case Nil
  then show ?case
    by (cases p) (auto simp: cookies_text_def pair_text_def safe_pairs_def safe_name_def split_on_no_sep split_once_append List.map_filter_simps)
next
  case (Cons q qs)
  obtain n v where p: "p = (n, v)" by (cases p)
  obtain n' v' where q: "q = (n', v')" by (cases q)
  have sep: "CHR '';'' \<notin> set (pair_text p)" "split_once (CHR ''='') (pair_text p) = Some p"
    using Cons.prems by (auto simp: p pair_text_def safe_pairs_def safe_name_def split_once_append)
  have *: "cookies_text (p # q # qs) = pair_text p @ CHR '';'' # CHR '' '' # cookies_text (q # qs)"
    by (simp add: cookies_text_def)
  have "split_on (CHR '';'') (CHR '' '' # cookies_text (q # qs)) = (case split_on (CHR '';'') (cookies_text (q # qs)) of w # ws \<Rightarrow> (CHR '' '' # w) # ws)"
    by (simp split: list.split)
  moreover obtain w ws where ws: "split_on (CHR '';'') (cookies_text (q # qs)) = w # ws" by (metis split_on_nonempty neq_Nil_conv)
  moreover have "List.map_filter (split_once (CHR ''='')) (w # ws) = q # map (\<lambda>(n, v). (CHR '' '' # n, v)) qs"
    using Cons.IH [of q] Cons.prems ws by (simp add: safe_pairs_def)
  moreover have "w = pair_text q"
    using Cons.prems ws split_on_append [of "CHR '';''" "pair_text q"] split_on_no_sep [of "CHR '';''" "pair_text q"]
    by (cases qs) (auto simp: cookies_text_def safe_pairs_def safe_name_def pair_text_def q)
  moreover have "split_once (CHR ''='') (CHR '' '' # pair_text q) = Some (CHR '' '' # n', v')" "split_once (CHR ''='') (pair_text q) = Some q"
    using Cons.prems by (auto simp: q pair_text_def safe_pairs_def safe_name_def split_once_append)
  ultimately show ?case
    using sep unfolding * by (simp add: split_on_append List.map_filter_simps q)
qed

text \<open>Reading a cookie looks up its name, where an empty value counts as none.\<close>

definition lookup_cookie :: "(string \<times> string) list \<Rightarrow> string \<Rightarrow> string option" where
  "lookup_cookie ps n = (case map_of ps n of Some (c # v) \<Rightarrow> Some (c # v) | _ \<Rightarrow> None)"

lemma find_map_pairs:
  assumes "safe_pairs ps" and "distinct (map fst ps)"
  shows "find_map (\<lambda>(name, value). if trim name = n \<and> value \<noteq> [] then Some value else None) (map (\<lambda>(n, v). (CHR '' '' # n, v)) ps)
    = lookup_cookie ps n"
  using assms
proof (induction ps)
  case Nil
  then show ?case by (simp add: lookup_cookie_def)
next
  case (Cons p ps)
  obtain m v where p: "p = (m, v)" by (cases p)
  have m: "trim (CHR '' '' # m) = m" using Cons.prems by (auto simp: p safe_pairs_def safe_name_def trim_space)
  have ih: "find_map (\<lambda>(name, value). if trim name = n \<and> value \<noteq> [] then Some value else None) (map (\<lambda>(n, v). (CHR '' '' # n, v)) ps)
    = lookup_cookie ps n" using Cons by (auto simp: safe_pairs_def)
  have "n = m \<Longrightarrow> lookup_cookie ps n = None"
    using Cons.prems(2) map_of_eq_None_iff [of ps m] by (simp add: p lookup_cookie_def)
  with ih m show ?case by (cases v) (auto simp: p lookup_cookie_def)
qed

lemma cookie_value_lookup:
  assumes "safe_pairs ps" and "distinct (map fst ps)"
  shows "cookie_value n (cookies_text ps) = lookup_cookie ps n"
proof (cases ps)
  case Nil
  then show ?thesis by (simp add: cookie_value_def cookies_text_def lookup_cookie_def List.map_filter_simps)
next
  case (Cons p qs)
  obtain m v where p: "p = (m, v)" by (cases p)
  have m: "trim (CHR '' '' # m) = m" "trim m = m"
    using assms by (auto simp: p Cons safe_pairs_def safe_name_def trim_space trim_trimmed)
  show ?thesis
    using find_map_pairs [OF assms, of n] m split_pairs [OF assms(1) [unfolded Cons]]
    by (simp add: cookie_value_def Cons p)
qed

text \<open>A jar whose pairs can be told apart in the text of its cookies.\<close>

definition good_jar :: "('j \<Rightarrow> (string \<times> string) list) \<Rightarrow> 'j \<Rightarrow> bool" where
  "good_jar pairs jar \<longleftrightarrow> safe_pairs (pairs jar) \<and> distinct (map fst (pairs jar))"

lemma get_cookie_lookup:
  assumes "jar_ok br now pairs" and "good_jar pairs jar"
  shows "get_cookie br n jar = Inr (lookup_cookie (pairs jar) n)"
  using assms by (simp add: get_cookie_def get_document_def jar_ok_def good_jar_def cookie_value_lookup)

lemma set_AList_update: "set (AList.update k v l) \<subseteq> insert (k, v) (set l)"
  by (induction l) auto

lemma set_cookie_pairs:
  assumes "jar_ok br now pairs" and "good_jar pairs jar" and "safe_name n" and "CHR '';'' \<notin> set v"
  obtains jar' where "set_cookie br n v exp jar = (Ok (), jar')" and "good_jar pairs jar'"
    and "pairs jar' = (if now < exp then AList.update n v (pairs jar) else AList.delete n (pairs jar))"
proof -
  obtain jar' where j: "br_set_cookie br (cookie_string br n v exp) jar = Some jar'"
    "pairs jar' = (if now < exp then AList.update n v (pairs jar) else AList.delete n (pairs jar))"
    using assms unfolding jar_ok_def by blast
  moreover have "good_jar pairs jar'"
    using assms set_AList_update [of n v "pairs jar"] distinct_update [of "pairs jar" n v] distinct_delete [of "pairs jar" n]
    by (auto simp: good_jar_def safe_pairs_def j(2) AList.delete_eq)
  moreover have "set_cookie br n v exp jar = (Ok (), jar')"
    using assms(1) j(1) by (simp add: set_cookie_def jar_ok_def bind_def try_response_def return_def)
  ultimately show thesis using that by blast
qed

lemma lookup_cookie_update [simp]:
  "lookup_cookie (AList.update n v ps) m = (if m = n then (if v = [] then None else Some v) else lookup_cookie ps m)"
  by (simp add: lookup_cookie_def AList.update_conv' split: list.split)

lemma lookup_cookie_delete [simp]: "lookup_cookie (AList.delete n ps) m = (if m = n then None else lookup_cookie ps m)"
  by (simp add: lookup_cookie_def AList.delete_conv')

lemma delete_cookie_pairs:
  assumes "jar_ok br now pairs" and "good_jar pairs jar" and "safe_name n" and "0 \<le> now"
  obtains jar' where "delete_cookie br n jar = (Ok (), jar')" and "good_jar pairs jar'"
    and "\<And>m. lookup_cookie (pairs jar') m = (if m = n then None else lookup_cookie (pairs jar) m)"
proof (cases "lookup_cookie (pairs jar) n")
  case None
  then show thesis
    using assms(2) by (intro that [of jar]) (simp_all add: delete_cookie_def monad_simps get_cookie_lookup [OF assms(1,2)])
next
  case (Some v)
  obtain jar' where "set_cookie br n [] 0 jar = (Ok (), jar')" "good_jar pairs jar'" "pairs jar' = AList.delete n (pairs jar)"
    using set_cookie_pairs [OF assms(1-3), of "[]" 0] assms(4) by auto
  then show thesis
    using Some by (intro that [of jar']) (simp_all add: delete_cookie_def monad_simps get_cookie_lookup [OF assms(1,2)])
qed

section \<open>An example of a browser\<close>

text \<open>The jar is the list of its pairs; dates are written as numbers, and the clock stands at 5.\<close>

definition demo_set_cookie :: "string \<Rightarrow> (string \<times> string) list \<Rightarrow> (string \<times> string) list option" where
  "demo_set_cookie text jar = (case split_on (CHR '';'') text of
       c # expires # _ \<Rightarrow> (case (split_once (CHR ''='') c, parse_whole_int (drop 9 expires)) of
           (Some (n, v), Some date) \<Rightarrow> Some (if 5 < date then AList.update n v jar else AList.delete n jar)
         | _ \<Rightarrow> None)
     | _ \<Rightarrow> None)"

text \<open>A token is the name of the user, with an exclamation mark in front for an administrator, and is valid until 9.\<close>

definition example_claims :: "string \<Rightarrow> jwt_claims option" where
  "example_claims token = (case token of [] \<Rightarrow> None
     | c # u \<Rightarrow> Some (if c = CHR ''!'' then \<lparr>jc_exp = 9, jc_iat = 0, jc_user = u, jc_groups = [''lldap_admin'']\<rparr>
                 else \<lparr>jc_exp = 9, jc_iat = 0, jc_user = token, jc_groups = []\<rparr>))"

definition demo_browser :: "(string \<times> string) list browser" where
  "demo_browser = \<lparr>br_document = Inr (), br_set_cookie = demo_set_cookie, br_cookie = (\<lambda>jar. Some (cookies_text jar)),
     br_base_url = None, br_to_rfc2822 = i64_to_string, br_parse_unverified = example_claims\<rparr>"

lemma digits_value_semicolon: "digits_value a (l @ CHR '';'' # r) = None"
  by (induction l arbitrary: a) (auto simp: less_eq_char_def)

lemma digits_no_semicolon: "CHR '';'' \<notin> set (i64_to_string i)"
proof
  assume "CHR '';'' \<in> set (i64_to_string i)"
  then obtain l r where "i64_to_string i = l @ CHR '';'' # r" by (auto simp: in_set_conv_decomp)
  then show False using parse_whole_int_to_string [of i]
      digits_value_semicolon [of 0 l r]
    by (cases l) (auto simp: parse_whole_int_def digits_value_semicolon simp del: digits_value.simps split: if_splits)
qed

lemma demo_browser_ok: "jar_ok demo_browser 5 (\<lambda>jar. jar)"
  unfolding jar_ok_def
proof (intro conjI allI impI)
  fix n v :: string and exp :: int and jar :: "(string \<times> string) list"
  assume n: "safe_name n" and v: "CHR '';'' \<notin> set v"
  define rest where "rest = '' sameSite=Strict; path=/''"
  define a where "a = n @ CHR ''='' # v"
  define b where "b = '' expires='' @ i64_to_string exp"
  have sep: "CHR '';'' \<notin> set a" "CHR '';'' \<notin> set b"
    using n v digits_no_semicolon [of exp] by (auto simp: a_def b_def safe_name_def)
  have "cookie_string demo_browser n v exp = a @ CHR '';'' # b @ CHR '';'' # rest"
    by (simp add: cookie_string_def demo_browser_def base_url_def a_def b_def rest_def)
  then have "split_on (CHR '';'') (cookie_string demo_browser n v exp) = a # b # split_on (CHR '';'') rest"
    using sep by (simp add: split_on_append)
  moreover have "split_once (CHR ''='') a = Some (n, v)" "drop 9 b = i64_to_string exp"
    using n by (simp_all add: a_def b_def safe_name_def split_once_append)
  ultimately show "\<exists>jar'. br_set_cookie demo_browser (cookie_string demo_browser n v exp) jar = Some jar'
      \<and> jar' = (if 5 < exp then AList.update n v jar else AList.delete n jar)"
    by (simp add: demo_browser_def demo_set_cookie_def)
qed (simp_all add: demo_browser_def)

end
