(* ===== verification/Ui_Requests.thy ===== *)
theory Ui_Requests
  imports Ui_Browser
begin

text \<open>
  The requests of the front end against the routes of the server: the table of services of \<open>http_config\<close>
  (\<open>server/src/infra/tcp_server.rs\<close>), \<open>configure_server\<close> (\<open>auth_service.rs\<close>) and \<open>configure_endpoint\<close> (\<open>graphql/api.rs\<close>), and
  the functions of \<open>HostService\<close> (\<open>app/src/infra/api.rs\<close>) that are answered by it. The router is third-party code
  (\<open>actix-web\<close>): the record \<open>router\<close>, with its documented behaviour as the predicate \<open>router_ok\<close>.
\<close>

section \<open>The services of the server\<close>

datatype endpoint =
    EpHealth
  | EpAuthorize
  | EpLoginStart
  | EpLoginFinish
  | EpSimpleLogin
  | EpRefresh
  | EpLogout
  | EpRegisterStart
  | EpRegisterFinish
  | EpResetStep1
  | EpResetStep2
  | EpGraphql
  | EpPlayground
  | EpGraphiql
  | EpWasmCompressed
  | EpWasm
  | EpMainJs
  | EpFiles string
  | EpIndex

text \<open>A route has the method of its guard, \<open>None\<close> for \<open>web::route()\<close> without one.\<close>

type_synonym route = "http_method option \<times> endpoint"

datatype service =
    Resource string "route list"
  | Scope string "service list"
  | Files string string

definition auth_services :: "bool \<Rightarrow> service list" where
  "auth_services enable_password_reset =
     [Resource [] [(Some MethodPost, EpAuthorize)],
      Resource ''/opaque/login/start'' [(Some MethodPost, EpLoginStart)],
      Resource ''/opaque/login/finish'' [(Some MethodPost, EpLoginFinish)],
      Resource ''/simple/login'' [(Some MethodPost, EpSimpleLogin)],
      Resource ''/refresh'' [(Some MethodGet, EpRefresh)],
      Resource ''/logout'' [(Some MethodGet, EpLogout)],
      Scope ''/opaque/register''
        [Resource ''/start'' [(Some MethodPost, EpRegisterStart)],
         Resource ''/finish'' [(Some MethodPost, EpRegisterFinish)]]]
     @ (if enable_password_reset
        then [Resource ''/reset/step1/{user_id}'' [(Some MethodPost, EpResetStep1)],
              Resource ''/reset/step2/{token}'' [(Some MethodGet, EpResetStep2)]]
        else [])"

definition graphql_services :: "service list" where
  "graphql_services =
     [Resource ''/graphql'' [(Some MethodPost, EpGraphql), (Some MethodGet, EpGraphql)],
      Resource ''/graphql/playground'' [(Some MethodGet, EpPlayground)],
      Resource ''/graphql/graphiql'' [(Some MethodGet, EpGraphiql)]]"

definition http_services :: "bool \<Rightarrow> service list" where
  "http_services enable_password_reset =
     [Resource ''/health'' [(Some MethodGet, EpHealth)],
      Scope ''/auth'' (auth_services enable_password_reset),
      Scope ''/api'' graphql_services,
      Resource ''/pkg/lldap_app_bg.wasm.gz'' [(None, EpWasmCompressed)],
      Resource ''/pkg/lldap_app_bg.wasm'' [(None, EpWasm)],
      Resource ''/static/main.js'' [(None, EpMainJs)],
      Files ''/pkg'' ''./app/pkg'',
      Files ''/static'' ''./app/static'',
      Files ''/static/fonts'' ''./app/static/fonts'']"

definition default_service :: route where
  "default_service = (Some MethodGet, EpIndex)"

section \<open>The router\<close>

text \<open>
  A pattern is matched segment by segment; \<open>{name}\<close> takes one segment that is not empty. The first service that matches is
  taken, and inside a scope only its services are looked at: when none of them matches, the default service of the
  application answers. A resource without a route for the method answers 405.
\<close>

definition segments :: "string \<Rightarrow> string list" where
  "segments p = tl (split_on (CHR ''/'') p)"

definition segment_name :: "string \<Rightarrow> string option" where
  "segment_name s = (if s \<noteq> [] \<and> hd s = CHR ''{'' \<and> last s = CHR ''}'' then Some (butlast (tl s)) else None)"

text \<open>The named segments and the segments that are left.\<close>

fun match_segments :: "string list \<Rightarrow> string list \<Rightarrow> ((string \<times> string) list \<times> string list) option" where
  "match_segments [] xs = Some ([], xs)"
| "match_segments (p # ps) [] = None"
| "match_segments (p # ps) (x # xs) = (case segment_name p of
       None \<Rightarrow> if p = x then match_segments ps xs else None
     | Some n \<Rightarrow> if x = [] then None else map_option (\<lambda>(info, rest). ((n, x) # info, rest)) (match_segments ps xs))"

datatype found = FoundResource "route list" "(string \<times> string) list" | FoundFiles string "string list" | FoundNothing

text \<open>The service for a path, with the segments in front of it matched already.\<close>

fun find_service :: "service list \<Rightarrow> string list \<Rightarrow> (string \<times> string) list \<Rightarrow> found" where
  "find_service [] path info = FoundNothing"
| "find_service (Resource pattern routes # ss) path info = (case match_segments (segments pattern) path of
       Some (named, []) \<Rightarrow> FoundResource routes (info @ named)
     | _ \<Rightarrow> find_service ss path info)"
| "find_service (Scope mount inner # ss) path info = (case match_segments (segments mount) path of
       Some (named, rest) \<Rightarrow> find_service inner rest (info @ named)
     | None \<Rightarrow> find_service ss path info)"
| "find_service (Files mount directory # ss) path info = (case match_segments (segments mount) path of
       Some (named, rest) \<Rightarrow> FoundFiles directory rest
     | None \<Rightarrow> find_service ss path info)"

definition accepts :: "http_method \<Rightarrow> route \<Rightarrow> bool" where
  "accepts m r \<longleftrightarrow> fst r = None \<or> fst r = Some m"

text \<open>\<open>rt_decode\<close> is the decoding of a named segment. A file that is served, or not found, is not described.\<close>

record router =
  rt_dispatch :: "service list \<Rightarrow> route \<Rightarrow> http_method \<Rightarrow> string \<Rightarrow> endpoint \<times> (string \<times> string) list + nat"
  rt_decode :: "string \<Rightarrow> string"

definition router_ok :: "router \<Rightarrow> bool" where
  "router_ok rt \<longleftrightarrow> (\<forall>ss default m path. case find_service ss (segments path) [] of
       FoundResource routes info \<Rightarrow> rt_dispatch rt ss default m path = (case find (accepts m) routes of
           Some r \<Rightarrow> Inl (snd r, map (map_prod id (rt_decode rt)) info) | None \<Rightarrow> Inr 405)
     | FoundNothing \<Rightarrow> accepts m default \<longrightarrow> rt_dispatch rt ss default m path = Inl (snd default, [])
     | FoundFiles directory rest \<Rightarrow> True)"

text \<open>
  The server as the front end sees it: the path is the part of the URL after the base URL. \<open>respond\<close> is the answer of a
  handler to the named segments and the body.
\<close>

definition http_serve ::
  "'j browser \<Rightarrow> router \<Rightarrow> bool \<Rightarrow> (endpoint \<Rightarrow> (string \<times> string) list \<Rightarrow> string option \<Rightarrow> server_answer)
   \<Rightarrow> fetch_request \<Rightarrow> server_answer response" where
  "http_serve br rt enable_password_reset respond r =
     Inr (case rt_dispatch rt (http_services enable_password_reset) default_service (fr_method r) (drop (length (base_url br)) (fr_url r)) of
         Inl (ep, info) \<Rightarrow> respond ep info (fr_body r)
       | Inr status \<Rightarrow> \<lparr>sv_status = status, sv_status_text = [], sv_text = Inr []\<rparr>)"

section \<open>The files of the application\<close>

text \<open>
  The handlers of \<open>tcp_server.rs\<close> that serve the application: \<open>read\<close> is \<open>std::fs::read_to_string\<close> (or the opening of a
  \<open>NamedFile\<close>), \<open>path\<close> the path of the server's URL.
\<close>

text \<open>\<open>str::replace\<close>: \<open>skip\<close> characters belong to an occurrence that was replaced already.\<close>

fun replace_skip :: "string \<Rightarrow> string \<Rightarrow> nat \<Rightarrow> string \<Rightarrow> string" where
  "replace_skip p r skip [] = []"
| "replace_skip p r (Suc skip) (c # cs) = replace_skip p r skip cs"
| "replace_skip p r 0 (c # cs) = (if prefix p (c # cs) then r @ replace_skip p r (length p - 1) cs else c # replace_skip p r 0 cs)"

definition str_replace :: "string \<Rightarrow> string \<Rightarrow> string \<Rightarrow> string" where
  "str_replace p r s = replace_skip p r 0 s"

record served_file =
  sf_headers :: "(string \<times> string) list"
  sf_body :: string

definition base_tag :: "string \<Rightarrow> string" where
  "base_tag href = ''<base href='' @ CHR 0x22 # href @ [CHR 0x22, CHR ''>'']"

definition index_handler :: "(string \<Rightarrow> (string, 'e) result) \<Rightarrow> string \<Rightarrow> (served_file, 'e) result" where
  "index_handler read path = map_ok (\<lambda>file. \<lparr>sf_headers = [(''content-type'', ''text/html; charset=utf-8'')],
     sf_body = if path \<noteq> ''/'' then str_replace (base_tag ''/'') (base_tag (path @ ''/'')) file else file\<rparr>) (read ''./app/index.html'')"

definition main_js_handler :: "(string \<Rightarrow> (string, 'e) result) \<Rightarrow> string \<Rightarrow> (served_file, 'e) result" where
  "main_js_handler read path = map_ok (\<lambda>file. \<lparr>sf_headers = [(''content-type'', ''text/javascript'')],
     sf_body = if path \<noteq> ''/'' then str_replace ''/pkg/'' (path @ ''/pkg/'') file else file\<rparr>) (read ''./app/static/main.js'')"

definition wasm_handler :: "(string \<Rightarrow> (string, 'e) result) \<Rightarrow> (served_file, 'e) result" where
  "wasm_handler read = map_ok (\<lambda>file. \<lparr>sf_headers = [], sf_body = file\<rparr>) (read ''./app/pkg/lldap_app_bg.wasm'')"

definition wasm_handler_compressed :: "(string \<Rightarrow> (string, 'e) result) \<Rightarrow> (served_file, 'e) result" where
  "wasm_handler_compressed read = map_ok (\<lambda>file. \<lparr>sf_headers = [(''content-encoding'', ''gzip''), (''content-type'', ''application/wasm'')],
     sf_body = file\<rparr>) (read ''./app/pkg/lldap_app_bg.wasm.gz'')"

lemma replace_skip_drop: "replace_skip p r n s = replace_skip p r 0 (drop n s)"
  by (induction p r n s rule: replace_skip.induct) (simp_all del: replace_skip.simps(3))

lemma replace_none: "\<not> sublist p s \<Longrightarrow> replace_skip p r 0 s = s"
  by (induction s) (auto simp: sublist_Cons_right)

text \<open>An occurrence that starts nowhere before it and has none behind it is the only one that is replaced.\<close>

lemma str_replace_once:
  assumes "p \<noteq> []" and "\<And>i. i < length a \<Longrightarrow> \<not> prefix p (drop i (a @ p @ b))" and "\<not> sublist p b"
  shows "str_replace p r (a @ p @ b) = a @ r @ b"
  using assms(2)
proof (induction a)
  case Nil
  obtain c cs where p: "p = c # cs" using assms(1) by (cases p) auto
  then have "replace_skip p r (length p - 1) (cs @ b) = b"
    using assms(3) replace_skip_drop [of p r "length p - 1"] replace_none [of p b r] by simp
  then show ?case by (simp add: str_replace_def p)
next
  case (Cons x a)
  have "\<not> prefix p ((x # a) @ p @ b)" using Cons.prems [of 0] by simp
  moreover have "\<not> prefix p (drop i (a @ p @ b))" if "i < length a" for i
    using Cons.prems [of "Suc i"] that by simp
  ultimately show ?case using Cons.IH by (simp add: str_replace_def)
qed

text \<open>
  The page tells the browser the path of the server, from which the front end takes its base URL: the only \<open>base\<close> tag of
  the file gets that path, and nothing else of the file changes.
\<close>

theorem index_page_base:
  assumes "read ''./app/index.html'' = Ok (a @ base_tag ''/'' @ b)" and "path \<noteq> ''/''"
    and "\<And>i. i < length a \<Longrightarrow> \<not> prefix (base_tag ''/'') (drop i (a @ base_tag ''/'' @ b))" and "\<not> sublist (base_tag ''/'') b"
  shows "index_handler read path = Ok \<lparr>sf_headers = [(''content-type'', ''text/html; charset=utf-8'')],
    sf_body = a @ base_tag (path @ ''/'') @ b\<rparr>"
proof -
  have "base_tag ''/'' \<noteq> []" by (simp add: base_tag_def)
  from str_replace_once [OF this assms(3,4)] show ?thesis by (simp add: index_handler_def assms(1,2))
qed

section \<open>Where requests arrive\<close>

lemma segments_text: "CHR ''/'' \<notin> set s \<Longrightarrow> segments (CHR ''/'' # s) = [s]"
  by (simp add: segments_def split_on_no_sep split: list.splits)

lemmas routing = http_services_def auth_services_def graphql_services_def segments_def segment_name_def default_service_def accepts_def

lemma served:
  assumes "router_ok rt" and "find_service (http_services b) (segments path) [] = FoundResource routes info"
    and "find (accepts (fr_method r)) routes = Some (g, ep)" and "fr_url r = base_url br @ path"
  shows "http_serve br rt b respond r = Inr (respond ep (map (map_prod id (rt_decode rt)) info) (fr_body r))"
proof -
  have "rt_dispatch rt (http_services b) default_service (fr_method r) path = Inl (ep, map (map_prod id (rt_decode rt)) info)"
    using assms(1) [unfolded router_ok_def, rule_format, of "http_services b" default_service "fr_method r" path] assms(2,3) by simp
  then show ?thesis by (simp add: http_serve_def assms(4))
qed

lemma found_literal:
  "find_service (http_services b) (segments ''/auth/opaque/login/start'') [] = FoundResource [(Some MethodPost, EpLoginStart)] []"
  "find_service (http_services b) (segments ''/auth/opaque/login/finish'') [] = FoundResource [(Some MethodPost, EpLoginFinish)] []"
  "find_service (http_services b) (segments ''/auth/opaque/register/start'') [] = FoundResource [(Some MethodPost, EpRegisterStart)] []"
  "find_service (http_services b) (segments ''/auth/opaque/register/finish'') [] = FoundResource [(Some MethodPost, EpRegisterFinish)] []"
  "find_service (http_services b) (segments ''/auth/refresh'') [] = FoundResource [(Some MethodGet, EpRefresh)] []"
  "find_service (http_services b) (segments ''/auth/logout'') [] = FoundResource [(Some MethodGet, EpLogout)] []"
  "find_service (http_services b) (segments ''/api/graphql'') [] = FoundResource [(Some MethodPost, EpGraphql), (Some MethodGet, EpGraphql)] []"
  by (simp_all add: routing)

text \<open>The last segment of a path, when it has no further slash.\<close>

lemma segments_last:
  assumes "CHR ''/'' \<notin> set u"
  shows "segments (''/auth/reset/step1/'' @ u) = [''auth'', ''reset'', ''step1'', u]"
    and "segments (''/auth/reset/step2/'' @ u) = [''auth'', ''reset'', ''step2'', u]"
  using assms by (simp_all add: segments_def split_on_no_sep)

lemma found_reset:
  assumes "CHR ''/'' \<notin> set u" and "u \<noteq> []"
  shows "find_service (http_services True) (segments (''/auth/reset/step1/'' @ u)) [] = FoundResource [(Some MethodPost, EpResetStep1)] [(''user_id'', u)]"
    and "find_service (http_services True) (segments (''/auth/reset/step2/'' @ u)) [] = FoundResource [(Some MethodGet, EpResetStep2)] [(''token'', u)]"
  unfolding segments_last [OF assms(1)] using assms(2) by (simp_all add: routing)

lemma found_no_reset:
  "find_service (http_services False) (segments ''/auth/reset/step1/lldap_unlikely_very_long_user_name'') [] = FoundNothing"
  by (simp add: routing)

lemmas host_defs = host_login_start_def host_login_finish_def host_register_start_def host_register_finish_def host_refresh_def
  host_logout_def host_reset_password_step1_def host_reset_password_step2_def graphql_query_def
  call_server_json_with_error_message_def call_server_empty_response_with_error_message_def call_server_def fetch_new_def


definition demo_router :: router where
  "demo_router = \<lparr>rt_dispatch = (\<lambda>ss default m path. case find_service ss (segments path) [] of
       FoundResource routes info \<Rightarrow> (case find (accepts m) routes of Some r \<Rightarrow> Inl (snd r, info) | None \<Rightarrow> Inr 405)
     | FoundNothing \<Rightarrow> if accepts m default then Inl (snd default, []) else Inr 404
     | FoundFiles directory rest \<Rightarrow> Inl (EpFiles directory, [])), rt_decode = id\<rparr>"

lemma demo_router_ok: "router_ok demo_router"
  by (auto simp: router_ok_def demo_router_def prod.map_id0 split: found.splits option.splits)

lemma demo_router_id: "rt_decode demo_router = id"
  by (simp add: demo_router_def)

definition demo_respond :: "endpoint \<Rightarrow> (string \<times> string) list \<Rightarrow> string option \<Rightarrow> server_answer" where
  "demo_respond ep info body = \<lparr>sv_status = 200, sv_status_text = ''OK'',
     sv_text = Inr (if ep = EpResetStep2 then concat (map snd info) else [])\<rparr>"


text \<open>
  The probe for resets asks with GET for a route that takes POST. With resets enabled the answer is 405; with resets
  disabled no service matches and the index page of the application answers. Neither is 404, so that the front end always
  takes resets to be enabled, as long as the index page is not itself missing.
\<close>

theorem probe_always_enabled:
  assumes "router_ok rt" and "\<And>info body. sv_status (respond EpIndex info body) \<noteq> 404"
  shows "probe_password_reset br (http_serve br rt enabled respond) = Inr True"
proof (cases enabled)
  case True
  have "rt_dispatch rt (http_services True) default_service MethodGet ''/auth/reset/step1/lldap_unlikely_very_long_user_name'' = Inr 405"
    using assms(1) [unfolded router_ok_def, rule_format, of "http_services True" default_service MethodGet
        "''/auth/reset/step1/lldap_unlikely_very_long_user_name''"] found_reset(1) [of "''lldap_unlikely_very_long_user_name''"]
    by (simp add: accepts_def)
  with True show ?thesis by (simp add: probe_password_reset_def http_serve_def fetch_new_def)
next
  case False
  have "rt_dispatch rt (http_services False) default_service MethodGet ''/auth/reset/step1/lldap_unlikely_very_long_user_name'' = Inl (EpIndex, [])"
    using assms(1) [unfolded router_ok_def, rule_format, of "http_services False" default_service MethodGet
        "''/auth/reset/step1/lldap_unlikely_very_long_user_name''"] found_no_reset
    by (simp add: accepts_def default_service_def)
  with False assms(2) show ?thesis by (simp add: probe_password_reset_def http_serve_def fetch_new_def)
qed

text \<open>
  The user name of a reset becomes a segment of the path, after an escaping that is meant for a query: a name whose escaped
  form has a slash matches no service.
\<close>

theorem reset_name_with_slash:
  assumes "CHR ''/'' \<in> set (encode_query u)"
  shows "find_service (http_services enabled) (segments (''/auth/reset/step1/'' @ encode_query u)) [] = FoundNothing"
proof -
  obtain a b where u: "encode_query u = a @ CHR ''/'' # b" "CHR ''/'' \<notin> set a"
    using split_list_first [OF assms] by blast
  obtain x xs where "split_on (CHR ''/'') b = x # xs" by (metis split_on_nonempty neq_Nil_conv)
  then have "segments (''/auth/reset/step1/'' @ encode_query u) = ''auth'' # ''reset'' # ''step1'' # a # x # xs"
    by (simp add: segments_def u split_on_append)
  then show ?thesis by (simp add: routing)
qed

end
