(* ===== verification/Migration_Prompts.thy ===== *)
theory Migration_Prompts
  imports Migration_Tool Ui_Requests
begin

text \<open>
  The rest of \<open>migration-tool/src\<close>: the prompts for the URLs of the two servers with their validation and completion, and
  the GraphQL client of the tool. A prompt (\<open>requestty\<close>) repeats its question until the validation accepts the reply;
  the texts that the operator types are a list. Name resolution and connections are arguments; the host is resolved once
  for the validation and once more for the result, and may resolve differently.
\<close>

section \<open>Completion and prompts\<close>

definition autocomplete_domain_suffix :: "string \<Rightarrow> string \<Rightarrow> string list" where
  "autocomplete_domain_suffix input domain =
     map (\<lambda>part. input @ trim_start_matches part domain)
       (filter (\<lambda>part. prefix ''d'' part \<and> prefix part domain) (split_on (CHR '','') input)) @ [input]"

definition complete_protocol :: "string list \<Rightarrow> string \<Rightarrow> string list" where
  "complete_protocol protocols reply = filter (prefix reply) protocols @ [reply]"

fun prompt_one :: "(string \<Rightarrow> bool) \<Rightarrow> string list \<Rightarrow> string option \<times> string list" where
  "prompt_one valid [] = (None, [])"
| "prompt_one valid (t # ts) = (if valid t then (Some t, ts) else prompt_one valid ts)"

definition ldap_protocols :: "(string \<times> string) list" where
  "ldap_protocols = [(''ldap://'', ''389''), (''ldaps://'', ''636'')]"

definition http_protocols :: "(string \<times> string) list" where
  "http_protocols = [(''http://'', ''17170''), (''https://'', ''17170'')]"

text \<open>The errors of a validation are texts for the operator.\<close>

datatype url_error = UrlUnresolved tool_error | UrlNoAnswer | UrlWrongProtocol | UrlNotLldap

definition validate_ldap_url :: "(string \<Rightarrow> bool) \<Rightarrow> (string \<Rightarrow> bool) \<Rightarrow> string \<Rightarrow> (unit, url_error) result" where
  "validate_ldap_url resolves connects url = (case check_host_exists resolves url ldap_protocols of
       Ok (Some url') \<Rightarrow> if connects url' then Ok () else Err UrlNoAnswer
     | Ok None \<Rightarrow> Err UrlWrongProtocol
     | Err e \<Rightarrow> Err (UrlUnresolved e)
     | Panic \<Rightarrow> Panic)"

text \<open>\<open>get\<close> is the status of the reply to a request without a token.\<close>

definition validate_lldap_url :: "(string \<Rightarrow> bool) \<Rightarrow> (string \<Rightarrow> nat option) \<Rightarrow> string \<Rightarrow> (unit, url_error) result" where
  "validate_lldap_url resolves get_status url = (case check_host_exists resolves url http_protocols of
       Ok (Some url') \<Rightarrow> (case get_status (url' @ ''/api/graphql'') of
           None \<Rightarrow> Err UrlNoAnswer
         | Some status \<Rightarrow> if status = 401 then Ok () else Err UrlNotLldap)
     | Ok None \<Rightarrow> Err UrlWrongProtocol
     | Err e \<Rightarrow> Err (UrlUnresolved e)
     | Panic \<Rightarrow> Panic)"

text \<open>\<open>check_host_exists(..).unwrap().unwrap()\<close> on the reply.\<close>

definition resolved_url :: "(string \<Rightarrow> bool) \<Rightarrow> (string \<times> string) list \<Rightarrow> string \<Rightarrow> (string, tool_error) result" where
  "resolved_url resolves protocols reply = (case check_host_exists resolves reply protocols of Ok (Some url) \<Rightarrow> Ok url | _ \<Rightarrow> Panic)"

definition get_ldap_url ::
  "(string \<Rightarrow> bool) \<Rightarrow> (string \<Rightarrow> bool) \<Rightarrow> (string \<Rightarrow> bool) \<Rightarrow> string list \<Rightarrow> (string, tool_error) result \<times> string list" where
  "get_ldap_url resolves resolves_again connects texts = (case prompt_one (\<lambda>url. validate_ldap_url resolves connects url = Ok ()) texts of
       (None, rest) \<Rightarrow> (Err PromptClosed, rest)
     | (Some reply, rest) \<Rightarrow> (resolved_url resolves_again ldap_protocols reply, rest))"

definition get_lldap_server ::
  "(string \<Rightarrow> bool) \<Rightarrow> (string \<Rightarrow> bool) \<Rightarrow> (string \<Rightarrow> nat option) \<Rightarrow> string list \<Rightarrow> (string, tool_error) result \<times> string list" where
  "get_lldap_server resolves resolves_again get_status texts = (case prompt_one (\<lambda>url. validate_lldap_url resolves get_status url = Ok ()) texts of
       (None, rest) \<Rightarrow> (Err PromptClosed, rest)
     | (Some reply, rest) \<Rightarrow> (resolved_url resolves_again http_protocols reply, rest))"

section \<open>The GraphQL client\<close>

record graphql_client =
  gc_url :: string
  gc_auth_header :: string

text \<open>\<open>header_ok\<close>: the text can be a header value.\<close>

definition GraphQLClient_new :: "(string \<Rightarrow> bool) \<Rightarrow> string \<Rightarrow> string \<Rightarrow> graphql_client response" where
  "GraphQLClient_new header_ok url auth_token = (if header_ok (''Bearer '' @ auth_token)
     then Inr \<lparr>gc_url = url @ ''/api/graphql'', gc_auth_header = ''Bearer '' @ auth_token\<rparr> else Inl ''failed to parse header value'')"

text \<open>\<open>send\<close> has the URL, the authorization header and the body; \<open>error_for_status\<close> refuses the statuses from 400.\<close>

definition GraphQLClient_post ::
  "(string \<Rightarrow> string \<Rightarrow> 'b \<Rightarrow> server_answer response) \<Rightarrow> (string response \<Rightarrow> ('a option \<times> string list option) option)
   \<Rightarrow> graphql_client \<Rightarrow> 'b \<Rightarrow> 'a response" where
  "GraphQLClient_post send json client query = (case send (gc_url client) (gc_auth_header client) query of
       Inl _ \<Rightarrow> Inl ''while sending a request to the LLDAP server''
     | Inr reply \<Rightarrow>
         if 400 \<le> sv_status reply \<and> sv_status reply < 600 then Inl ''error from an LLDAP response''
         else (case json (sv_text reply) of
             None \<Rightarrow> Inl ''GraphQL error from an LLDAP response''
           | Some r \<Rightarrow> context_response ''GraphQL error from an LLDAP response'' (unwrap_graphql_response r)))"

section \<open>What the prompts give\<close>

lemma prompt_one_Some: "prompt_one valid ts = (Some t, rest) \<Longrightarrow> valid t"
  by (induction ts) (auto split: if_splits)

lemma prompt_one_answered: "\<exists>t\<in>set ts. valid t \<Longrightarrow> \<exists>t rest. prompt_one valid ts = (Some t, rest)"
  by (induction ts) auto

lemma check_host_protocol:
  "check_host_exists resolves url protocols = Ok (Some url') \<Longrightarrow> \<exists>p\<in>set protocols. prefix (fst p) url'"
  by (induction resolves url protocols rule: check_host_exists.induct)
     (auto simp: Let_def simp del: trim_start_matches.simps split: if_splits)

lemma validated_resolves:
  "validate_ldap_url resolves connects url = Ok () \<Longrightarrow> \<exists>url'. resolved_url resolves ldap_protocols url = Ok url' \<and> connects url'"
  "validate_lldap_url resolves get_status url = Ok ()
     \<Longrightarrow> \<exists>url'. resolved_url resolves http_protocols url = Ok url' \<and> get_status (url' @ ''/api/graphql'') = Some 401"
  by (auto simp: validate_ldap_url_def validate_lldap_url_def resolved_url_def split: result.splits option.splits if_splits)

text \<open>
  As long as the names resolve the same way twice, the prompts do not panic; the URL of the first is one the tool could
  connect to, and that of the second belongs to a server whose GraphQL route asks for a token.
\<close>

theorem url_prompts:
  "get_ldap_url resolves resolves connects texts = (r, rest) \<Longrightarrow> r \<noteq> Panic \<and> (\<forall>url. r = Ok url \<longrightarrow> connects url
     \<and> (prefix ''ldap://'' url \<or> prefix ''ldaps://'' url))"
  "get_lldap_server resolves resolves get_status texts = (r', rest') \<Longrightarrow> r' \<noteq> Panic \<and> (\<forall>url. r' = Ok url
     \<longrightarrow> get_status (url @ ''/api/graphql'') = Some 401 \<and> (prefix ''http://'' url \<or> prefix ''https://'' url))"
proof -
  have proto: "resolved_url resolves protocols t = Ok url \<Longrightarrow> \<exists>p\<in>set protocols. prefix (fst p) url" for t url protocols
    using check_host_protocol [of resolves t protocols url] by (auto simp: resolved_url_def split: result.splits option.splits)
  show "get_ldap_url resolves resolves connects texts = (r, rest) \<Longrightarrow> r \<noteq> Panic \<and> (\<forall>url. r = Ok url \<longrightarrow> connects url
     \<and> (prefix ''ldap://'' url \<or> prefix ''ldaps://'' url))"
    using prompt_one_Some [of "\<lambda>url. validate_ldap_url resolves connects url = Ok ()" texts]
    by (auto simp: get_ldap_url_def ldap_protocols_def split: option.splits prod.splits
        dest!: validated_resolves(1) dest: proto [unfolded ldap_protocols_def])
  show "get_lldap_server resolves resolves get_status texts = (r', rest') \<Longrightarrow> r' \<noteq> Panic \<and> (\<forall>url. r' = Ok url
     \<longrightarrow> get_status (url @ ''/api/graphql'') = Some 401 \<and> (prefix ''http://'' url \<or> prefix ''https://'' url))"
    using prompt_one_Some [of "\<lambda>url. validate_lldap_url resolves get_status url = Ok ()" texts]
    by (auto simp: get_lldap_server_def http_protocols_def split: option.splits prod.splits
        dest!: validated_resolves(2) dest: proto [unfolded http_protocols_def])
qed

end
