(* ===== verification/Ui_Login.thy ===== *)
theory Ui_Login
  imports Ui_Common
begin

text \<open>
  The forms of the front end that handle passwords (\<open>app/src/components\<close>): \<open>login.rs\<close>, \<open>change_password.rs\<close>,
  \<open>reset_password_step1.rs\<close> and \<open>reset_password_step2.rs\<close>. Each runs the client side of the OPAQUE protocol over several
  requests; the functions of the protocol are the record \<open>opaque_lib\<close>. Each form satisfies the contract
  \<open>guarded_component\<close>, so that it never panics, and the password forms send a registration only when they should.
\<close>

section \<open>Validation\<close>

text \<open>The validator \<open>length(min = n)\<close> counts characters: the bytes that do not continue a UTF-8 sequence.\<close>

definition chars_count :: "string \<Rightarrow> nat" where
  "chars_count s = length (filter (\<lambda>c. \<not> (0x80 \<le> (of_char c :: nat) \<and> (of_char c :: nat) < 0xC0)) s)"

definition validate_min_length :: "nat \<Rightarrow> string \<Rightarrow> bool" where
  "validate_min_length n s \<longleftrightarrow> n \<le> chars_count s"

definition empty_or_long :: "string \<Rightarrow> bool" where
  "empty_or_long value \<longleftrightarrow> value = [] \<or> 8 \<le> length value"

definition check_form :: "bool \<Rightarrow> ('s, unit, string) action" where
  "check_form valid = (if valid then return () else fail ''Check the form for errors'')"

lemma runs_check_form [runs_simps]: "runs (check_form b) c P E = (if b then P () c else E ''Check the form for errors'' c)"
  by (simp add: check_form_def runs_simps)

section \<open>Login\<close>

record login_form_model =
  lm_username :: string
  lm_password :: string

datatype login_task =
    RefreshTask
  | LoginStartTask login_start_request bytes
  | LoginFinishTask login_finish_request

record login_form = "login_task common_parts" +
  lo_form :: login_form_model
  lo_refreshing :: bool

datatype login_msg =
    LoginUpdate
  | LoginSubmit
  | AuthenticationRefreshResponse "(string \<times> bool) response"
  | AuthenticationStartResponse bytes "login_start_response response"
  | AuthenticationFinishResponse "(string \<times> bool) response"

definition validate_login :: "login_form_model \<Rightarrow> bool" where
  "validate_login m \<longleftrightarrow> validate_min_length 1 (lm_username m) \<and> validate_min_length 8 (lm_password m)"

fun login_handle_msg :: "opaque_lib \<Rightarrow> nat \<Rightarrow> login_msg \<Rightarrow> (login_form, bool, string) action" where
  "login_handle_msg lib rng LoginUpdate = return True"
| "login_handle_msg lib rng LoginSubmit = with_self (\<lambda>self.
     bind (check_form (validate_login (lo_form self))) (\<lambda>_.
     bind (lift_result (ok_or ''Could not initialize login'' (client_login_start lib rng (lm_password (lo_form self))))) (\<lambda>(state, message).
     bind (call_backend (LoginStartTask \<lparr>ls_username = UserId_new (lm_username (lo_form self)), ls_login_start_request = message\<rparr> state))
       (\<lambda>_. return True))))"
| "login_handle_msg lib rng (AuthenticationStartResponse login_start res) =
     bind (try_response (context_response ''Could not log in (invalid response to login start)'' res)) (\<lambda>res.
     (case client_login_finish lib login_start (lr_credential_response res) of
        None \<Rightarrow> bind (modify (\<lambda>c. c\<lparr>cc_error := Some ''Invalid username or password''\<rparr>)) (\<lambda>_. return True)
      | Some message \<Rightarrow>
          bind (call_backend (LoginFinishTask \<lparr>lf_server_data = lr_server_data res, lf_credential_finalization = message\<rparr>))
            (\<lambda>_. return False)))"
| "login_handle_msg lib rng (AuthenticationFinishResponse user_info) =
     bind (try_response (context_response ''Could not log in'' user_info)) (\<lambda>(user, admin).
     bind (emit (EmitLoggedIn user admin)) (\<lambda>_. return True))"
| "login_handle_msg lib rng (AuthenticationRefreshResponse user_info) =
     bind (modify (\<lambda>c. c\<lparr>lo_refreshing := False\<rparr>)) (\<lambda>_.
     bind (case user_info of Inr (user, admin) \<Rightarrow> emit (EmitLoggedIn user admin) | Inl _ \<Rightarrow> return ()) (\<lambda>_. return True))"

definition login_create :: login_form where
  "login_create = \<lparr>cc_error = None, cc_is_task_running = True, cc_spawned = [RefreshTask], cc_effects = [],
     lo_form = \<lparr>lm_username = [], lm_password = []\<rparr>, lo_refreshing = True\<rparr>"

fun login_clickable :: "login_form \<Rightarrow> login_msg \<Rightarrow> bool" where
  "login_clickable v LoginUpdate \<longleftrightarrow> \<not> lo_refreshing v"
| "login_clickable v LoginSubmit \<longleftrightarrow> \<not> lo_refreshing v \<and> \<not> cc_is_task_running v"
| "login_clickable v _ \<longleftrightarrow> False"

fun login_answers :: "login_task \<Rightarrow> login_msg \<Rightarrow> bool" where
  "login_answers RefreshTask (AuthenticationRefreshResponse r) \<longleftrightarrow> True"
| "login_answers (LoginStartTask req state) (AuthenticationStartResponse st r) \<longleftrightarrow> st = state"
| "login_answers (LoginFinishTask req) (AuthenticationFinishResponse r) \<longleftrightarrow> True"
| "login_answers _ _ \<longleftrightarrow> False"

definition login_component :: "opaque_lib \<Rightarrow> (login_form, login_task, login_msg) ui_component" where
  "login_component lib = \<lparr>co_update = (\<lambda>rng. ccp_update (login_handle_msg lib rng)), co_clickable = login_clickable,
     co_edit = (\<lambda>c c'. \<exists>m. c' = c\<lparr>lo_form := m\<rparr>), co_answers = login_answers, co_background = (\<lambda>_ _. False)\<rparr>"

interpretation login: guarded_component "login_component lib" login_create "\<lambda>msg. msg = LoginUpdate" "\<lambda>_ _. True" for lib
  by (rule form_component)
     (auto simp: login_component_def login_create_def one_task_def same_task_def runs_simps
        elim!: login_clickable.elims login_answers.elims split: sum.splits option.splits prod.splits)

section \<open>Change of a password\<close>

datatype opaque_data = OpaqueNone | OpaqueLogin bytes | OpaqueRegistration bytes

record change_password_model =
  cp_old_password :: string
  cp_password :: string
  cp_confirm_password :: string

datatype change_password_task =
    CpLoginStartTask login_start_request
  | CpRegisterStartTask registration_start_request
  | CpRegisterFinishTask registration_finish_request

record change_password_form = "change_password_task common_parts" +
  cp_form :: change_password_model
  cp_opaque_data :: opaque_data

datatype change_password_msg =
    CpFormUpdate
  | CpSubmit
  | CpAuthenticationStartResponse "login_start_response response"
  | CpSubmitNewPassword
  | CpRegistrationStartResponse "registration_start_response response"
  | CpRegistrationFinishResponse "unit response"

definition validate_change_password :: "change_password_model \<Rightarrow> bool" where
  "validate_change_password m \<longleftrightarrow> empty_or_long (cp_old_password m) \<and> validate_min_length 8 (cp_password m)
     \<and> cp_confirm_password m = cp_password m"

text \<open>The branch of \<open>SubmitNewPassword\<close>, which two other branches call.\<close>

definition cp_submit_new_password :: "opaque_lib \<Rightarrow> nat \<Rightarrow> string \<Rightarrow> (change_password_form, bool, string) action" where
  "cp_submit_new_password lib rng username = with_self (\<lambda>self.
     bind (lift_result (ok_or ''Could not initiate password change'' (client_registration_start lib rng (cp_password (cp_form self)))))
       (\<lambda>(state, message).
     bind (modify (\<lambda>c. c\<lparr>cp_opaque_data := OpaqueRegistration state\<rparr>)) (\<lambda>_.
     bind (call_backend (CpRegisterStartTask \<lparr>rs_username = UserId_new username, rs_registration_start_request = message\<rparr>))
       (\<lambda>_. return True))))"

fun cp_handle_msg ::
  "opaque_lib \<Rightarrow> string \<Rightarrow> bool \<Rightarrow> nat \<Rightarrow> change_password_msg \<Rightarrow> (change_password_form, bool, string) action" where
  "cp_handle_msg lib username admin rng CpFormUpdate = return True"
| "cp_handle_msg lib username admin rng CpSubmit = with_self (\<lambda>self.
     bind (check_form (validate_change_password (cp_form self))) (\<lambda>_.
     if admin then cp_submit_new_password lib rng username
     else if cp_old_password (cp_form self) = [] then fail ''Current password should not be empty''
     else bind (lift_result (ok_or ''Could not initialize login'' (client_login_start lib rng (cp_old_password (cp_form self)))))
       (\<lambda>(state, message).
     bind (modify (\<lambda>c. c\<lparr>cp_opaque_data := OpaqueLogin state\<rparr>)) (\<lambda>_.
     bind (call_backend (CpLoginStartTask \<lparr>ls_username = UserId_new username, ls_login_start_request = message\<rparr>))
       (\<lambda>_. return True)))))"
| "cp_handle_msg lib username admin rng (CpAuthenticationStartResponse res) =
     bind (try_response (context_response ''Could not initiate login'' res)) (\<lambda>res. with_self (\<lambda>self.
     bind (modify (\<lambda>c. c\<lparr>cp_opaque_data := OpaqueNone\<rparr>)) (\<lambda>_.
     (case cp_opaque_data self of
        OpaqueLogin l \<Rightarrow>
          bind (lift_result (ok_or ''Invalid username or password'' (client_login_finish lib l (lr_credential_response res))))
            (\<lambda>_. cp_submit_new_password lib rng username)
      | _ \<Rightarrow> panic))))"
| "cp_handle_msg lib username admin rng CpSubmitNewPassword = cp_submit_new_password lib rng username"
| "cp_handle_msg lib username admin rng (CpRegistrationStartResponse res) =
     bind (try_response (context_response ''Could not initiate password change'' res)) (\<lambda>res. with_self (\<lambda>self.
     bind (modify (\<lambda>c. c\<lparr>cp_opaque_data := OpaqueNone\<rparr>)) (\<lambda>_.
     (case cp_opaque_data self of
        OpaqueRegistration registration \<Rightarrow>
          bind (lift_result (ok_or ''Error during password change''
              (client_registration_finish lib registration (rr_registration_response res) rng))) (\<lambda>upload.
          bind (call_backend (CpRegisterFinishTask \<lparr>rf_server_data = rr_server_data res, rf_registration_upload = upload\<rparr>))
            (\<lambda>_. return False))
      | _ \<Rightarrow> panic))))"
| "cp_handle_msg lib username admin rng (CpRegistrationFinishResponse response) =
     bind (case response of Inr _ \<Rightarrow> emit (PushRoute (Route_UserDetails username)) | Inl _ \<Rightarrow> return ()) (\<lambda>_.
     bind (try_response response) (\<lambda>_. return True))"

definition cp_create :: change_password_form where
  "cp_create = \<lparr>cc_error = None, cc_is_task_running = False, cc_spawned = [], cc_effects = [],
     cp_form = \<lparr>cp_old_password = [], cp_password = [], cp_confirm_password = []\<rparr>, cp_opaque_data = OpaqueNone\<rparr>"

fun cp_clickable :: "change_password_form \<Rightarrow> change_password_msg \<Rightarrow> bool" where
  "cp_clickable v CpFormUpdate \<longleftrightarrow> True"
| "cp_clickable v CpSubmit \<longleftrightarrow> \<not> cc_is_task_running v"
| "cp_clickable v _ \<longleftrightarrow> False"

fun cp_answers :: "change_password_task \<Rightarrow> change_password_msg \<Rightarrow> bool" where
  "cp_answers (CpLoginStartTask req) (CpAuthenticationStartResponse r) \<longleftrightarrow> True"
| "cp_answers (CpRegisterStartTask req) (CpRegistrationStartResponse r) \<longleftrightarrow> True"
| "cp_answers (CpRegisterFinishTask req) (CpRegistrationFinishResponse r) \<longleftrightarrow> True"
| "cp_answers _ _ \<longleftrightarrow> False"

definition cp_component ::
  "opaque_lib \<Rightarrow> string \<Rightarrow> bool \<Rightarrow> (change_password_form, change_password_task, change_password_msg) ui_component" where
  "cp_component lib username admin = \<lparr>co_update = (\<lambda>rng. ccp_update (cp_handle_msg lib username admin rng)),
     co_clickable = cp_clickable, co_edit = (\<lambda>c c'. \<exists>m. c' = c\<lparr>cp_form := m\<rparr>), co_answers = cp_answers,
     co_background = (\<lambda>_ _. False)\<rparr>"

text \<open>
  The state of the protocol that the pending request needs is there when its answer comes, and belongs to the request:
  a login with a password that was typed, and a registration for the user of the page.
\<close>

fun cp_ready :: "opaque_lib \<Rightarrow> string \<Rightarrow> change_password_task \<Rightarrow> opaque_data \<Rightarrow> bool" where
  "cp_ready lib username (CpLoginStartTask req) (OpaqueLogin st) \<longleftrightarrow> ls_username req = UserId_new username
     \<and> (\<exists>rng old_password. old_password \<noteq> [] \<and> client_login_start lib rng old_password = Some (st, ls_login_start_request req))"
| "cp_ready lib username (CpRegisterStartTask req) (OpaqueRegistration st) \<longleftrightarrow> rs_username req = UserId_new username
     \<and> (\<exists>rng password. client_registration_start lib rng password = Some (st, rs_registration_start_request req))"
| "cp_ready lib username (CpRegisterFinishTask req) d \<longleftrightarrow> True"
| "cp_ready lib username _ _ \<longleftrightarrow> False"

definition cp_rel :: "opaque_lib \<Rightarrow> string \<Rightarrow> change_password_form \<Rightarrow> bool" where
  "cp_rel lib username c \<longleftrightarrow> (\<forall>t\<in>set (cc_spawned c). cp_ready lib username t (cp_opaque_data c))"

interpretation change_password: guarded_component "cp_component lib username admin" cp_create "\<lambda>msg. msg = CpFormUpdate" "\<lambda>c _. cp_rel lib username c"
  for lib username admin
proof unfold_locales
  fix v c :: change_password_form and msg r
  show "one_task cp_create" "cp_rel lib username cp_create" by (simp_all add: one_task_def cp_create_def cp_rel_def)
  show "co_clickable (cp_component lib username admin) v msg \<Longrightarrow> cc_is_task_running v \<Longrightarrow> msg = CpFormUpdate"
    by (cases msg) (simp_all add: cp_component_def)
  assume "co_clickable (cp_component lib username admin) v msg" "\<not> cc_is_task_running c" "one_task c"
  then show "settles (co_update (cp_component lib username admin) r msg) c
      (\<lambda>b c'. one_task c' \<and> (cc_is_task_running c' \<longrightarrow> b) \<and> cp_rel lib username c')"
    by (cases msg)
       (auto simp: cp_component_def runs_simps one_task_def cp_rel_def cp_submit_new_password_def split: prod.splits option.splits)
next
  fix v c :: change_password_form and t msg r
  assume "co_answers (cp_component lib username admin) t msg" "cc_spawned c = [t]" "one_task c" "cp_rel lib username c"
  then show "settles (co_update (cp_component lib username admin) r msg) (finish_task t c) (\<lambda>b c'. one_task c' \<and> cp_rel lib username c')"
    by (cases "(t, msg)" rule: cp_answers.cases; cases "cp_opaque_data c")
       (auto simp: cp_component_def runs_simps one_task_def cp_rel_def cp_submit_new_password_def finish_task_def
          split: sum.splits option.splits prod.splits)
qed (auto simp: cp_component_def runs_simps same_task_def cp_rel_def)

section \<open>Reset of a password\<close>

datatype reset1_task = Reset1Task string

record reset1_form = "reset1_task common_parts" +
  r1_username :: string
  r1_just_succeeded :: bool

datatype reset1_msg = Reset1Update | Reset1Submit | PasswordResetResponse "unit response"

fun reset1_handle_msg :: "reset1_msg \<Rightarrow> (reset1_form, bool, string) action" where
  "reset1_handle_msg Reset1Update = return True"
| "reset1_handle_msg Reset1Submit = with_self (\<lambda>self.
     bind (check_form (validate_min_length 1 (r1_username self))) (\<lambda>_.
     bind (call_backend (Reset1Task (r1_username self))) (\<lambda>_. return True)))"
| "reset1_handle_msg (PasswordResetResponse response) =
     bind (try_response response) (\<lambda>_. bind (modify (\<lambda>c. c\<lparr>r1_just_succeeded := True\<rparr>)) (\<lambda>_. return True))"

definition reset1_update :: "reset1_msg \<Rightarrow> (reset1_form, bool, string) action" where
  "reset1_update msg = bind (modify (\<lambda>c. c\<lparr>r1_just_succeeded := False\<rparr>)) (\<lambda>_. ccp_update reset1_handle_msg msg)"

definition reset1_create :: reset1_form where
  "reset1_create = \<lparr>cc_error = None, cc_is_task_running = False, cc_spawned = [], cc_effects = [], r1_username = [],
     r1_just_succeeded = False\<rparr>"

fun reset1_clickable :: "reset1_form \<Rightarrow> reset1_msg \<Rightarrow> bool" where
  "reset1_clickable v Reset1Update \<longleftrightarrow> True"
| "reset1_clickable v Reset1Submit \<longleftrightarrow> \<not> r1_just_succeeded v \<and> \<not> cc_is_task_running v"
| "reset1_clickable v (PasswordResetResponse r) \<longleftrightarrow> False"

fun reset1_answers :: "reset1_task \<Rightarrow> reset1_msg \<Rightarrow> bool" where
  "reset1_answers (Reset1Task u) (PasswordResetResponse r) \<longleftrightarrow> True"
| "reset1_answers _ _ \<longleftrightarrow> False"

definition reset1_component :: "(reset1_form, reset1_task, reset1_msg) ui_component" where
  "reset1_component = \<lparr>co_update = (\<lambda>rng. reset1_update), co_clickable = reset1_clickable,
     co_edit = (\<lambda>c c'. \<exists>u. c' = c\<lparr>r1_username := u\<rparr>), co_answers = reset1_answers, co_background = (\<lambda>_ _. False)\<rparr>"

lemma settles_modify_first [runs_simps]:
  "settles (bind (modify f) (\<lambda>_. m)) c P = settles m (f c) P"
  by (simp add: settles_def bind_def modify_def)

interpretation reset1: guarded_component reset1_component reset1_create "\<lambda>msg. msg = Reset1Update" "\<lambda>_ _. True"
  by (rule form_component)
     (auto simp: reset1_component_def reset1_create_def reset1_update_def one_task_def same_task_def runs_simps
        elim!: reset1_clickable.elims reset1_answers.elims split: sum.splits)

record reset2_model =
  r2_password :: string
  r2_confirm_password :: string

datatype reset2_task =
    ValidateTokenTask string
  | R2RegisterStartTask registration_start_request
  | R2RegisterFinishTask registration_finish_request

record reset2_form = "reset2_task common_parts" +
  r2_form :: reset2_model
  r2_username :: "string option"
  r2_opaque_data :: "bytes option"

text \<open>The answer to the token holds the user it belongs to.\<close>

datatype reset2_msg =
    ValidateTokenResponse "string response"
  | R2FormUpdate
  | R2Submit
  | R2RegistrationStartResponse "registration_start_response response"
  | R2RegistrationFinishResponse "unit response"

definition validate_reset2 :: "reset2_model \<Rightarrow> bool" where
  "validate_reset2 m \<longleftrightarrow> validate_min_length 8 (r2_password m) \<and> r2_confirm_password m = r2_password m"

fun reset2_handle_msg :: "opaque_lib \<Rightarrow> nat \<Rightarrow> reset2_msg \<Rightarrow> (reset2_form, bool, string) action" where
  "reset2_handle_msg lib rng (ValidateTokenResponse response) =
     bind (try_response response) (\<lambda>u. bind (modify (\<lambda>c. c\<lparr>r2_username := Some u\<rparr>)) (\<lambda>_. return True))"
| "reset2_handle_msg lib rng R2FormUpdate = return True"
| "reset2_handle_msg lib rng R2Submit = with_self (\<lambda>self.
     bind (check_form (validate_reset2 (r2_form self))) (\<lambda>_.
     bind (lift_result (ok_or ''Could not initiate password change'' (client_registration_start lib rng (r2_password (r2_form self)))))
       (\<lambda>(state, message).
     (case r2_username self of None \<Rightarrow> panic | Some u \<Rightarrow>
        bind (modify (\<lambda>c. c\<lparr>r2_opaque_data := Some state\<rparr>)) (\<lambda>_.
        bind (call_backend (R2RegisterStartTask \<lparr>rs_username = UserId_new u, rs_registration_start_request = message\<rparr>))
          (\<lambda>_. return True))))))"
| "reset2_handle_msg lib rng (R2RegistrationStartResponse res) =
     bind (try_response (context_response ''Could not initiate password change'' res)) (\<lambda>res. with_self (\<lambda>self.
     bind (modify (\<lambda>c. c\<lparr>r2_opaque_data := None\<rparr>)) (\<lambda>_.
     (case r2_opaque_data self of None \<Rightarrow> panic | Some registration \<Rightarrow>
        bind (lift_result (ok_or ''Error during password change''
            (client_registration_finish lib registration (rr_registration_response res) rng))) (\<lambda>upload.
        bind (call_backend (R2RegisterFinishTask \<lparr>rf_server_data = rr_server_data res, rf_registration_upload = upload\<rparr>))
          (\<lambda>_. return False))))))"
| "reset2_handle_msg lib rng (R2RegistrationFinishResponse response) =
     bind (case response of Inr _ \<Rightarrow> emit (PushRoute Route_Login) | Inl _ \<Rightarrow> return ()) (\<lambda>_.
     bind (try_response response) (\<lambda>_. return True))"

definition reset2_create :: "string \<Rightarrow> reset2_form" where
  "reset2_create token = \<lparr>cc_error = None, cc_is_task_running = True, cc_spawned = [ValidateTokenTask token], cc_effects = [],
     r2_form = \<lparr>r2_password = [], r2_confirm_password = []\<rparr>, r2_username = None, r2_opaque_data = None\<rparr>"

text \<open>Until a user is known, the view has no form.\<close>

fun reset2_clickable :: "reset2_form \<Rightarrow> reset2_msg \<Rightarrow> bool" where
  "reset2_clickable v R2FormUpdate \<longleftrightarrow> r2_username v \<noteq> None"
| "reset2_clickable v R2Submit \<longleftrightarrow> r2_username v \<noteq> None \<and> \<not> cc_is_task_running v"
| "reset2_clickable v _ \<longleftrightarrow> False"

fun reset2_answers :: "reset2_task \<Rightarrow> reset2_msg \<Rightarrow> bool" where
  "reset2_answers (ValidateTokenTask token) (ValidateTokenResponse r) \<longleftrightarrow> True"
| "reset2_answers (R2RegisterStartTask req) (R2RegistrationStartResponse r) \<longleftrightarrow> True"
| "reset2_answers (R2RegisterFinishTask req) (R2RegistrationFinishResponse r) \<longleftrightarrow> True"
| "reset2_answers _ _ \<longleftrightarrow> False"

definition reset2_component :: "opaque_lib \<Rightarrow> (reset2_form, reset2_task, reset2_msg) ui_component" where
  "reset2_component lib = \<lparr>co_update = (\<lambda>rng. ccp_update (reset2_handle_msg lib rng)), co_clickable = reset2_clickable,
     co_edit = (\<lambda>c c'. \<exists>m. c' = c\<lparr>r2_form := m\<rparr>), co_answers = reset2_answers, co_background = (\<lambda>_ _. False)\<rparr>"

definition reset2_rel :: "reset2_form \<Rightarrow> reset2_form \<Rightarrow> bool" where
  "reset2_rel c v \<longleftrightarrow> (r2_username v \<noteq> None \<longrightarrow> r2_username c \<noteq> None)
     \<and> (\<forall>req. R2RegisterStartTask req \<in> set (cc_spawned c) \<longrightarrow> r2_opaque_data c \<noteq> None)"

interpretation reset2: guarded_component "reset2_component lib" "reset2_create token" "\<lambda>msg. msg = R2FormUpdate" reset2_rel
  for lib token
proof unfold_locales
  fix v c :: reset2_form and msg r
  show "one_task (reset2_create token)" "reset2_rel (reset2_create token) (reset2_create token)"
    by (simp_all add: one_task_def reset2_create_def reset2_rel_def)
  show "co_clickable (reset2_component lib) v msg \<Longrightarrow> cc_is_task_running v \<Longrightarrow> msg = R2FormUpdate"
    by (cases msg) (simp_all add: reset2_component_def)
  assume "co_clickable (reset2_component lib) v msg" "\<not> cc_is_task_running c" "one_task c" "reset2_rel c v"
  then show "settles (co_update (reset2_component lib) r msg) c
      (\<lambda>b c'. one_task c' \<and> (cc_is_task_running c' \<longrightarrow> b) \<and> reset2_rel c' (if b then c' else v))"
    by (cases msg) (auto simp: reset2_component_def runs_simps one_task_def reset2_rel_def split: prod.splits option.splits)
next
  fix v c :: reset2_form and t msg r
  assume "co_answers (reset2_component lib) t msg" "cc_spawned c = [t]" "one_task c" "reset2_rel c v"
  then show "settles (co_update (reset2_component lib) r msg) (finish_task t c)
      (\<lambda>b c'. one_task c' \<and> reset2_rel c' (if b then c' else v))"
    by (cases "(t, msg)" rule: reset2_answers.cases)
       (auto simp: reset2_component_def runs_simps one_task_def reset2_rel_def finish_task_def
          split: sum.splits option.splits prod.splits)
qed (auto simp: reset2_component_def runs_simps same_task_def reset2_rel_def)

section \<open>What the forms send\<close>

lemma deliver_SomeD:
  assumes "deliver co r msg c v = Some (c', v')" and "settles (co_update co r msg) c P"
  shows "\<exists>b. P b c'"
  using assms by (auto simp: deliver_def settles_def split: prod.splits result.splits)

text \<open>A message of the page never starts a registration for a user who is not an administrator.\<close>

lemma cp_click_no_registration:
  assumes "cp_clickable v msg" and "\<not> cc_is_task_running c \<or> msg = CpFormUpdate"
  shows "settles (co_update (cp_component lib username False) r msg) c
    (\<lambda>b c'. CpRegisterStartTask q \<in> set (cc_spawned c') \<longrightarrow> CpRegisterStartTask q \<in> set (cc_spawned c))"
  using assms by (cases msg) (auto simp: cp_component_def runs_simps split: prod.splits option.splits)

text \<open>An answer starts one only if it is the answer to a login that the old password completes.\<close>

definition cp_proved :: "opaque_lib \<Rightarrow> string \<Rightarrow> change_password_form \<Rightarrow> registration_start_request \<Rightarrow> bool" where
  "cp_proved lib username c q \<longleftrightarrow> rs_username q = UserId_new username
     \<and> (\<exists>rng state. client_registration_start lib rng (cp_password (cp_form c)) = Some (state, rs_registration_start_request q))
     \<and> (\<exists>req st (response :: login_start_response) rng old_password. cc_spawned c = [CpLoginStartTask req] \<and> ls_username req = UserId_new username
         \<and> old_password \<noteq> [] \<and> client_login_start lib rng old_password = Some (st, ls_login_start_request req)
         \<and> client_login_finish lib st (lr_credential_response response) \<noteq> None)"

lemma cp_answer_registration:
  assumes "cp_answers t msg" and "cc_spawned c = [t]" and "one_task c" and "cp_rel lib username c"
  shows "settles (co_update (cp_component lib username False) r msg) (finish_task t c)
    (\<lambda>b c'. CpRegisterStartTask q \<in> set (cc_spawned c') \<longrightarrow> cp_proved lib username c q)"
  using assms
  by (cases "(t, msg)" rule: cp_answers.cases; cases "cp_opaque_data c";
      auto simp: cp_component_def runs_simps cp_rel_def cp_submit_new_password_def finish_task_def cp_proved_def
        split: sum.splits option.splits prod.splits; blast)


definition cp_typed :: "change_password_model \<Rightarrow> change_password_form" where
  "cp_typed m = cp_create\<lparr>cp_form := m\<rparr>"

definition cp_waiting :: "change_password_model \<Rightarrow> change_password_form" where
  "cp_waiting m = (cp_typed m)\<lparr>cc_is_task_running := True, cp_opaque_data := OpaqueLogin ''oldpassword'',
     cc_spawned := [CpLoginStartTask \<lparr>ls_username = UserId_new ''bob'', ls_login_start_request = []\<rparr>]\<rparr>"

definition cp_registering :: "change_password_model \<Rightarrow> change_password_form" where
  "cp_registering m = (cp_typed m)\<lparr>cc_is_task_running := True, cp_opaque_data := OpaqueRegistration (cp_password m),
     cc_spawned := [CpRegisterStartTask \<lparr>rs_username = UserId_new ''bob'', rs_registration_start_request = []\<rparr>]\<rparr>"

definition cp_example :: change_password_model where
  "cp_example = \<lparr>cp_old_password = ''oldpassword'', cp_password = ''newpassword'', cp_confirm_password = ''newpassword''\<rparr>"

lemmas cp_example_simps = cp_typed_def cp_waiting_def cp_registering_def cp_example_def cp_create_def deliver_def ccp_update_def
  cp_component_def monad_simps check_form_def validate_change_password_def validate_min_length_def chars_count_def
  empty_or_long_def toy_lib_def finish_task_def cp_submit_new_password_def

lemma cp_submitted:
  "deliver (cp_component toy_lib ''bob'' False) 0 CpSubmit (cp_typed cp_example) cp_create = Some (cp_waiting cp_example, cp_waiting cp_example)"
  by (simp add: cp_example_simps)

lemma cp_waiting_reached:
  "ui_reaches (cp_component toy_lib ''bob'' False) cp_create (Some (cp_waiting cp_example, cp_waiting cp_example))"
  using cp_submitted ui_played [of _ "[Edit (cp_typed cp_example), Click CpSubmit]" cp_create]
  by (auto simp: cp_component_def cp_typed_def cp_create_def)

lemma cp_answered:
  "deliver (cp_component toy_lib ''bob'' False) 0 (CpAuthenticationStartResponse (Inr \<lparr>lr_server_data = [], lr_credential_response = ''oldpassword''\<rparr>))
     (finish_task (CpLoginStartTask \<lparr>ls_username = UserId_new ''bob'', ls_login_start_request = []\<rparr>) (cp_waiting m)) v
   = Some (cp_registering m, cp_registering m)"
  by (simp add: cp_example_simps)


text \<open>
  The new password is read from the form when the login is answered, not when the form was submitted and checked: what is
  typed in between is registered, however short and with whatever confirmation.
\<close>

theorem password_change_unchecked:
  "\<exists>c v q. ui_reaches (cp_component toy_lib ''bob'' False) cp_create (Some (c, v)) \<and> CpRegisterStartTask q \<in> set (cc_spawned c)
     \<and> cp_opaque_data c = OpaqueRegistration (cp_password (cp_form c)) \<and> \<not> validate_change_password (cp_form c)"
proof -
  let ?m = "cp_example\<lparr>cp_password := ''x''\<rparr>"
  let ?r = "Inr \<lparr>lr_server_data = [], lr_credential_response = ''oldpassword''\<rparr>"
  have "cp_waiting ?m = (cp_waiting cp_example)\<lparr>cp_form := ?m\<rparr>"
    by (simp add: cp_waiting_def cp_typed_def)
  then have "co_edit (cp_component toy_lib ''bob'' False) (cp_waiting cp_example) (cp_waiting ?m)"
    by (auto simp: cp_component_def)
  then have "ui_play (cp_component toy_lib ''bob'' False)
      [Edit (cp_waiting ?m), Answer (CpLoginStartTask \<lparr>ls_username = UserId_new ''bob'', ls_login_start_request = []\<rparr>) (CpAuthenticationStartResponse ?r)]
      (Some (cp_waiting cp_example, cp_waiting cp_example)) = Some (Some (cp_registering ?m, cp_registering ?m))"
    using cp_answered [of ?m "cp_waiting cp_example"] by (simp add: cp_waiting_def cp_component_def)
  then have "ui_reaches (cp_component toy_lib ''bob'' False) cp_create (Some (cp_registering ?m, cp_registering ?m))"
    using cp_waiting_reached ui_play_reaches by blast
  then show ?thesis
    by (intro exI conjI) (assumption, simp_all add: cp_registering_def cp_typed_def validate_change_password_def cp_example_def)
qed

end
