(* ===== verification/Ui_Forms.thy ===== *)
theory Ui_Forms
  imports Ui_Login Graphql_Mutation
begin

text \<open>
  The forms of the front end over the GraphQL API (\<open>app/src/components\<close>): creation of users, groups and attributes
  (\<open>create_user.rs\<close>, \<open>create_group.rs\<close>, \<open>create_user_attribute.rs\<close>, \<open>create_group_attribute.rs\<close>), and the details of a user
  with the avatar (\<open>user_details_form.rs\<close>). The variables of a query are the input objects of the server
  (\<open>Graphql_Mutation\<close>); the email validator is a parameter, and the text of an error of the protocol is not modelled.
\<close>

section \<open>Attribute types of the front end\<close>

datatype ui_attribute_type = UiString | UiInteger | UiDateTime | UiJpeg

fun ui_attribute_type_to_string :: "ui_attribute_type \<Rightarrow> string" where
  "ui_attribute_type_to_string UiString = ''String''"
| "ui_attribute_type_to_string UiInteger = ''Integer''"
| "ui_attribute_type_to_string UiDateTime = ''DateTime''"
| "ui_attribute_type_to_string UiJpeg = ''Jpeg''"

definition ui_attribute_type_from_str :: "string \<Rightarrow> ui_attribute_type option" where
  "ui_attribute_type_from_str value =
     (if value = ''String'' then Some UiString else if value = ''Integer'' then Some UiInteger
      else if value = ''DateTime'' then Some UiDateTime else if value = ''Jpeg'' then Some UiJpeg else None)"

fun ui_attribute_type_into :: "ui_attribute_type \<Rightarrow> attribute_type" where
  "ui_attribute_type_into UiString = AttrString"
| "ui_attribute_type_into UiInteger = AttrInteger"
| "ui_attribute_type_into UiDateTime = AttrDateTime"
| "ui_attribute_type_into UiJpeg = AttrJpegPhoto"

fun ui_attribute_type_from :: "attribute_type \<Rightarrow> ui_attribute_type" where
  "ui_attribute_type_from AttrString = UiString"
| "ui_attribute_type_from AttrInteger = UiInteger"
| "ui_attribute_type_from AttrDateTime = UiDateTime"
| "ui_attribute_type_from AttrJpegPhoto = UiJpeg"

definition validate_attribute_type :: "string \<Rightarrow> bool" where
  "validate_attribute_type attribute_type \<longleftrightarrow> ui_attribute_type_from_str attribute_type \<noteq> None"

lemma ui_attribute_type_roundtrip:
  "ui_attribute_type_from_str (ui_attribute_type_to_string t) = Some t" "ui_attribute_type_from (ui_attribute_type_into t) = t"
  "ui_attribute_type_into (ui_attribute_type_from k) = k"
  by (cases t; simp add: ui_attribute_type_from_str_def)+ (cases k; simp)

lemma ui_attribute_type_from_str_Some: "ui_attribute_type_from_str s = Some t \<Longrightarrow> s = ui_attribute_type_to_string t"
  by (auto simp: ui_attribute_type_from_str_def split: if_splits)

section \<open>Creation of a user\<close>

record create_user_model =
  cm_username :: string
  cm_email :: string
  cm_display_name :: string
  cm_first_name :: string
  cm_last_name :: string
  cm_password :: string
  cm_confirm_password :: string

datatype create_user_task =
    CreateUserTask create_user_input
  | CuRegisterStartTask registration_start_request bytes
  | CuRegisterFinishTask registration_finish_request

record create_user_form = "create_user_task common_parts" +
  cu_form :: create_user_model

text \<open>The answer to the creation holds the identifier and the creation date, which are logged.\<close>

datatype create_user_msg =
    CuUpdate
  | CuSubmitForm
  | CreateUserResponse "(string \<times> naive_date_time) response"
  | CuSuccessfulCreation
  | CuRegistrationStartResponse bytes "registration_start_response response"
  | CuRegistrationFinishResponse "unit response"

definition validate_create_user :: "(string \<Rightarrow> bool) \<Rightarrow> create_user_model \<Rightarrow> bool" where
  "validate_create_user is_email m \<longleftrightarrow> validate_min_length 1 (cm_username m) \<and> is_email (cm_email m)
     \<and> empty_or_long (cm_password m) \<and> cm_confirm_password m = cm_password m"

definition to_option :: "string \<Rightarrow> string option" where
  "to_option s = (if s = [] then None else Some s)"

definition create_user_variables :: "create_user_model \<Rightarrow> create_user_input" where
  "create_user_variables model = \<lparr>cui_id = cm_username model, cui_email = cm_email model,
     cui_display_name = to_option (cm_display_name model), cui_first_name = to_option (cm_first_name model),
     cui_last_name = to_option (cm_last_name model), cui_avatar = None, cui_attributes = None\<rparr>"

definition cu_successful_creation :: "(create_user_form, bool, string) action" where
  "cu_successful_creation = bind (emit (PushRoute Route_ListUsers)) (\<lambda>_. return True)"

fun cu_handle_msg ::
  "opaque_lib \<Rightarrow> (string \<Rightarrow> bool) \<Rightarrow> nat \<Rightarrow> create_user_msg \<Rightarrow> (create_user_form, bool, string) action" where
  "cu_handle_msg lib is_email rng CuUpdate = return True"
| "cu_handle_msg lib is_email rng CuSubmitForm = with_self (\<lambda>self.
     bind (check_form (validate_create_user is_email (cu_form self))) (\<lambda>_.
     bind (call_backend (CreateUserTask (create_user_variables (cu_form self)))) (\<lambda>_. return True)))"
| "cu_handle_msg lib is_email rng (CreateUserResponse r) =
     bind (try_response r) (\<lambda>_. with_self (\<lambda>self.
     bind (if cm_password (cu_form self) \<noteq> []
           then bind (lift_result (ok_or ''protocol error'' (client_registration_start lib rng (cm_password (cu_form self)))))
             (\<lambda>(state, message). call_backend (CuRegisterStartTask
                \<lparr>rs_username = UserId_new (cm_username (cu_form self)), rs_registration_start_request = message\<rparr> state))
           else bind (ccp_update (\<lambda>_ :: unit. cu_successful_creation) ()) (\<lambda>_. return ()))
       (\<lambda>_. return False)))"
| "cu_handle_msg lib is_email rng (CuRegistrationStartResponse registration_start response) =
     bind (try_response response) (\<lambda>response.
     bind (lift_result (ok_or ''protocol error''
         (client_registration_finish lib registration_start (rr_registration_response response) rng))) (\<lambda>upload.
     bind (call_backend (CuRegisterFinishTask \<lparr>rf_server_data = rr_server_data response, rf_registration_upload = upload\<rparr>))
       (\<lambda>_. return False)))"
| "cu_handle_msg lib is_email rng (CuRegistrationFinishResponse response) =
     bind (try_response response) (\<lambda>_. cu_successful_creation)"
| "cu_handle_msg lib is_email rng CuSuccessfulCreation = cu_successful_creation"

definition cu_create :: create_user_form where
  "cu_create = \<lparr>cc_error = None, cc_is_task_running = False, cc_spawned = [], cc_effects = [],
     cu_form = \<lparr>cm_username = [], cm_email = [], cm_display_name = [], cm_first_name = [], cm_last_name = [], cm_password = [],
       cm_confirm_password = []\<rparr>\<rparr>"

fun cu_clickable :: "create_user_form \<Rightarrow> create_user_msg \<Rightarrow> bool" where
  "cu_clickable v CuUpdate \<longleftrightarrow> True"
| "cu_clickable v CuSubmitForm \<longleftrightarrow> \<not> cc_is_task_running v"
| "cu_clickable v _ \<longleftrightarrow> False"

fun cu_answers :: "create_user_task \<Rightarrow> create_user_msg \<Rightarrow> bool" where
  "cu_answers (CreateUserTask i) (CreateUserResponse r) \<longleftrightarrow> True"
| "cu_answers (CuRegisterStartTask req state) (CuRegistrationStartResponse st r) \<longleftrightarrow> st = state"
| "cu_answers (CuRegisterFinishTask req) (CuRegistrationFinishResponse r) \<longleftrightarrow> True"
| "cu_answers _ _ \<longleftrightarrow> False"

definition cu_component :: "opaque_lib \<Rightarrow> (string \<Rightarrow> bool) \<Rightarrow> (create_user_form, create_user_task, create_user_msg) ui_component" where
  "cu_component lib is_email = \<lparr>co_update = (\<lambda>rng. ccp_update (cu_handle_msg lib is_email rng)), co_clickable = cu_clickable,
     co_edit = (\<lambda>c c'. \<exists>m. c' = c\<lparr>cu_form := m\<rparr>), co_answers = cu_answers, co_background = (\<lambda>_ _. False)\<rparr>"

lemma runs_ccp_update [runs_simps]: "runs (ccp_update h msg) c P E = settles (ccp_update h msg) c P"
  by (auto simp: runs_def settles_def ccp_update_def split: prod.splits result.splits)

interpretation create_user: guarded_component "cu_component lib is_email" cu_create "\<lambda>msg. msg = CuUpdate" "\<lambda>_ _. True"
  for lib is_email
  by (rule form_component)
     (auto simp: cu_component_def cu_create_def cu_successful_creation_def one_task_def same_task_def runs_simps
        elim!: cu_clickable.elims cu_answers.elims split: sum.splits option.splits prod.splits)



section \<open>Creation of a group\<close>

datatype create_group_task = CreateGroupTask string

record create_group_form = "create_group_task common_parts" +
  cg_form :: string

datatype create_group_msg = CgUpdate | CgSubmitForm | CgResponse "unit response"

fun cg_handle_msg :: "create_group_msg \<Rightarrow> (create_group_form, bool, string) action" where
  "cg_handle_msg CgUpdate = return True"
| "cg_handle_msg CgSubmitForm = with_self (\<lambda>self.
     bind (check_form (validate_min_length 1 (cg_form self))) (\<lambda>_.
     bind (call_backend (CreateGroupTask (cg_form self))) (\<lambda>_. return True)))"
| "cg_handle_msg (CgResponse response) =
     bind (try_response response) (\<lambda>_. bind (emit (PushRoute Route_ListGroups)) (\<lambda>_. return True))"

definition cg_create :: create_group_form where
  "cg_create = \<lparr>cc_error = None, cc_is_task_running = False, cc_spawned = [], cc_effects = [],
     cg_form = []\<rparr>"

fun cg_clickable :: "create_group_form \<Rightarrow> create_group_msg \<Rightarrow> bool" where
  "cg_clickable v CgUpdate \<longleftrightarrow> True"
| "cg_clickable v CgSubmitForm \<longleftrightarrow> \<not> cc_is_task_running v"
| "cg_clickable v (CgResponse r) \<longleftrightarrow> False"

fun cg_answers :: "create_group_task \<Rightarrow> create_group_msg \<Rightarrow> bool" where
  "cg_answers (CreateGroupTask i) (CgResponse r) \<longleftrightarrow> True"
| "cg_answers _ _ \<longleftrightarrow> False"

definition cg_component :: "(create_group_form, create_group_task, create_group_msg) ui_component" where
  "cg_component = \<lparr>co_update = (\<lambda>rng. ccp_update cg_handle_msg), co_clickable = cg_clickable,
     co_edit = (\<lambda>c c'. \<exists>m. c' = c\<lparr>cg_form := m\<rparr>), co_answers = cg_answers, co_background = (\<lambda>_ _. False)\<rparr>"

interpretation create_group: guarded_component cg_component cg_create "\<lambda>msg. msg = CgUpdate" "\<lambda>_ _. True"
  by (rule form_component)
     (auto simp: cg_component_def cg_create_def one_task_def same_task_def runs_simps
        elim!: cg_clickable.elims cg_answers.elims split: sum.splits)

section \<open>Creation of a user attribute\<close>

record create_attribute_variables =
  av_attribute_name :: string
  av_attribute_type :: attribute_type
  av_is_editable :: bool
  av_is_list :: bool
  av_is_visible :: bool

record create_user_attribute_model =
  am_attribute_name :: string
  am_attribute_type :: string
  am_is_editable :: bool
  am_is_list :: bool
  am_is_visible :: bool

datatype create_user_attribute_task = CreateUserAttributeTask create_attribute_variables

record create_user_attribute_form = "create_user_attribute_task common_parts" +
  cua_form :: create_user_attribute_model

datatype create_user_attribute_msg = CuaUpdate | CuaSubmitForm | CuaResponse "unit response"

fun cua_handle_msg :: "create_user_attribute_msg \<Rightarrow> (create_user_attribute_form, bool, string) action" where
  "cua_handle_msg CuaUpdate = return True"
| "cua_handle_msg CuaSubmitForm = with_self (\<lambda>self.
     bind (check_form (validate_min_length 1 (am_attribute_name (cua_form self)) \<and> validate_attribute_type (am_attribute_type (cua_form self)))) (\<lambda>_.
     if am_is_editable (cua_form self) \<and> \<not> am_is_visible (cua_form self) then fail ''Editable attributes must also be visible''
     else case ui_attribute_type_from_str (am_attribute_type (cua_form self)) of None \<Rightarrow> panic | Some attribute_type \<Rightarrow>
     bind (call_backend (CreateUserAttributeTask \<lparr>av_attribute_name = am_attribute_name (cua_form self),
         av_attribute_type = ui_attribute_type_into attribute_type, av_is_editable = am_is_editable (cua_form self),
         av_is_list = am_is_list (cua_form self), av_is_visible = am_is_visible (cua_form self)\<rparr>)) (\<lambda>_. return True)))"
| "cua_handle_msg (CuaResponse response) =
     bind (try_response response) (\<lambda>_. bind (emit (PushRoute Route_ListUserSchema)) (\<lambda>_. return True))"

definition cua_create :: create_user_attribute_form where
  "cua_create = \<lparr>cc_error = None, cc_is_task_running = False, cc_spawned = [], cc_effects = [],
     cua_form = \<lparr>am_attribute_name = [], am_attribute_type = ui_attribute_type_to_string UiString, am_is_editable = False,
       am_is_list = False, am_is_visible = False\<rparr>\<rparr>"

fun cua_clickable :: "create_user_attribute_form \<Rightarrow> create_user_attribute_msg \<Rightarrow> bool" where
  "cua_clickable v CuaUpdate \<longleftrightarrow> True"
| "cua_clickable v CuaSubmitForm \<longleftrightarrow> \<not> cc_is_task_running v"
| "cua_clickable v (CuaResponse r) \<longleftrightarrow> False"

fun cua_answers :: "create_user_attribute_task \<Rightarrow> create_user_attribute_msg \<Rightarrow> bool" where
  "cua_answers (CreateUserAttributeTask i) (CuaResponse r) \<longleftrightarrow> True"
| "cua_answers _ _ \<longleftrightarrow> False"

definition cua_component :: "(create_user_attribute_form, create_user_attribute_task, create_user_attribute_msg) ui_component" where
  "cua_component = \<lparr>co_update = (\<lambda>rng. ccp_update cua_handle_msg), co_clickable = cua_clickable,
     co_edit = (\<lambda>c c'. \<exists>m. c' = c\<lparr>cua_form := m\<rparr>), co_answers = cua_answers, co_background = (\<lambda>_ _. False)\<rparr>"

interpretation create_user_attribute: guarded_component cua_component cua_create "\<lambda>msg. msg = CuaUpdate" "\<lambda>_ _. True"
  by (rule form_component)
     (auto simp: cua_component_def cua_create_def one_task_def same_task_def runs_simps validate_attribute_type_def
        elim!: cua_clickable.elims cua_answers.elims split: sum.splits option.splits)

section \<open>Creation of a group attribute\<close>

record create_group_attribute_model =
  gm_attribute_name :: string
  gm_attribute_type :: string
  gm_is_list :: bool
  gm_is_visible :: bool

text \<open>The mutation in \<open>queries/create_group_attribute.graphql\<close> has \<open>isEditable: false\<close>.\<close>

datatype create_group_attribute_task = CreateGroupAttributeTask create_attribute_variables

record create_group_attribute_form = "create_group_attribute_task common_parts" +
  cga_form :: create_group_attribute_model

datatype create_group_attribute_msg = CgaUpdate | CgaSubmitForm | CgaResponse "unit response"

fun cga_handle_msg :: "create_group_attribute_msg \<Rightarrow> (create_group_attribute_form, bool, string) action" where
  "cga_handle_msg CgaUpdate = return True"
| "cga_handle_msg CgaSubmitForm = with_self (\<lambda>self.
     bind (check_form (validate_min_length 1 (gm_attribute_name (cga_form self)) \<and> validate_attribute_type (gm_attribute_type (cga_form self)))) (\<lambda>_.
     case ui_attribute_type_from_str (gm_attribute_type (cga_form self)) of None \<Rightarrow> panic | Some attribute_type \<Rightarrow>
     bind (call_backend (CreateGroupAttributeTask \<lparr>av_attribute_name = gm_attribute_name (cga_form self),
         av_attribute_type = ui_attribute_type_into attribute_type, av_is_editable = False,
         av_is_list = gm_is_list (cga_form self), av_is_visible = gm_is_visible (cga_form self)\<rparr>)) (\<lambda>_. return True)))"
| "cga_handle_msg (CgaResponse response) =
     bind (try_response response) (\<lambda>_. bind (emit (PushRoute Route_ListGroupSchema)) (\<lambda>_. return True))"

definition cga_create :: create_group_attribute_form where
  "cga_create = \<lparr>cc_error = None, cc_is_task_running = False, cc_spawned = [], cc_effects = [],
     cga_form = \<lparr>gm_attribute_name = [], gm_attribute_type = ui_attribute_type_to_string UiString,
       gm_is_list = False, gm_is_visible = False\<rparr>\<rparr>"

fun cga_clickable :: "create_group_attribute_form \<Rightarrow> create_group_attribute_msg \<Rightarrow> bool" where
  "cga_clickable v CgaUpdate \<longleftrightarrow> True"
| "cga_clickable v CgaSubmitForm \<longleftrightarrow> \<not> cc_is_task_running v"
| "cga_clickable v (CgaResponse r) \<longleftrightarrow> False"

fun cga_answers :: "create_group_attribute_task \<Rightarrow> create_group_attribute_msg \<Rightarrow> bool" where
  "cga_answers (CreateGroupAttributeTask i) (CgaResponse r) \<longleftrightarrow> True"
| "cga_answers _ _ \<longleftrightarrow> False"

definition cga_component :: "(create_group_attribute_form, create_group_attribute_task, create_group_attribute_msg) ui_component" where
  "cga_component = \<lparr>co_update = (\<lambda>rng. ccp_update cga_handle_msg), co_clickable = cga_clickable,
     co_edit = (\<lambda>c c'. \<exists>m. c' = c\<lparr>cga_form := m\<rparr>), co_answers = cga_answers, co_background = (\<lambda>_ _. False)\<rparr>"

interpretation create_group_attribute: guarded_component cga_component cga_create "\<lambda>msg. msg = CgaUpdate" "\<lambda>_ _. True"
  by (rule form_component)
     (auto simp: cga_component_def cga_create_def one_task_def same_task_def runs_simps validate_attribute_type_def
        elim!: cga_clickable.elims cga_answers.elims split: sum.splits option.splits)

end
