(* ===== verification/Ui_Settle.thy ===== *)
theory Ui_Settle
  imports Ui_Forms
begin

text \<open>
  The forms that talk to the server in several requests (\<open>login.rs\<close>, \<open>change_password.rs\<close>, \<open>reset_password_step1.rs\<close>,
  \<open>reset_password_step2.rs\<close>, \<open>create_user.rs\<close>) end: each answer of the server leads to a request of a later stage or to
  none. The locale \<open>settling_component\<close> extends the contract of a component with the number of answers that a pending
  request can still lead to, and gives that every exchange ends within that bound and never gets stuck before.
\<close>

section \<open>Exchanges with the server\<close>

text \<open>A number of answers one after another, without an action of the user in between.\<close>

inductive answer_run ::
  "(('t, 'z) common_parts_scheme, 't, 'msg) ui_component \<Rightarrow> nat \<Rightarrow> ('t, 'z) common_parts_scheme \<times> ('t, 'z) common_parts_scheme
   \<Rightarrow> ('t, 'z) common_parts_scheme \<times> ('t, 'z) common_parts_scheme \<Rightarrow> bool" for co where
  no_answer: "answer_run co 0 x x"
| one_answer: "answer_run co n x (c, v) \<Longrightarrow> t \<in> set (cc_spawned c) \<Longrightarrow> co_answers co t msg
    \<Longrightarrow> deliver co r msg (finish_task t c) v = Some y \<Longrightarrow> answer_run co (Suc n) x y"

text \<open>
  From every state that the page can be in, at most \<open>n\<close> answers follow one another; as long as a request is pending, there
  is one, it has an answer, and every answer is handled.
\<close>

definition ends_within ::
  "nat \<Rightarrow> (('t, 'z) common_parts_scheme, 't, 'msg) ui_component \<Rightarrow> ('t, 'z) common_parts_scheme \<Rightarrow> bool" where
  "ends_within n co start \<longleftrightarrow> (\<forall>x k c v. ui_reaches co start (Some x) \<longrightarrow> answer_run co k x (c, v) \<longrightarrow>
     k \<le> n \<and> (at_rest c \<or> k < n \<and> (\<exists>t. cc_spawned c = [t] \<and> (\<exists>msg. co_answers co t msg)
       \<and> (\<forall>msg r. co_answers co t msg \<longrightarrow> deliver co r msg (finish_task t c) v \<noteq> None))))"

lemma answer_run_reaches: "answer_run co k x y \<Longrightarrow> ui_reaches co start (Some x) \<Longrightarrow> ui_reaches co start (Some y)"
proof (induction rule: answer_run.induct)
  case (one_answer n x c v t msg r y)
  then show ?case using ui_step.answered [of t c co msg v r] ui_reaches.stepped by metis
qed

locale settling_component = guarded_component co start harmless rel
  for co :: "(('t, 'z) common_parts_scheme, 't, 'msg) ui_component" and start harmless rel +
  fixes stage :: "'t \<Rightarrow> nat"
  assumes answerable: "\<exists>msg. co_answers co t msg" and stage_pos: "0 < stage t"
    and descends: "co_answers co t msg \<Longrightarrow> cc_spawned c = [t] \<Longrightarrow> one_task c \<Longrightarrow> rel c v
      \<Longrightarrow> settles (co_update co r msg) (finish_task t c) (\<lambda>_ c'. \<forall>t'\<in>set (cc_spawned c'). stage t' < stage t)"
begin

definition remaining :: "('t, 'z) common_parts_scheme \<Rightarrow> nat" where
  "remaining c = sum_list (map stage (cc_spawned c))"

lemma pending_task: "linked (c, v) \<Longrightarrow> t \<in> set (cc_spawned c) \<Longrightarrow> cc_spawned c = [t]"
  by (auto simp: linked_def one_task_def length_Suc_conv split: if_splits)

lemma answer_descends:
  assumes "linked (c, v)" and t: "t \<in> set (cc_spawned c)" "co_answers co t msg"
    and d: "deliver co r msg (finish_task t c) v = Some (c', v')"
  shows "remaining c' < remaining c"
proof -
  have one: "cc_spawned c = [t]" using assms pending_task by blast
  have "settles (co_update co r msg) (finish_task t c) (\<lambda>_ c'. \<forall>t'\<in>set (cc_spawned c'). stage t' < stage t)"
    using assms(1) descends [OF t(2) one, of v] by (simp add: linked_def)
  then have less: "\<forall>t'\<in>set (cc_spawned c'). stage t' < stage t"
    using deliver_SomeD [OF d] by blast
  have "linked (c', v')" using answer_linked [OF assms(1) t, of r] d by auto
  then have "length (cc_spawned c') \<le> 1" by (auto simp: linked_def one_task_def split: if_splits)
  then show ?thesis
    using less one stage_pos [of t] by (cases "cc_spawned c'") (simp_all add: remaining_def)
qed

lemma run_descends:
  "answer_run co k x y \<Longrightarrow> ui_reaches co start (Some x) \<Longrightarrow> k + remaining (fst y) \<le> remaining (fst x)"
proof (induction rule: answer_run.induct)
  case (one_answer n x c v t msg r y)
  then have "linked (c, v)" using answer_run_reaches reaches_linked by blast
  then have "remaining (fst y) < remaining c"
    using one_answer answer_descends by (metis prod.collapse)
  then show ?case using one_answer by simp
qed simp

lemma ends:
  assumes "\<And>t. stage t \<le> n"
  shows "ends_within n co start"
  unfolding ends_within_def
proof (intro allI impI)
  fix x k c v assume x: "ui_reaches co start (Some x)" and run: "answer_run co k x (c, v)"
  have cv: "linked (c, v)" using answer_run_reaches [OF run x] reaches_linked by blast
  have "linked x" using x reaches_linked by blast
  then have "remaining (fst x) \<le> n"
    using assms by (cases x; cases "cc_spawned (fst x)") (auto simp: linked_def one_task_def remaining_def split: if_splits)
  then have k: "k + remaining c \<le> n" using run_descends [OF run x] by simp
  have "at_rest c \<or> k < n \<and> (\<exists>t. cc_spawned c = [t] \<and> (\<exists>msg. co_answers co t msg)
       \<and> (\<forall>msg r. co_answers co t msg \<longrightarrow> deliver co r msg (finish_task t c) v \<noteq> None))"
  proof (cases "cc_is_task_running c")
    case True
    then obtain t where t: "cc_spawned c = [t]" using cv by (auto simp: linked_def one_task_def length_Suc_conv)
    then have "0 < remaining c" using stage_pos by (simp add: remaining_def)
    moreover have "deliver co r msg (finish_task t c) v \<noteq> None" if "co_answers co t msg" for msg r
      using answer_linked [OF cv _ that, of r] t by auto
    ultimately show ?thesis using t k answerable by auto
  qed (use cv in \<open>simp add: linked_def one_task_def at_rest_def\<close>)
  with k show "k \<le> n \<and> (at_rest c \<or> k < n \<and> (\<exists>t. cc_spawned c = [t] \<and> (\<exists>msg. co_answers co t msg)
       \<and> (\<forall>msg r. co_answers co t msg \<longrightarrow> deliver co r msg (finish_task t c) v \<noteq> None)))" by simp
qed

end

section \<open>The stages of the forms\<close>

fun login_stage :: "login_task \<Rightarrow> nat" where
  "login_stage (LoginStartTask req state) = 2"
| "login_stage _ = 1"

fun cp_stage :: "change_password_task \<Rightarrow> nat" where
  "cp_stage (CpLoginStartTask req) = 3"
| "cp_stage (CpRegisterStartTask req) = 2"
| "cp_stage (CpRegisterFinishTask req) = 1"

fun reset2_stage :: "reset2_task \<Rightarrow> nat" where
  "reset2_stage (R2RegisterStartTask req) = 2"
| "reset2_stage _ = 1"

fun cu_stage :: "create_user_task \<Rightarrow> nat" where
  "cu_stage (CreateUserTask i) = 3"
| "cu_stage (CuRegisterStartTask req state) = 2"
| "cu_stage (CuRegisterFinishTask req) = 1"

lemma login_tasks: "Ex (login_answers t)" "0 < login_stage t" "login_stage t \<le> 2"
  using login_answers.simps(1-3) by (cases t; blast) (cases t; simp)+

lemma cp_tasks: "Ex (cp_answers t)" "0 < cp_stage t" "cp_stage t \<le> 3"
  using cp_answers.simps(1-3) by (cases t; blast) (cases t; simp)+

lemma reset1_tasks: "Ex (reset1_answers t)"
  using reset1_answers.simps(1) by (cases t) blast

lemma reset2_tasks: "Ex (reset2_answers t)" "0 < reset2_stage t" "reset2_stage t \<le> 2"
  using reset2_answers.simps(1-3) by (cases t; blast) (cases t; simp)+

lemma cu_tasks: "Ex (cu_answers t)" "0 < cu_stage t" "cu_stage t \<le> 3"
  using cu_answers.simps(1-3) by (cases t; blast) (cases t; simp)+

lemmas form_tasks = login_tasks cp_tasks reset1_tasks reset2_tasks cu_tasks

interpretation login_settles: settling_component "login_component lib" login_create "\<lambda>msg. msg = LoginUpdate" "\<lambda>_ _. True"
    login_stage for lib
  by unfold_locales
     (auto simp: login_component_def form_tasks runs_simps finish_task_def
        elim!: login_answers.elims split: sum.splits option.splits prod.splits)

interpretation change_password_settles: settling_component "cp_component lib username admin" cp_create
    "\<lambda>msg. msg = CpFormUpdate" "\<lambda>c _. cp_rel lib username c" cp_stage for lib username admin
proof unfold_locales
  fix c v :: change_password_form and t msg r
  assume "co_answers (cp_component lib username admin) t msg" "cc_spawned c = [t]" "cp_rel lib username c"
  then show "settles (co_update (cp_component lib username admin) r msg) (finish_task t c)
      (\<lambda>_ c'. \<forall>t'\<in>set (cc_spawned c'). cp_stage t' < cp_stage t)"
    by (cases "(t, msg)" rule: cp_answers.cases; cases "cp_opaque_data c")
       (auto simp: cp_component_def runs_simps cp_rel_def cp_submit_new_password_def finish_task_def
          split: sum.splits option.splits prod.splits)
qed (simp_all add: cp_component_def form_tasks)

interpretation reset1_settles: settling_component reset1_component reset1_create "\<lambda>msg. msg = Reset1Update" "\<lambda>_ _. True"
    "\<lambda>_. 1"
  by unfold_locales
     (auto simp: reset1_component_def form_tasks reset1_update_def runs_simps finish_task_def
        elim!: reset1_answers.elims split: sum.splits)

interpretation reset2_settles: settling_component "reset2_component lib" "reset2_create token" "\<lambda>msg. msg = R2FormUpdate"
    reset2_rel reset2_stage for lib token
proof unfold_locales
  fix c v :: reset2_form and t msg r
  assume "co_answers (reset2_component lib) t msg" "cc_spawned c = [t]" "reset2_rel c v"
  then show "settles (co_update (reset2_component lib) r msg) (finish_task t c)
      (\<lambda>_ c'. \<forall>t'\<in>set (cc_spawned c'). reset2_stage t' < reset2_stage t)"
    by (cases "(t, msg)" rule: reset2_answers.cases)
       (auto simp: reset2_component_def runs_simps reset2_rel_def finish_task_def split: sum.splits option.splits prod.splits)
qed (simp_all add: reset2_component_def form_tasks)

interpretation create_user_settles: settling_component "cu_component lib is_email" cu_create "\<lambda>msg. msg = CuUpdate"
    "\<lambda>_ _. True" cu_stage for lib is_email
  by unfold_locales
     (auto simp: cu_component_def cu_successful_creation_def form_tasks runs_simps finish_task_def
        elim!: cu_answers.elims split: sum.splits option.splits prod.splits)


end
