(* ===== verification/Ui_Details_Form.thy ===== *)
theory Ui_Details_Form
  imports Ui_Forms Graphql_Session
begin

text \<open>
  The form with the details of a user (\<open>app/src/components/user_details_form.rs\<close>): the fields, the avatar that is read
  from a file in the background, the detection of changes and the update request. A file is its name; what the browser
  reads from it arrives as a message, at any time while a reader is kept (the model allows it more than once). The form
  does not satisfy the contract of \<open>Ui_Common\<close>: two runs that panic are given.
\<close>

section \<open>State\<close>

record ui_group =
  ug_id :: int
  ug_display_name :: string

record ui_user =
  uu_id :: string
  uu_user_email :: string
  uu_user_display_name :: string
  uu_user_first_name :: string
  uu_user_last_name :: string
  uu_user_avatar :: "string option"
  uu_creation_date :: naive_date_time
  uu_uuid :: string
  uu_groups :: "ui_group list"

record js_file =
  jf_file :: "string option"
  jf_contents :: "bytes option"

definition js_file_default :: js_file where
  "js_file_default = \<lparr>jf_file = None, jf_contents = None\<rparr>"

record user_model =
  um_email :: string
  um_display_name :: string
  um_first_name :: string
  um_last_name :: string

datatype update_user_task = UpdateUserTask update_user_input

record user_details_form = "update_user_task common_parts" +
  uf_form :: user_model
  uf_avatar :: "js_file option"
  uf_reader :: "string option"
  uf_just_updated :: bool
  uf_user :: ui_user

datatype user_details_form_msg =
    UfUpdate
  | FileSelected string
  | SubmitClicked
  | ClearAvatarClicked
  | FileLoaded string "bytes response"
  | UserUpdated "unit response"

section \<open>Operations\<close>

definition is_valid_jpeg :: "externals \<Rightarrow> bytes \<Rightarrow> bool" where
  "is_valid_jpeg ext b = decode_jpeg ext b"

definition to_base64 :: "externals \<Rightarrow> js_file \<Rightarrow> (string, string) result" where
  "to_base64 ext file = (case (jf_file file, jf_contents file) of
       (None, _) \<Rightarrow> Ok []
     | (Some _, None) \<Rightarrow> Err ''Image file hasn't finished loading, try again''
     | (Some _, Some data) \<Rightarrow>
         if \<not> is_valid_jpeg ext data then Err ''Chosen image is not a valid JPEG'' else Ok (base64_encode ext data))"

text \<open>A value is sent when it differs from the one the page was opened with or last saved.\<close>

definition changed :: "string \<Rightarrow> string \<Rightarrow> string option" where
  "changed base new = (if base \<noteq> new then Some new else None)"

definition default_user_input :: "ui_user \<Rightarrow> update_user_input" where
  "default_user_input u = \<lparr>uui_id = uu_id u, uui_email = None, uui_display_name = None, uui_first_name = None,
     uui_last_name = None, uui_avatar = None, uui_remove_attributes = None, uui_insert_attributes = None\<rparr>"

definition changed_user_input :: "ui_user \<Rightarrow> user_model \<Rightarrow> string option \<Rightarrow> update_user_input" where
  "changed_user_input base_user model avatar = (default_user_input base_user)
     \<lparr>uui_email := changed (uu_user_email base_user) (um_email model),
      uui_display_name := changed (uu_user_display_name base_user) (um_display_name model),
      uui_first_name := changed (uu_user_first_name base_user) (um_first_name model),
      uui_last_name := changed (uu_user_last_name base_user) (um_last_name model),
      uui_avatar := avatar\<rparr>"

definition submit_user_update_form :: "externals \<Rightarrow> (string \<Rightarrow> bool) \<Rightarrow> (user_details_form, bool, string) action" where
  "submit_user_update_form ext is_email = with_self (\<lambda>self.
     if \<not> is_email (um_email (uf_form self)) then fail ''Invalid inputs''
     else if (case uf_avatar self of Some f \<Rightarrow> jf_file f \<noteq> None \<and> jf_contents f = None | None \<Rightarrow> False)
     then fail ''Image file hasn't finished loading, try again''
     else
       bind (case uf_avatar self of None \<Rightarrow> return None
             | Some avatar \<Rightarrow> bind (lift_result (to_base64 ext avatar)) (\<lambda>s. return (Some s))) (\<lambda>avatar.
       let user_input = changed_user_input (uf_user self) (uf_form self) avatar
       in if user_input = default_user_input (uf_user self) then return False
          else bind (call_backend (UpdateUserTask user_input)) (\<lambda>_. return False)))"

definition user_update_finished :: "externals \<Rightarrow> unit response \<Rightarrow> (user_details_form, bool, string) action" where
  "user_update_finished ext r =
     bind (try_response r) (\<lambda>_.
     bind (modify (\<lambda>c. c\<lparr>uf_user := (uf_user c)\<lparr>uu_user_email := um_email (uf_form c),
         uu_user_display_name := um_display_name (uf_form c), uu_user_first_name := um_first_name (uf_form c),
         uu_user_last_name := um_last_name (uf_form c)\<rparr>\<rparr>)) (\<lambda>_. with_self (\<lambda>self.
     bind (case uf_avatar self of None \<Rightarrow> return ()
           | Some avatar \<Rightarrow> bind (lift_result (to_base64 ext avatar))
               (\<lambda>s. modify (\<lambda>c. c\<lparr>uf_user := (uf_user c)\<lparr>uu_user_avatar := Some s\<rparr>\<rparr>))) (\<lambda>_.
     bind (modify (\<lambda>c. c\<lparr>uf_just_updated := True\<rparr>)) (\<lambda>_. return True)))))"

text \<open>The message of the file input, from the names of the selected files.\<close>

definition upload_files :: "string list option \<Rightarrow> user_details_form_msg" where
  "upload_files files = (case files of Some (f # fs) \<Rightarrow> FileSelected f | _ \<Rightarrow> UfUpdate)"

definition selected_name :: "user_details_form \<Rightarrow> string option" where
  "selected_name c = Option.bind (uf_avatar c) jf_file"

definition file_loaded :: "externals \<Rightarrow> string \<Rightarrow> bytes response \<Rightarrow> (user_details_form, bool, string) action" where
  "file_loaded ext file_name data = with_self (\<lambda>self.
     if selected_name self = Some file_name then
       bind (try_response data) (\<lambda>data.
       if \<not> is_valid_jpeg ext data
       then bind (modify (\<lambda>c. c\<lparr>uf_avatar := None\<rparr>)) (\<lambda>_. fail ''Chosen image is not a valid JPEG'')
       else bind (modify (\<lambda>c. c\<lparr>uf_avatar := map_option (\<lambda>f. f\<lparr>jf_contents := Some data\<rparr>) (uf_avatar c)\<rparr>)) (\<lambda>_. return True))
     else bind (modify (\<lambda>c. c\<lparr>uf_reader := None\<rparr>)) (\<lambda>_. return False))"

fun uf_handle_msg ::
  "externals \<Rightarrow> (string \<Rightarrow> bool) \<Rightarrow> user_details_form_msg \<Rightarrow> (user_details_form, bool, string) action" where
  "uf_handle_msg ext is_email UfUpdate = return True"
| "uf_handle_msg ext is_email (FileSelected new_avatar) =
     bind (modify (\<lambda>c. if selected_name c \<noteq> Some new_avatar
       then c\<lparr>uf_reader := Some new_avatar, uf_avatar := Some \<lparr>jf_file = Some new_avatar, jf_contents = None\<rparr>\<rparr> else c)) (\<lambda>_. return True)"
| "uf_handle_msg ext is_email SubmitClicked = submit_user_update_form ext is_email"
| "uf_handle_msg ext is_email ClearAvatarClicked =
     bind (modify (\<lambda>c. c\<lparr>uf_avatar := Some js_file_default\<rparr>)) (\<lambda>_. return True)"
| "uf_handle_msg ext is_email (UserUpdated response) = user_update_finished ext response"
| "uf_handle_msg ext is_email (FileLoaded file_name data) = file_loaded ext file_name data"

definition uf_update :: "externals \<Rightarrow> (string \<Rightarrow> bool) \<Rightarrow> user_details_form_msg \<Rightarrow> (user_details_form, bool, string) action" where
  "uf_update ext is_email msg =
     bind (modify (\<lambda>c. c\<lparr>uf_just_updated := False\<rparr>)) (\<lambda>_. ccp_update (uf_handle_msg ext is_email) msg)"

definition uf_create :: "ui_user \<Rightarrow> user_details_form" where
  "uf_create u = \<lparr>cc_error = None, cc_is_task_running = False, cc_spawned = [], cc_effects = [],
     uf_form = \<lparr>um_email = uu_user_email u, um_display_name = uu_user_display_name u, um_first_name = uu_user_first_name u,
       um_last_name = uu_user_last_name u\<rparr>, uf_avatar = None, uf_reader = None, uf_just_updated = False, uf_user = u\<rparr>"

text \<open>The fields and the file input can be used while a task runs; the two buttons are disabled.\<close>

fun uf_clickable :: "user_details_form \<Rightarrow> user_details_form_msg \<Rightarrow> bool" where
  "uf_clickable v UfUpdate \<longleftrightarrow> True"
| "uf_clickable v (FileSelected f) \<longleftrightarrow> True"
| "uf_clickable v SubmitClicked \<longleftrightarrow> \<not> cc_is_task_running v"
| "uf_clickable v ClearAvatarClicked \<longleftrightarrow> \<not> cc_is_task_running v"
| "uf_clickable v _ \<longleftrightarrow> False"

fun uf_answers :: "update_user_task \<Rightarrow> user_details_form_msg \<Rightarrow> bool" where
  "uf_answers (UpdateUserTask i) (UserUpdated r) \<longleftrightarrow> True"
| "uf_answers _ _ \<longleftrightarrow> False"

fun uf_background :: "user_details_form \<Rightarrow> user_details_form_msg \<Rightarrow> bool" where
  "uf_background c (FileLoaded f data) \<longleftrightarrow> uf_reader c = Some f"
| "uf_background c _ \<longleftrightarrow> False"

definition uf_component ::
  "externals \<Rightarrow> (string \<Rightarrow> bool) \<Rightarrow> (user_details_form, update_user_task, user_details_form_msg) ui_component" where
  "uf_component ext is_email = \<lparr>co_update = (\<lambda>rng. uf_update ext is_email), co_clickable = uf_clickable,
     co_edit = (\<lambda>c c'. \<exists>m. c' = c\<lparr>uf_form := m\<rparr>), co_answers = uf_answers, co_background = uf_background\<rparr>"

section \<open>What the form sends\<close>

text \<open>The values of a user that the form edits, and the values after an update with an input.\<close>

definition form_values :: "ui_user \<Rightarrow> user_model" where
  "form_values u = \<lparr>um_email = uu_user_email u, um_display_name = uu_user_display_name u,
     um_first_name = uu_user_first_name u, um_last_name = uu_user_last_name u\<rparr>"

definition given :: "string option \<Rightarrow> string \<Rightarrow> string" where
  "given new old = (case new of None \<Rightarrow> old | Some x \<Rightarrow> x)"

definition apply_update :: "update_user_input \<Rightarrow> user_model \<Rightarrow> user_model" where
  "apply_update i m = \<lparr>um_email = given (uui_email i) (um_email m), um_display_name = given (uui_display_name i) (um_display_name m),
     um_first_name = given (uui_first_name i) (um_first_name m), um_last_name = given (uui_last_name i) (um_last_name m)\<rparr>"

definition avatar_to_send :: "externals \<Rightarrow> user_details_form \<Rightarrow> (string option, string) result" where
  "avatar_to_send ext c = (case uf_avatar c of None \<Rightarrow> Ok None | Some f \<Rightarrow> map_ok Some (to_base64 ext f))"

lemma changed_simps [simp]: "changed a b = None \<longleftrightarrow> a = b" "given (changed a b) a = b"
  by (simp_all add: changed_def given_def)

lemma changed_user_input_sel [simp]:
  "uui_id (changed_user_input u m a) = uu_id u" "uui_email (changed_user_input u m a) = changed (uu_user_email u) (um_email m)"
  "uui_display_name (changed_user_input u m a) = changed (uu_user_display_name u) (um_display_name m)"
  "uui_first_name (changed_user_input u m a) = changed (uu_user_first_name u) (um_first_name m)"
  "uui_last_name (changed_user_input u m a) = changed (uu_user_last_name u) (um_last_name m)"
  "uui_avatar (changed_user_input u m a) = a" "uui_remove_attributes (changed_user_input u m a) = None"
  "uui_insert_attributes (changed_user_input u m a) = None"
  by (simp_all add: changed_user_input_def default_user_input_def)

lemma apply_changed_input: "apply_update (changed_user_input u m a) (form_values u) = m"
  by (simp add: apply_update_def form_values_def)

lemma nothing_changed: "changed_user_input u m a = default_user_input u \<longleftrightarrow> m = form_values u \<and> a = None"
proof -
  have "changed_user_input u m a = default_user_input u \<longleftrightarrow> uu_user_email u = um_email m \<and> uu_user_display_name u = um_display_name m
      \<and> uu_user_first_name u = um_first_name m \<and> uu_user_last_name u = um_last_name m \<and> a = None"
    by (simp add: changed_user_input_def default_user_input_def)
  then show ?thesis by (cases m) (auto simp: form_values_def)
qed

lemma submit_runs:
  assumes "\<not> cc_is_task_running c" and "is_email (um_email (uf_form c))" and "avatar_to_send ext c = Ok a"
  shows "uf_update ext is_email SubmitClicked c = (Ok False,
    if uf_form c = form_values (uf_user c) \<and> a = None then c\<lparr>cc_error := None, uf_just_updated := False\<rparr>
    else c\<lparr>cc_error := None, uf_just_updated := False, cc_is_task_running := True,
           cc_spawned := cc_spawned c @ [UpdateUserTask (changed_user_input (uf_user c) (uf_form c) a)]\<rparr>)"
  using assms
  by (cases "uf_avatar c")
     (auto simp: uf_update_def ccp_update_def submit_user_update_form_def avatar_to_send_def to_base64_def monad_simps
        nothing_changed split: option.splits if_splits)

text \<open>
  With a valid email and an avatar that is loaded (or unchanged), "Save changes" sends nothing when no field differs from
  the saved values; otherwise it sends one update of this user which names exactly the fields that differ, and which
  turns the saved values into the values in the form.
\<close>

theorem details_form_sends_changes:
  assumes "\<not> cc_is_task_running c" and "is_email (um_email (uf_form c))" and "avatar_to_send ext c = Ok a"
  shows "\<exists>c'. uf_update ext is_email SubmitClicked c = (Ok False, c') \<and> uf_user c' = uf_user c \<and> uf_form c' = uf_form c
    \<and> (if uf_form c = form_values (uf_user c) \<and> a = None then cc_spawned c' = cc_spawned c
       else \<exists>i. cc_spawned c' = cc_spawned c @ [UpdateUserTask i] \<and> uui_id i = uu_id (uf_user c)
         \<and> apply_update i (form_values (uf_user c)) = uf_form c \<and> uui_avatar i = a
         \<and> (uui_email i = None \<longleftrightarrow> um_email (uf_form c) = uu_user_email (uf_user c))
         \<and> (uui_display_name i = None \<longleftrightarrow> um_display_name (uf_form c) = uu_user_display_name (uf_user c))
         \<and> (uui_first_name i = None \<longleftrightarrow> um_first_name (uf_form c) = uu_user_first_name (uf_user c))
         \<and> (uui_last_name i = None \<longleftrightarrow> um_last_name (uf_form c) = uu_user_last_name (uf_user c))
         \<and> uui_remove_attributes i = None \<and> uui_insert_attributes i = None)"
  by (auto simp: submit_runs [where is_email = is_email, OF assms] apply_changed_input)

definition demo_ui_user :: ui_user where
  "demo_ui_user = \<lparr>uu_id = ''bob'', uu_user_email = ''bob@x.org'', uu_user_display_name = [], uu_user_first_name = [],
     uu_user_last_name = [], uu_user_avatar = None, uu_creation_date = 0, uu_uuid = ''u'', uu_groups = []\<rparr>"

definition demo_edited :: "string \<Rightarrow> user_details_form" where
  "demo_edited email = (uf_create demo_ui_user)\<lparr>uf_form := (uf_form (uf_create demo_ui_user))\<lparr>um_email := email\<rparr>\<rparr>"

lemma demo_edited_ok:
  "\<not> cc_is_task_running (demo_edited e)" "avatar_to_send ext (demo_edited e) = Ok None" "um_email (uf_form (demo_edited e)) = e"
  "uf_user (demo_edited e) = demo_ui_user"
  by (simp_all add: demo_edited_def uf_create_def avatar_to_send_def)

theorem details_form_sends_changes_witness:
  "\<exists>c' i. uf_update ascii_externals (\<lambda>_. True) SubmitClicked (demo_edited ''bob@y'') = (Ok False, c')
     \<and> cc_spawned c' = [UpdateUserTask i] \<and> uui_id i = ''bob'' \<and> uui_display_name i = None \<and> uui_email i \<noteq> None"
  using details_form_sends_changes [of "demo_edited ''bob@y''" "\<lambda>_. True" ascii_externals None]
  by (simp add: demo_edited_ok) (auto simp: demo_edited_def uf_create_def form_values_def demo_ui_user_def)

section \<open>Runs that panic, and a lost edit\<close>

text \<open>
  \<open>submit_user_update_form\<close> returns \<open>Ok(false)\<close> after it has started the request, so that the page is not rendered again and
  the button stays enabled: a second click while the request runs fails the assertion of \<open>call_backend\<close>.
\<close>

lemma demo_submitted:
  "uf_update ext (\<lambda>_. True) SubmitClicked (demo_edited ''bob@y'') = (Ok False, (demo_edited ''bob@y'')\<lparr>cc_is_task_running := True,
     cc_spawned := [UpdateUserTask (changed_user_input demo_ui_user (uf_form (demo_edited ''bob@y'')) None)]\<rparr>)"
  using submit_runs [of "demo_edited ''bob@y''" "\<lambda>_. True" ext None]
  by (simp add: demo_edited_ok) (simp add: demo_edited_def uf_create_def form_values_def demo_ui_user_def)

lemma demo_submit_again:
  assumes "cc_is_task_running c" and "uf_avatar c = None" and "uf_form c \<noteq> form_values (uf_user c)"
  shows "deliver (uf_component ext (\<lambda>_. True)) r SubmitClicked c v = None"
  using assms
  by (simp add: deliver_def uf_component_def uf_update_def ccp_update_def submit_user_update_form_def monad_simps nothing_changed Let_def)

lemma demo_edit: "co_edit (uf_component ext (\<lambda>_. True)) (uf_create demo_ui_user) (demo_edited e)"
  by (auto simp: uf_component_def demo_edited_def)

theorem details_form_double_click:
  "ui_reaches (uf_component ext (\<lambda>_. True)) (uf_create demo_ui_user) None"
proof (rule ui_played)
  have "deliver (uf_component ext (\<lambda>_. True)) 0 SubmitClicked ((demo_edited ''bob@y'')\<lparr>cc_is_task_running := True,
     cc_spawned := [UpdateUserTask (changed_user_input demo_ui_user (uf_form (demo_edited ''bob@y'')) None)]\<rparr>) (uf_create demo_ui_user) = None"
    by (rule demo_submit_again) (simp_all add: demo_edited_def uf_create_def form_values_def demo_ui_user_def)
  then show "ui_play (uf_component ext (\<lambda>_. True)) [Edit (demo_edited ''bob@y''), Click SubmitClicked, Click SubmitClicked]
      (Some (uf_create demo_ui_user, uf_create demo_ui_user)) = Some None"
    using demo_edit demo_submitted by (simp add: deliver_def [of _ _ _ "demo_edited ''bob@y''"]) (simp add: uf_component_def uf_create_def)
qed

text \<open>
  The file input is not disabled while the request runs: an image that is not a JPEG makes the handler return an error,
  and the assertion of \<open>CommonComponentParts::update\<close> that no task runs fails.
\<close>

theorem details_form_bad_image:
  assumes "\<not> decode_jpeg ext data"
  shows "ui_reaches (uf_component ext (\<lambda>_. True)) (uf_create demo_ui_user) None"
proof (rule ui_played)
  show "ui_play (uf_component ext (\<lambda>_. True))
      [Edit (demo_edited ''bob@y''), Click SubmitClicked, Click (FileSelected ''f''), Background (FileLoaded ''f'' (Inr data))]
      (Some (uf_create demo_ui_user, uf_create demo_ui_user)) = Some None"
    using demo_edit assms
    by (simp add: uf_component_def deliver_def demo_submitted)
       (simp add: deliver_def uf_create_def demo_edited_def uf_update_def ccp_update_def file_loaded_def selected_name_def is_valid_jpeg_def monad_simps)
qed

text \<open>
  The values that count as saved are those in the form when the answer arrives: what is typed while the request runs is
  never sent, and a later "Save changes" sends nothing.
\<close>

theorem details_form_lost_edit:
  "\<exists>c v. ui_reaches (uf_component ext (\<lambda>_. True)) (uf_create demo_ui_user) (Some (c, v))
     \<and> uu_user_email (uf_user c) = ''late'' \<and> um_email (uf_form c) = ''late'' \<and> cc_spawned c = []
     \<and> uf_update ext (\<lambda>_. True) SubmitClicked c = (Ok False, c\<lparr>uf_just_updated := False\<rparr>)"
proof -
  let ?i = "UpdateUserTask (changed_user_input demo_ui_user (uf_form (demo_edited ''bob@y'')) None)"
  let ?late = "(demo_edited ''late'')\<lparr>cc_is_task_running := True, cc_spawned := [?i]\<rparr>"
  let ?done = "(demo_edited ''late'')\<lparr>uf_just_updated := True, uf_user := demo_ui_user\<lparr>uu_user_email := ''late''\<rparr>\<rparr>"
  have "co_edit (uf_component ext (\<lambda>_. True)) ((demo_edited ''bob@y'')\<lparr>cc_is_task_running := True, cc_spawned := [?i]\<rparr>) ?late"
    by (auto simp: uf_component_def demo_edited_def uf_create_def)
  moreover have "uf_update ext (\<lambda>_. True) (UserUpdated (Inr ())) (finish_task ?i ?late) = (Ok True, ?done)"
    by (simp add: uf_update_def ccp_update_def user_update_finished_def monad_simps finish_task_def demo_edited_def uf_create_def demo_ui_user_def)
  ultimately have "ui_play (uf_component ext (\<lambda>_. True))
      [Edit (demo_edited ''bob@y''), Click SubmitClicked, Edit ?late, Answer ?i (UserUpdated (Inr ()))]
      (Some (uf_create demo_ui_user, uf_create demo_ui_user)) = Some (Some (?done, ?done))"
    using demo_edit by (simp add: uf_component_def deliver_def demo_submitted uf_create_def)
  then have "ui_reaches (uf_component ext (\<lambda>_. True)) (uf_create demo_ui_user) (Some (?done, ?done))" by (rule ui_played)
  moreover have "uf_update ext (\<lambda>_. True) SubmitClicked ?done = (Ok False, ?done\<lparr>uf_just_updated := False\<rparr>)"
    using submit_runs [of ?done "\<lambda>_. True" ext None]
    by (simp add: avatar_to_send_def demo_edited_def uf_create_def form_values_def demo_ui_user_def)
  ultimately show ?thesis
    by (intro exI [of _ ?done]) (simp add: demo_edited_def uf_create_def)
qed

section \<open>The form and the server\<close>

text \<open>The stored row of the user a page shows: an absent display name is shown as an empty one.\<close>

definition page_matches :: "ui_user \<Rightarrow> users_row \<Rightarrow> bool" where
  "page_matches u r \<longleftrightarrow> Email_as_str (usr_email r) = uu_user_email u
     \<and> (case usr_display_name r of None \<Rightarrow> [] | Some n \<Rightarrow> n) = uu_user_display_name u"

lemma mutation_update_user_Ok:
  assumes "mutation_update_user ext (sql_context ext lib cfg rng now v) i s = (Ok Success, t)"
  obtains q where "update_user ext q s = (Ok (), t)" and "uu_user_id q = UserId_new (uui_id i)"
    and "uu_email q = map_option Email (uui_email i)" and "uu_display_name q = uui_display_name i"
    and "can_write v (UserId_new (uui_id i))"
proof -
  have w: "can_write v (UserId_new (uui_id i))"
    using assms by (simp add: mutation_update_user_def Let_def bind_handler_or split: if_splits)
  obtain a attrs where "bind (on_handler (update_user ext \<lparr>uu_user_id = UserId_new (uui_id i), uu_email = map_option Email (uui_email i),
        uu_display_name = uui_display_name i, uu_first_name = uui_first_name i, uu_last_name = uui_last_name i, uu_avatar = a,
        uu_delete_attributes = map AttributeName_from (unwrap_or_default (uui_remove_attributes i)), uu_insert_attributes = attrs\<rparr>))
      (\<lambda>_. return Success) s = (Ok Success, t)"
    using assms w
    by (auto simp: mutation_update_user_def Let_def bind_handler_or as_user_writeable_def as_user_readable_def sql_backend_def
        bind_Ok_iff [of "lift_result _"] bind_sql_schema)
  then show thesis
    by (intro that [OF _ _ _ _ w]) (auto simp: bind_Ok_iff return_def on_handler_def map_err_action_def split: prod.splits)
qed



end
