(* ===== verification/Ui_Tables.thy ===== *)
theory Ui_Tables
  imports Ui_Details_Form
begin

text \<open>
  The pages of the front end that list things, and the buttons in their rows (\<open>app/src/components\<close>): the tables of users,
  groups and attributes, the details of a user and of a group, the buttons that delete, and the ones that add a member
  to a group or remove one. A child component talks to its parent through callbacks: what it emits is an effect of the
  child and a message of the parent, which the parent's view can send once it shows the child.
\<close>

section \<open>Tables\<close>

record ui_user_row =
  ur_id :: string
  ur_email :: string
  ur_display_name :: string
  ur_first_name :: string
  ur_last_name :: string
  ur_creation_date :: naive_date_time

datatype list_users_task = ListUsersTask

record user_table = "list_users_task common_parts" +
  ut_users :: "ui_user_row list option"

datatype user_table_msg =
    ListUsersResponse "ui_user_row list response"
  | OnUserDeleted string
  | UtOnError string

fun ut_handle_msg :: "user_table_msg \<Rightarrow> (user_table, bool, string) action" where
  "ut_handle_msg (ListUsersResponse users) =
     bind (try_response users) (\<lambda>users. bind (modify (\<lambda>c. c\<lparr>ut_users := Some users\<rparr>)) (\<lambda>_. return True))"
| "ut_handle_msg (UtOnError e) = fail e"
| "ut_handle_msg (OnUserDeleted user_id) = with_self (\<lambda>self. case ut_users self of
       None \<Rightarrow> panic
     | Some users \<Rightarrow> bind (modify (\<lambda>c. c\<lparr>ut_users := Some (filter (\<lambda>u. ur_id u \<noteq> user_id) users)\<rparr>)) (\<lambda>_. return True))"

definition ut_create :: user_table where
  "ut_create = \<lparr>cc_error = None, cc_is_task_running = True, cc_spawned = [ListUsersTask], cc_effects = [], ut_users = None\<rparr>"

text \<open>Each row has a button that deletes its user.\<close>

fun ut_clickable :: "user_table \<Rightarrow> user_table_msg \<Rightarrow> bool" where
  "ut_clickable v (OnUserDeleted u) \<longleftrightarrow> (case ut_users v of None \<Rightarrow> False | Some us \<Rightarrow> u \<in> ur_id ` set us)"
| "ut_clickable v (UtOnError e) \<longleftrightarrow> (case ut_users v of None \<Rightarrow> False | Some us \<Rightarrow> us \<noteq> [])"
| "ut_clickable v (ListUsersResponse r) \<longleftrightarrow> False"

fun ut_answers :: "list_users_task \<Rightarrow> user_table_msg \<Rightarrow> bool" where
  "ut_answers ListUsersTask (ListUsersResponse r) \<longleftrightarrow> True"
| "ut_answers _ _ \<longleftrightarrow> False"

definition ut_component :: "(user_table, list_users_task, user_table_msg) ui_component" where
  "ut_component = \<lparr>co_update = (\<lambda>rng. ccp_update ut_handle_msg), co_clickable = ut_clickable, co_edit = (\<lambda>_ _. False),
     co_answers = ut_answers, co_background = (\<lambda>_ _. False)\<rparr>"

interpretation user_table: guarded_component ut_component ut_create "\<lambda>_. False" "loaded_rel (\<lambda>c. ut_users c \<noteq> None)"
  by (rule loading_component)
     (auto simp: ut_component_def ut_create_def one_task_def at_rest_def runs_simps
        elim!: ut_clickable.elims ut_answers.elims split: sum.splits option.splits)

datatype get_group_list_task = GetGroupListTask

record ui_group_row =
  gr_id :: int
  gr_display_name :: string
  gr_creation_date :: naive_date_time

record group_table = "get_group_list_task common_parts" +
  gt_groups :: "ui_group_row list option"

datatype group_table_msg =
    ListGroupsResponse "ui_group_row list response"
  | OnGroupDeleted int
  | GtOnError string

fun gt_handle_msg :: "group_table_msg \<Rightarrow> (group_table, bool, string) action" where
  "gt_handle_msg (ListGroupsResponse groups) =
     bind (try_response groups) (\<lambda>groups. bind (modify (\<lambda>c. c\<lparr>gt_groups := Some groups\<rparr>)) (\<lambda>_. return True))"
| "gt_handle_msg (GtOnError e) = fail e"
| "gt_handle_msg (OnGroupDeleted group_id) = with_self (\<lambda>self. case gt_groups self of
       None \<Rightarrow> panic
     | Some groups \<Rightarrow> bind (modify (\<lambda>c. c\<lparr>gt_groups := Some (filter (\<lambda>g. gr_id g \<noteq> group_id) groups)\<rparr>)) (\<lambda>_. return True))"

definition gt_create :: group_table where
  "gt_create = \<lparr>cc_error = None, cc_is_task_running = True, cc_spawned = [GetGroupListTask], cc_effects = [], gt_groups = None\<rparr>"

fun gt_clickable :: "group_table \<Rightarrow> group_table_msg \<Rightarrow> bool" where
  "gt_clickable v (OnGroupDeleted g) \<longleftrightarrow> (case gt_groups v of None \<Rightarrow> False | Some gs \<Rightarrow> g \<in> gr_id ` set gs)"
| "gt_clickable v (GtOnError e) \<longleftrightarrow> (case gt_groups v of None \<Rightarrow> False | Some gs \<Rightarrow> gs \<noteq> [])"
| "gt_clickable v (ListGroupsResponse r) \<longleftrightarrow> False"

fun gt_answers :: "get_group_list_task \<Rightarrow> group_table_msg \<Rightarrow> bool" where
  "gt_answers GetGroupListTask (ListGroupsResponse r) \<longleftrightarrow> True"
| "gt_answers _ _ \<longleftrightarrow> False"

definition gt_component :: "(group_table, get_group_list_task, group_table_msg) ui_component" where
  "gt_component = \<lparr>co_update = (\<lambda>rng. ccp_update gt_handle_msg), co_clickable = gt_clickable, co_edit = (\<lambda>_ _. False),
     co_answers = gt_answers, co_background = (\<lambda>_ _. False)\<rparr>"

interpretation group_table: guarded_component gt_component gt_create "\<lambda>_. False" "loaded_rel (\<lambda>c. gt_groups c \<noteq> None)"
  by (rule loading_component)
     (auto simp: gt_component_def gt_create_def one_task_def at_rest_def runs_simps
        elim!: gt_clickable.elims gt_answers.elims split: sum.splits option.splits)

section \<open>Tables of attributes\<close>

text \<open>
  A page has two of these tables, one for the built-in attributes, without buttons, and one for the others. The tables
  of user and of group attributes differ in their query only.
\<close>

datatype attributes_schema_task = UserAttributesSchemaTask | GroupAttributesSchemaTask

record schema_table = "attributes_schema_task common_parts" +
  st_attributes :: "attribute_schema list option"

datatype schema_table_msg =
    ListAttributesResponse "attribute_schema list response"
  | OnAttributeDeleted string
  | StOnError string

fun st_handle_msg :: "schema_table_msg \<Rightarrow> (schema_table, bool, string) action" where
  "st_handle_msg (ListAttributesResponse schema) =
     bind (try_response schema) (\<lambda>attrs. bind (modify (\<lambda>c. c\<lparr>st_attributes := Some attrs\<rparr>)) (\<lambda>_. return True))"
| "st_handle_msg (StOnError e) = fail e"
| "st_handle_msg (OnAttributeDeleted attribute_name) = with_self (\<lambda>self. case st_attributes self of
       None \<Rightarrow> fail ''invalid state''
     | Some attrs \<Rightarrow>
         bind (modify (\<lambda>c. c\<lparr>st_attributes := Some (filter (\<lambda>a. AttributeName_as_str (as_name a) \<noteq> attribute_name) attrs)\<rparr>))
           (\<lambda>_. return True))"

definition user_schema_table_create :: schema_table where
  "user_schema_table_create = \<lparr>cc_error = None, cc_is_task_running = True, cc_spawned = [UserAttributesSchemaTask],
     cc_effects = [], st_attributes = None\<rparr>"

definition group_schema_table_create :: schema_table where
  "group_schema_table_create = \<lparr>cc_error = None, cc_is_task_running = True, cc_spawned = [GroupAttributesSchemaTask],
     cc_effects = [], st_attributes = None\<rparr>"

text \<open>The rows of the view, and the text in the column of the type.\<close>

definition view_attributes :: "bool \<Rightarrow> schema_table \<Rightarrow> attribute_schema list option" where
  "view_attributes hardcoded c = map_option (filter (\<lambda>a. as_is_hardcoded a = hardcoded)) (st_attributes c)"

definition view_attribute_type :: "attribute_schema \<Rightarrow> string" where
  "view_attribute_type a = (let t = ui_attribute_type_to_string (ui_attribute_type_from (as_attribute_type a))
     in if as_is_list a then ''List<'' @ t @ ''>'' else t)"

fun st_clickable :: "bool \<Rightarrow> schema_table \<Rightarrow> schema_table_msg \<Rightarrow> bool" where
  "st_clickable hardcoded v (OnAttributeDeleted n) \<longleftrightarrow> \<not> hardcoded \<and> (case view_attributes hardcoded v of
       None \<Rightarrow> False | Some as \<Rightarrow> n \<in> (\<lambda>a. AttributeName_as_str (as_name a)) ` set as)"
| "st_clickable hardcoded v (StOnError e) \<longleftrightarrow> \<not> hardcoded \<and> (case view_attributes hardcoded v of
       None \<Rightarrow> False | Some as \<Rightarrow> as \<noteq> [])"
| "st_clickable hardcoded v (ListAttributesResponse r) \<longleftrightarrow> False"

fun st_answers :: "attributes_schema_task \<Rightarrow> schema_table_msg \<Rightarrow> bool" where
  "st_answers t (ListAttributesResponse r) \<longleftrightarrow> True"
| "st_answers _ _ \<longleftrightarrow> False"

definition st_component :: "bool \<Rightarrow> (schema_table, attributes_schema_task, schema_table_msg) ui_component" where
  "st_component hardcoded = \<lparr>co_update = (\<lambda>rng. ccp_update st_handle_msg), co_clickable = st_clickable hardcoded,
     co_edit = (\<lambda>_ _. False), co_answers = st_answers, co_background = (\<lambda>_ _. False)\<rparr>"

lemma schema_table_guarded:
  assumes "one_task start" and "st_attributes start = None"
  shows "guarded_component (st_component hardcoded) start (\<lambda>_. False) (loaded_rel (\<lambda>c. st_attributes c \<noteq> None))"
  by (rule loading_component)
     (use assms in \<open>auto simp: st_component_def at_rest_def runs_simps view_attributes_def
        elim!: st_clickable.elims st_answers.elims split: sum.splits option.splits\<close>)

interpretation user_schema_table: guarded_component "st_component hardcoded" user_schema_table_create "\<lambda>_. False"
  "loaded_rel (\<lambda>c. st_attributes c \<noteq> None)" for hardcoded
  by (rule schema_table_guarded) (simp_all add: user_schema_table_create_def one_task_def)

interpretation group_schema_table: guarded_component "st_component hardcoded" group_schema_table_create "\<lambda>_. False"
  "loaded_rel (\<lambda>c. st_attributes c \<noteq> None)" for hardcoded
  by (rule schema_table_guarded) (simp_all add: group_schema_table_create_def one_task_def)

section \<open>Details of a user and of a group\<close>

datatype get_user_details_task = GetUserDetailsTask string

record user_details_page = "get_user_details_task common_parts" +
  ud_user :: "ui_user option"

datatype user_details_msg =
    UserDetailsResponse "ui_user response"
  | UdOnError string
  | UdOnUserAddedToGroup ui_group
  | UdOnUserRemovedFromGroup string int

definition map_ud_groups :: "(ui_group list \<Rightarrow> ui_group list) \<Rightarrow> (user_details_page, unit, string) action" where
  "map_ud_groups f = with_self (\<lambda>self. case ud_user self of None \<Rightarrow> panic
     | Some u \<Rightarrow> modify (\<lambda>c. c\<lparr>ud_user := Some (u\<lparr>uu_groups := f (uu_groups u)\<rparr>)\<rparr>))"

fun ud_handle_msg :: "user_details_msg \<Rightarrow> (user_details_page, bool, string) action" where
  "ud_handle_msg (UserDetailsResponse response) = (case response of
       Inr user \<Rightarrow> bind (modify (\<lambda>c. c\<lparr>ud_user := Some user\<rparr>)) (\<lambda>_. return True)
     | Inl e \<Rightarrow> bind (modify (\<lambda>c. c\<lparr>ud_user := None\<rparr>)) (\<lambda>_. fail (''Error getting user details: '' @ e)))"
| "ud_handle_msg (UdOnError e) = fail e"
| "ud_handle_msg (UdOnUserAddedToGroup gr) = bind (map_ud_groups (\<lambda>gs. gs @ [gr])) (\<lambda>_. return True)"
| "ud_handle_msg (UdOnUserRemovedFromGroup user_id group_id) =
     bind (map_ud_groups (filter (\<lambda>g. ug_id g \<noteq> group_id))) (\<lambda>_. return True)"

definition ud_create :: "string \<Rightarrow> user_details_page" where
  "ud_create username = \<lparr>cc_error = None, cc_is_task_running = True, cc_spawned = [GetUserDetailsTask username], cc_effects = [],
     ud_user = None\<rparr>"

text \<open>Only an administrator has the buttons.\<close>

fun ud_clickable :: "bool \<Rightarrow> user_details_page \<Rightarrow> user_details_msg \<Rightarrow> bool" where
  "ud_clickable admin v (UdOnError e) \<longleftrightarrow> admin \<and> ud_user v \<noteq> None"
| "ud_clickable admin v (UdOnUserAddedToGroup g) \<longleftrightarrow> admin \<and> ud_user v \<noteq> None"
| "ud_clickable admin v (UdOnUserRemovedFromGroup u g) \<longleftrightarrow>
     admin \<and> (case ud_user v of None \<Rightarrow> False | Some user \<Rightarrow> u = uu_id user \<and> g \<in> ug_id ` set (uu_groups user))"
| "ud_clickable admin v (UserDetailsResponse r) \<longleftrightarrow> False"

fun ud_answers :: "get_user_details_task \<Rightarrow> user_details_msg \<Rightarrow> bool" where
  "ud_answers (GetUserDetailsTask u) (UserDetailsResponse r) \<longleftrightarrow> True"
| "ud_answers _ _ \<longleftrightarrow> False"

definition ud_component :: "bool \<Rightarrow> (user_details_page, get_user_details_task, user_details_msg) ui_component" where
  "ud_component admin = \<lparr>co_update = (\<lambda>rng. ccp_update ud_handle_msg), co_clickable = ud_clickable admin,
     co_edit = (\<lambda>_ _. False), co_answers = ud_answers, co_background = (\<lambda>_ _. False)\<rparr>"

interpretation user_details: guarded_component "ud_component admin" "ud_create username" "\<lambda>_. False"
  "loaded_rel (\<lambda>c. ud_user c \<noteq> None)" for admin username
  by (rule loading_component)
     (auto simp: ud_component_def ud_create_def map_ud_groups_def one_task_def at_rest_def runs_simps
        elim!: ud_clickable.elims ud_answers.elims split: sum.splits option.splits)

record ui_member =
  me_id :: string
  me_display_name :: string

record ui_group_details =
  gd_id :: int
  gd_display_name :: string
  gd_creation_date :: naive_date_time
  gd_uuid :: string
  gd_users :: "ui_member list"

datatype get_group_details_task = GetGroupDetailsTask int

record group_details_page = "get_group_details_task common_parts" +
  gp_group :: "ui_group_details option"

datatype group_details_msg =
    GroupDetailsResponse "ui_group_details response"
  | GdOnError string
  | GdOnUserAddedToGroup ui_member
  | GdOnUserRemovedFromGroup string int

definition map_gd_users :: "(ui_member list \<Rightarrow> ui_member list) \<Rightarrow> (group_details_page, unit, string) action" where
  "map_gd_users f = with_self (\<lambda>self. case gp_group self of None \<Rightarrow> panic
     | Some g \<Rightarrow> modify (\<lambda>c. c\<lparr>gp_group := Some (g\<lparr>gd_users := f (gd_users g)\<rparr>)\<rparr>))"

fun gd_handle_msg :: "group_details_msg \<Rightarrow> (group_details_page, bool, string) action" where
  "gd_handle_msg (GroupDetailsResponse response) = (case response of
       Inr gr \<Rightarrow> bind (modify (\<lambda>c. c\<lparr>gp_group := Some gr\<rparr>)) (\<lambda>_. return True)
     | Inl e \<Rightarrow> bind (modify (\<lambda>c. c\<lparr>gp_group := None\<rparr>)) (\<lambda>_. fail (''Error getting user details: '' @ e)))"
| "gd_handle_msg (GdOnError e) = fail e"
| "gd_handle_msg (GdOnUserAddedToGroup user) = bind (map_gd_users (\<lambda>us. us @ [user])) (\<lambda>_. return True)"
| "gd_handle_msg (GdOnUserRemovedFromGroup user_id group_id) =
     bind (map_gd_users (filter (\<lambda>u. me_id u \<noteq> user_id))) (\<lambda>_. return True)"

definition gd_create :: "int \<Rightarrow> group_details_page" where
  "gd_create group_id = \<lparr>cc_error = None, cc_is_task_running = True, cc_spawned = [GetGroupDetailsTask group_id], cc_effects = [],
     gp_group = None\<rparr>"

fun gd_clickable :: "group_details_page \<Rightarrow> group_details_msg \<Rightarrow> bool" where
  "gd_clickable v (GdOnError e) \<longleftrightarrow> gp_group v \<noteq> None"
| "gd_clickable v (GdOnUserAddedToGroup u) \<longleftrightarrow> gp_group v \<noteq> None"
| "gd_clickable v (GdOnUserRemovedFromGroup u g) \<longleftrightarrow>
     (case gp_group v of None \<Rightarrow> False | Some gr \<Rightarrow> g = gd_id gr \<and> u \<in> me_id ` set (gd_users gr))"
| "gd_clickable v (GroupDetailsResponse r) \<longleftrightarrow> False"

fun gd_answers :: "get_group_details_task \<Rightarrow> group_details_msg \<Rightarrow> bool" where
  "gd_answers (GetGroupDetailsTask g) (GroupDetailsResponse r) \<longleftrightarrow> True"
| "gd_answers _ _ \<longleftrightarrow> False"

definition gd_component :: "(group_details_page, get_group_details_task, group_details_msg) ui_component" where
  "gd_component = \<lparr>co_update = (\<lambda>rng. ccp_update gd_handle_msg), co_clickable = gd_clickable,
     co_edit = (\<lambda>_ _. False), co_answers = gd_answers, co_background = (\<lambda>_ _. False)\<rparr>"

interpretation group_details: guarded_component gd_component "gd_create group_id" "\<lambda>_. False"
  "loaded_rel (\<lambda>c. gp_group c \<noteq> None)" for group_id
  by (rule loading_component)
     (auto simp: gd_component_def gd_create_def map_gd_users_def one_task_def at_rest_def runs_simps
        elim!: gd_clickable.elims gd_answers.elims split: sum.splits option.splits)

section \<open>Buttons that delete\<close>

text \<open>
  The four buttons (\<open>delete_user.rs\<close>, \<open>delete_group.rs\<close>, \<open>delete_user_attribute.rs\<close>, \<open>delete_group_attribute.rs\<close>) ask for
  confirmation in a dialog. They differ in the request and in what they tell the parent: the arguments \<open>task\<close> and \<open>deleted\<close>
  of the handler. \<open>dl_modal\<close> says whether the dialog object has been created, \<open>dl_open\<close> whether the browser shows it.
\<close>

datatype delete_task =
    DeleteUserTask string
  | DeleteGroupTask int
  | DeleteUserAttributeTask string
  | DeleteGroupAttributeTask string

record delete_button = "delete_task common_parts" +
  dl_modal :: bool
  dl_open :: bool

datatype delete_msg =
    ClickedDelete
  | ConfirmDelete
  | DismissModal
  | DeleteResponse "unit response"

definition modal_show :: "(delete_button, unit, string) action" where
  "modal_show = with_self (\<lambda>self. if dl_modal self then modify (\<lambda>c. c\<lparr>dl_open := True\<rparr>) else panic)"

definition modal_hide :: "(delete_button, unit, string) action" where
  "modal_hide = with_self (\<lambda>self. if dl_modal self then modify (\<lambda>c. c\<lparr>dl_open := False\<rparr>) else panic)"

fun delete_handle_msg :: "delete_task \<Rightarrow> ui_effect \<Rightarrow> delete_msg \<Rightarrow> (delete_button, bool, string) action" where
  "delete_handle_msg task deleted ClickedDelete = bind modal_show (\<lambda>_. return True)"
| "delete_handle_msg task deleted ConfirmDelete =
     bind (ccp_update_and_report_error (\<lambda>_ :: unit. bind modal_hide (\<lambda>_. return True)) ()) (\<lambda>_.
     bind (call_backend task) (\<lambda>_. return True))"
| "delete_handle_msg task deleted DismissModal = bind modal_hide (\<lambda>_. return True)"
| "delete_handle_msg task deleted (DeleteResponse response) =
     bind (try_response response) (\<lambda>_. bind (emit deleted) (\<lambda>_. return True))"

definition delete_user_handle_msg :: "string \<Rightarrow> delete_msg \<Rightarrow> (delete_button, bool, string) action" where
  "delete_user_handle_msg username = delete_handle_msg (DeleteUserTask username) (EmitUserDeleted username)"

definition delete_group_handle_msg :: "ui_group_row \<Rightarrow> delete_msg \<Rightarrow> (delete_button, bool, string) action" where
  "delete_group_handle_msg g = delete_handle_msg (DeleteGroupTask (gr_id g)) (EmitGroupDeleted (gr_id g))"

definition delete_user_attribute_handle_msg :: "string \<Rightarrow> delete_msg \<Rightarrow> (delete_button, bool, string) action" where
  "delete_user_attribute_handle_msg attribute_name =
     delete_handle_msg (DeleteUserAttributeTask attribute_name) (EmitAttributeDeleted attribute_name)"

definition delete_group_attribute_handle_msg :: "string \<Rightarrow> delete_msg \<Rightarrow> (delete_button, bool, string) action" where
  "delete_group_attribute_handle_msg attribute_name =
     delete_handle_msg (DeleteGroupAttributeTask attribute_name) (EmitAttributeDeleted attribute_name)"

text \<open>The state after the first rendering, which creates the dialog object.\<close>

definition delete_create :: delete_button where
  "delete_create = \<lparr>cc_error = None, cc_is_task_running = False, cc_spawned = [], cc_effects = [], dl_modal = False, dl_open = False\<rparr>"

definition delete_rendered :: "bool \<Rightarrow> delete_button \<Rightarrow> delete_button" where
  "delete_rendered first_render c = (if first_render then c\<lparr>dl_modal := True\<rparr> else c)"

text \<open>
  The buttons of the dialog have no \<open>disabled\<close>. They can be clicked while the dialog is shown and, when \<open>fading\<close> holds,
  also while the browser fades it out. The browser can close the dialog by itself.
\<close>

fun delete_clickable :: "bool \<Rightarrow> delete_button \<Rightarrow> delete_msg \<Rightarrow> bool" where
  "delete_clickable fading v ClickedDelete \<longleftrightarrow> \<not> cc_is_task_running v"
| "delete_clickable fading v ConfirmDelete \<longleftrightarrow> dl_open v \<or> fading"
| "delete_clickable fading v DismissModal \<longleftrightarrow> dl_open v \<or> fading"
| "delete_clickable fading v (DeleteResponse r) \<longleftrightarrow> False"

fun delete_answers :: "delete_task \<Rightarrow> delete_msg \<Rightarrow> bool" where
  "delete_answers t (DeleteResponse r) \<longleftrightarrow> True"
| "delete_answers _ _ \<longleftrightarrow> False"

definition delete_component ::
  "bool \<Rightarrow> (delete_msg \<Rightarrow> (delete_button, bool, string) action) \<Rightarrow> (delete_button, delete_task, delete_msg) ui_component" where
  "delete_component fading handle_msg = \<lparr>co_update = (\<lambda>rng. ccp_update_and_report_error handle_msg),
     co_clickable = delete_clickable fading, co_edit = (\<lambda>c c'. c' = c\<lparr>dl_open := False\<rparr>), co_answers = delete_answers,
     co_background = (\<lambda>_ _. False)\<rparr>"

definition delete_rel :: "delete_button \<Rightarrow> delete_button \<Rightarrow> bool" where
  "delete_rel c v \<longleftrightarrow> dl_modal c \<and> \<not> (cc_is_task_running v \<and> dl_open v) \<and> \<not> (cc_is_task_running c \<and> dl_open c)"

lemma runs_report_error [runs_simps]:
  "runs (ccp_update_and_report_error h msg) c P E = settles (ccp_update_and_report_error h msg) c P"
  by (auto simp: runs_def settles_def ccp_update_and_report_error_def ccp_update_def bind_def with_self_def modify_def emit_def return_def
      split: prod.splits result.splits option.splits if_splits)

interpretation delete_button: guarded_component "delete_component False (delete_handle_msg task deleted)" "delete_rendered True delete_create"
  "\<lambda>msg. False" delete_rel for task deleted
proof unfold_locales
  fix v c :: delete_button and msg t r
  show "one_task (delete_rendered True delete_create)" "delete_rel (delete_rendered True delete_create) (delete_rendered True delete_create)"
    by (simp_all add: one_task_def delete_rendered_def delete_create_def delete_rel_def)
  show "co_clickable (delete_component False (delete_handle_msg task deleted)) v msg \<Longrightarrow> cc_is_task_running v \<Longrightarrow> delete_rel c v \<Longrightarrow> False"
    by (cases msg) (auto simp: delete_component_def delete_rel_def)
  show "co_clickable (delete_component False (delete_handle_msg task deleted)) v msg \<Longrightarrow> \<not> cc_is_task_running c \<Longrightarrow> one_task c \<Longrightarrow> delete_rel c v
      \<Longrightarrow> settles (co_update (delete_component False (delete_handle_msg task deleted)) r msg) c
        (\<lambda>b c'. one_task c' \<and> (cc_is_task_running c' \<longrightarrow> b) \<and> delete_rel c' (if b then c' else v))"
    by (cases msg) (auto simp: delete_component_def delete_rel_def modal_show_def modal_hide_def one_task_def runs_simps)
  show "co_answers (delete_component False (delete_handle_msg task deleted)) t msg \<Longrightarrow> cc_spawned c = [t] \<Longrightarrow> one_task c \<Longrightarrow> delete_rel c v
      \<Longrightarrow> settles (co_update (delete_component False (delete_handle_msg task deleted)) r msg) (finish_task t c)
        (\<lambda>b c'. one_task c' \<and> delete_rel c' (if b then c' else v))"
    by (cases msg) (auto simp: delete_component_def delete_rel_def one_task_def runs_simps finish_task_def split: sum.splits if_splits)
qed (auto simp: delete_component_def delete_rel_def same_task_def)

text \<open>
  When the dialog takes a second click while it fades out, the request is already running and the assertion of
  \<open>call_backend\<close> fails.
\<close>

theorem delete_double_confirm:
  "ui_reaches (delete_component True (delete_user_handle_msg username)) (delete_rendered True delete_create) None"
proof (rule ui_played)
  show "ui_play (delete_component True (delete_user_handle_msg username)) [Click ClickedDelete, Click ConfirmDelete, Click ConfirmDelete]
      (Some (delete_rendered True delete_create, delete_rendered True delete_create)) = Some None"
    by (simp add: delete_component_def delete_user_handle_msg_def delete_rendered_def delete_create_def deliver_def
        ccp_update_and_report_error_def ccp_update_def modal_show_def modal_hide_def monad_simps)
qed

section \<open>Members of a group\<close>

datatype remove_user_task = RemoveUserFromGroupTask string int

type_synonym remove_user_button = "remove_user_task common_parts"

datatype remove_user_msg = SubmitRemoveGroup | RemoveGroupResponse "unit response"

fun remove_user_handle_msg :: "string \<Rightarrow> int \<Rightarrow> remove_user_msg \<Rightarrow> (remove_user_button, bool, string) action" where
  "remove_user_handle_msg username group_id SubmitRemoveGroup =
     bind (call_backend (RemoveUserFromGroupTask username group_id)) (\<lambda>_. return True)"
| "remove_user_handle_msg username group_id (RemoveGroupResponse response) =
     bind (try_response response) (\<lambda>_. bind (emit (EmitRemovedFromGroup username group_id)) (\<lambda>_. return True))"

definition remove_user_create :: remove_user_button where
  "remove_user_create = \<lparr>cc_error = None, cc_is_task_running = False, cc_spawned = [], cc_effects = []\<rparr>"

fun remove_user_clickable :: "remove_user_button \<Rightarrow> remove_user_msg \<Rightarrow> bool" where
  "remove_user_clickable v SubmitRemoveGroup \<longleftrightarrow> \<not> cc_is_task_running v"
| "remove_user_clickable v (RemoveGroupResponse r) \<longleftrightarrow> False"

fun remove_user_answers :: "remove_user_task \<Rightarrow> remove_user_msg \<Rightarrow> bool" where
  "remove_user_answers t (RemoveGroupResponse r) \<longleftrightarrow> True"
| "remove_user_answers _ _ \<longleftrightarrow> False"

definition remove_user_component :: "string \<Rightarrow> int \<Rightarrow> (remove_user_button, remove_user_task, remove_user_msg) ui_component" where
  "remove_user_component username group_id = \<lparr>co_update = (\<lambda>rng. ccp_update_and_report_error (remove_user_handle_msg username group_id)),
     co_clickable = remove_user_clickable, co_edit = (\<lambda>_ _. False), co_answers = remove_user_answers, co_background = (\<lambda>_ _. False)\<rparr>"

interpretation remove_user: guarded_component "remove_user_component username group_id" remove_user_create "\<lambda>_. False" "\<lambda>_ _. True"
  for username group_id
  by (rule form_component)
     (auto simp: remove_user_component_def remove_user_create_def one_task_def runs_simps
        elim!: remove_user_clickable.elims remove_user_answers.elims split: sum.splits option.splits)

subsection \<open>The drop-down list\<close>

text \<open>
  \<open>select.rs\<close>: the option with the index that the browser has selected, and \<open>None\<close> for \<open>-1\<close>, the index of a list without
  options.
\<close>

record select_option =
  so_value :: string
  so_text :: string

definition get_nth_child_props :: "select_option list \<Rightarrow> int \<Rightarrow> select_option option" where
  "get_nth_child_props children nth_child = (if nth_child = - 1 then None
     else if 0 \<le> nth_child \<and> nat nth_child < length children then Some (children ! nat nth_child) else None)"

lemma get_nth_child_props_in: "get_nth_child_props os n = Some p \<Longrightarrow> p \<in> set os"
  by (auto simp: get_nth_child_props_def split: if_splits)

subsection \<open>Adding a user to a group\<close>

datatype add_user_task = GetGroupsTask | AddUserToGroupTask string int

record add_user_to_group_form = "add_user_task common_parts" +
  ag_group_list :: "ui_group list option"
  ag_selected_group :: "ui_group option"

datatype add_user_msg =
    GroupListResponse "ui_group_row list response"
  | SubmitAddGroup
  | AddGroupResponse "unit response"
  | AgSelectionChanged "select_option option"

definition group_from_row :: "ui_group_row \<Rightarrow> ui_group" where
  "group_from_row r = \<lparr>ug_id = gr_id r, ug_display_name = gr_display_name r\<rparr>"

definition submit_add_group :: "string \<Rightarrow> (add_user_to_group_form, bool, string) action" where
  "submit_add_group username = with_self (\<lambda>self. case ag_selected_group self of
       None \<Rightarrow> return False
     | Some g \<Rightarrow> bind (call_backend (AddUserToGroupTask username (ug_id g))) (\<lambda>_. return True))"

fun ag_handle_msg :: "string \<Rightarrow> add_user_msg \<Rightarrow> (add_user_to_group_form, bool, string) action" where
  "ag_handle_msg username (GroupListResponse response) =
     bind (try_response response) (\<lambda>groups. bind (modify (\<lambda>c. c\<lparr>ag_group_list := Some (map group_from_row groups)\<rparr>)) (\<lambda>_. return True))"
| "ag_handle_msg username SubmitAddGroup = submit_add_group username"
| "ag_handle_msg username (AddGroupResponse response) =
     bind (try_response response) (\<lambda>_. with_self (\<lambda>self. case ag_selected_group self of
         None \<Rightarrow> panic
       | Some g \<Rightarrow> bind (emit (EmitGroupAdded (ug_id g) (ug_display_name g))) (\<lambda>_. return True)))"
| "ag_handle_msg username (AgSelectionChanged option_props) = with_self (\<lambda>self.
     bind (case option_props of
         None \<Rightarrow> modify (\<lambda>c. c\<lparr>ag_selected_group := None\<rparr>)
       | Some p \<Rightarrow> (case parse_i64 (so_value p) of None \<Rightarrow> panic
           | Some i \<Rightarrow> modify (\<lambda>c. c\<lparr>ag_selected_group := Some \<lparr>ug_id = i, ug_display_name = so_text p\<rparr>\<rparr>))) (\<lambda>_.
     return ((option_props \<noteq> None) \<noteq> (ag_selected_group self \<noteq> None))))"

definition get_selectable_group_list :: "ui_group list \<Rightarrow> ui_group list \<Rightarrow> ui_group list" where
  "get_selectable_group_list groups group_list = filter (\<lambda>g. g \<notin> set groups) group_list"

definition group_option :: "ui_group \<Rightarrow> select_option" where
  "group_option g = \<lparr>so_value = i64_to_string (ug_id g), so_text = ug_display_name g\<rparr>"

definition ag_create :: add_user_to_group_form where
  "ag_create = \<lparr>cc_error = None, cc_is_task_running = True, cc_spawned = [GetGroupsTask], cc_effects = [],
     ag_group_list = None, ag_selected_group = None\<rparr>"

text \<open>
  The list of options is always up to date, so its messages depend on the current state. It holds some of the groups of
  the server; while a request of this component runs, the groups of the user can only become fewer, so that the list is
  not empty and a group stays selected.
\<close>

fun ag_clickable :: "add_user_to_group_form \<Rightarrow> add_user_msg \<Rightarrow> bool" where
  "ag_clickable v SubmitAddGroup \<longleftrightarrow> ag_group_list v \<noteq> None \<and> ag_selected_group v \<noteq> None \<and> \<not> cc_is_task_running v"
| "ag_clickable v _ \<longleftrightarrow> False"

fun ag_background :: "add_user_to_group_form \<Rightarrow> add_user_msg \<Rightarrow> bool" where
  "ag_background c (AgSelectionChanged (Some p)) \<longleftrightarrow> (case ag_group_list c of None \<Rightarrow> False | Some gs \<Rightarrow> p \<in> group_option ` set gs)"
| "ag_background c (AgSelectionChanged None) \<longleftrightarrow> ag_group_list c \<noteq> None \<and> \<not> cc_is_task_running c"
| "ag_background c _ \<longleftrightarrow> False"

text \<open>The identifiers in an answer are \<open>i64\<close>.\<close>

fun ag_answers :: "add_user_task \<Rightarrow> add_user_msg \<Rightarrow> bool" where
  "ag_answers GetGroupsTask (GroupListResponse r) \<longleftrightarrow> (case r of Inl e \<Rightarrow> True | Inr gs \<Rightarrow> \<forall>g\<in>set gs. in_i64 (gr_id g))"
| "ag_answers (AddUserToGroupTask u g) (AddGroupResponse r) \<longleftrightarrow> True"
| "ag_answers _ _ \<longleftrightarrow> False"

definition ag_component :: "string \<Rightarrow> (add_user_to_group_form, add_user_task, add_user_msg) ui_component" where
  "ag_component username = \<lparr>co_update = (\<lambda>rng. ccp_update_and_report_error (ag_handle_msg username)), co_clickable = ag_clickable,
     co_edit = (\<lambda>_ _. False), co_answers = ag_answers, co_background = ag_background\<rparr>"

definition ag_rel :: "add_user_to_group_form \<Rightarrow> bool" where
  "ag_rel c \<longleftrightarrow> (\<forall>u g. AddUserToGroupTask u g \<in> set (cc_spawned c) \<longrightarrow> ag_selected_group c \<noteq> None)
     \<and> (\<forall>gs. ag_group_list c = Some gs \<longrightarrow> (\<forall>g\<in>set gs. in_i64 (ug_id g)))"

fun ag_selection :: "add_user_msg \<Rightarrow> bool" where
  "ag_selection (AgSelectionChanged p) \<longleftrightarrow> True"
| "ag_selection _ \<longleftrightarrow> False"

interpretation add_user_to_group_form: guarded_component "ag_component username" ag_create ag_selection "\<lambda>c _. ag_rel c" for username
proof unfold_locales
  fix v c :: add_user_to_group_form and msg t r
  show "one_task ag_create" "ag_rel ag_create" by (simp_all add: one_task_def ag_create_def ag_rel_def)
  show "co_clickable (ag_component username) v msg \<Longrightarrow> cc_is_task_running v \<Longrightarrow> ag_rel c \<Longrightarrow> ag_selection msg"
    "co_background (ag_component username) c msg \<Longrightarrow> ag_selection msg"
    by (cases msg; auto simp: ag_component_def)+
  show "co_clickable (ag_component username) v msg \<or> co_background (ag_component username) c msg \<Longrightarrow> ag_selection msg
      \<Longrightarrow> one_task c \<Longrightarrow> ag_rel c
      \<Longrightarrow> settles (co_update (ag_component username) r msg) c (\<lambda>b c'. same_task c c' \<and> ag_rel c')"
    by (cases "(c, msg)" rule: ag_background.cases)
       (auto simp: ag_component_def ag_rel_def one_task_def same_task_def runs_simps group_option_def parse_i64_to_string split: option.splits)
  show "co_clickable (ag_component username) v msg \<Longrightarrow> \<not> cc_is_task_running c \<Longrightarrow> one_task c \<Longrightarrow> ag_rel c
      \<Longrightarrow> settles (co_update (ag_component username) r msg) c (\<lambda>b c'. one_task c' \<and> (cc_is_task_running c' \<longrightarrow> b) \<and> ag_rel c')"
    by (cases msg) (auto simp: ag_component_def submit_add_group_def ag_rel_def one_task_def runs_simps split: option.splits)
  show "co_answers (ag_component username) t msg \<Longrightarrow> cc_spawned c = [t] \<Longrightarrow> one_task c \<Longrightarrow> ag_rel c
      \<Longrightarrow> settles (co_update (ag_component username) r msg) (finish_task t c) (\<lambda>b c'. one_task c' \<and> ag_rel c')"
    by (cases "(t, msg)" rule: ag_answers.cases)
       (auto simp: ag_component_def ag_rel_def one_task_def runs_simps finish_task_def group_from_row_def split: sum.splits option.splits)
qed (auto simp: ag_component_def)

text \<open>
  The group that the component reports as added is the one that is selected when the answer arrives, not the one of the
  request: a selection that changes in between makes the page show a membership that does not exist.
\<close>

definition ag_example :: "ui_group \<Rightarrow> bool \<Rightarrow> ui_effect list \<Rightarrow> add_user_to_group_form" where
  "ag_example g running effects = ag_create\<lparr>cc_is_task_running := running,
     cc_spawned := (if running then [AddUserToGroupTask ''bob'' 1] else []), cc_effects := effects,
     ag_group_list := Some [\<lparr>ug_id = 1, ug_display_name = ''one''\<rparr>, \<lparr>ug_id = 2, ug_display_name = ''two''\<rparr>], ag_selected_group := Some g\<rparr>"

theorem wrong_group_reported:
  "\<exists>c v. ui_reaches (ag_component ''bob'') ag_create (Some (c, v)) \<and> cc_spawned c = [AddUserToGroupTask ''bob'' 1]
     \<and> (\<exists>c' v'. ui_step (ag_component ''bob'') (c, v) (Some (c', v')) \<and> cc_effects c' = [EmitGroupAdded 2 ''two''])"
proof -
  let ?two = "\<lparr>ug_id = 2, ug_display_name = ''two''\<rparr>"
  let ?rows = "[\<lparr>gr_id = 1, gr_display_name = ''one'', gr_creation_date = 0\<rparr>, \<lparr>gr_id = 2, gr_display_name = ''two'', gr_creation_date = 0\<rparr>]"
  let ?one = "ag_example \<lparr>ug_id = 1, ug_display_name = ''one''\<rparr> True []"
  have "in_i64 1" "in_i64 2" by (simp_all add: in_i64_def)
  then have "parse_i64 (i64_to_string 1) = Some 1" "parse_i64 (i64_to_string 2) = Some 2" by (simp_all add: parse_i64_to_string)
  note eval = this \<open>in_i64 1\<close> \<open>in_i64 2\<close> ag_component_def deliver_def ccp_update_and_report_error_def ccp_update_def monad_simps ag_create_def
    ag_example_def finish_task_def group_from_row_def group_option_def submit_add_group_def
  have "ui_play (ag_component ''bob'') [Answer GetGroupsTask (GroupListResponse (Inr ?rows)),
      Background (AgSelectionChanged (Some (group_option \<lparr>ug_id = 1, ug_display_name = ''one''\<rparr>))), Click SubmitAddGroup,
      Background (AgSelectionChanged (Some (group_option ?two)))] (Some (ag_create, ag_create)) = Some (Some (ag_example ?two True [], ?one))"
    by (simp add: eval)
  then have reached: "ui_reaches (ag_component ''bob'') ag_create (Some (ag_example ?two True [], ?one))" by (rule ui_played)
  have "deliver (ag_component ''bob'') 0 (AddGroupResponse (Inr ())) (finish_task (AddUserToGroupTask ''bob'' 1) (ag_example ?two True [])) ?one
      = Some (ag_example ?two False [EmitGroupAdded 2 ''two''], ag_example ?two False [EmitGroupAdded 2 ''two''])"
    by (simp add: eval)
  moreover have "ui_step (ag_component ''bob'') (ag_example ?two True [], ?one)
      (deliver (ag_component ''bob'') 0 (AddGroupResponse (Inr ())) (finish_task (AddUserToGroupTask ''bob'' 1) (ag_example ?two True [])) ?one)"
    by (rule ui_step.answered) (simp_all add: ag_example_def ag_component_def)
  ultimately have "ui_step (ag_component ''bob'') (ag_example ?two True [], ?one)
      (Some (ag_example ?two False [EmitGroupAdded 2 ''two''], ag_example ?two False [EmitGroupAdded 2 ''two'']))" by metis
  moreover have "cc_spawned (ag_example ?two True []) = [AddUserToGroupTask ''bob'' 1]"
    "cc_effects (ag_example ?two False [EmitGroupAdded 2 ''two'']) = [EmitGroupAdded 2 ''two'']" by (simp_all add: ag_example_def)
  ultimately show ?thesis using reached by blast
qed

subsection \<open>Adding a member to a group\<close>

datatype add_member_task = ListUserNamesTask | AddMemberTask string int

record add_group_member = "add_member_task common_parts" +
  am_user_list :: "ui_member list option"
  am_selected_user :: "ui_member option"

datatype add_member_msg =
    UserListResponse "ui_member list response"
  | SubmitAddMember
  | AddMemberResponse "unit response"
  | AmSelectionChanged "select_option option"

definition submit_add_member :: "int \<Rightarrow> (add_group_member, bool, string) action" where
  "submit_add_member group_id = with_self (\<lambda>self. case am_selected_user self of
       None \<Rightarrow> return False
     | Some u \<Rightarrow> bind (call_backend (AddMemberTask (me_id u) group_id)) (\<lambda>_. return True))"

fun am_handle_msg :: "int \<Rightarrow> add_member_msg \<Rightarrow> (add_group_member, bool, string) action" where
  "am_handle_msg group_id (UserListResponse response) =
     bind (try_response response) (\<lambda>users. bind (modify (\<lambda>c. c\<lparr>am_user_list := Some users\<rparr>)) (\<lambda>_. return True))"
| "am_handle_msg group_id SubmitAddMember = submit_add_member group_id"
| "am_handle_msg group_id (AddMemberResponse response) =
     bind (try_response response) (\<lambda>_. with_self (\<lambda>self. case am_selected_user self of
         None \<Rightarrow> panic
       | Some u \<Rightarrow> bind (emit (EmitMemberAdded (me_id u) (me_display_name u))) (\<lambda>_. return True)))"
| "am_handle_msg group_id (AmSelectionChanged option_props) = with_self (\<lambda>self.
     bind (modify (\<lambda>c. c\<lparr>am_selected_user := map_option (\<lambda>u. \<lparr>me_id = so_value u, me_display_name = so_text u\<rparr>) option_props\<rparr>)) (\<lambda>_.
     return ((option_props \<noteq> None) \<noteq> (am_selected_user self \<noteq> None))))"

definition get_selectable_user_list :: "ui_member list \<Rightarrow> ui_member list \<Rightarrow> ui_member list" where
  "get_selectable_user_list users user_list = filter (\<lambda>u. u \<notin> set users) user_list"

definition member_option :: "ui_member \<Rightarrow> select_option" where
  "member_option u = \<lparr>so_value = me_id u, so_text = (if me_display_name u = [] then me_id u else me_display_name u)\<rparr>"

definition am_create :: add_group_member where
  "am_create = \<lparr>cc_error = None, cc_is_task_running = True, cc_spawned = [ListUserNamesTask], cc_effects = [],
     am_user_list = None, am_selected_user = None\<rparr>"

fun am_clickable :: "add_group_member \<Rightarrow> add_member_msg \<Rightarrow> bool" where
  "am_clickable v SubmitAddMember \<longleftrightarrow> am_user_list v \<noteq> None \<and> am_selected_user v \<noteq> None \<and> \<not> cc_is_task_running v"
| "am_clickable v _ \<longleftrightarrow> False"

fun am_background :: "add_group_member \<Rightarrow> add_member_msg \<Rightarrow> bool" where
  "am_background c (AmSelectionChanged (Some p)) \<longleftrightarrow> (case am_user_list c of None \<Rightarrow> False | Some us \<Rightarrow> p \<in> member_option ` set us)"
| "am_background c (AmSelectionChanged None) \<longleftrightarrow> am_user_list c \<noteq> None \<and> \<not> cc_is_task_running c"
| "am_background c _ \<longleftrightarrow> False"

fun am_answers :: "add_member_task \<Rightarrow> add_member_msg \<Rightarrow> bool" where
  "am_answers ListUserNamesTask (UserListResponse r) \<longleftrightarrow> True"
| "am_answers (AddMemberTask u g) (AddMemberResponse r) \<longleftrightarrow> True"
| "am_answers _ _ \<longleftrightarrow> False"

definition am_component :: "int \<Rightarrow> (add_group_member, add_member_task, add_member_msg) ui_component" where
  "am_component group_id = \<lparr>co_update = (\<lambda>rng. ccp_update_and_report_error (am_handle_msg group_id)), co_clickable = am_clickable,
     co_edit = (\<lambda>_ _. False), co_answers = am_answers, co_background = am_background\<rparr>"

definition am_rel :: "add_group_member \<Rightarrow> bool" where
  "am_rel c \<longleftrightarrow> (\<forall>u g. AddMemberTask u g \<in> set (cc_spawned c) \<longrightarrow> am_selected_user c \<noteq> None)"

fun am_selection :: "add_member_msg \<Rightarrow> bool" where
  "am_selection (AmSelectionChanged p) \<longleftrightarrow> True"
| "am_selection _ \<longleftrightarrow> False"

interpretation add_group_member: guarded_component "am_component group_id" am_create am_selection "\<lambda>c _. am_rel c" for group_id
proof unfold_locales
  fix v c :: add_group_member and msg t r
  show "one_task am_create" "am_rel am_create" by (simp_all add: one_task_def am_create_def am_rel_def)
  show "co_clickable (am_component group_id) v msg \<Longrightarrow> cc_is_task_running v \<Longrightarrow> am_rel c \<Longrightarrow> am_selection msg"
    "co_background (am_component group_id) c msg \<Longrightarrow> am_selection msg"
    by (cases msg; auto simp: am_component_def)+
  show "co_clickable (am_component group_id) v msg \<or> co_background (am_component group_id) c msg \<Longrightarrow> am_selection msg
      \<Longrightarrow> one_task c \<Longrightarrow> am_rel c
      \<Longrightarrow> settles (co_update (am_component group_id) r msg) c (\<lambda>b c'. same_task c c' \<and> am_rel c')"
    by (cases "(c, msg)" rule: am_background.cases)
       (auto simp: am_component_def am_rel_def one_task_def same_task_def runs_simps split: option.splits)
  show "co_clickable (am_component group_id) v msg \<Longrightarrow> \<not> cc_is_task_running c \<Longrightarrow> one_task c \<Longrightarrow> am_rel c
      \<Longrightarrow> settles (co_update (am_component group_id) r msg) c (\<lambda>b c'. one_task c' \<and> (cc_is_task_running c' \<longrightarrow> b) \<and> am_rel c')"
    by (cases msg) (auto simp: am_component_def submit_add_member_def am_rel_def one_task_def runs_simps split: option.splits)
  show "co_answers (am_component group_id) t msg \<Longrightarrow> cc_spawned c = [t] \<Longrightarrow> one_task c \<Longrightarrow> am_rel c
      \<Longrightarrow> settles (co_update (am_component group_id) r msg) (finish_task t c) (\<lambda>b c'. one_task c' \<and> am_rel c')"
    by (cases "(t, msg)" rule: am_answers.cases)
       (auto simp: am_component_def am_rel_def one_task_def runs_simps finish_task_def split: sum.splits option.splits)
qed (auto simp: am_component_def)

text \<open>The member that is reported for an option.\<close>

definition reported_member :: "select_option \<Rightarrow> ui_member" where
  "reported_member p = \<lparr>me_id = so_value p, me_display_name = so_text p\<rparr>"

text \<open>
  After a user was added, the drop-down list no longer offers it, but only if it has a display name: the option of a user
  without one shows its identifier, the page stores that as the display name, and the comparison of whole records finds
  the user still missing from the group.
\<close>

theorem added_member_removed_from_list:
  assumes "u \<in> set user_list"
  shows "u \<in> set (get_selectable_user_list (users @ [reported_member (member_option u)]) user_list)
    \<longleftrightarrow> u \<notin> set users \<and> me_display_name u = [] \<and> me_id u \<noteq> []"
proof (cases u rule: ui_member.cases)
  case (fields i d)
  with assms show ?thesis by (auto simp: get_selectable_user_list_def reported_member_def member_option_def)
qed

end
