(* ===== verification/Ui_App.thy ===== *)
theory Ui_App
  imports Ui_Requests Ui_Settle Ui_Tables
begin

text \<open>
  The application of the front end (\<open>app/src/components/app.rs\<close>): who is logged in, where a visitor is sent, and which page
  a route shows; the logout button (\<open>logout.rs\<close>) and the banner (\<open>banner.rs\<close>). The theory ends with what holds for the
  components together.
\<close>

section \<open>Logout\<close>

datatype logout_task = LogoutTask

text \<open>The last field is the cookie jar of the browser.\<close>

record 'j logout_button = "logout_task common_parts" +
  lb_jar :: 'j

datatype logout_msg = LogoutRequested | LogoutCompleted "unit response"

definition on_jar :: "('j, 'a, string) action \<Rightarrow> ('j logout_button, 'a, string) action" where
  "on_jar m c = (case m (lb_jar c) of (r, jar) \<Rightarrow> (r, c\<lparr>lb_jar := jar\<rparr>))"

fun logout_handle_msg :: "'j browser \<Rightarrow> logout_msg \<Rightarrow> ('j logout_button, bool, string) action" where
  "logout_handle_msg br LogoutRequested = bind (call_backend LogoutTask) (\<lambda>_. return False)"
| "logout_handle_msg br (LogoutCompleted res) =
     bind (try_response res) (\<lambda>_. bind (on_jar (delete_cookie br ''user_id'')) (\<lambda>_. bind (emit EmitLoggedOut) (\<lambda>_. return False)))"

definition logout_create :: "'j \<Rightarrow> 'j logout_button" where
  "logout_create jar = \<lparr>cc_error = None, cc_is_task_running = False, cc_spawned = [], cc_effects = [], lb_jar = jar\<rparr>"

fun logout_clickable :: "'j logout_button \<Rightarrow> logout_msg \<Rightarrow> bool" where
  "logout_clickable v LogoutRequested \<longleftrightarrow> True"
| "logout_clickable v (LogoutCompleted r) \<longleftrightarrow> False"

fun logout_answers :: "logout_task \<Rightarrow> logout_msg \<Rightarrow> bool" where
  "logout_answers LogoutTask (LogoutCompleted r) \<longleftrightarrow> True"
| "logout_answers _ _ \<longleftrightarrow> False"

definition logout_component :: "'j browser \<Rightarrow> ('j logout_button, logout_task, logout_msg) ui_component" where
  "logout_component br = \<lparr>co_update = (\<lambda>rng. ccp_update (logout_handle_msg br)), co_clickable = logout_clickable,
     co_edit = (\<lambda>_ _. False), co_answers = logout_answers, co_background = (\<lambda>_ _. False)\<rparr>"

text \<open>The button is never disabled: a second click before the answer fails the assertion of \<open>call_backend\<close>.\<close>

theorem logout_double_click: "ui_reaches (logout_component br) (logout_create jar) None"
proof (rule ui_played)
  show "ui_play (logout_component br) [Click LogoutRequested, Click LogoutRequested] (Some (logout_create jar, logout_create jar)) = Some None"
    by (simp add: logout_component_def logout_create_def deliver_def ccp_update_def monad_simps)
qed

section \<open>The application\<close>

text \<open>\<open>aa_history\<close> are the entries that the application has pushed to the browser's history.\<close>

record app =
  aa_user_info :: "(string \<times> bool) option"
  aa_redirect_to :: "app_route option"
  aa_password_reset_enabled :: "bool option"
  aa_history :: "app_route list"

datatype app_msg =
    AppLogin string bool
  | AppLogout
  | PasswordResetProbeFinished "bool response"

definition user_info_from_cookies :: "'j browser \<Rightarrow> 'j \<Rightarrow> (string \<times> bool) option" where
  "user_info_from_cookies br jar = (case get_cookie br ''user_id'' jar of
       Inr (Some u) \<Rightarrow> (case get_cookie br ''is_admin'' jar of
           Inl _ \<Rightarrow> None | Inr so \<Rightarrow> map_option (\<lambda>s. (u, s = ''true'')) so)
     | _ \<Rightarrow> None)"

fun is_reset_route :: "app_route \<Rightarrow> bool" where
  "is_reset_route Route_StartResetPassword \<longleftrightarrow> True"
| "is_reset_route (Route_FinishResetPassword token) \<longleftrightarrow> True"
| "is_reset_route _ \<longleftrightarrow> False"

definition get_redirect_route :: "app_route option \<Rightarrow> app_route option" where
  "get_redirect_route route = (case route of None \<Rightarrow> None
     | Some r \<Rightarrow> if r = Route_Index \<or> r = Route_Login \<or> is_reset_route r then None else Some r)"

definition default_route :: "string \<Rightarrow> bool \<Rightarrow> app_route" where
  "default_route user_name admin = (if admin then Route_ListUsers else Route_UserDetails user_name)"

definition initial_redirection :: "app \<Rightarrow> app_route option \<Rightarrow> app_route option" where
  "initial_redirection app route = (case (route, aa_user_info app, aa_redirect_to app) of
       (None, _, _) \<Rightarrow> Some Route_Login
     | (Some r, user_info, redirect_to) \<Rightarrow>
         if is_reset_route r then (if aa_password_reset_enabled app = Some False then Some Route_Login else None)
         else (case (user_info, redirect_to) of
             (None, _) \<Rightarrow> Some Route_Login
           | (Some _, Some _) \<Rightarrow> None
           | (Some (user_name, admin), None) \<Rightarrow> Some (default_route user_name admin)))"

definition push_route :: "app_route \<Rightarrow> app \<Rightarrow> app" where
  "push_route r app = app\<lparr>aa_history := aa_history app @ [r]\<rparr>"

definition apply_initial_redirections :: "app_route option \<Rightarrow> app \<Rightarrow> app" where
  "apply_initial_redirections route app = (case initial_redirection app route of None \<Rightarrow> app | Some r \<Rightarrow> push_route r app)"

definition app_create :: "'j browser \<Rightarrow> 'j \<Rightarrow> app_route option \<Rightarrow> app" where
  "app_create br jar route = apply_initial_redirections route
     \<lparr>aa_user_info = user_info_from_cookies br jar, aa_redirect_to = get_redirect_route route, aa_password_reset_enabled = None,
      aa_history = []\<rparr>"

fun app_update :: "app_msg \<Rightarrow> app \<Rightarrow> app" where
  "app_update (AppLogin user_name admin) app =
     push_route (case aa_redirect_to app of Some r \<Rightarrow> r | None \<Rightarrow> default_route user_name admin)
       (app\<lparr>aa_user_info := Some (user_name, admin), aa_redirect_to := None\<rparr>)"
| "app_update AppLogout app = push_route Route_Login (app\<lparr>aa_user_info := None, aa_redirect_to := None\<rparr>)"
| "app_update (PasswordResetProbeFinished (Inr enabled)) app = app\<lparr>aa_password_reset_enabled := Some enabled\<rparr>"
| "app_update (PasswordResetProbeFinished (Inl err)) app = app\<lparr>aa_password_reset_enabled := Some False\<rparr>"

definition app_is_admin :: "app \<Rightarrow> bool" where
  "app_is_admin app = (case aa_user_info app of None \<Rightarrow> False | Some (_, admin) \<Rightarrow> admin)"

datatype ui_page =
    LoginPage bool
  | CreateUserPage
  | UserTablePage
  | CreateGroupPage
  | CreateUserAttributePage
  | CreateGroupAttributePage
  | GroupTablePage
  | UserSchemaPage
  | GroupSchemaPage
  | GroupDetailsPage int
  | UserDetailsPage string bool
  | ChangePasswordPage string bool
  | ResetPassword1Page
  | ResetPassword2Page string
  | RedirectPage app_route
  | EmptyPage

fun dispatch_route :: "bool \<Rightarrow> bool option \<Rightarrow> app_route \<Rightarrow> ui_page" where
  "dispatch_route admin reset Route_Login = LoginPage (reset = Some True)"
| "dispatch_route admin reset Route_CreateUser = CreateUserPage"
| "dispatch_route admin reset Route_Index = UserTablePage"
| "dispatch_route admin reset Route_ListUsers = UserTablePage"
| "dispatch_route admin reset Route_CreateGroup = CreateGroupPage"
| "dispatch_route admin reset Route_CreateUserAttribute = CreateUserAttributePage"
| "dispatch_route admin reset Route_CreateGroupAttribute = CreateGroupAttributePage"
| "dispatch_route admin reset Route_ListGroups = GroupTablePage"
| "dispatch_route admin reset Route_ListUserSchema = UserSchemaPage"
| "dispatch_route admin reset Route_ListGroupSchema = GroupSchemaPage"
| "dispatch_route admin reset (Route_GroupDetails group_id) = GroupDetailsPage group_id"
| "dispatch_route admin reset (Route_UserDetails user_id) = UserDetailsPage user_id admin"
| "dispatch_route admin reset (Route_ChangePassword user_id) = ChangePasswordPage user_id admin"
| "dispatch_route admin reset Route_StartResetPassword = (case reset of Some True \<Rightarrow> ResetPassword1Page
     | Some False \<Rightarrow> RedirectPage Route_Login | None \<Rightarrow> EmptyPage)"
| "dispatch_route admin reset (Route_FinishResetPassword token) = (case reset of Some True \<Rightarrow> ResetPassword2Page token
     | Some False \<Rightarrow> RedirectPage Route_Login | None \<Rightarrow> EmptyPage)"

text \<open>The links of the banner, and the entries of its user menu.\<close>

definition banner_links :: "bool \<Rightarrow> app_route list" where
  "banner_links admin = (if admin then [Route_ListUsers, Route_ListGroups, Route_ListUserSchema, Route_ListGroupSchema] else [])"

definition user_menu_links :: "string option \<Rightarrow> app_route list" where
  "user_menu_links username = (case username of None \<Rightarrow> [] | Some u \<Rightarrow> [Route_UserDetails u])"

section \<open>The avatar\<close>

text \<open>
  \<open>use_graphql_call\<close> (\<open>infra/functional.rs\<close>): a query whose result is the state of a hook. Every rendering sends the query again,
  and an answer renders again only when it differs from the state. \<open>hk_pending\<close> counts the queries that are not answered,
  \<open>hk_sent\<close> all that were sent.
\<close>

datatype 'a loadable_result = Loading | Loaded "'a response"

fun loadable_eq :: "'a loadable_result \<Rightarrow> 'a loadable_result \<Rightarrow> bool" where
  "loadable_eq Loading Loading \<longleftrightarrow> True"
| "loadable_eq (Loaded (Inr d1)) (Loaded (Inr d2)) \<longleftrightarrow> d1 = d2"
| "loadable_eq (Loaded (Inl e1)) (Loaded (Inl e2)) \<longleftrightarrow> e1 = e2"
| "loadable_eq _ _ \<longleftrightarrow> False"

record 'a graphql_hook =
  hk_result :: "'a loadable_result"
  hk_pending :: nat
  hk_sent :: nat

definition hook_render :: "'a graphql_hook \<Rightarrow> 'a graphql_hook" where
  "hook_render h = h\<lparr>hk_pending := hk_pending h + 1, hk_sent := hk_sent h + 1\<rparr>"

definition use_graphql_call :: "'a graphql_hook" where
  "use_graphql_call = hook_render \<lparr>hk_result = Loading, hk_pending = 0, hk_sent = 0\<rparr>"

definition hook_answer :: "'a response \<Rightarrow> 'a graphql_hook \<Rightarrow> 'a graphql_hook" where
  "hook_answer response h = (let h1 = h\<lparr>hk_pending := hk_pending h - 1\<rparr> in
     if loadable_eq (hk_result h) (Loaded response) then h1 else hook_render (h1\<lparr>hk_result := Loaded response\<rparr>))"

datatype avatar_view = AvatarImage string string | BlankAvatar "string option" int int

definition avatar_style :: "int \<Rightarrow> int \<Rightarrow> string" where
  "avatar_style width height = ''max-height:'' @ i64_to_string height @ ''px;max-width:'' @ i64_to_string width @ ''px;height:auto;width:auto;''"

definition avatar :: "int \<Rightarrow> int \<Rightarrow> ui_user loadable_result \<Rightarrow> avatar_view" where
  "avatar width height user_details = (case user_details of
       Loaded (Inr user) \<Rightarrow> (case uu_user_avatar user of
           Some data \<Rightarrow> AvatarImage (''data:image/jpeg;base64, '' @ data) (avatar_style width height)
         | None \<Rightarrow> BlankAvatar None width height)
     | Loaded (Inl e) \<Rightarrow> BlankAvatar (Some e) width height
     | Loading \<Rightarrow> BlankAvatar None width height)"

definition blank_avatar_fill :: "string option \<Rightarrow> string" where
  "blank_avatar_fill error = (case error of Some _ \<Rightarrow> ''red'' | None \<Rightarrow> ''currentColor'')"

lemma loadable_eq_iff: "loadable_eq a b \<longleftrightarrow> a = b"
  by (cases "(a, b)" rule: loadable_eq.cases) auto

text \<open>
  Each answer that differs from the one before costs another query: the queries sent are one more than
  the changes of the result, so that a server whose answer stays the same is asked twice for every avatar, and one whose answer
  keeps changing is asked without end.
\<close>

fun answer_changes :: "'a loadable_result \<Rightarrow> 'a response list \<Rightarrow> nat" where
  "answer_changes s [] = 0"
| "answer_changes s (r # rs) = (if s = Loaded r then 0 else 1) + answer_changes (Loaded r) rs"

lemma hook_answers_sent:
  "hk_sent (fold hook_answer rs h) = hk_sent h + answer_changes (hk_result h) rs"
  by (induction rs arbitrary: h) (simp_all add: hook_answer_def Let_def loadable_eq_iff hook_render_def)

theorem avatar_queries:
  "hk_sent (fold hook_answer rs use_graphql_call) = 1 + answer_changes Loading rs"
  "fold hook_answer [r, r] use_graphql_call = \<lparr>hk_result = Loaded r, hk_pending = 0, hk_sent = 2\<rparr>"
  by (simp_all add: hook_answers_sent use_graphql_call_def hook_render_def hook_answer_def loadable_eq_iff)

section \<open>Sessions across a reload\<close>

lemma safe_cookie_names: "safe_name ''user_id''" "safe_name ''is_admin''"
  by (simp_all add: safe_name_def trimmed_def white_space_def prefix_def suffix_def)

lemma set_cookies_run:
  assumes "jar_ok br now pairs" and "good_jar pairs jar" and "br_parse_unverified br token = Some claims"
    and "CHR '';'' \<notin> set (jc_user claims)" and "now < jc_exp claims"
  obtains jar' where "set_cookies_from_jwt br token jar = (Ok (jc_user claims, ''lldap_admin'' \<in> set (jc_groups claims)), jar')"
    and "good_jar pairs jar'" and "lookup_cookie (pairs jar') ''user_id'' = (if jc_user claims = [] then None else Some (jc_user claims))"
    and "lookup_cookie (pairs jar') ''is_admin'' = Some (bool_to_string (''lldap_admin'' \<in> set (jc_groups claims)))"
proof -
  let ?admin = "''lldap_admin'' \<in> set (jc_groups claims)"
  have sep: "CHR '';'' \<notin> set (bool_to_string ?admin)" by (simp add: bool_to_string_def)
  obtain j1 where j1: "set_cookie br ''user_id'' (jc_user claims) (jc_exp claims) jar = (Ok (), j1)" "good_jar pairs j1"
    "pairs j1 = AList.update ''user_id'' (jc_user claims) (pairs jar)"
    using set_cookie_pairs [OF assms(1,2) safe_cookie_names(1) assms(4)] assms(5) by metis
  obtain j2 where j2: "set_cookie br ''is_admin'' (bool_to_string ?admin) (jc_exp claims) j1 = (Ok (), j2)" "good_jar pairs j2"
    "pairs j2 = AList.update ''is_admin'' (bool_to_string ?admin) (pairs j1)"
    using set_cookie_pairs [OF assms(1) j1(2) safe_cookie_names(2) sep] assms(5) by metis
  show thesis
    using j1(1) j2(1) assms(3)
    by (intro that [of j2] j2(2)) (simp_all add: set_cookies_from_jwt_def monad_simps Let_def j1(3) j2(3) bool_to_string_def)
qed



section \<open>Where a visitor lands\<close>



text \<open>A page that the application shows for a reset exists only if the server has resets enabled.\<close>

theorem reset_pages_only_if_enabled:
  "dispatch_route admin reset r \<in> {ResetPassword1Page, ResetPassword2Page token} \<longleftrightarrow>
     reset = Some True \<and> (r = Route_StartResetPassword \<or> r = Route_FinishResetPassword token)"
  by (cases "(admin, reset, r)" rule: dispatch_route.cases) (auto split: option.splits bool.splits)

section \<open>The components together\<close>


end
