(* ===== verification/Spec2Isabelle.thy ===== *)
theory Spec2Isabelle
  imports Ldap_Session Web_Session Graphql_Reads Sql_Migrations Startup Http_Clients Migration_Run Migration_Prompts Ui_App
begin

text \<open>
  LLDAP is a small user directory: an LDAP server and a web server over one SQL database of users, groups and custom
  attributes, with a web front end and tools to set a password and to import another directory. This development models
  the server, its start, the front end and the two tools, and proves what each part promises and what they promise together.

  \<^bold>\<open>Style.\<close> An operation is a function from the state to a result and the state (\<open>action\<close> in \<open>Prelude\<close>); a result is
  \<open>Ok\<close>, \<open>Err\<close> or \<open>Panic\<close>, so that every early return, error and panic of the source is a value. The bodies are written
  with \<open>bind\<close>, \<open>lift_result\<close>, \<open>match_action\<close> and \<open>for_each\<close> in the order of the source. All definitions of the model
  are total: recursion is structural or has a termination proof, loops over input run over the list of what
  arrives, and no fuel is used. Third-party code is a record of functions that the definitions take as an argument;
  what the code relies on is a named predicate (\<open>lowercase_ok\<close>, \<open>base64_ok\<close>, \<open>sealing_ok\<close>, \<open>opaque_ok\<close>, \<open>jwt_ok\<close> and others),
  each satisfied by a concrete instance that the witnesses use.

  \<^bold>\<open>Domain\<close> (\<open>auth/src/lib.rs\<close>, \<open>server/src/domain\<close>). \<open>Types\<close>: identifiers, attribute values, entities, errors, and the record
  \<open>externals\<close> of text functions. \<open>Handler\<close>: requests, filters and the backend traits as the record \<open>backend_handler\<close>.
  \<open>Public_Schema\<close>: the stored schema with the built-in attributes. \<open>Deserialize\<close>: values from text, with the bounds of
  64-bit integers.

  \<^bold>\<open>Database\<close> (\<open>server/src/domain/sql_*.rs\<close>, \<open>model/*.rs\<close>). \<open>Sql_Db\<close>: the tables as lists of rows, with each statement
  of the source as a function that checks unique indexes and foreign keys and cascades. \<open>Sql_Filter\<close>, \<open>Sql_User\<close>,
  \<open>Sql_Group\<close>, \<open>Sql_Schema\<close>, \<open>Sql_Opaque\<close>: the backend, with filters compiled to SQL conditions in three-valued logic
  and transactions that roll back. \<open>Sql_Invariant\<close>: the integrity invariant \<open>db_inv\<close> and that every operation keeps it;
  \<open>Sql_Lister\<close>: a list holds exactly the rows that the filter describes; \<open>Sql_Crud\<close>: the effect of each operation.
  \<open>Sql_Migrations\<close>: the migrations from every earlier version of the schema; the locale \<open>migration_chain\<close> carries the
  argument along the versions and is interpreted on the steps of the source.

  \<^bold>\<open>LDAP\<close> (\<open>server/src/domain/ldap\<close>, \<open>server/src/infra/ldap_handler.rs\<close>, \<open>access_control.rs\<close>). \<open>Ldap_Proto\<close>, \<open>Ldap_Utils\<close>,
  \<open>Ldap_User\<close>, \<open>Ldap_Group\<close>: messages, names, attributes and filters. \<open>Access_Control\<close>: permissions and the handlers they give
  access to. \<open>Ldap_Handler\<close>: every handler of a session. \<open>Ldap_Session\<close>: who can read and change what over LDAP, and
  where a session panics. \<open>Ldap_Server\<close>: the loop of a connection, the listeners and the health check.

  \<^bold>\<open>Web\<close> (\<open>server/src/infra\<close>). \<open>Mail\<close>, \<open>Tcp_Backend\<close>, \<open>Auth_Service\<close>: mails, the tables of sessions, and the routes of the
  authentication service with cookies and tokens. \<open>Auth_Session\<close> makes the running server a step relation (requests,
  operations of other clients, cleanups, restarts, the clock), with the locale \<open>session_predicate\<close> for what every
  step keeps; \<open>Web_Session\<close> proves the properties of logins, logouts and resets over it. \<open>Graphql_Query\<close>,
  \<open>Graphql_Mutation\<close>, \<open>Graphql_Api\<close>: every query, mutation and resolver, and the route. \<open>Graphql_Session\<close>,
  \<open>Graphql_Reads\<close>, \<open>No_Panic\<close>: which operations a caller can cause, that an administrator cannot lock itself out, what
  queries return, and that no call panics. \<open>Text_Externals\<close>: an instance of the text functions with readable encodings.

  \<^bold>\<open>Start\<close> (\<open>server/src/main.rs\<close>, \<open>configuration.rs\<close>, \<open>cli.rs\<close>). \<open>Configuration\<close>: defaults, overriding by the command line, and
  the private key from a file, a seed or a new file. \<open>Startup\<close>: migration, check of the recorded key, built-in groups
  and administrator, listeners, and the commands of the program; a successful start establishes what the rest
  relies on, and a restart changes nothing.

  \<^bold>\<open>Tools\<close>. \<open>Http_Clients\<close>: the set-password tool and the login of the migration tool, as clients of the authentication
  service. \<open>Migration_Tool\<close>: reading the other directory, the questions to the operator and the insertion loops;
  \<open>Migration_Prompts\<close>: the prompts for URLs and the GraphQL client; \<open>Migration_Run\<close>: the locale \<open>import_run\<close> says what a run
  keeps on any target with a contract, and is interpreted on the GraphQL API over the SQL backend.

  \<^bold>\<open>Front end\<close> (\<open>app/src\<close>). \<open>Ui_Common\<close>: \<open>CommonComponentParts\<close>, and a component in its page as a step relation: the buttons of
  the page that was last rendered, edits of fields, answers of the server at any later time, other tasks of the browser.
  The locale \<open>guarded_component\<close> is the contract under which no run panics; it is interpreted on every component that
  satisfies it: \<open>Ui_Login\<close> (login, change and reset of a password), \<open>Ui_Forms\<close> (creation of users, groups and attributes),
  \<open>Ui_Tables\<close> (tables, details, buttons that delete or change memberships). \<open>Ui_Settle\<close> extends it to
  \<open>settling_component\<close>: exchanges with the server end. \<open>Ui_Details_Form\<close>: the form of a user, what it sends, that it
  saves (over the GraphQL mutation and the SQL backend), and the runs that panic or lose an edit. \<open>Ui_Browser\<close>: cookies and requests;
  \<open>Ui_Requests\<close>: the table of services of the web server, its pages, and that the requests of the front end reach their
  handlers. \<open>Ui_App\<close>: session, redirections, routes, logout, banner and avatar, and what holds for the components together.

  \<^bold>\<open>Bounds and simplifications.\<close> Integers of attributes have the range of \<open>i64\<close>; token hashes are 64-bit words, stored as signed
  integers; group identifiers are unbounded integers (\<open>i32\<close> in the source), ports are natural numbers. A request reads the
  clock and draws random numbers once, given as arguments. The database behaves as SQLite; each statement succeeds unless a
  constraint fails, and one request runs at a time (the server has one worker; concurrent connections of the pool are
  not interleaved). The contexts that errors collect, debug renderings and log entries are left out. A GraphQL
  request has one root field, and batches and payload limits are left out.

  In the front end a message is handled without interruption, the history of the browser exists, and an error is its
  outermost message; fields are edited at any time, whether or not the page shows them.

  \<^bold>\<open>Not modelled.\<close> The HTML of the views beyond which messages they can send, the form library and the parsing of paths by
  the router of the front end, dark mode and dialogs of the browser, logging, the parsing of the command line, the cron
  scheduler, sockets, TLS and codecs, the serving of directories, and what the tools print. These are third-party code, text or
  markup; none of them holds state that an operation of the model reads.
\<close>

end
